(* ===== verification/Prelude.thy ===== *)
theory Prelude
  imports Main "HOL-Library.AList" "HOL-Library.Multiset" "HOL-Library.Sublist"
begin

text \<open>
  What every component of the development shares: the hint collections, the conventions for
  Go values, and the generic lemmas on association lists and sums.

  A Go string is a byte sequence and becomes \<open>string\<close> (a list of 8-bit characters).
  A Go \<open>(T, error)\<close> result becomes \<open>err + T\<close>, a lone \<open>error\<close> becomes \<open>err option\<close>, a pointer
  that may be nil becomes an option, a map becomes an association list with distinct keys
  (\<open>go_map\<close> below), because the code ranges over maps and asks for their length.
\<close>

named_theorems run_simps \<open>the runs of a program, by its outermost construct\<close>
named_theorems exchange_simps \<open>the runs of the client's methods, as one HTTP exchange each\<close>
named_theorems trace_simps \<open>what a trace contains, event by event\<close>

section \<open>Maps as association lists\<close>

type_synonym 'v go_map = "(string \<times> 'v) list"

text \<open>A nil map and an empty map agree under \<open>len\<close>, \<open>range\<close> and lookup.\<close>

definition map_entries :: "'v go_map option \<Rightarrow> 'v go_map" where
  "map_entries m = (case m of None \<Rightarrow> [] | Some xs \<Rightarrow> xs)"

lemma map_entries_simps [simp]:
  "map_entries None = []" "map_entries (Some xs) = xs"
  by (simp_all add: map_entries_def)

definition go_map_wf :: "'v go_map \<Rightarrow> bool" where
  "go_map_wf m \<longleftrightarrow> distinct (map fst m)"

lemma go_map_wf_Nil [simp]: "go_map_wf []"
  by (simp add: go_map_wf_def)

lemma go_map_wf_update: "go_map_wf m \<Longrightarrow> go_map_wf (AList.update k v m)"
  by (simp add: go_map_wf_def distinct_update)

text \<open>Two enumerations of one map look the same to a lookup.\<close>

lemma map_of_perm:
  assumes "distinct (map fst xs)" and "mset xs = mset ys"
  shows "map_of xs = map_of ys"
proof -
  have "set xs = set ys"
    using assms(2) by (rule mset_eq_setD)
  moreover have "mset (map fst xs) = mset (map fst ys)"
    using assms(2) by simp
  then have "distinct (map fst ys)"
    using assms(1) mset_eq_imp_distinct_iff by blast
  ultimately show ?thesis
    using assms(1) by (simp add: map_of_inject_set)
qed

section \<open>Results\<close>

text \<open>\<open>if err != nil { return ..., err }\<close> on pure results.\<close>

definition bind_result :: "'e + 'a \<Rightarrow> ('a \<Rightarrow> 'e + 'b) \<Rightarrow> 'e + 'b" where
  "bind_result r f = (case r of Inl e \<Rightarrow> Inl e | Inr x \<Rightarrow> f x)"

lemma bind_result_simps [simp]:
  "bind_result (Inl e) f = Inl e" "bind_result (Inr x) f = f x"
  by (simp_all add: bind_result_def)

lemma bind_result_Inr_iff:
  "bind_result r f = Inr y \<longleftrightarrow> (\<exists>x. r = Inr x \<and> f x = Inr y)"
  by (cases r) simp_all

lemma bind_result_Inl_iff:
  "bind_result r f = Inl e \<longleftrightarrow> r = Inl e \<or> (\<exists>x. r = Inr x \<and> f x = Inl e)"
  by (cases r) auto

lemma length_drop_less: "0 < n \<Longrightarrow> s \<noteq> [] \<Longrightarrow> length (drop n s) < length s"
  by (cases s) (auto simp: less_Suc_eq_le)

end
