(* ===== verification/GoStrings.thy ===== *)
theory GoStrings
  imports Prelude "HOL-Library.Char_ord" "HOL-Library.List_Lexorder"
begin

text \<open>
  The parts of Go's standard library on strings that the operator uses: UTF-8 decoding
  (package \<open>unicode/utf8\<close>), \<open>strings.TrimSpace\<close>, \<open>strings.TrimRight\<close>, \<open>strings.Join\<close>, the \<open>%d\<close> and
  \<open>%q\<close> verbs of \<open>fmt\<close>, and \<open>url.QueryEscape\<close>.  Go strings are bytes, so lengths, orders and
  escapes below are all on bytes.
\<close>

section \<open>UTF-8\<close>

abbreviation byte :: "char \<Rightarrow> nat" where
  "byte c \<equiv> of_char c"

definition in_range :: "nat \<Rightarrow> nat \<Rightarrow> char \<Rightarrow> bool" where
  "in_range lo hi c \<longleftrightarrow> lo \<le> byte c \<and> byte c \<le> hi"

text \<open>
  The number of bytes of the valid encoding at the head of a string, 0 where there is none
  (the end of the string or a byte that starts no valid sequence): the size that
  \<open>utf8.DecodeRune\<close> returns for a valid rune.
\<close>

fun utf8_width :: "string \<Rightarrow> nat" where
  "utf8_width [] = 0"
| "utf8_width (a # r) =
     (if byte a < 0x80 then 1
      else if in_range 0xC2 0xDF a then
        (case r of b # _ \<Rightarrow> (if in_range 0x80 0xBF b then 2 else 0) | _ \<Rightarrow> 0)
      else if in_range 0xE0 0xEF a then
        (case r of b # c # _ \<Rightarrow>
           (if in_range (if byte a = 0xE0 then 0xA0 else 0x80)
                        (if byte a = 0xED then 0x9F else 0xBF) b
               \<and> in_range 0x80 0xBF c then 3 else 0) | _ \<Rightarrow> 0)
      else if in_range 0xF0 0xF4 a then
        (case r of b # c # d # _ \<Rightarrow>
           (if in_range (if byte a = 0xF0 then 0x90 else 0x80)
                        (if byte a = 0xF4 then 0x8F else 0xBF) b
               \<and> in_range 0x80 0xBF c \<and> in_range 0x80 0xBF d then 4 else 0) | _ \<Rightarrow> 0)
      else 0)"

text \<open>The rune of a valid sequence.\<close>

fun rune_value :: "string \<Rightarrow> nat" where
  "rune_value [a] = byte a"
| "rune_value [a, b] = (byte a - 0xC0) * 0x40 + (byte b - 0x80)"
| "rune_value [a, b, c] = (byte a - 0xE0) * 0x1000 + (byte b - 0x80) * 0x40 + (byte c - 0x80)"
| "rune_value [a, b, c, d] =
     (byte a - 0xF0) * 0x40000 + (byte b - 0x80) * 0x1000 + (byte c - 0x80) * 0x40
       + (byte d - 0x80)"
| "rune_value _ = 0xFFFD"

definition utf8_encode :: "nat \<Rightarrow> string" where
  "utf8_encode r =
     (if r < 0x80 then [char_of r]
      else if r < 0x800 then [char_of (0xC0 + r div 0x40), char_of (0x80 + r mod 0x40)]
      else if r < 0x10000 then
        [char_of (0xE0 + r div 0x1000), char_of (0x80 + r div 0x40 mod 0x40),
         char_of (0x80 + r mod 0x40)]
      else
        [char_of (0xF0 + r div 0x40000), char_of (0x80 + r div 0x1000 mod 0x40),
         char_of (0x80 + r div 0x40 mod 0x40), char_of (0x80 + r mod 0x40)])"

definition replacement_char :: string where
  "replacement_char = [CHR 0xEF, CHR 0xBF, CHR 0xBD]"

lemma utf8_width_le: "utf8_width s \<le> length s"
  by (cases s) (auto split: list.splits)

lemma utf8_width_le4: "utf8_width s \<le> 4"
  by (cases s) (auto split: list.splits)

lemma utf8_width_ascii [simp]: "byte a < 0x80 \<Longrightarrow> utf8_width (a # r) = 1"
  by simp

text \<open>A valid sequence is recognised from its own bytes, whatever follows it.\<close>

lemma utf8_width_take:
  assumes "utf8_width s = w" and "w \<noteq> 0"
  shows "utf8_width (take w s @ r) = w"
proof (cases s)
  case (Cons a t)
  consider "t = []" | b where "t = [b]" | b c where "t = [b, c]"
    | b c d u where "t = b # c # d # u"
    by (metis list.exhaust)
  then show ?thesis
    using assms Cons by cases (auto split: if_splits)
qed (use assms in simp)

declare utf8_width.simps(2) [simp del]

function to_valid_utf8 :: "string \<Rightarrow> string" where
  "to_valid_utf8 s =
     (if s = [] then []
      else if utf8_width s = 0 then replacement_char @ to_valid_utf8 (tl s)
      else take (utf8_width s) s @ to_valid_utf8 (drop (utf8_width s) s))"
  by pat_completeness auto
termination
  by (relation "measure length") (auto intro: length_drop_less simp del: length_drop)

declare to_valid_utf8.simps [simp del]

function valid_utf8 :: "string \<Rightarrow> bool" where
  "valid_utf8 s =
     (if s = [] then True
      else if utf8_width s = 0 then False
      else valid_utf8 (drop (utf8_width s) s))"
  by pat_completeness auto
termination
  by (relation "measure length") (auto intro: length_drop_less simp del: length_drop)

declare valid_utf8.simps [simp del]

lemma valid_utf8_Nil [simp]: "valid_utf8 []"
  by (subst valid_utf8.simps) simp

lemma to_valid_utf8_Nil [simp]: "to_valid_utf8 [] = []"
  by (subst to_valid_utf8.simps) simp

lemma valid_utf8_ascii_Cons [simp]:
  "byte a < 0x80 \<Longrightarrow> valid_utf8 (a # r) \<longleftrightarrow> valid_utf8 r"
  by (subst valid_utf8.simps) simp

lemma valid_utf8_step:
  "s \<noteq> [] \<Longrightarrow> valid_utf8 s \<Longrightarrow> utf8_width s \<noteq> 0 \<and> valid_utf8 (drop (utf8_width s) s)"
  using valid_utf8.simps [of s] by (metis (full_types))

lemma to_valid_utf8_id: "valid_utf8 s \<Longrightarrow> to_valid_utf8 s = s"
proof (induction s rule: valid_utf8.induct)
  case (1 s)
  show ?case
  proof (cases "s = []")
    case False
    with "1.prems" have "utf8_width s \<noteq> 0" "valid_utf8 (drop (utf8_width s) s)"
      using valid_utf8_step by auto
    with "1.IH" False show ?thesis
      by (subst to_valid_utf8.simps) simp
  qed simp
qed

lemma valid_utf8_append:
  "valid_utf8 s \<Longrightarrow> valid_utf8 (s @ t) \<longleftrightarrow> valid_utf8 t"
proof (induction s rule: valid_utf8.induct)
  case (1 s)
  show ?case
  proof (cases "s = []")
    case False
    let ?w = "utf8_width s"
    from valid_utf8_step [OF False "1.prems"] have w: "?w \<noteq> 0" "valid_utf8 (drop ?w s)"
      by auto
    have "utf8_width (s @ t) = ?w"
      using utf8_width_take [of s ?w "drop ?w s @ t"] w(1)
      by (metis append.assoc append_take_drop_id)
    moreover have "drop ?w (s @ t) = drop ?w s @ t"
      using utf8_width_le [of s] by simp
    ultimately show ?thesis
      using "1.IH" False w by (subst valid_utf8.simps) simp
  qed simp
qed

lemma all_ascii_valid: "(\<And>c. c \<in> set s \<Longrightarrow> byte c < 0x80) \<Longrightarrow> valid_utf8 s"
  by (induction s) auto

section \<open>Trimming and joining\<close>

text \<open>
  The characters for which \<open>unicode.IsSpace\<close> holds, as their UTF-8 encodings.  They are prefix
  free, and no proper suffix of one starts a rune, so trimming runes from either end of a string
  is trimming these byte sequences.
\<close>

definition space_runes :: "string list" where
  "space_runes =
     [[CHR 0x09], [CHR 0x0A], [CHR 0x0B], [CHR 0x0C], [CHR 0x0D], [CHR 0x20],
      [CHR 0xC2, CHR 0x85], [CHR 0xC2, CHR 0xA0], [CHR 0xE1, CHR 0x9A, CHR 0x80],
      [CHR 0xE2, CHR 0x80, CHR 0x80], [CHR 0xE2, CHR 0x80, CHR 0x81],
      [CHR 0xE2, CHR 0x80, CHR 0x82], [CHR 0xE2, CHR 0x80, CHR 0x83],
      [CHR 0xE2, CHR 0x80, CHR 0x84], [CHR 0xE2, CHR 0x80, CHR 0x85],
      [CHR 0xE2, CHR 0x80, CHR 0x86], [CHR 0xE2, CHR 0x80, CHR 0x87],
      [CHR 0xE2, CHR 0x80, CHR 0x88], [CHR 0xE2, CHR 0x80, CHR 0x89],
      [CHR 0xE2, CHR 0x80, CHR 0x8A], [CHR 0xE2, CHR 0x80, CHR 0xA8],
      [CHR 0xE2, CHR 0x80, CHR 0xA9], [CHR 0xE2, CHR 0x80, CHR 0xAF],
      [CHR 0xE2, CHR 0x81, CHR 0x9F], [CHR 0xE3, CHR 0x80, CHR 0x80]]"

function trim_prefixes :: "string list \<Rightarrow> string \<Rightarrow> string" where
  "trim_prefixes ps s =
     (case find (\<lambda>p. p \<noteq> [] \<and> prefix p s) ps of
        None \<Rightarrow> s
      | Some p \<Rightarrow> trim_prefixes ps (drop (length p) s))"
  by pat_completeness auto
termination
  by (relation "measure (\<lambda>(ps, s). length s)")
     (auto simp: find_Some_iff prefix_def simp del: length_drop intro: length_drop_less)

declare trim_prefixes.simps [simp del]

definition TrimSpace :: "string \<Rightarrow> string" where
  "TrimSpace s = rev (trim_prefixes (map rev space_runes) (rev (trim_prefixes space_runes s)))"

definition TrimRight :: "string \<Rightarrow> char \<Rightarrow> string" where
  "TrimRight s c = rev (dropWhile (\<lambda>d. d = c) (rev s))"

fun Join :: "string list \<Rightarrow> string \<Rightarrow> string" where
  "Join [] sep = []"
| "Join [x] sep = x"
| "Join (x # y # xs) sep = x @ sep @ Join (y # xs) sep"

lemma trim_prefixes_unchanged:
  "find (\<lambda>p. p \<noteq> [] \<and> prefix p s) ps = None \<Longrightarrow> trim_prefixes ps s = s"
  by (subst trim_prefixes.simps) simp

text \<open>
  What ends in a byte that no listed sequence contains keeps that end: used for the managed
  suffix, which ends in a closing bracket.
\<close>

lemma trim_prefixes_keeps_suffix:
  assumes "\<And>p. p \<in> set ps \<Longrightarrow> c \<notin> set p" and "s \<noteq> [] \<Longrightarrow> last s = c"
  shows "s \<noteq> [] \<longrightarrow> trim_prefixes ps s \<noteq> [] \<and> last (trim_prefixes ps s) = c"
  using assms
proof (induction ps s rule: trim_prefixes.induct)
  case (1 ps s)
  show ?case
  proof (cases "find (\<lambda>p. p \<noteq> [] \<and> prefix p s) ps")
    case None
    with "1.prems" show ?thesis by (simp add: trim_prefixes_unchanged)
  next
    case (Some p)
    then have p: "p \<in> set ps" "prefix p s" "p \<noteq> []"
      by (auto simp: find_Some_iff)
    then obtain r where s: "s = p @ r"
      by (auto simp: prefix_def)
    have "r \<noteq> []"
      using "1.prems" p s by (metis append_Nil2 last_in_set)
    have "trim_prefixes ps s = trim_prefixes ps r"
      using Some s by (subst trim_prefixes.simps) simp
    with "1.IH" [OF Some] "1.prems" s \<open>r \<noteq> []\<close> show ?thesis
      by simp
  qed
qed

lemma trim_prefixes_idem: "trim_prefixes ps (trim_prefixes ps s) = trim_prefixes ps s"
proof (induction ps s rule: trim_prefixes.induct)
  case (1 ps s)
  show ?case
  proof (cases "find (\<lambda>p. p \<noteq> [] \<and> prefix p s) ps")
    case None
    then show ?thesis by (simp add: trim_prefixes_unchanged)
  next
    case (Some p)
    then have "trim_prefixes ps s = trim_prefixes ps (drop (length p) s)"
      by (subst trim_prefixes.simps) simp
    with Some "1.IH" show ?thesis by simp
  qed
qed

lemma suffix_trim_prefixes: "suffix (trim_prefixes ps s) s"
proof (induction ps s rule: trim_prefixes.induct)
  case (1 ps s)
  then show ?case
    by (subst trim_prefixes.simps)
       (auto split: option.splits intro: suffix_order.trans suffix_drop)
qed


text \<open>The managed suffix survives trimming: nothing is cut from a right end that is no space.\<close>

lemma TrimSpace_right_closed:
  assumes "c \<notin> \<Union> (set ` set space_runes)" and "s \<noteq> []" and "last s = c"
  shows "TrimSpace s = trim_prefixes space_runes s"
proof -
  let ?t = "trim_prefixes space_runes s"
  have t: "?t \<noteq> []" "last ?t = c"
    using trim_prefixes_keeps_suffix [of space_runes c s] assms by auto
  then obtain u where u: "rev ?t = c # u"
    by (metis last_rev list.exhaust_sel rev_is_Nil_conv rev_rev_ident hd_rev)
  have "find (\<lambda>p. p \<noteq> [] \<and> prefix p (c # u)) (map rev space_runes) = None"
    using assms(1) by (fastforce simp: find_None_iff prefix_Cons)
  then show ?thesis
    unfolding TrimSpace_def u by (simp add: trim_prefixes_unchanged flip: u)
qed

text \<open>Trimming from the left stops at a byte that no listed sequence contains.\<close>

lemma trim_prefixes_append:
  assumes "\<And>p. p \<in> set ps \<Longrightarrow> c \<notin> set p"
  shows "trim_prefixes ps (x @ c # y) = trim_prefixes ps x @ c # y"
  using assms
proof (induction ps x rule: trim_prefixes.induct)
  case (1 ps x)
  have same: "prefix p (x @ c # y) \<longleftrightarrow> prefix p x" if "p \<in> set ps" for p
    using "1.prems" [OF that] by (auto simp: prefix_append prefix_Cons)
  then have f: "find (\<lambda>p. p \<noteq> [] \<and> prefix p (x @ c # y)) ps = find (\<lambda>p. p \<noteq> [] \<and> prefix p x) ps"
    by (intro find_cong) auto
  show ?case
  proof (cases "find (\<lambda>p. p \<noteq> [] \<and> prefix p x) ps")
    case None
    with f show ?thesis by (simp add: trim_prefixes_unchanged)
  next
    case (Some p)
    then have "prefix p x" by (auto simp: find_Some_iff)
    then have "drop (length p) (x @ c # y) = drop (length p) x @ c # y"
      by (auto simp: prefix_def)
    with Some f "1.IH" [OF Some] "1.prems" show ?thesis
      by (subst (1 2) trim_prefixes.simps) simp
  qed
qed

lemma TrimRight_split:
  "\<exists>n. s = TrimRight s c @ replicate n c \<and> (TrimRight s c = [] \<or> last (TrimRight s c) \<noteq> c)"
proof (intro exI conjI)
  have "takeWhile (\<lambda>d. d = c) (rev s) = replicate (length (takeWhile (\<lambda>d. d = c) (rev s))) c"
    by (metis (full_types) replicate_length_same set_takeWhileD)
  then have "rev (takeWhile (\<lambda>d. d = c) (rev s)) = replicate (length (takeWhile (\<lambda>d. d = c) (rev s))) c"
    by (metis rev_replicate)
  then show "s = TrimRight s c @ replicate (length (takeWhile (\<lambda>d. d = c) (rev s))) c"
    unfolding TrimRight_def by (metis rev_append rev_rev_ident takeWhile_dropWhile_id)
  show "TrimRight s c = [] \<or> last (TrimRight s c) \<noteq> c"
    by (metis (mono_tags) TrimRight_def hd_dropWhile last_rev rev_is_Nil_conv)
qed

section \<open>Joining\<close>

text \<open>Joining with a separator that no part contains loses nothing, unless there are no parts.\<close>

lemma split_at_first:
  "c \<notin> set x \<Longrightarrow> c \<notin> set y \<Longrightarrow> x @ c # s = y @ c # t \<Longrightarrow> x = y \<and> s = t"
proof (induction x arbitrary: y)
  case Nil
  then show ?case by (cases y) auto
next
  case (Cons a x)
  then show ?case by (cases y) auto
qed

lemma Join_Cons: "xs \<noteq> [] \<Longrightarrow> Join (x # xs) sep = x @ sep @ Join xs sep"
  by (cases xs) simp_all

lemma Join_inject:
  assumes "\<And>x. x \<in> set xs \<Longrightarrow> c \<notin> set x" and "\<And>y. y \<in> set ys \<Longrightarrow> c \<notin> set y"
    and "xs \<noteq> []" and "ys \<noteq> []" and "Join xs [c] = Join ys [c]"
  shows "xs = ys"
  using assms
proof (induction xs arbitrary: ys)
  case (Cons x xs)
  then obtain y ys' where ys: "ys = y # ys'" by (cases ys) auto
  have free: "c \<notin> set x" "c \<notin> set y" using Cons.prems ys by auto
  have eq: "Join (x # xs) [c] = Join (y # ys') [c]" using Cons.prems ys by simp
  consider "xs = []" "ys' = []" | "xs = []" "ys' \<noteq> []" | "xs \<noteq> []" "ys' = []"
    | "xs \<noteq> []" "ys' \<noteq> []" by blast
  then show ?case
  proof cases
    case 1
    with eq ys show ?thesis by simp
  next
    case 2
    with eq have "x = y @ c # Join ys' [c]" by (simp add: Join_Cons)
    with free show ?thesis by simp
  next
    case 3
    with eq have "y = x @ c # Join xs [c]" by (simp add: Join_Cons)
    with free show ?thesis by simp
  next
    case 4
    with eq have "x @ c # Join xs [c] = y @ c # Join ys' [c]" by (simp add: Join_Cons)
    then have tails: "x = y" "Join xs [c] = Join ys' [c]"
      using split_at_first [OF free] by simp_all
    have "xs = ys'"
    proof (rule Cons.IH)
      show "c \<notin> set z" if "z \<in> set xs" for z using Cons.prems(1) that by simp
      show "c \<notin> set z" if "z \<in> set ys'" for z using Cons.prems(2) ys that by simp
    qed (use 4 tails in auto)
    with tails ys show ?thesis by simp
  qed
qed simp

section \<open>Decimal numbers (\<open>%d\<close>)\<close>

definition digit_char :: "nat \<Rightarrow> char" where
  "digit_char d = char_of (48 + d)"

fun show_nat :: "nat \<Rightarrow> string" where
  "show_nat n = (if n < 10 then [digit_char n] else show_nat (n div 10) @ [digit_char (n mod 10)])"

declare show_nat.simps [simp del]

definition show_int :: "int \<Rightarrow> string" where
  "show_int i = (if i < 0 then CHR ''-'' # show_nat (nat (- i)) else show_nat (nat i))"

definition read_digits :: "string \<Rightarrow> nat" where
  "read_digits = foldl (\<lambda>n c. 10 * n + (byte c - 48)) 0"

lemma byte_digit_char: "d < 10 \<Longrightarrow> byte (digit_char d) = 48 + d"
  by (simp add: digit_char_def of_char_of take_bit_eq_mod)

lemma read_digits_show_nat: "read_digits (show_nat n) = n"
proof (induction n rule: show_nat.induct)
  case (1 n)
  then show ?case
    by (subst show_nat.simps) (auto simp: read_digits_def byte_digit_char)
qed

lemma show_nat_not_minus: "CHR ''-'' \<notin> set (show_nat n)"
proof (induction n rule: show_nat.induct)
  case (1 n)
  have "CHR ''-'' \<noteq> digit_char d" if "d < 10" for d
    proof
    assume "CHR ''-'' = digit_char d"
    then have "byte (CHR ''-'') = 48 + d"
      using byte_digit_char [OF that] by (simp only:)
    then show False by simp
  qed
  with 1 show ?case
    by (subst show_nat.simps) auto
qed

lemma show_nat_nonempty: "show_nat n \<noteq> []"
  by (subst show_nat.simps) simp

text \<open>\<open>fmt.Sprintf("%d", _)\<close> loses nothing: equal decimals mean equal numbers.\<close>

lemma show_int_inject: "show_int i = show_int j \<longleftrightarrow> i = j"
proof
  assume eq: "show_int i = show_int j"
  have hd_nat: "CHR ''-'' # t \<noteq> show_nat n" for t n
    using show_nat_not_minus [of n] by (metis list.set_intros(1))
  from eq show "i = j"
    unfolding show_int_def using hd_nat hd_nat [symmetric]
    by (auto split: if_splits dest!: arg_cong [where f = read_digits]
             simp: read_digits_show_nat) 
qed simp

section \<open>\<open>url.QueryEscape\<close>\<close>

definition hex_upper :: "nat \<Rightarrow> char" where
  "hex_upper d = (if d < 10 then char_of (48 + d) else char_of (55 + d))"

definition unreserved :: "char \<Rightarrow> bool" where
  "unreserved c \<longleftrightarrow>
     in_range 0x61 0x7A c \<or> in_range 0x41 0x5A c \<or> in_range 0x30 0x39 c \<or> c \<in> set ''-_.~''"

definition query_escape_byte :: "char \<Rightarrow> string" where
  "query_escape_byte c =
     (if unreserved c then [c]
      else if c = CHR '' '' then ''+''
      else [CHR ''%'', hex_upper (byte c div 16), hex_upper (byte c mod 16)])"

definition QueryEscape :: "string \<Rightarrow> string" where
  "QueryEscape s = concat (map query_escape_byte s)"

text \<open>
  The reading of a query component on the other side (\<open>url.QueryUnescape\<close>, PHP's
  \<open>urldecode\<close>): \<open>None\<close> on a malformed escape.
\<close>

definition unhex :: "char \<Rightarrow> nat option" where
  "unhex c =
     (if in_range 0x30 0x39 c then Some (byte c - 0x30)
      else if in_range 0x41 0x46 c then Some (byte c - 55)
      else if in_range 0x61 0x66 c then Some (byte c - 87)
      else None)"

fun query_unescape :: "string \<Rightarrow> string option" where
  "query_unescape [] = Some []"
| "query_unescape (c # r) =
     (if c = CHR ''%'' then
        (case r of
           h # l # r' \<Rightarrow>
             (case (unhex h, unhex l) of
                (Some a, Some b) \<Rightarrow> map_option (Cons (char_of (16 * a + b))) (query_unescape r')
              | _ \<Rightarrow> None)
         | _ \<Rightarrow> None)
      else map_option (Cons (if c = CHR ''+'' then CHR '' '' else c)) (query_unescape r))"

lemma unhex_hex_upper: "d < 16 \<Longrightarrow> unhex (hex_upper d) = Some d"
  by (auto simp: unhex_def hex_upper_def in_range_def)

lemma query_unescape_byte:
  "query_unescape (query_escape_byte c @ r) = map_option (Cons c) (query_unescape r)"
proof -
  have "char_of (16 * (byte c div 16) + byte c mod 16) = c"
    by (simp only: mult_div_mod_eq char_of_char)
  moreover have "byte c div 16 < 16" "byte c mod 16 < 16"
    using nat_of_char_less_256 [of c] by (simp_all add: less_mult_imp_div_less)
  moreover have "\<not> unreserved (CHR ''%'')" "\<not> unreserved (CHR ''+'')"
    by (simp_all add: unreserved_def in_range_def)
  moreover have "char_of (37 :: nat) = CHR ''%''"
    using char_of_char [of "CHR ''%''"] by simp
  ultimately show ?thesis
    by (auto simp: query_escape_byte_def unhex_hex_upper)
qed

lemma query_unescape_escape: "query_unescape (QueryEscape s) = Some s"
  by (induction s) (simp_all add: QueryEscape_def query_unescape_byte)

lemma unreserved_hex_upper: "d < 16 \<Longrightarrow> unreserved (hex_upper d)"
  by (auto simp: hex_upper_def unreserved_def in_range_def)

text \<open>No byte of an escaped string can end or split a query component.\<close>

lemma QueryEscape_chars:
  assumes "c \<in> set (QueryEscape s)"
  shows "unreserved c \<or> c = CHR ''+'' \<or> c = CHR ''%''"
proof -
  have "byte d div 16 < 16" for d
    using nat_of_char_less_256 [of d] by (simp add: less_mult_imp_div_less)
  with assms show ?thesis
    by (auto simp: QueryEscape_def query_escape_byte_def unreserved_hex_upper split: if_splits)
qed

section \<open>\<open>strconv.Quote\<close> (\<open>%q\<close>)\<close>

text \<open>
  Which runes above ASCII are printable is a table of package \<open>unicode\<close>; it is the argument
  \<open>is_print\<close>, asked only at runes of 128 and more.
\<close>

definition hex_lower :: "nat \<Rightarrow> char" where
  "hex_lower d = (if d < 10 then char_of (48 + d) else char_of (87 + d))"

definition hex_digits :: "nat list \<Rightarrow> nat \<Rightarrow> string" where
  "hex_digits ps r = map (\<lambda>p. hex_lower (r div 16 ^ p mod 16)) ps"

definition quote_rune :: "(nat \<Rightarrow> bool) \<Rightarrow> nat \<Rightarrow> string \<Rightarrow> string" where
  "quote_rune is_print r bytes =
     (if r = 0x22 \<or> r = 0x5C then CHR 0x5C # bytes
      else if (if r < 0x80 then 0x20 \<le> r \<and> r \<le> 0x7E else is_print r) then bytes
      else if r = 0x07 then [CHR 0x5C, CHR ''a'']
      else if r = 0x08 then [CHR 0x5C, CHR ''b'']
      else if r = 0x0C then [CHR 0x5C, CHR ''f'']
      else if r = 0x0A then [CHR 0x5C, CHR ''n'']
      else if r = 0x0D then [CHR 0x5C, CHR ''r'']
      else if r = 0x09 then [CHR 0x5C, CHR ''t'']
      else if r = 0x0B then [CHR 0x5C, CHR ''v'']
      else if r < 0x20 \<or> r = 0x7F then [CHR 0x5C, CHR ''x''] @ hex_digits [1, 0] r
      else if r < 0x10000 then [CHR 0x5C, CHR ''u''] @ hex_digits [3, 2, 1, 0] r
      else [CHR 0x5C, CHR ''U''] @ hex_digits [7, 6, 5, 4, 3, 2, 1, 0] r)"

function quote_body :: "(nat \<Rightarrow> bool) \<Rightarrow> string \<Rightarrow> string" where
  "quote_body is_print s =
     (if s = [] then []
      else if utf8_width s = 0 then
        [CHR 0x5C, CHR ''x''] @ hex_digits [1, 0] (byte (hd s)) @ quote_body is_print (tl s)
      else
        (let w = utf8_width s in
         quote_rune is_print (rune_value (take w s)) (take w s) @ quote_body is_print (drop w s)))"
  by pat_completeness auto
termination
  by (relation "measure (\<lambda>(p, s). length s)") (auto intro: length_drop_less simp del: length_drop)

declare quote_body.simps [simp del]

definition Quote :: "(nat \<Rightarrow> bool) \<Rightarrow> string \<Rightarrow> string" where
  "Quote is_print s = CHR 0x22 # quote_body is_print s @ [CHR 0x22]"

end
