(* ===== verification/GoJSON.thy ===== *)
theory GoJSON
  imports GoStrings "HOL-Library.Word"
begin

text \<open>
  Package \<open>encoding/json\<close> as far as the operator uses it: \<open>json.Marshal\<close> of structs and maps of
  strings, and \<open>json.Unmarshal\<close> into structs with string, int, map, slice, \<open>json.RawMessage\<close> and
  \<open>any\<close> targets.  The text is parsed to a value of type \<open>json\<close> and the value is then decoded into
  the target, as the package itself first validates the text and then walks it.

  A decoder has the type \<open>json \<Rightarrow> 'a \<Rightarrow> 'a option\<close>: it takes the value that the target holds so
  far, because \<open>null\<close> leaves it alone and a repeated key decodes into it again, and it yields
  \<open>None\<close> on a type mismatch.  (The package goes on after a mismatch and reports the first one at
  the end; every caller drops the result when there is an error.)
\<close>

datatype json =
    JNull
  | JBool bool
  | JNum string
  | JStr string
  | JArr "json list"
  | JObj "(string \<times> json) list"

section \<open>Strings on the wire\<close>

definition backslash :: char where "backslash = CHR 0x5C"
definition dquote :: char where "dquote = CHR 0x22"

text \<open>\<open>appendString\<close> with HTML escaping, the default of \<open>json.Marshal\<close>.\<close>

definition escape_ascii :: "char \<Rightarrow> string" where
  "escape_ascii c =
     (if c = backslash \<or> c = dquote then [backslash, c]
      else if c = CHR 0x08 then [backslash, CHR ''b'']
      else if c = CHR 0x0C then [backslash, CHR ''f'']
      else if c = CHR 0x0A then [backslash, CHR ''n'']
      else if c = CHR 0x0D then [backslash, CHR ''r'']
      else if c = CHR 0x09 then [backslash, CHR ''t'']
      else if byte c < 0x20 \<or> c \<in> set ''<>&'' then
        backslash # ''u00'' @ hex_digits [1, 0] (byte c)
      else [c])"

definition line_separator :: string where
  "line_separator = [CHR 0xE2, CHR 0x80, CHR 0xA8]"
definition paragraph_separator :: string where
  "paragraph_separator = [CHR 0xE2, CHR 0x80, CHR 0xA9]"

definition escape_rune :: "string \<Rightarrow> string" where
  "escape_rune u =
     (if u = line_separator then backslash # ''u2028''
      else if u = paragraph_separator then backslash # ''u2029''
      else u)"

function escape_string :: "string \<Rightarrow> string" where
  "escape_string s =
     (if s = [] then []
      else if byte (hd s) < 0x80 then escape_ascii (hd s) @ escape_string (tl s)
      else if utf8_width s = 0 then (backslash # ''ufffd'') @ escape_string (tl s)
      else escape_rune (take (utf8_width s) s) @ escape_string (drop (utf8_width s) s))"
  by pat_completeness auto
termination
  by (relation "measure length") (auto intro: length_drop_less simp del: length_drop)

declare escape_string.simps [simp del]

definition marshal_string :: "string \<Rightarrow> string" where
  "marshal_string s = dquote # escape_string s @ [dquote]"

text \<open>\<open>unquote\<close>: one unit of a string body, and what it stands for.\<close>

definition simple_escape :: "char \<Rightarrow> char option" where
  "simple_escape e =
     (if e = dquote \<or> e = backslash \<or> e = CHR ''/'' then Some e
      else if e = CHR ''b'' then Some (CHR 0x08)
      else if e = CHR ''f'' then Some (CHR 0x0C)
      else if e = CHR ''n'' then Some (CHR 0x0A)
      else if e = CHR ''r'' then Some (CHR 0x0D)
      else if e = CHR ''t'' then Some (CHR 0x09)
      else None)"

definition hex4 :: "string \<Rightarrow> (nat \<times> string) option" where
  "hex4 s =
     (case s of
        a # b # c # d # r \<Rightarrow>
          (case (unhex a, unhex b, unhex c, unhex d) of
             (Some w, Some x, Some y, Some z) \<Rightarrow>
               Some (w * 0x1000 + x * 0x100 + y * 0x10 + z, r)
           | _ \<Rightarrow> None)
      | _ \<Rightarrow> None)"

text \<open>The second half of a surrogate pair, if it follows.\<close>

definition low_surrogate :: "string \<Rightarrow> (nat \<times> string) option" where
  "low_surrogate s =
     (case s of
        b # u # r \<Rightarrow>
          (if b = backslash \<and> u = CHR ''u'' then
             (case hex4 r of
                Some (n, r') \<Rightarrow> (if 0xDC00 \<le> n \<and> n < 0xE000 then Some (n, r') else None)
              | None \<Rightarrow> None)
           else None)
      | _ \<Rightarrow> None)"

definition unicode_escape :: "nat \<Rightarrow> string \<Rightarrow> string \<times> string" where
  "unicode_escape n r =
     (if 0xD800 \<le> n \<and> n < 0xE000 then
        (case low_surrogate r of
           Some (m, r') \<Rightarrow>
             (if n < 0xDC00
              then (utf8_encode ((n - 0xD800) * 0x400 + (m - 0xDC00) + 0x10000), r')
              else (replacement_char, r))
         | None \<Rightarrow> (replacement_char, r))
      else (utf8_encode n, r))"

definition string_step :: "string \<Rightarrow> (string \<times> string) option" where
  "string_step s =
     (case s of
        [] \<Rightarrow> None
      | c # r \<Rightarrow>
          if c = backslash then
            (case r of
               [] \<Rightarrow> None
             | e # t \<Rightarrow>
                 if e = CHR ''u'' then map_option (\<lambda>(n, t'). unicode_escape n t') (hex4 t)
                 else map_option (\<lambda>x. ([x], t)) (simple_escape e))
          else if byte c < 0x20 then None
          else if utf8_width s = 0 then Some (replacement_char, r)
          else Some (take (utf8_width s) s, drop (utf8_width s) s))"

lemma hex4_shorter: "hex4 s = Some (n, r) \<Longrightarrow> length r < length s"
  by (auto simp: hex4_def split: list.splits option.splits)

lemma low_surrogate_shorter: "low_surrogate s = Some (n, r) \<Longrightarrow> length r < length s"
  by (auto simp: low_surrogate_def dest!: hex4_shorter split: list.splits option.splits if_splits)

lemma unicode_escape_le: "unicode_escape n r = (p, r') \<Longrightarrow> length r' \<le> length r"
  by (auto simp: unicode_escape_def dest!: low_surrogate_shorter split: option.splits if_splits)

lemma string_step_shorter: "string_step s = Some (p, r) \<Longrightarrow> length r < length s"
  by (cases s)
     (auto simp: string_step_def dest!: hex4_shorter unicode_escape_le
           intro: length_drop_less split: if_splits list.splits)

function scan_string :: "string \<Rightarrow> (string \<times> string) option" where
  "scan_string s =
     (case s of
        [] \<Rightarrow> None
      | c # r \<Rightarrow>
          if c = dquote then Some ([], r)
          else
            (case string_step s of
               None \<Rightarrow> None
             | Some (p, s') \<Rightarrow> map_option (\<lambda>(t, q). (p @ t, q)) (scan_string s')))"
  by pat_completeness auto
termination
  by (relation "measure length") (auto dest: string_step_shorter)

declare scan_string.simps [simp del]

lemma unhex_hex_lower: "d < 16 \<Longrightarrow> unhex (hex_lower d) = Some d"
  by (auto simp: unhex_def hex_lower_def in_range_def)

text \<open>A printed unit is read back as what it stands for, whatever follows it.\<close>

lemma string_step_ascii:
  assumes "byte c < 0x80"
  shows "string_step (escape_ascii c @ r) = Some ([c], r)"
proof -
  have c: "char_of (byte c) = c" by simp
  have "unhex (CHR ''0'') = Some 0" by (simp add: unhex_def in_range_def)
  moreover have "byte c div 16 < 16" "byte c mod 16 < 16"
    using assms by (simp_all add: less_mult_imp_div_less)
  moreover have "byte c div 16 * 16 + byte c mod 16 = byte c" by simp
  ultimately have "hex4 (''00'' @ hex_digits [1, 0] (byte c) @ r) = Some (byte c, r)"
    by (simp add: hex4_def hex_digits_def unhex_hex_lower)
  then have u: "string_step ((backslash # ''u00'' @ hex_digits [1, 0] (byte c)) @ r) = Some ([c], r)"
    using assms by (simp add: string_step_def unicode_escape_def utf8_encode_def)
  show ?thesis
    using u assms
    by (auto simp: escape_ascii_def string_step_def simple_escape_def backslash_def dquote_def)
qed

lemma unhex_digits:
  "unhex (CHR ''0'') = Some 0" "unhex (CHR ''2'') = Some 2" "unhex (CHR ''8'') = Some 8"
  "unhex (CHR ''9'') = Some 9" "unhex (CHR ''f'') = Some 15" "unhex (CHR ''d'') = Some 13"
  by (simp_all add: unhex_def in_range_def)

lemma utf8_encode_consts:
  "utf8_encode 0xFFFD = replacement_char"
  "utf8_encode 0x2028 = line_separator" "utf8_encode 0x2029 = paragraph_separator"
  by (simp_all add: utf8_encode_def replacement_char_def line_separator_def
      paragraph_separator_def char_of_def bit_Suc_0_iff)

lemma string_step_escapes:
  "string_step ((backslash # ''ufffd'') @ r) = Some (replacement_char, r)"
  "string_step ((backslash # ''u2028'') @ r) = Some (line_separator, r)"
  "string_step ((backslash # ''u2029'') @ r) = Some (paragraph_separator, r)"
  by (simp_all add: string_step_def hex4_def unhex_digits unicode_escape_def utf8_encode_consts)

lemma string_step_rune:
  assumes "utf8_width s = w" and "w \<noteq> 0" and "\<not> byte (hd s) < 0x80"
  shows "string_step (escape_rune (take w s) @ r) = Some (take w s, r)"
proof -
  define u where "u = take w s"
  have len: "length u = w"
    using utf8_width_le [of s] assms(1) by (simp add: u_def)
  have width: "utf8_width (u @ r) = w"
    using utf8_width_take [OF assms(1,2)] by (simp add: u_def)
  obtain c t where u: "u = c # t" and c: "\<not> byte c < 0x80"
    using assms by (cases s) (auto simp: u_def take_Cons')
  from c have "c \<noteq> backslash" by (auto simp: backslash_def)
  moreover have "take w (u @ r) = u" "drop w (u @ r) = r"
    using len by simp_all
  ultimately have "string_step (u @ r) = Some (u, r)"
    using width c assms(2) unfolding u by (simp add: string_step_def)
  then show ?thesis
    by (auto simp: escape_rune_def string_step_escapes simp flip: u_def simp del: append_Cons)
qed

lemma scan_string_step:
  assumes "string_step s = Some (p, s')" and "hd s \<noteq> dquote" and "s \<noteq> []"
  shows "scan_string s = map_option (\<lambda>(t, q). (p @ t, q)) (scan_string s')"
  using assms by (subst scan_string.simps) (auto split: list.splits)

lemma scan_string_close [simp]: "scan_string (dquote # r) = Some ([], r)"
  by (subst scan_string.simps) simp

lemma hd_escape_ascii: "hd (escape_ascii c) \<noteq> dquote" "escape_ascii c \<noteq> []"
  by (auto simp: escape_ascii_def backslash_def dquote_def)

lemma escape_string_Nil [simp]: "escape_string [] = []"
  by (subst escape_string.simps) simp

lemma scan_escape_string:
  "scan_string (escape_string s @ dquote # r) = Some (to_valid_utf8 s, r)"
proof (induction s rule: escape_string.induct)
  case (1 s)
  note unf = escape_string.simps [of s] to_valid_utf8.simps [of s]
  consider "s = []" | "s \<noteq> []" "byte (hd s) < 0x80"
    | "s \<noteq> []" "\<not> byte (hd s) < 0x80" "utf8_width s = 0"
    | "s \<noteq> []" "\<not> byte (hd s) < 0x80" "utf8_width s \<noteq> 0" by blast
  then show ?case
  proof cases
    case 2
    then have "utf8_width s = 1" by (cases s) simp_all
    moreover have "scan_string (escape_ascii (hd s) @ q)
        = map_option (\<lambda>(t, q). ([hd s] @ t, q)) (scan_string q)" for q
      using 2 by (intro scan_string_step string_step_ascii) (simp_all add: hd_escape_ascii)
    ultimately show ?thesis
      using 2 "1.IH"(1) by (simp add: unf take_Suc drop_Suc)
  next
    case 3
    have "scan_string ((backslash # ''ufffd'') @ q)
        = map_option (\<lambda>(t, q). (replacement_char @ t, q)) (scan_string q)" for q
      by (intro scan_string_step string_step_escapes) (simp_all add: backslash_def dquote_def)
    with 3 "1.IH"(2) show ?thesis
      by (simp add: unf)
  next
    case 4
    let ?u = "take (utf8_width s) s"
    have "escape_rune ?u \<noteq> []" "hd (escape_rune ?u @ q) \<noteq> dquote" for q
      using 4 by (cases s; auto simp: escape_rune_def backslash_def dquote_def take_Cons')+
    then have "scan_string (escape_rune ?u @ q)
        = map_option (\<lambda>(t, q). (?u @ t, q)) (scan_string q)" for q
      using 4 by (intro scan_string_step string_step_rune) simp_all
    with 4 "1.IH"(3) show ?thesis
      by (simp add: unf)
  qed simp
qed

section \<open>Values\<close>

text \<open>\<open>json.Marshal\<close>: compact, in the order of the fields.\<close>

fun comma_separated :: "string list \<Rightarrow> string" where
  "comma_separated xs = Join xs '',''"

declare comma_separated.simps [simp del]

fun marshal :: "json \<Rightarrow> string" where
  "marshal JNull = ''null''"
| "marshal (JBool b) = (if b then ''true'' else ''false'')"
| "marshal (JNum lit) = lit"
| "marshal (JStr s) = marshal_string s"
| "marshal (JArr vs) = ''['' @ comma_separated (map marshal vs) @ '']''"
| "marshal (JObj kvs) =
     ''{'' @ comma_separated (map (\<lambda>(k, v). marshal_string k @ '':'' @ marshal v) kvs) @ ''}''"

text \<open>The scanner: white space, literals, numbers.\<close>

definition is_json_space :: "char \<Rightarrow> bool" where
  "is_json_space c \<longleftrightarrow> c \<in> {CHR 0x20, CHR 0x09, CHR 0x0D, CHR 0x0A}"

definition skip_space :: "string \<Rightarrow> string" where
  "skip_space s = dropWhile is_json_space s"

definition is_digit :: "char \<Rightarrow> bool" where
  "is_digit c = in_range 0x30 0x39 c"

definition scan_literal :: "string \<Rightarrow> json \<Rightarrow> string \<Rightarrow> (json \<times> string) option" where
  "scan_literal w v s = (if prefix w s then Some (v, drop (length w) s) else None)"

definition scan_int :: "string \<Rightarrow> (string \<times> string) option" where
  "scan_int s =
     (case s of
        [] \<Rightarrow> None
      | c # r \<Rightarrow>
          if c = CHR ''0'' then Some ([c], r)
          else if is_digit c then Some (takeWhile is_digit s, dropWhile is_digit s)
          else None)"

definition scan_frac :: "string \<Rightarrow> (string \<times> string) option" where
  "scan_frac s =
     (case s of
        c # d # r \<Rightarrow>
          if c = CHR ''.'' then
            (if is_digit d
             then Some (c # takeWhile is_digit (d # r), dropWhile is_digit (d # r)) else None)
          else Some ([], s)
      | [c] \<Rightarrow> if c = CHR ''.'' then None else Some ([], s)
      | [] \<Rightarrow> Some ([], s))"

definition scan_exp :: "string \<Rightarrow> (string \<times> string) option" where
  "scan_exp s =
     (case s of
        c # r \<Rightarrow>
          if c = CHR ''e'' \<or> c = CHR ''E'' then
            (let sign = (case r of d # _ \<Rightarrow> if d = CHR ''+'' \<or> d = CHR ''-'' then [d] else []
                                 | [] \<Rightarrow> []);
                 ds = drop (length sign) r
             in if takeWhile is_digit ds = [] then None
                else Some (c # sign @ takeWhile is_digit ds, dropWhile is_digit ds))
          else Some ([], s)
      | [] \<Rightarrow> Some ([], s))"

definition scan_number :: "string \<Rightarrow> (json \<times> string) option" where
  "scan_number s =
     (let sign = (case s of c # _ \<Rightarrow> if c = CHR ''-'' then [c] else [] | [] \<Rightarrow> []) in
      case scan_int (drop (length sign) s) of
        None \<Rightarrow> None
      | Some (i, s1) \<Rightarrow>
          (case scan_frac s1 of
             None \<Rightarrow> None
           | Some (f, s2) \<Rightarrow>
               (case scan_exp s2 of
                  None \<Rightarrow> None
                | Some (e, s3) \<Rightarrow> Some (JNum (sign @ i @ f @ e), s3))))"

definition scan_scalar :: "char \<Rightarrow> string \<Rightarrow> (json \<times> string) option" where
  "scan_scalar c r =
     (if c = dquote then map_option (\<lambda>(t, q). (JStr t, q)) (scan_string r)
      else if c = CHR ''t'' then scan_literal ''true'' (JBool True) (c # r)
      else if c = CHR ''f'' then scan_literal ''false'' (JBool False) (c # r)
      else if c = CHR ''n'' then scan_literal ''null'' JNull (c # r)
      else scan_number (c # r))"

text \<open>
  Values, by recursive descent.  The first argument is fuel; one more than the length of the
  text is always enough (\<open>parse_fuel\<close> below), since every call eats at least one byte.
\<close>

fun parse_value :: "nat \<Rightarrow> string \<Rightarrow> (json \<times> string) option"
  and parse_elems :: "nat \<Rightarrow> string \<Rightarrow> (json list \<times> string) option"
  and parse_members :: "nat \<Rightarrow> string \<Rightarrow> ((string \<times> json) list \<times> string) option" where
  "parse_value 0 s = None"
| "parse_value (Suc n) s =
     (case skip_space s of
        [] \<Rightarrow> None
      | c # r \<Rightarrow>
          if c = CHR ''{'' then
            (if prefix ''}'' (skip_space r) then Some (JObj [], tl (skip_space r))
             else map_option (\<lambda>(kvs, q). (JObj kvs, q)) (parse_members n r))
          else if c = CHR ''['' then
            (if prefix '']'' (skip_space r) then Some (JArr [], tl (skip_space r))
             else map_option (\<lambda>(vs, q). (JArr vs, q)) (parse_elems n r))
          else scan_scalar c r)"
| "parse_elems 0 s = None"
| "parse_elems (Suc n) s =
     (case parse_value n s of
        None \<Rightarrow> None
      | Some (v, r) \<Rightarrow>
          (case skip_space r of
             c # q \<Rightarrow>
               if c = CHR '','' then map_option (\<lambda>(vs, q'). (v # vs, q')) (parse_elems n q)
               else if c = CHR '']'' then Some ([v], q)
               else None
           | [] \<Rightarrow> None))"
| "parse_members 0 s = None"
| "parse_members (Suc n) s =
     (case skip_space s of
        [] \<Rightarrow> None
      | c # r \<Rightarrow>
          if c \<noteq> dquote then None
          else
            (case scan_string r of
               None \<Rightarrow> None
             | Some (k, r1) \<Rightarrow>
                 (case skip_space r1 of
                    [] \<Rightarrow> None
                  | d # r2 \<Rightarrow>
                      if d \<noteq> CHR '':'' then None
                      else
                        (case parse_value n r2 of
                           None \<Rightarrow> None
                         | Some (v, r3) \<Rightarrow>
                             (case skip_space r3 of
                                e # q \<Rightarrow>
                                  if e = CHR '','' then
                                    map_option (\<lambda>(kvs, q'). ((k, v) # kvs, q')) (parse_members n q)
                                  else if e = CHR ''}'' then Some ([(k, v)], q)
                                  else None
                              | [] \<Rightarrow> None)))))"

fun json_depth :: "json \<Rightarrow> nat" where
  "json_depth (JArr vs) = Suc (fold max (map json_depth vs) 0)"
| "json_depth (JObj kvs) = Suc (fold max (map (json_depth \<circ> snd) kvs) 0)"
| "json_depth _ = 0"

definition max_nesting_depth :: nat where "max_nesting_depth = 10000"

definition parse_json :: "string \<Rightarrow> json option" where
  "parse_json s =
     (case parse_value (Suc (length s)) s of
        None \<Rightarrow> None
      | Some (v, r) \<Rightarrow>
          (if skip_space r = [] \<and> json_depth v \<le> max_nesting_depth then Some v else None))"

section \<open>What is sent is read back\<close>

text \<open>
  The numbers of the operator's objects are integers.  For values with no other numbers, reading a
  marshalled value gives the value with its strings coerced to valid UTF-8, from any fuel of at
  least the length of the text and whatever delimiter follows.
\<close>

definition plain_number :: "string \<Rightarrow> bool" where
  "plain_number lit \<longleftrightarrow>
     (let ds = (if prefix ''-'' lit then tl lit else lit) in
      ds \<noteq> [] \<and> list_all is_digit ds \<and> (hd ds = CHR ''0'' \<longrightarrow> tl ds = []))"

fun plain_numbers :: "json \<Rightarrow> bool" where
  "plain_numbers (JNum lit) = plain_number lit"
| "plain_numbers (JArr vs) = list_all plain_numbers vs"
| "plain_numbers (JObj kvs) = list_all (\<lambda>(k, v). plain_numbers v) kvs"
| "plain_numbers _ = True"

fun json_clean :: "json \<Rightarrow> json" where
  "json_clean (JStr s) = JStr (to_valid_utf8 s)"
| "json_clean (JArr vs) = JArr (map json_clean vs)"
| "json_clean (JObj kvs) = JObj (map (\<lambda>(k, v). (to_valid_utf8 k, json_clean v)) kvs)"
| "json_clean v = v"

definition ends_value :: "string \<Rightarrow> bool" where
  "ends_value r \<longleftrightarrow> r = [] \<or> hd r = CHR '','' \<or> hd r = CHR '']'' \<or> hd r = CHR ''}''"

lemma ends_value_simps [simp]:
  "ends_value []" "ends_value (CHR '','' # r)" "ends_value (CHR '']'' # r)" "ends_value (CHR ''}'' # r)"
  by (simp_all add: ends_value_def)

definition reads_back :: "json \<Rightarrow> bool" where
  "reads_back v \<longleftrightarrow>
     (\<forall>n r. length (marshal v) \<le> n \<longrightarrow> ends_value r \<longrightarrow>
        parse_value n (marshal v @ r) = Some (json_clean v, r))"

lemma digits_end:
  assumes "list_all is_digit ds" and "ends_value r"
  shows "takeWhile is_digit (ds @ r) = ds" "dropWhile is_digit (ds @ r) = r"
proof -
  have "takeWhile is_digit r = []" "dropWhile is_digit r = r"
    using assms(2) by (cases r; auto simp: ends_value_def is_digit_def in_range_def)+
  with assms(1) show "takeWhile is_digit (ds @ r) = ds" "dropWhile is_digit (ds @ r) = r"
    by (simp_all add: list_all_iff takeWhile_append dropWhile_append)
qed

lemma scan_int_plain:
  assumes "ds \<noteq> []" and "list_all is_digit ds" and "hd ds = CHR ''0'' \<longrightarrow> tl ds = []"
    and "ends_value r"
  shows "scan_int (ds @ r) = Some (ds, r)"
  using assms digits_end [OF assms(2,4)] by (cases ds) (auto simp: scan_int_def)

lemma scan_frac_exp_end:
  "ends_value r \<Longrightarrow> scan_frac r = Some ([], r) \<and> scan_exp r = Some ([], r)"
  by (cases r; cases "tl r") (auto simp: ends_value_def scan_frac_def scan_exp_def)

lemma not_minus_digit: "is_digit c \<Longrightarrow> c \<noteq> CHR ''-''"
  by (auto simp: is_digit_def in_range_def)

lemma scan_number_plain:
  assumes "plain_number lit" and "ends_value r"
  shows "scan_number (lit @ r) = Some (JNum lit, r)"
proof (cases "prefix ''-'' lit")
  case True
  then obtain ds where ds: "lit = CHR ''-'' # ds" by (auto simp: prefix_def)
  with assms(1) True have "scan_int (ds @ r) = Some (ds, r)"
    by (intro scan_int_plain assms(2)) (simp_all add: plain_number_def)
  with ds scan_frac_exp_end [OF assms(2)] show ?thesis by (simp add: scan_number_def)
next
  case False
  with assms(1) have d: "lit \<noteq> []" "list_all is_digit lit" "hd lit = CHR ''0'' \<longrightarrow> tl lit = []"
    by (simp_all add: plain_number_def)
  then have "hd lit \<noteq> CHR ''-''" by (cases lit) (auto dest: not_minus_digit)
  with d scan_int_plain [OF d assms(2)] scan_frac_exp_end [OF assms(2)] show ?thesis
    by (cases lit) (simp_all add: scan_number_def)
qed

text \<open>What a plain number begins with tells it from every other value.\<close>

lemma plain_number_head:
  assumes "plain_number lit"
  shows "\<exists>c t. lit = c # t \<and> (is_digit c \<or> c = CHR ''-'')"
  using assms by (cases lit) (auto simp: plain_number_def Let_def split: if_splits)

lemma number_start:
  assumes "is_digit c \<or> c = CHR ''-''"
  shows "\<not> is_json_space c" "c \<notin> set ''{[]}tfn:,''" "c \<noteq> dquote"
  using assms by (auto simp: is_digit_def in_range_def is_json_space_def dquote_def)

lemma skip_space_Cons: "skip_space (c # r) = (if is_json_space c then skip_space r else c # r)"
  by (simp add: skip_space_def)

lemma structural_not_space [simp]:
  "\<not> is_json_space dquote" "\<not> is_json_space (CHR ''{'')" "\<not> is_json_space (CHR ''['')"
  "\<not> is_json_space (CHR ''}'')" "\<not> is_json_space (CHR '']'')" "\<not> is_json_space (CHR '','')"
  "\<not> is_json_space (CHR '':'')" "\<not> is_json_space (CHR ''t'')" "\<not> is_json_space (CHR ''f'')"
  "\<not> is_json_space (CHR ''n'')"
  by (simp_all add: is_json_space_def dquote_def)

lemma dquote_neq [simp]:
  "c \<in> set ''{[]}tfn:,'' \<Longrightarrow> dquote \<noteq> c" "c \<in> set ''{[]}tfn:,'' \<Longrightarrow> c \<noteq> dquote"
  by (auto simp: dquote_def)

lemma marshal_head:
  assumes "plain_numbers v"
  shows "\<exists>c t. marshal v = c # t \<and> \<not> is_json_space c \<and> c \<noteq> CHR '']''"
  using assms
proof (cases v)
  case (JBool b)
  then show ?thesis by (cases b) simp_all
next
  case (JNum lit)
  with assms obtain c t where "lit = c # t" "is_digit c \<or> c = CHR ''-''"
    using plain_number_head [of lit] by auto
  with JNum number_start [of c] show ?thesis by auto
qed (simp_all add: marshal_string_def)

lemma marshal_head_space: "plain_numbers v \<Longrightarrow> skip_space (marshal v @ r) = marshal v @ r"
  using marshal_head [of v] by (auto simp: skip_space_Cons)

lemma marshal_head_bracket: "plain_numbers v \<Longrightarrow> \<not> prefix '']'' (marshal v @ r)"
  using marshal_head [of v] by auto

lemma scan_marshal_string:
  "scan_string (escape_string s @ dquote # r) = Some (to_valid_utf8 s, r)"
  by (rule scan_escape_string)

lemma parse_elems_marshal:
  assumes "vs \<noteq> []" and "list_all plain_numbers vs" and "\<forall>v \<in> set vs. reads_back v"
    and "length (Join (map marshal vs) '','') < n"
  shows "parse_elems n (Join (map marshal vs) '','' @ CHR '']'' # r)
         = Some (map json_clean vs, r)"
  using assms
proof (induction vs arbitrary: n rule: list_nonempty_induct)
  case (single v)
  then obtain m where "n = Suc m" "length (marshal v) \<le> m" by (cases n) auto
  with single show ?case
    by (simp add: reads_back_def skip_space_Cons)
next
  case (cons v vs)
  then obtain m where m: "n = Suc m" by (cases n) auto
  with cons have "length (marshal v) \<le> m" "length (Join (map marshal vs) '','') < m"
    by (simp_all add: Join_Cons)
  with cons m show ?case
    by (simp add: reads_back_def Join_Cons skip_space_Cons)
qed

abbreviation marshal_member :: "string \<times> json \<Rightarrow> string" where
  "marshal_member \<equiv> \<lambda>(k, v). marshal_string k @ '':'' @ marshal v"

lemma parse_members_marshal:
  assumes "kvs \<noteq> []" and "list_all (\<lambda>(k, v). plain_numbers v) kvs"
    and "\<forall>(k, v) \<in> set kvs. reads_back v"
    and "length (Join (map marshal_member kvs) '','') < n"
  shows "parse_members n (Join (map marshal_member kvs) '','' @ CHR ''}'' # r)
         = Some (map (\<lambda>(k, v). (to_valid_utf8 k, json_clean v)) kvs, r)"
  using assms
proof (induction kvs arbitrary: n rule: list_nonempty_induct)
  case (single kv)
  obtain k v where kv: "kv = (k, v)" by (cases kv)
  from single kv obtain m where "n = Suc m" "length (marshal v) \<le> m" by (cases n) auto
  with single kv show ?case
    by (simp add: reads_back_def skip_space_Cons marshal_string_def scan_marshal_string)
next
  case (cons kv kvs)
  obtain k v where kv: "kv = (k, v)" by (cases kv)
  from cons obtain m where m: "n = Suc m" by (cases n) auto
  with cons kv have "length (marshal v) \<le> m" "length (Join (map marshal_member kvs) '','') < m"
    by (simp_all add: Join_Cons)
  with cons m kv show ?case
    by (simp add: reads_back_def Join_Cons skip_space_Cons marshal_string_def scan_marshal_string)
qed

lemma marshal_reads_back: "plain_numbers v \<Longrightarrow> reads_back v"
proof (induction v)
  case (JNum lit)
  show ?case
    unfolding reads_back_def
  proof (intro allI impI)
    fix n r assume "length (marshal (JNum lit)) \<le> n" and r: "ends_value r"
    moreover obtain c t where c: "lit = c # t" "is_digit c \<or> c = CHR ''-''"
      using plain_number_head [of lit] JNum.prems by auto
    ultimately obtain m where "n = Suc m" by (cases n) auto
    moreover have "scan_number (c # t @ r) = Some (JNum lit, r)"
      using scan_number_plain [of lit r] JNum.prems r c by simp
    ultimately show "parse_value n (marshal (JNum lit) @ r) = Some (json_clean (JNum lit), r)"
      using c number_start [OF c(2)] by (simp add: skip_space_Cons scan_scalar_def)
  qed
next
  case (JStr s)
  show ?case
    unfolding reads_back_def
  proof (intro allI impI)
    fix n r assume "length (marshal (JStr s)) \<le> n"
    then obtain m where "n = Suc m" by (cases n) (auto simp: marshal_string_def)
    then show "parse_value n (marshal (JStr s) @ r) = Some (json_clean (JStr s), r)"
      by (simp add: marshal_string_def skip_space_Cons scan_marshal_string scan_scalar_def)
  qed
next
  case (JArr vs)
  show ?case
    unfolding reads_back_def
  proof (intro allI impI)
    fix n r assume n: "length (marshal (JArr vs)) \<le> n"
    then obtain m where m: "n = Suc m" by (cases n) auto
    show "parse_value n (marshal (JArr vs) @ r) = Some (json_clean (JArr vs), r)"
    proof (cases vs)
      case Nil
      with m show ?thesis
        by (simp add: comma_separated.simps skip_space_Cons)
    next
      case (Cons v us)
      with JArr.prems have "plain_numbers v" by simp
      note head = marshal_head_space [OF this] marshal_head_bracket [OF this]
      have "parse_elems m (Join (map marshal vs) '','' @ CHR '']'' # r)
          = Some (map json_clean vs, r)"
        using JArr n m Cons by (intro parse_elems_marshal) (auto simp: comma_separated.simps list_all_iff)
      moreover have "\<not> prefix '']'' (skip_space (Join (map marshal vs) '','' @ q))" for q
        using head Cons by (cases us) simp_all
      ultimately show ?thesis
        using m by (simp add: comma_separated.simps skip_space_Cons)
    qed
  qed
next
  case (JObj kvs)
  show ?case
    unfolding reads_back_def
  proof (intro allI impI)
    fix n r assume n: "length (marshal (JObj kvs)) \<le> n"
    then obtain m where m: "n = Suc m" by (cases n) auto
    show "parse_value n (marshal (JObj kvs) @ r) = Some (json_clean (JObj kvs), r)"
    proof (cases kvs)
      case Nil
      with m show ?thesis
        by (simp add: comma_separated.simps skip_space_Cons)
    next
      case (Cons kv us)
      have "parse_members m (Join (map marshal_member kvs) '','' @ CHR ''}'' # r)
          = Some (map (\<lambda>(k, v). (to_valid_utf8 k, json_clean v)) kvs, r)"
        using JObj n m Cons
        by (intro parse_members_marshal) (fastforce simp: comma_separated.simps list_all_iff)+
      moreover have "\<not> prefix ''}'' (skip_space (Join (map marshal_member kvs) '','' @ q))" for q
        using Cons
        by (cases us; cases kv) (simp_all add: marshal_string_def skip_space_Cons)
      ultimately show ?thesis
        using m by (simp add: comma_separated.simps skip_space_Cons)
    qed
  qed
qed (auto simp: reads_back_def skip_space_Cons scan_literal_def scan_scalar_def dest!: Suc_le_D)

lemma json_depth_clean: "json_depth (json_clean v) = json_depth v"
  by (induction v)
     (auto simp: comp_def case_prod_beta intro!: arg_cong [where f = "\<lambda>xs. fold max xs 0"])

lemma parse_marshal:
  assumes "plain_numbers v" and "json_depth v \<le> max_nesting_depth"
  shows "parse_json (marshal v) = Some (json_clean v)"
proof -
  have "parse_value (Suc (length (marshal v))) (marshal v @ []) = Some (json_clean v, [])"
    using marshal_reads_back [OF assms(1)] unfolding reads_back_def by (meson ends_value_simps(1) le_SucI order_refl)
  then have "parse_value (Suc (length (marshal v))) (marshal v) = Some (json_clean v, [])"
    by (simp only: append_Nil2)
  then show ?thesis
    using assms(2) unfolding parse_json_def
    by (simp only: option.case prod.case) (simp add: skip_space_def json_depth_clean)
qed

section \<open>Enough fuel\<close>

lemma skip_space_length: "length (skip_space s) \<le> length s"
  by (simp add: skip_space_def length_dropWhile_le)

lemma skip_space_Cons_length: "skip_space s = c # r \<Longrightarrow> length r < length s"
  using skip_space_length [of s] by simp

lemma scan_string_shorter: "scan_string s = Some (t, r) \<Longrightarrow> length r < length s"
proof (induction s arbitrary: t rule: scan_string.induct)
  case (1 s)
  then show ?case
    by (subst (asm) (2) scan_string.simps)
       (fastforce split: list.splits if_splits option.splits dest: string_step_shorter)
qed

lemma scan_int_shorter: "scan_int s = Some (i, r) \<Longrightarrow> length r < length s"
  by (auto simp: scan_int_def split: list.splits if_splits intro!: le_imp_less_Suc length_dropWhile_le)

lemma scan_frac_le: "scan_frac s = Some (i, r) \<Longrightarrow> length r \<le> length s"
  by (auto simp: scan_frac_def split: list.splits if_splits intro: le_SucI length_dropWhile_le)

lemma scan_exp_le: "scan_exp s = Some (i, r) \<Longrightarrow> length r \<le> length s"
  by (auto simp: scan_exp_def Let_def split: list.splits if_splits
      intro: le_SucI length_dropWhile_le le_trans [OF length_dropWhile_le])

lemma scan_number_shorter: "scan_number s = Some (v, r) \<Longrightarrow> length r < length s"
  by (fastforce simp: scan_number_def Let_def split: option.splits list.splits if_splits
      dest: scan_int_shorter scan_frac_le scan_exp_le)

lemma scan_scalar_shorter: "scan_scalar c r = Some (v, q) \<Longrightarrow> length q < Suc (length r)"
  by (auto simp: scan_scalar_def scan_literal_def split: if_splits
      dest!: scan_string_shorter scan_number_shorter)

text \<open>Inversion of a successful call, one lemma per production.\<close>

lemma parse_value_Suc_iff:
  "parse_value (Suc n) s = Some (v, q) \<longleftrightarrow>
     (\<exists>c r. skip_space s = c # r \<and>
        (c = CHR ''{'' \<and> skip_space r = CHR ''}'' # q \<and> v = JObj []
         \<or> c = CHR ''{'' \<and> \<not> prefix ''}'' (skip_space r)
             \<and> (\<exists>kvs. parse_members n r = Some (kvs, q) \<and> v = JObj kvs)
         \<or> c = CHR ''['' \<and> skip_space r = CHR '']'' # q \<and> v = JArr []
         \<or> c = CHR ''['' \<and> \<not> prefix '']'' (skip_space r)
             \<and> (\<exists>vs. parse_elems n r = Some (vs, q) \<and> v = JArr vs)
         \<or> c \<notin> {CHR ''{'', CHR ''[''} \<and> scan_scalar c r = Some (v, q)))"
  by (cases "skip_space s") (auto simp: prefix_def split: if_splits)

lemma parse_elems_Suc_iff:
  "parse_elems (Suc n) s = Some (vs, q) \<longleftrightarrow>
     (\<exists>v r. parse_value n s = Some (v, r) \<and>
        ((\<exists>q1 us. skip_space r = CHR '','' # q1 \<and> parse_elems n q1 = Some (us, q) \<and> vs = v # us)
         \<or> skip_space r = CHR '']'' # q \<and> vs = [v]))"
  by (auto split: option.splits list.splits if_splits)

lemma parse_members_Suc_iff:
  "parse_members (Suc n) s = Some (kvs, q) \<longleftrightarrow>
     (\<exists>k v r r1 r2 r3. skip_space s = dquote # r \<and> scan_string r = Some (k, r1)
        \<and> skip_space r1 = CHR '':'' # r2 \<and> parse_value n r2 = Some (v, r3) \<and>
        ((\<exists>q1 us. skip_space r3 = CHR '','' # q1 \<and> parse_members n q1 = Some (us, q)
            \<and> kvs = (k, v) # us)
         \<or> skip_space r3 = CHR ''}'' # q \<and> kvs = [(k, v)]))"
  by (auto split: option.splits list.splits if_splits)

declare parse_value.simps(2) [simp del] parse_elems.simps(2) [simp del]
  parse_members.simps(2) [simp del]

lemmas parse_iffs = parse_value_Suc_iff parse_elems_Suc_iff parse_members_Suc_iff
lemmas scan_lengths = skip_space_Cons_length scan_string_shorter scan_scalar_shorter

text \<open>What a call returns is shorter than what it was given.\<close>

lemma parse_shorter:
  "(\<forall>s v r. parse_value n s = Some (v, r) \<longrightarrow> length r < length s) \<and>
   (\<forall>s vs r. parse_elems n s = Some (vs, r) \<longrightarrow> length r < length s) \<and>
   (\<forall>s kvs r. parse_members n s = Some (kvs, r) \<longrightarrow> length r < length s)"
proof (induction n)
  case (Suc n)
  then show ?case
    by (intro conjI allI impI)
       (fastforce simp: parse_iffs dest!: scan_lengths)+
qed simp

lemmas parse_shorters =
  parse_shorter [THEN conjunct1, rule_format]
  parse_shorter [THEN conjunct2, THEN conjunct1, rule_format]
  parse_shorter [THEN conjunct2, THEN conjunct2, rule_format]

text \<open>A successful call needs no more fuel than the bytes it ate.\<close>

lemma parse_fuel:
  "(\<forall>s v r m. parse_value n s = Some (v, r) \<longrightarrow> length s \<le> length r + m
      \<longrightarrow> parse_value m s = Some (v, r)) \<and>
   (\<forall>s vs r m. parse_elems n s = Some (vs, r) \<longrightarrow> length s \<le> length r + m
      \<longrightarrow> parse_elems m s = Some (vs, r)) \<and>
   (\<forall>s kvs r m. parse_members n s = Some (kvs, r) \<longrightarrow> length s \<le> length r + m
      \<longrightarrow> parse_members m s = Some (kvs, r))"
proof (induction n)
  case (Suc n)
  note IH = Suc.IH [THEN conjunct1, rule_format]
    Suc.IH [THEN conjunct2, THEN conjunct1, rule_format]
    Suc.IH [THEN conjunct2, THEN conjunct2, rule_format]
  have val: "parse_value m s = Some (v, r)"
    if p: "parse_value (Suc n) s = Some (v, r)" and len: "length s \<le> length r + m" for s v r m
  proof -
    from parse_shorters(1) [OF p] len obtain k where m: "m = Suc k" by (cases m) auto
    from p obtain c t where st: "skip_space s = c # t" and alt:
       "c = CHR ''{'' \<and> skip_space t = CHR ''}'' # r \<and> v = JObj []
         \<or> c = CHR ''{'' \<and> \<not> prefix ''}'' (skip_space t)
             \<and> (\<exists>kvs. parse_members n t = Some (kvs, r) \<and> v = JObj kvs)
         \<or> c = CHR ''['' \<and> skip_space t = CHR '']'' # r \<and> v = JArr []
         \<or> c = CHR ''['' \<and> \<not> prefix '']'' (skip_space t)
             \<and> (\<exists>vs. parse_elems n t = Some (vs, r) \<and> v = JArr vs)
         \<or> c \<notin> {CHR ''{'', CHR ''[''} \<and> scan_scalar c t = Some (v, r)"
      unfolding parse_value_Suc_iff by blast
    have "length t \<le> length r + k"
      using skip_space_Cons_length [OF st] len m by simp
    then have "parse_members n t = Some (kvs, r) \<Longrightarrow> parse_members k t = Some (kvs, r)"
      "parse_elems n t = Some (vs, r) \<Longrightarrow> parse_elems k t = Some (vs, r)" for kvs vs
      using IH by blast+
    with st alt show ?thesis
      unfolding m parse_value_Suc_iff by blast
  qed
  have elems: "parse_elems m s = Some (vs, r)"
    if p: "parse_elems (Suc n) s = Some (vs, r)" and len: "length s \<le> length r + m" for s vs r m
  proof -
    from parse_shorters(2) [OF p] len obtain k where m: "m = Suc k" by (cases m) auto
    from p obtain v q where v: "parse_value n s = Some (v, q)" and
      rest: "(\<exists>q1 us. skip_space q = CHR '','' # q1 \<and> parse_elems n q1 = Some (us, r) \<and> vs = v # us)
         \<or> skip_space q = CHR '']'' # r \<and> vs = [v]"
      by (auto simp: parse_elems_Suc_iff)
    from rest have "length r < length q"
      by (auto dest!: skip_space_Cons_length parse_shorters(2))
    then have "length s \<le> length q + k"
      using len m by simp
    with v have "parse_value k s = Some (v, q)"
      by (rule IH(1))
    moreover have "parse_elems k t = Some (us, r)"
      if "skip_space q = c # t" "parse_elems n t = Some (us, r)" for c t us
      using that(2)
    proof (rule IH(2))
      show "length t \<le> length r + k"
        using skip_space_Cons_length [OF that(1)] parse_shorters(1) [OF v] len m by simp
    qed
    ultimately show ?thesis
      using rest unfolding m parse_elems_Suc_iff by blast
  qed
  have members: "parse_members m s = Some (kvs, r)"
    if p: "parse_members (Suc n) s = Some (kvs, r)" and len: "length s \<le> length r + m" for s kvs r m
  proof -
    from parse_shorters(3) [OF p] len obtain k where m: "m = Suc k" by (cases m) auto
    from p obtain key v t q1 q2 q where k: "skip_space s = dquote # t" "scan_string t = Some (key, q1)"
        "skip_space q1 = CHR '':'' # q2" and v: "parse_value n q2 = Some (v, q)" and
      rest: "(\<exists>q3 us. skip_space q = CHR '','' # q3 \<and> parse_members n q3 = Some (us, r)
          \<and> kvs = (key, v) # us) \<or> skip_space q = CHR ''}'' # r \<and> kvs = [(key, v)]"
      by (auto simp: parse_members_Suc_iff)
    from k have less: "length q2 < length s"
      by (auto dest!: scan_lengths)
    from rest have "length r < length q"
      by (auto dest!: skip_space_Cons_length parse_shorters(3))
    then have "length q2 \<le> length q + k"
      using len m less by simp
    with v have "parse_value k q2 = Some (v, q)"
      by (rule IH(1))
    moreover have "parse_members k t = Some (us, r)"
      if "skip_space q = c # t" "parse_members n t = Some (us, r)" for c t us
      using that(2)
    proof (rule IH(3))
      show "length t \<le> length r + k"
        using skip_space_Cons_length [OF that(1)] parse_shorters(1) [OF v] less len m by simp
    qed
    ultimately show ?thesis
      using rest k unfolding m parse_members_Suc_iff by blast
  qed
  from val elems members show ?case by blast
qed simp

text \<open>
  So the fuel of \<open>parse_json\<close> never decides: a text is accepted exactly when some fuel
  accepts it.
\<close>

lemma parse_json_fuel:
  "parse_json s = Some v \<longleftrightarrow>
     (\<exists>n r. parse_value n s = Some (v, r) \<and> skip_space r = [])
       \<and> json_depth v \<le> max_nesting_depth"
proof -
  have "parse_value (Suc (length s)) s = Some (v, r)" if "parse_value n s = Some (v, r)" for n r
    using parse_fuel [THEN conjunct1, rule_format, OF that] by simp
  then show ?thesis
    unfolding parse_json_def by (auto split: option.splits)
qed

section \<open>Decoding into Go values\<close>

type_synonym 'a decoder = "json \<Rightarrow> 'a \<Rightarrow> 'a option"

fun dec_string :: "string decoder" where
  "dec_string JNull s = Some s"
| "dec_string (JStr t) s = Some t"
| "dec_string _ s = None"

text \<open>An \<open>int\<close> field takes an integer literal in the range of \<open>int64\<close>.\<close>

definition int_literal :: "string \<Rightarrow> int option" where
  "int_literal lit =
     (let neg = prefix ''-'' lit; ds = (if neg then tl lit else lit) in
      if ds = [] \<or> \<not> list_all is_digit ds then None
      else Some (if neg then - int (read_digits ds) else int (read_digits ds)))"

fun dec_int :: "64 word decoder" where
  "dec_int JNull i = Some i"
| "dec_int (JNum lit) i =
     (case int_literal lit of
        None \<Rightarrow> None
      | Some n \<Rightarrow> (if - (2 ^ 63) \<le> n \<and> n < 2 ^ 63 then Some (word_of_int n) else None))"
| "dec_int _ i = None"

text \<open>\<open>json.RawMessage\<close> keeps the bytes of the value; here it keeps the value.\<close>

definition dec_raw :: "json option decoder" where
  "dec_raw v old = Some (Some v)"

text \<open>
  An \<open>any\<close> target fails only on a number beyond the range of \<open>float64\<close>: from half a unit above
  the largest float on, it rounds to infinity, which \<open>strconv.ParseFloat\<close> reports.
\<close>

definition float_limit :: nat where
  "float_limit = 2 ^ 1024 - 2 ^ 970"

definition float_overflow :: "string \<Rightarrow> bool" where
  "float_overflow lit =
     (let s = (if prefix ''-'' lit then tl lit else lit);
          whole = takeWhile is_digit s; s1 = dropWhile is_digit s;
          frac = (if prefix ''.'' s1 then takeWhile is_digit (tl s1) else []);
          s2 = dropWhile (\<lambda>c. c \<noteq> CHR ''e'' \<and> c \<noteq> CHR ''E'') s1;
          e = tl s2; eneg = prefix ''-'' e; epos = prefix ''+'' e;
          k = read_digits (if eneg \<or> epos then tl e else e);
          m = read_digits (whole @ frac);
          up = (if eneg then 0 else k);
          down = length frac + (if eneg then k else 0)
      in float_limit * 10 ^ down \<le> m * 10 ^ up)"

fun any_ok :: "json \<Rightarrow> bool" where
  "any_ok (JNum lit) = (\<not> float_overflow lit)"
| "any_ok (JArr vs) = list_all any_ok vs"
| "any_ok (JObj kvs) = list_all (\<lambda>(k, v). any_ok v) kvs"
| "any_ok _ = True"

definition dec_any :: "json option decoder" where
  "dec_any v old = (if any_ok v then Some (Some v) else None)"

text \<open>Maps: each entry is decoded into a fresh zero element; \<open>null\<close> makes the map nil.\<close>

fun dec_entries :: "'a decoder \<Rightarrow> 'a \<Rightarrow> (string \<times> json) list \<Rightarrow> 'a go_map \<Rightarrow> 'a go_map option" where
  "dec_entries dec zero [] m = Some m"
| "dec_entries dec zero ((k, v) # kvs) m =
     (case dec v zero of
        None \<Rightarrow> None
      | Some x \<Rightarrow> dec_entries dec zero kvs (AList.update k x m))"

definition dec_map :: "'a decoder \<Rightarrow> 'a \<Rightarrow> 'a go_map option decoder" where
  "dec_map dec zero v m =
     (case v of
        JNull \<Rightarrow> Some None
      | JObj kvs \<Rightarrow> map_option Some (dec_entries dec zero kvs (map_entries m))
      | _ \<Rightarrow> None)"

text \<open>Slices: elements already there are decoded into, new ones start from zero.\<close>

fun dec_items :: "'a decoder \<Rightarrow> 'a \<Rightarrow> json list \<Rightarrow> 'a list \<Rightarrow> 'a list option" where
  "dec_items dec zero [] old = Some []"
| "dec_items dec zero (v # vs) old =
     (case dec v (case old of [] \<Rightarrow> zero | x # _ \<Rightarrow> x) of
        None \<Rightarrow> None
      | Some x \<Rightarrow> map_option (Cons x) (dec_items dec zero vs (tl old)))"

definition dec_slice :: "'a decoder \<Rightarrow> 'a \<Rightarrow> 'a list decoder" where
  "dec_slice dec zero v old =
     (case v of
        JNull \<Rightarrow> Some []
      | JArr vs \<Rightarrow> dec_items dec zero vs old
      | _ \<Rightarrow> None)"

text \<open>
  Struct fields are found by their exact name and else by their folded name.  Folding maps ASCII
  letters to upper case; of the other runes only U+017F and U+212A fold to ASCII.
\<close>

definition fold_byte :: "char \<Rightarrow> char" where
  "fold_byte c = (if in_range 0x61 0x7A c then char_of (byte c - 32) else c)"

function fold_name :: "string \<Rightarrow> string" where
  "fold_name s =
     (if s = [] then []
      else if prefix [CHR 0xC5, CHR 0xBF] s then CHR ''S'' # fold_name (drop 2 s)
      else if prefix [CHR 0xE2, CHR 0x84, CHR 0xAA] s then CHR ''K'' # fold_name (drop 3 s)
      else fold_byte (hd s) # fold_name (tl s))"
  by pat_completeness auto
termination
  by (relation "measure length") (auto intro: length_drop_less simp del: length_drop)

declare fold_name.simps [simp del]

type_synonym 'a fields = "(string \<times> 'a decoder) list"

definition find_field :: "'a fields \<Rightarrow> string \<Rightarrow> 'a decoder option" where
  "find_field fs k =
     (case map_of fs k of
        Some d \<Rightarrow> Some d
      | None \<Rightarrow> map_of (map (\<lambda>(n, d). (fold_name n, d)) fs) (fold_name k))"

fun dec_fields :: "'a fields \<Rightarrow> (string \<times> json) list \<Rightarrow> 'a \<Rightarrow> 'a option" where
  "dec_fields fs [] x = Some x"
| "dec_fields fs ((k, v) # kvs) x =
     (case find_field fs k of
        None \<Rightarrow> dec_fields fs kvs x
      | Some d \<Rightarrow> (case d v x of None \<Rightarrow> None | Some y \<Rightarrow> dec_fields fs kvs y))"

definition dec_struct :: "'a fields \<Rightarrow> 'a decoder" where
  "dec_struct fs v x =
     (case v of
        JNull \<Rightarrow> Some x
      | JObj kvs \<Rightarrow> dec_fields fs kvs x
      | _ \<Rightarrow> None)"

definition at_field :: "('s \<Rightarrow> 'a) \<Rightarrow> ('a \<Rightarrow> 's \<Rightarrow> 's) \<Rightarrow> 'a decoder \<Rightarrow> 's decoder" where
  "at_field get put dec v s = map_option (\<lambda>x. put x s) (dec v (get s))"

text \<open>\<open>json.Unmarshal\<close> into a variable that holds \<open>zero\<close>.\<close>

definition unmarshal :: "'a decoder \<Rightarrow> 'a \<Rightarrow> string \<Rightarrow> 'a option" where
  "unmarshal dec zero body =
     (case parse_json body of None \<Rightarrow> None | Some v \<Rightarrow> dec v zero)"

lemma dec_entries_wf:
  "dec_entries dec zero kvs m = Some m' \<Longrightarrow> go_map_wf m \<Longrightarrow> go_map_wf m'"
  by (induction kvs arbitrary: m) (auto simp: go_map_wf_update split: option.splits)

lemma dec_map_wf:
  "dec_map dec zero v m = Some (Some m') \<Longrightarrow> go_map_wf (map_entries m) \<Longrightarrow> go_map_wf m'"
  by (auto simp: dec_map_def split: json.splits dest: dec_entries_wf)

lemma find_field_exact: "map_of fs k = Some d \<Longrightarrow> find_field fs k = Some d"
  by (simp add: find_field_def)

lemma unmarshal_marshal:
  assumes "plain_numbers v" and "json_depth v \<le> max_nesting_depth"
  shows "unmarshal dec zero (marshal v) = dec (json_clean v) zero"
  by (simp add: unmarshal_def parse_marshal [OF assms])

section \<open>Properties\<close>

text \<open>
  JSON written by the operator reads back as it was: parsing the marshalled form of a value, with
  integers as its only numbers and nested at most as deep as the reader allows, gives the value,
  its strings coerced to valid UTF-8.
\<close>

theorem json_roundtrip:
  assumes "plain_numbers v" and "json_depth v \<le> max_nesting_depth"
  shows "parse_json (marshal v) = Some (json_clean v)"
  using assms by (rule parse_marshal)

text \<open>
  Reading JSON never stops for lack of fuel: a text is accepted exactly when the recursive
  descent accepts it at all, with some number of steps, up to trailing white space and the limit
  on nesting.
\<close>

theorem json_fuel_enough:
  "parse_json s = Some v \<longleftrightarrow>
     (\<exists>n r. parse_value n s = Some (v, r) \<and> skip_space r = []) \<and> json_depth v \<le> max_nesting_depth"
  by (rule parse_json_fuel)

end
