(* ===== verification/GoErrors.thy ===== *)
theory GoErrors
  imports GoStrings
begin

text \<open>
  Error values.  The sentinels and \<open>ValidationError\<close> are those of internal/opnsense/client.go;
  \<open>Wrapf pre e post\<close> is \<open>fmt.Errorf\<close> with one \<open>%w\<close> (the text before it, the wrapped error, the text
  after it), \<open>Errorf\<close> is \<open>fmt.Errorf\<close> without \<open>%w\<close>.  \<open>LibError\<close> is an error of the standard library by
  its text, \<open>StatusError\<close> an error of the Kubernetes API machinery by its reason and text.
\<close>

datatype err =
    ErrAliasNotFound
  | ErrFirewallRuleNotFound
  | ErrValidationFailed
  | ErrUnexpectedResponse
  | ValidationError (FieldErrors: "string go_map option")
  | Wrapf string err string
  | Errorf string
  | LibError string
  | StatusError string string

fun unwrap :: "err \<Rightarrow> err option" where
  "unwrap (ValidationError m) = Some ErrValidationFailed"
| "unwrap (Wrapf pre e post) = Some e"
| "unwrap _ = None"

text \<open>
  \<open>errors.Is\<close> walks the chain.  The code asks only for sentinels, for which identity and equality
  of values agree.
\<close>

fun errors_Is :: "err \<Rightarrow> err \<Rightarrow> bool" where
  "errors_Is (Wrapf pre e post) t = (Wrapf pre e post = t \<or> errors_Is e t)"
| "errors_Is (ValidationError m) t = (ValidationError m = t \<or> ErrValidationFailed = t)"
| "errors_Is e t = (e = t)"

text \<open>\<open>errors.As\<close> for the target \<open>**ValidationError\<close>.\<close>

fun AsValidationError :: "err \<Rightarrow> string go_map option option" where
  "AsValidationError (ValidationError m) = Some m"
| "AsValidationError (Wrapf pre e post) = AsValidationError e"
| "AsValidationError _ = None"

text \<open>
  \<open>ValidationError.Error\<close>: the keys, collected in some iteration order of the map and then sorted
  bytewise, each with its message.
\<close>

definition validation_error_text :: "string go_map option \<Rightarrow> string" where
  "validation_error_text m =
     (if map_entries m = [] then ''opnsense validation failed''
      else
        (let keys = sort (map fst (map_entries m));
             parts = map (\<lambda>k. k @ '': '' @ (case map_of (map_entries m) k of Some v \<Rightarrow> v | None \<Rightarrow> [])) keys
         in ''opnsense validation failed: '' @ Join parts '', ''))"

fun Error :: "err \<Rightarrow> string" where
  "Error ErrAliasNotFound = ''opnsense alias not found''"
| "Error ErrFirewallRuleNotFound = ''opnsense firewall rule not found''"
| "Error ErrValidationFailed = ''opnsense validation failed''"
| "Error ErrUnexpectedResponse = ''unexpected opnsense response''"
| "Error (ValidationError m) = validation_error_text m"
| "Error (Wrapf pre e post) = pre @ Error e @ post"
| "Error (Errorf s) = s"
| "Error (LibError s) = s"
| "Error (StatusError reason s) = s"

definition sentinels :: "err set" where
  "sentinels = {ErrAliasNotFound, ErrFirewallRuleNotFound, ErrValidationFailed, ErrUnexpectedResponse}"

text \<open>The chain a wrapped error is found along.\<close>

lemma errors_Is_unwrap:
  "errors_Is e t \<longleftrightarrow> e = t \<or> (\<exists>e'. unwrap e = Some e' \<and> errors_Is e' t)"
  by (cases e) (auto split: err.splits)

text \<open>An error chain ends in one root cause, so it matches at most one sentinel.\<close>

fun root_cause :: "err \<Rightarrow> err" where
  "root_cause (Wrapf pre e post) = root_cause e"
| "root_cause (ValidationError m) = ErrValidationFailed"
| "root_cause e = e"

lemma errors_Is_sentinel: "t \<in> sentinels \<Longrightarrow> errors_Is e t \<longleftrightarrow> root_cause e = t"
  by (induction e) (auto simp: sentinels_def)

lemma errors_Is_unique:
  "s \<in> sentinels \<Longrightarrow> t \<in> sentinels \<Longrightarrow> errors_Is e s \<Longrightarrow> errors_Is e t \<Longrightarrow> s = t"
  by (simp add: errors_Is_sentinel)

lemma AsValidationError_Is: "AsValidationError e = Some m \<Longrightarrow> errors_Is e ErrValidationFailed"
  by (induction e) auto

text \<open>The text does not depend on the order in which the map is enumerated.\<close>

lemma validation_error_text_perm:
  assumes "go_map_wf xs" and "mset xs = mset ys"
  shows "validation_error_text (Some xs) = validation_error_text (Some ys)"
proof -
  have "map_of xs = map_of ys"
    using assms by (intro map_of_perm) (simp_all add: go_map_wf_def)
  moreover have "sort (map fst xs) = sort (map fst ys)"
    using assms(2) by (metis mset_map properties_for_sort sorted_sort mset_sort)
  moreover have "xs = [] \<longleftrightarrow> ys = []"
    using assms(2) by (metis mset_zero_iff)
  ultimately show ?thesis
    by (simp add: validation_error_text_def)
qed

section \<open>Properties\<close>

text \<open>
  The text of a validation error does not depend on the order in which the map of its fields is
  iterated.
\<close>

theorem error_text_stable:
  assumes "go_map_wf xs" and "mset xs = mset ys"
  shows "Error (ValidationError (Some xs)) = Error (ValidationError (Some ys))"
  using validation_error_text_perm [OF assms] by simp

text \<open>
  An error matches at most one of the four sentinels, so the order in which the callers ask for
  them does not matter.
\<close>

theorem sentinels_exclusive:
  assumes "s \<in> sentinels" and "t \<in> sentinels" and "errors_Is e s" and "errors_Is e t"
  shows "s = t"
  using assms by (rule errors_Is_unique)

end
