(* ===== verification/ApiTypes.thy ===== *)
theory ApiTypes
  imports GoJSON GoErrors
begin

text \<open>
  The custom resources of api/v1alpha1 (alias_types.go, firewallrule_types.go,
  opnsenseconnection_types.go) and the little of the Kubernetes types they build on: \<open>ObjectMeta\<close> and
  \<open>Condition\<close> with the fields the controllers read or write, and \<open>Secret\<close> with its data.

  Field names carry a prefix for their struct.
\<close>

section \<open>Kubernetes types\<close>

record NamespacedName =
  nn_Namespace :: string
  nn_Name :: string

record ObjectMeta =
  om_Name :: string
  om_Namespace :: string
  om_Generation :: "64 word"
  om_DeletionTimestamp :: "int option"
  om_Finalizers :: "string list"

record Condition =
  cond_Type :: string
  cond_Status :: string
  cond_Reason :: string
  cond_Message :: string
  cond_ObservedGeneration :: "64 word"

record Secret =
  sec_Meta :: ObjectMeta
  sec_Data :: "string go_map option"

section \<open>OPNsenseConnection\<close>

record SecretReference =
  sr_Name :: string
  sr_Namespace :: string

record CredentialsSpec =
  cred_SecretRef :: SecretReference

record TLSSpec =
  tls_InsecureSkipVerify :: bool
  tls_CASecretRef :: "SecretReference option"

record OPNsenseConnectionSpec =
  cs_URL :: string
  cs_Credentials :: CredentialsSpec
  cs_TLS :: "TLSSpec option"

record OPNsenseConnectionStatus =
  cst_Conditions :: "Condition list"

record OPNsenseConnection =
  conn_Meta :: ObjectMeta
  conn_Spec :: OPNsenseConnectionSpec
  conn_Status :: OPNsenseConnectionStatus

section \<open>Alias\<close>

record OPNsenseConnectionReference =
  ref_Name :: string

record AliasSpec =
  as_ConnectionRef :: OPNsenseConnectionReference
  as_Name :: string
  as_Type :: string
  as_Entries :: "string list"
  as_Description :: string
  as_Enabled :: bool

record AliasStatus =
  ast_UUID :: string
  ast_ObservedGeneration :: "64 word"
  ast_Conditions :: "Condition list"

record AliasCR =
  al_Meta :: ObjectMeta
  al_Spec :: AliasSpec
  al_Status :: AliasStatus

section \<open>FirewallRule\<close>

record FirewallRuleEndpoint =
  ep_Net :: string
  ep_Not :: bool
  ep_Port :: string

record FirewallRuleSpec =
  rs_ConnectionRef :: OPNsenseConnectionReference
  rs_Enabled :: bool
  rs_Action :: string
  rs_Direction :: string
  rs_Interface :: string
  rs_IPProtocol :: string
  rs_Protocol :: string
  rs_Source :: FirewallRuleEndpoint
  rs_Destination :: FirewallRuleEndpoint
  rs_Sequence :: "32 word option"
  rs_Quick :: bool
  rs_Log :: bool
  rs_Description :: string

record FirewallRuleStatus =
  rst_UUID :: string
  rst_Sequence :: string
  rst_ObservedGeneration :: "64 word"
  rst_Conditions :: "Condition list"

record FirewallRuleCR =
  fr_Meta :: ObjectMeta
  fr_Spec :: FirewallRuleSpec
  fr_Status :: FirewallRuleStatus

section \<open>Admission\<close>

text \<open>
  The validation markers of the types, which the API server enforces on every object it stores:
  enumerations and minimal lengths.
\<close>

definition AliasSpec_valid :: "AliasSpec \<Rightarrow> bool" where
  "AliasSpec_valid s \<longleftrightarrow>
     ref_Name (as_ConnectionRef s) \<noteq> [] \<and> as_Name s \<noteq> [] \<and> as_Type s \<noteq> [] \<and> as_Entries s \<noteq> []"

section \<open>Serialisation of the specs\<close>

text \<open>
  The JSON form of a spec by its struct tags: \<open>omitempty\<close> leaves out an empty string, \<open>false\<close> and a
  nil pointer.
\<close>

definition omit_string :: "string \<Rightarrow> string \<Rightarrow> (string \<times> json) list" where
  "omit_string k s = (if s = [] then [] else [(k, JStr s)])"

definition omit_bool :: "string \<Rightarrow> bool \<Rightarrow> (string \<times> json) list" where
  "omit_bool k b = (if b then [(k, JBool b)] else [])"

definition omit_int32 :: "string \<Rightarrow> 32 word option \<Rightarrow> (string \<times> json) list" where
  "omit_int32 k p = (case p of None \<Rightarrow> [] | Some w \<Rightarrow> [(k, JNum (show_int (sint w)))])"

definition ConnectionReference_json :: "OPNsenseConnectionReference \<Rightarrow> json" where
  "ConnectionReference_json r = JObj [(''name'', JStr (ref_Name r))]"

definition Endpoint_json :: "FirewallRuleEndpoint \<Rightarrow> json" where
  "Endpoint_json e =
     JObj ([(''net'', JStr (ep_Net e))] @ omit_bool ''not'' (ep_Not e)
           @ omit_string ''port'' (ep_Port e))"

definition AliasSpec_json :: "AliasSpec \<Rightarrow> json" where
  "AliasSpec_json s =
     JObj ([(''connectionRef'', ConnectionReference_json (as_ConnectionRef s)),
            (''name'', JStr (as_Name s)), (''type'', JStr (as_Type s)),
            (''entries'', JArr (map JStr (as_Entries s)))]
           @ omit_string ''description'' (as_Description s)
           @ omit_bool ''enabled'' (as_Enabled s))"

definition FirewallRuleSpec_members :: "FirewallRuleSpec \<Rightarrow> (string \<times> json) list" where
  "FirewallRuleSpec_members s =
     ([(''connectionRef'', ConnectionReference_json (rs_ConnectionRef s))]
           @ omit_bool ''enabled'' (rs_Enabled s)
           @ [(''action'', JStr (rs_Action s)), (''direction'', JStr (rs_Direction s))]
           @ omit_string ''interface'' (rs_Interface s)
           @ omit_string ''ipProtocol'' (rs_IPProtocol s)
           @ omit_string ''protocol'' (rs_Protocol s)
           @ [(''source'', Endpoint_json (rs_Source s)),
              (''destination'', Endpoint_json (rs_Destination s))]
           @ omit_int32 ''sequence'' (rs_Sequence s)
           @ omit_bool ''quick'' (rs_Quick s)
           @ omit_bool ''log'' (rs_Log s)
           @ omit_string ''description'' (rs_Description s))"

definition FirewallRuleSpec_json :: "FirewallRuleSpec \<Rightarrow> json" where
  "FirewallRuleSpec_json s = JObj (FirewallRuleSpec_members s)"

text \<open>
  The \<open>kubebuilder:default\<close> markers become defaults of the CRD schema, which the API server fills in
  where a request leaves the field out.
\<close>

definition set_default :: "string \<times> json \<Rightarrow> (string \<times> json) list \<Rightarrow> (string \<times> json) list" where
  "set_default d kvs = (if fst d \<in> set (map fst kvs) then kvs else kvs @ [d])"

definition AliasSpec_defaults :: "(string \<times> json) list" where
  "AliasSpec_defaults = [(''enabled'', JBool True)]"

definition FirewallRuleSpec_defaults :: "(string \<times> json) list" where
  "FirewallRuleSpec_defaults =
     [(''enabled'', JBool True), (''ipProtocol'', JStr ''inet''), (''protocol'', JStr ''any''),
      (''quick'', JBool True)]"

fun apply_defaults :: "(string \<times> json) list \<Rightarrow> json \<Rightarrow> json" where
  "apply_defaults ds (JObj kvs) = JObj (fold set_default ds kvs)"
| "apply_defaults ds v = v"

text \<open>Reading a stored spec into the Go struct.\<close>

fun dec_bool :: "bool decoder" where
  "dec_bool JNull b = Some b"
| "dec_bool (JBool c) b = Some c"
| "dec_bool _ b = None"

fun dec_int32_ptr :: "32 word option decoder" where
  "dec_int32_ptr JNull p = Some None"
| "dec_int32_ptr (JNum lit) p =
     (case int_literal lit of
        None \<Rightarrow> None
      | Some n \<Rightarrow> (if - (2 ^ 31) \<le> n \<and> n < 2 ^ 31 then Some (Some (word_of_int n)) else None))"
| "dec_int32_ptr _ p = None"

definition dec_ConnectionReference :: "OPNsenseConnectionReference decoder" where
  "dec_ConnectionReference =
     dec_struct [(''name'', at_field ref_Name (\<lambda>x. ref_Name_update (\<lambda>_. x)) dec_string)]"

definition dec_Endpoint :: "FirewallRuleEndpoint decoder" where
  "dec_Endpoint =
     dec_struct
       [(''net'', at_field ep_Net (\<lambda>x. ep_Net_update (\<lambda>_. x)) dec_string),
        (''not'', at_field ep_Not (\<lambda>x. ep_Not_update (\<lambda>_. x)) dec_bool),
        (''port'', at_field ep_Port (\<lambda>x. ep_Port_update (\<lambda>_. x)) dec_string)]"

definition dec_AliasSpec :: "AliasSpec decoder" where
  "dec_AliasSpec =
     dec_struct
       [(''connectionRef'', at_field as_ConnectionRef (\<lambda>x. as_ConnectionRef_update (\<lambda>_. x))
           dec_ConnectionReference),
        (''name'', at_field as_Name (\<lambda>x. as_Name_update (\<lambda>_. x)) dec_string),
        (''type'', at_field as_Type (\<lambda>x. as_Type_update (\<lambda>_. x)) dec_string),
        (''entries'', at_field as_Entries (\<lambda>x. as_Entries_update (\<lambda>_. x)) (dec_slice dec_string [])),
        (''description'', at_field as_Description (\<lambda>x. as_Description_update (\<lambda>_. x)) dec_string),
        (''enabled'', at_field as_Enabled (\<lambda>x. as_Enabled_update (\<lambda>_. x)) dec_bool)]"

definition FirewallRuleSpec_fields :: "FirewallRuleSpec fields" where
  "FirewallRuleSpec_fields =
       [(''connectionRef'', at_field rs_ConnectionRef (\<lambda>x. rs_ConnectionRef_update (\<lambda>_. x))
           dec_ConnectionReference),
        (''enabled'', at_field rs_Enabled (\<lambda>x. rs_Enabled_update (\<lambda>_. x)) dec_bool),
        (''action'', at_field rs_Action (\<lambda>x. rs_Action_update (\<lambda>_. x)) dec_string),
        (''direction'', at_field rs_Direction (\<lambda>x. rs_Direction_update (\<lambda>_. x)) dec_string),
        (''interface'', at_field rs_Interface (\<lambda>x. rs_Interface_update (\<lambda>_. x)) dec_string),
        (''ipProtocol'', at_field rs_IPProtocol (\<lambda>x. rs_IPProtocol_update (\<lambda>_. x)) dec_string),
        (''protocol'', at_field rs_Protocol (\<lambda>x. rs_Protocol_update (\<lambda>_. x)) dec_string),
        (''source'', at_field rs_Source (\<lambda>x. rs_Source_update (\<lambda>_. x)) dec_Endpoint),
        (''destination'', at_field rs_Destination (\<lambda>x. rs_Destination_update (\<lambda>_. x)) dec_Endpoint),
        (''sequence'', at_field rs_Sequence (\<lambda>x. rs_Sequence_update (\<lambda>_. x)) dec_int32_ptr),
        (''quick'', at_field rs_Quick (\<lambda>x. rs_Quick_update (\<lambda>_. x)) dec_bool),
        (''log'', at_field rs_Log (\<lambda>x. rs_Log_update (\<lambda>_. x)) dec_bool),
        (''description'', at_field rs_Description (\<lambda>x. rs_Description_update (\<lambda>_. x)) dec_string)]"

definition dec_FirewallRuleSpec :: "FirewallRuleSpec decoder" where
  "dec_FirewallRuleSpec = dec_struct FirewallRuleSpec_fields"

definition zero_ref :: OPNsenseConnectionReference where
  "zero_ref = \<lparr>ref_Name = []\<rparr>"

definition zero_AliasSpec :: AliasSpec where
  "zero_AliasSpec =
     \<lparr>as_ConnectionRef = zero_ref, as_Name = [], as_Type = [], as_Entries = [],
      as_Description = [], as_Enabled = False\<rparr>"

definition zero_endpoint :: FirewallRuleEndpoint where
  "zero_endpoint = \<lparr>ep_Net = [], ep_Not = False, ep_Port = []\<rparr>"

definition zero_FirewallRuleSpec :: FirewallRuleSpec where
  "zero_FirewallRuleSpec =
     \<lparr>rs_ConnectionRef = zero_ref, rs_Enabled = False, rs_Action = [], rs_Direction = [],
      rs_Interface = [], rs_IPProtocol = [], rs_Protocol = [], rs_Source = zero_endpoint,
      rs_Destination = zero_endpoint, rs_Sequence = None, rs_Quick = False, rs_Log = False,
      rs_Description = []\<rparr>"

text \<open>The spec that is stored when the controller writes a whole object back.\<close>

definition AliasSpec_stored :: "AliasSpec \<Rightarrow> AliasSpec option" where
  "AliasSpec_stored s =
     dec_AliasSpec (apply_defaults AliasSpec_defaults (AliasSpec_json s)) zero_AliasSpec"

definition FirewallRuleSpec_stored :: "FirewallRuleSpec \<Rightarrow> FirewallRuleSpec option" where
  "FirewallRuleSpec_stored s =
     dec_FirewallRuleSpec
       (apply_defaults FirewallRuleSpec_defaults (FirewallRuleSpec_json s)) zero_FirewallRuleSpec"

section \<open>Decoding what was encoded\<close>

lemma dec_fields_append:
  "dec_fields fs (xs @ ys) x =
     (case dec_fields fs xs x of None \<Rightarrow> None | Some y \<Rightarrow> dec_fields fs ys y)"
  by (induction xs arbitrary: x) (auto split: option.splits)

lemma dec_fields_one:
  assumes "find_field fs k = Some d"
  shows "dec_fields fs [(k, v)] x = d v x"
  using assms by (simp split: option.splits)

text \<open>Leaving a field out and writing it down come to the same when the target holds its zero.\<close>

lemma dec_fields_omit_bool:
  assumes "find_field fs k = Some (at_field get put dec_bool)" and "put False x = x"
  shows "dec_fields fs (omit_bool k b) x = Some (put b x)"
  using assms by (cases b) (simp_all add: omit_bool_def at_field_def)

lemma dec_fields_omit_string:
  assumes "find_field fs k = Some (at_field get put dec_string)" and "put [] x = x"
  shows "dec_fields fs (omit_string k s) x = Some (put s x)"
  using assms by (simp add: omit_string_def at_field_def)

lemma list_all_show_nat: "list_all is_digit (show_nat n)"
proof (induction n rule: show_nat.induct)
  case (1 n)
  have "is_digit (digit_char d)" if "d < 10" for d
    using byte_digit_char [OF that] that by (simp add: is_digit_def in_range_def)
  with 1 show ?case by (subst show_nat.simps) simp
qed

lemma int_literal_show_int: "int_literal (show_int i) = Some i"
proof -
  have "\<not> prefix ''-'' (show_nat n)" for n
    using show_nat_not_minus [of n] by (auto simp: prefix_def)
  then show ?thesis
    by (auto simp: int_literal_def show_int_def list_all_show_nat read_digits_show_nat
        show_nat_nonempty)
qed

lemma dec_fields_omit_int32:
  assumes "find_field fs k = Some (at_field get put dec_int32_ptr)" and "put None x = x"
  shows "dec_fields fs (omit_int32 k p) x = Some (put p x)"
proof (cases p)
  case (Some w)
  have "- (2 ^ 31) \<le> sint w" "sint w < 2 ^ 31"
    using sint_greater_eq [of w] sint_lt [of w] by simp_all
  with Some assms show ?thesis
    by (simp add: omit_int32_def at_field_def int_literal_show_int)
qed (use assms in \<open>simp add: omit_int32_def\<close>)

lemmas dec_omit = dec_fields_omit_bool dec_fields_omit_string dec_fields_omit_int32

text \<open>A field is written down unless it is zero.\<close>

lemma mem_omit [simp]:
  "x \<in> fst ` set (omit_bool k b) \<longleftrightarrow> b \<and> x = k"
  "x \<in> fst ` set (omit_string k s) \<longleftrightarrow> s \<noteq> [] \<and> x = k"
  "x \<in> fst ` set (omit_int32 k p) \<longleftrightarrow> p \<noteq> None \<and> x = k"
  by (cases b; cases "s = []"; cases p; auto simp: omit_bool_def omit_string_def omit_int32_def)+

lemma dec_Endpoint_json: "dec_Endpoint (Endpoint_json e) zero_endpoint = Some e"
  by (simp add: dec_Endpoint_def Endpoint_json_def dec_struct_def dec_fields_append dec_omit
      find_field_def zero_endpoint_def at_field_def)

lemma dec_ConnectionReference_json:
  "dec_ConnectionReference (ConnectionReference_json r) zero_ref = Some r"
  by (simp add: dec_ConnectionReference_def ConnectionReference_json_def dec_struct_def
      find_field_def zero_ref_def at_field_def)

lemma dec_items_strings: "dec_items dec_string [] (map JStr xs) [] = Some xs"
  by (induction xs) simp_all

text \<open>
  Without the defaults the specs survive; with them, a false \<open>enabled\<close> or \<open>quick\<close> does not.
\<close>

lemma AliasSpec_roundtrip: "dec_AliasSpec (AliasSpec_json s) zero_AliasSpec = Some s"
  by (simp add: dec_AliasSpec_def AliasSpec_json_def dec_struct_def dec_fields_append dec_omit
      find_field_def zero_AliasSpec_def at_field_def dec_ConnectionReference_json
      dec_slice_def dec_items_strings)

lemma dec_FirewallRuleSpec_members:
  "dec_fields FirewallRuleSpec_fields (FirewallRuleSpec_members s) zero_FirewallRuleSpec = Some s"
  by (simp add: FirewallRuleSpec_fields_def FirewallRuleSpec_members_def dec_fields_append
      dec_omit find_field_def zero_FirewallRuleSpec_def at_field_def
      dec_ConnectionReference_json dec_Endpoint_json)

lemma FirewallRuleSpec_roundtrip:
  "dec_FirewallRuleSpec (FirewallRuleSpec_json s) zero_FirewallRuleSpec = Some s"
  by (simp add: dec_FirewallRuleSpec_def FirewallRuleSpec_json_def dec_struct_def
      dec_FirewallRuleSpec_members)

lemma fold_set_default:
  "distinct (map fst ds) \<Longrightarrow>
     fold set_default ds kvs = kvs @ filter (\<lambda>d. fst d \<notin> set (map fst kvs)) ds"
proof (induction ds arbitrary: kvs)
  case (Cons d ds)
  then have "fst e \<noteq> fst d" if "e \<in> set ds" for e
    using that by (metis distinct.simps(2) imageI list.set_map list.simps(9))
  then have "filter (\<lambda>e. fst e \<notin> set (map fst (set_default d kvs))) ds
      = filter (\<lambda>e. fst e \<notin> set (map fst kvs)) ds"
    by (intro filter_cong) (simp_all add: set_default_def)
  with Cons show ?case
    by (simp add: set_default_def)
qed simp

lemma apply_defaults_obj:
  "distinct (map fst ds) \<Longrightarrow>
     apply_defaults ds (JObj kvs) = JObj (kvs @ filter (\<lambda>d. fst d \<notin> set (map fst kvs)) ds)"
  by (simp only: apply_defaults.simps fold_set_default)

lemma AliasSpec_stored_eq:
  "AliasSpec_stored s = Some (s\<lparr>as_Enabled := True\<rparr>)"
  by (simp add: AliasSpec_stored_def AliasSpec_defaults_def AliasSpec_json_def dec_AliasSpec_def
      apply_defaults_obj dec_struct_def dec_fields_append dec_omit find_field_def
      zero_AliasSpec_def at_field_def dec_ConnectionReference_json dec_slice_def dec_items_strings
      del: apply_defaults.simps)

lemma find_defaulted_fields:
  "find_field FirewallRuleSpec_fields ''enabled''
     = Some (at_field rs_Enabled (\<lambda>x. rs_Enabled_update (\<lambda>_. x)) dec_bool)"
  "find_field FirewallRuleSpec_fields ''quick''
     = Some (at_field rs_Quick (\<lambda>x. rs_Quick_update (\<lambda>_. x)) dec_bool)"
  "find_field FirewallRuleSpec_fields ''ipProtocol''
     = Some (at_field rs_IPProtocol (\<lambda>x. rs_IPProtocol_update (\<lambda>_. x)) dec_string)"
  "find_field FirewallRuleSpec_fields ''protocol''
     = Some (at_field rs_Protocol (\<lambda>x. rs_Protocol_update (\<lambda>_. x)) dec_string)"
  by (simp_all add: find_field_def FirewallRuleSpec_fields_def)

lemma FirewallRuleSpec_stored_eq:
  "FirewallRuleSpec_stored s =
     Some (s\<lparr>rs_Enabled := True, rs_Quick := True,
             rs_IPProtocol := (if rs_IPProtocol s = [] then ''inet'' else rs_IPProtocol s),
             rs_Protocol := (if rs_Protocol s = [] then ''any'' else rs_Protocol s)\<rparr>)"
proof -
  let ?absent = "\<lambda>d. fst d \<notin> set (map fst (FirewallRuleSpec_members s))"
  have "FirewallRuleSpec_stored s =
      dec_fields FirewallRuleSpec_fields (filter ?absent FirewallRuleSpec_defaults) s"
    by (simp add: FirewallRuleSpec_stored_def dec_FirewallRuleSpec_def FirewallRuleSpec_json_def
        apply_defaults_obj FirewallRuleSpec_defaults_def dec_struct_def dec_fields_append
        dec_FirewallRuleSpec_members del: apply_defaults.simps)
  also have "filter ?absent FirewallRuleSpec_defaults =
      (if rs_Enabled s then [] else [(''enabled'', JBool True)]) @
      (if rs_IPProtocol s \<noteq> [] then [] else [(''ipProtocol'', JStr ''inet'')]) @
      (if rs_Protocol s \<noteq> [] then [] else [(''protocol'', JStr ''any'')]) @
      (if rs_Quick s then [] else [(''quick'', JBool True)])"
    by (simp add: FirewallRuleSpec_defaults_def FirewallRuleSpec_members_def image_Un)
  finally show ?thesis
    by (cases s) (auto simp: find_defaulted_fields at_field_def dec_fields_append)
qed

section \<open>Properties\<close>

text \<open>
  A spec that is written and read without the defaults of the schema is unchanged, for aliases
  and rules, with every optional field set or left out.
\<close>

theorem specs_roundtrip:
  "dec_AliasSpec (AliasSpec_json a) zero_AliasSpec = Some a \<and>
   dec_FirewallRuleSpec (FirewallRuleSpec_json r) zero_FirewallRuleSpec = Some r"
  using AliasSpec_roundtrip FirewallRuleSpec_roundtrip by blast

text \<open>
  Writing a whole object through the typed client does not store the spec it holds: \<open>enabled\<close> of
  an alias, and \<open>enabled\<close> and \<open>quick\<close> of a rule, come back true, because a false is omitted and the
  schema's default fills it in.  Nothing else changes, but for an empty protocol or IP protocol.
\<close>

theorem stored_specs:
  "AliasSpec_stored a = Some (a\<lparr>as_Enabled := True\<rparr>) \<and>
   FirewallRuleSpec_stored r =
     Some (r\<lparr>rs_Enabled := True, rs_Quick := True,
             rs_IPProtocol := (if rs_IPProtocol r = [] then ''inet'' else rs_IPProtocol r),
             rs_Protocol := (if rs_Protocol r = [] then ''any'' else rs_Protocol r)\<rparr>)"
  using AliasSpec_stored_eq FirewallRuleSpec_stored_eq by blast

end
