(* ===== verification/Effects.thy ===== *)
theory Effects
  imports ApiTypes
begin

text \<open>
  The interaction of the operator with its environment.

  An operation with effects is a value of type \<open>'a prog\<close>: it returns, or it makes one call to the
  environment and goes on with the reply.  The calls are the HTTP exchange of \<open>doJSON\<close>, the
  reads and writes of the controller-runtime client, and the iteration order of a Go map, which
  the language leaves open.  \<open>runs p tr x\<close> says that \<open>p\<close> can return \<open>x\<close> after the calls and replies
  in \<open>tr\<close>; the replies are not restricted, so a theorem about all runs covers every behaviour of
  OPNsense, the network and the API server.  \<open>exec E p w\<close> is the one run in which the
  environment \<open>E\<close> answers from its state \<open>w\<close>.

  Library code that is not part of the repository is the record \<open>golib\<close>, an argument of the
  definitions that use it; what it is documented to do is stated by the predicates at the end.
\<close>

section \<open>Calls and replies\<close>

datatype http_method = GET | POST

record request =
  rq_Method :: http_method
  rq_URL :: string
  rq_User :: string
  rq_Password :: string
  rq_Accept :: string
  rq_ContentType :: "string option"
  rq_Body :: "string option"

text \<open>The transport of an \<open>http.Client\<close>: the default one, one with its own root CAs, or one that
  verifies nothing.\<close>

datatype http_client = DefaultClient | RootCAsClient string | InsecureClient

text \<open>How an exchange ends: the request cannot be built, it cannot be sent, the body cannot be
  read, or there is a response with a status code and a body.\<close>

datatype http_result =
    RequestError string
  | TransportError string
  | ReadError string
  | Response int string

datatype 'a prog =
    Return 'a
  | HTTP http_client request "http_result \<Rightarrow> 'a prog"
  | RangeKeys "string list" "string list \<Rightarrow> 'a prog"
  | GetAliasCR NamespacedName "err + AliasCR \<Rightarrow> 'a prog"
  | GetFirewallRuleCR NamespacedName "err + FirewallRuleCR \<Rightarrow> 'a prog"
  | GetConnection NamespacedName "err + OPNsenseConnection \<Rightarrow> 'a prog"
  | GetSecret NamespacedName "err + Secret \<Rightarrow> 'a prog"
  | UpdateAliasCR AliasCR "err option \<Rightarrow> 'a prog"
  | UpdateFirewallRuleCR FirewallRuleCR "err option \<Rightarrow> 'a prog"
  | StatusUpdateAlias AliasCR "err option \<Rightarrow> 'a prog"
  | StatusUpdateFirewallRule FirewallRuleCR "err option \<Rightarrow> 'a prog"
  | StatusUpdateConnection OPNsenseConnection "err option \<Rightarrow> 'a prog"

datatype event =
    EHTTP http_client request http_result
  | ERange "string list" "string list"
  | EGetAlias NamespacedName "err + AliasCR"
  | EGetFirewallRule NamespacedName "err + FirewallRuleCR"
  | EGetConnection NamespacedName "err + OPNsenseConnection"
  | EGetSecret NamespacedName "err + Secret"
  | EUpdateAlias AliasCR "err option"
  | EUpdateFirewallRule FirewallRuleCR "err option"
  | EStatusAlias AliasCR "err option"
  | EStatusFirewallRule FirewallRuleCR "err option"
  | EStatusConnection OPNsenseConnection "err option"

section \<open>Sequencing\<close>

primrec bind :: "'a prog \<Rightarrow> ('a \<Rightarrow> 'b prog) \<Rightarrow> 'b prog" where
  "bind (Return x) f = f x"
| "bind (HTTP c q k) f = HTTP c q (\<lambda>r. bind (k r) f)"
| "bind (RangeKeys ks k) f = RangeKeys ks (\<lambda>r. bind (k r) f)"
| "bind (GetAliasCR n k) f = GetAliasCR n (\<lambda>r. bind (k r) f)"
| "bind (GetFirewallRuleCR n k) f = GetFirewallRuleCR n (\<lambda>r. bind (k r) f)"
| "bind (GetConnection n k) f = GetConnection n (\<lambda>r. bind (k r) f)"
| "bind (GetSecret n k) f = GetSecret n (\<lambda>r. bind (k r) f)"
| "bind (UpdateAliasCR x k) f = UpdateAliasCR x (\<lambda>r. bind (k r) f)"
| "bind (UpdateFirewallRuleCR x k) f = UpdateFirewallRuleCR x (\<lambda>r. bind (k r) f)"
| "bind (StatusUpdateAlias x k) f = StatusUpdateAlias x (\<lambda>r. bind (k r) f)"
| "bind (StatusUpdateFirewallRule x k) f = StatusUpdateFirewallRule x (\<lambda>r. bind (k r) f)"
| "bind (StatusUpdateConnection x k) f = StatusUpdateConnection x (\<lambda>r. bind (k r) f)"

text \<open>\<open>x, err := p; if err != nil { return err }; f x\<close>\<close>

definition attempt :: "(err + 'a) prog \<Rightarrow> ('a \<Rightarrow> (err + 'b) prog) \<Rightarrow> (err + 'b) prog" where
  "attempt p f = bind p (\<lambda>r. case r of Inl e \<Rightarrow> Return (Inl e) | Inr x \<Rightarrow> f x)"

lemma bind_assoc: "bind (bind p f) g = bind p (\<lambda>x. bind (f x) g)"
  by (induction p) simp_all

lemma bind_Return [simp]: "bind p Return = p"
  by (induction p) simp_all

lemma attempt_simps [simp]:
  "attempt (Return (Inl e)) f = Return (Inl e)" "attempt (Return (Inr x)) f = f x"
  by (simp_all add: attempt_def)

section \<open>Runs\<close>

inductive runs :: "'a prog \<Rightarrow> event list \<Rightarrow> 'a \<Rightarrow> bool" where
  run_Return: "runs (Return x) [] x"
| run_HTTP: "runs (k r) tr x \<Longrightarrow> runs (HTTP c q k) (EHTTP c q r # tr) x"
| run_RangeKeys:
    "mset ks' = mset ks \<Longrightarrow> runs (k ks') tr x \<Longrightarrow> runs (RangeKeys ks k) (ERange ks ks' # tr) x"
| run_GetAlias: "runs (k r) tr x \<Longrightarrow> runs (GetAliasCR n k) (EGetAlias n r # tr) x"
| run_GetFirewallRule:
    "runs (k r) tr x \<Longrightarrow> runs (GetFirewallRuleCR n k) (EGetFirewallRule n r # tr) x"
| run_GetConnection: "runs (k r) tr x \<Longrightarrow> runs (GetConnection n k) (EGetConnection n r # tr) x"
| run_GetSecret: "runs (k r) tr x \<Longrightarrow> runs (GetSecret n k) (EGetSecret n r # tr) x"
| run_UpdateAlias: "runs (k r) tr x \<Longrightarrow> runs (UpdateAliasCR y k) (EUpdateAlias y r # tr) x"
| run_UpdateFirewallRule:
    "runs (k r) tr x \<Longrightarrow> runs (UpdateFirewallRuleCR y k) (EUpdateFirewallRule y r # tr) x"
| run_StatusAlias: "runs (k r) tr x \<Longrightarrow> runs (StatusUpdateAlias y k) (EStatusAlias y r # tr) x"
| run_StatusFirewallRule:
    "runs (k r) tr x \<Longrightarrow> runs (StatusUpdateFirewallRule y k) (EStatusFirewallRule y r # tr) x"
| run_StatusConnection:
    "runs (k r) tr x \<Longrightarrow> runs (StatusUpdateConnection y k) (EStatusConnection y r # tr) x"

inductive_simps runs_Return [simp]: "runs (Return x) tr y"
inductive_simps runs_HTTP [simp]: "runs (HTTP c q k) tr y"
inductive_simps runs_RangeKeys [simp]: "runs (RangeKeys ks k) tr y"
inductive_simps runs_GetAlias [simp]: "runs (GetAliasCR n k) tr y"
inductive_simps runs_GetFirewallRule [simp]: "runs (GetFirewallRuleCR n k) tr y"
inductive_simps runs_GetConnection [simp]: "runs (GetConnection n k) tr y"
inductive_simps runs_GetSecret [simp]: "runs (GetSecret n k) tr y"
inductive_simps runs_UpdateAlias [simp]: "runs (UpdateAliasCR z k) tr y"
inductive_simps runs_UpdateFirewallRule [simp]: "runs (UpdateFirewallRuleCR z k) tr y"
inductive_simps runs_StatusAlias [simp]: "runs (StatusUpdateAlias z k) tr y"
inductive_simps runs_StatusFirewallRule [simp]: "runs (StatusUpdateFirewallRule z k) tr y"
inductive_simps runs_StatusConnection [simp]: "runs (StatusUpdateConnection z k) tr y"

lemma runs_bindI: "runs p t1 x \<Longrightarrow> runs (f x) t2 y \<Longrightarrow> runs (bind p f) (t1 @ t2) y"
  by (induction rule: runs.induct) (simp_all add: runs.intros)

text \<open>One call in front of a run that splits.\<close>

definition splits :: "'a prog \<Rightarrow> ('a \<Rightarrow> 'b prog) \<Rightarrow> event list \<Rightarrow> 'b \<Rightarrow> bool" where
  "splits p f tr y \<longleftrightarrow> (\<exists>t1 x t2. tr = t1 @ t2 \<and> runs p t1 x \<and> runs (f x) t2 y)"

lemma splits_Cons:
  assumes "splits p f tr y" and "\<And>t x. runs p t x \<Longrightarrow> runs p' (ev # t) x"
  shows "splits p' f (ev # tr) y"
  using assms unfolding splits_def by (metis append_Cons)

lemma runs_bindE: "runs (bind p f) tr y \<Longrightarrow> splits p f tr y"
proof (induction p arbitrary: tr)
  case (Return x)
  then show ?case unfolding splits_def by (intro exI [of _ "[]"]) auto
qed (auto intro!: splits_Cons)

lemma runs_bind:
  "runs (bind p f) tr y \<longleftrightarrow> (\<exists>t1 x t2. tr = t1 @ t2 \<and> runs p t1 x \<and> runs (f x) t2 y)"
  using runs_bindI runs_bindE unfolding splits_def by metis

text \<open>
  The replies decide the rest: two runs of one program that begin alike are the same run.
\<close>

lemma runs_deterministic:
  "runs p t1 x \<Longrightarrow> runs p t2 y \<Longrightarrow> t1 @ s1 = t2 @ s2 \<Longrightarrow> t1 = t2 \<and> x = y"
  by (induction arbitrary: t2 rule: runs.induct) fastforce+

lemma runs_bind_after:
  "runs p t1 x \<Longrightarrow> runs (bind p f) (t1 @ t2) y \<longleftrightarrow> runs (f x) t2 y"
  by (metis runs_bind runs_deterministic same_append_eq)

text \<open>An attempt either fails with the error of its first part or runs both parts.\<close>

lemma runs_attempt:
  "runs (attempt p f) tr y \<longleftrightarrow>
     (\<exists>e. y = Inl e \<and> runs p tr (Inl e)) \<or>
     (\<exists>t1 x t2. tr = t1 @ t2 \<and> runs p t1 (Inr x) \<and> runs (f x) t2 y)"
  unfolding attempt_def runs_bind
  by (auto split: sum.splits) (metis sum.exhaust)

text \<open>
  Branching: a run of a case distinction is a run of one branch.  With the rules above these turn
  \<open>runs\<close> of a whole operation into a disjunction over its paths.
\<close>

lemma runs_if [run_simps]:
  "runs (if b then p else q) tr y \<longleftrightarrow> b \<and> runs p tr y \<or> \<not> b \<and> runs q tr y"
  by simp

lemma runs_case_sum [run_simps]:
  "runs (case r of Inl e \<Rightarrow> p e | Inr x \<Rightarrow> q x) tr y \<longleftrightarrow>
     (\<exists>e. r = Inl e \<and> runs (p e) tr y) \<or> (\<exists>x. r = Inr x \<and> runs (q x) tr y)"
  by (cases r) simp_all

lemma runs_case_option [run_simps]:
  "runs (case r of None \<Rightarrow> p | Some x \<Rightarrow> q x) tr y \<longleftrightarrow>
     r = None \<and> runs p tr y \<or> (\<exists>x. r = Some x \<and> runs (q x) tr y)"
  by (cases r) simp_all

lemma runs_case_prod [run_simps]:
  "runs (case r of (a, b) \<Rightarrow> p a b) tr y \<longleftrightarrow> (\<exists>a b. r = (a, b) \<and> runs (p a b) tr y)"
  by (cases r) simp_all

lemma runs_case_list [run_simps]:
  "runs (case r of [] \<Rightarrow> p | x # xs \<Rightarrow> q x xs) tr y \<longleftrightarrow>
     r = [] \<and> runs p tr y \<or> (\<exists>x xs. r = x # xs \<and> runs (q x xs) tr y)"
  by (cases r) simp_all

declare runs_bind [run_simps]

section \<open>Every operation returns\<close>

lemma runs_total: "\<exists>tr x. runs p tr x"
  by (induction p) (blast intro: runs.intros)+

section \<open>Execution in an environment\<close>

record 'w env =
  do_HTTP :: "http_client \<Rightarrow> request \<Rightarrow> 'w \<Rightarrow> http_result \<times> 'w"
  do_range :: "string list \<Rightarrow> 'w \<Rightarrow> string list \<times> 'w"
  do_GetAlias :: "NamespacedName \<Rightarrow> 'w \<Rightarrow> (err + AliasCR) \<times> 'w"
  do_GetFirewallRule :: "NamespacedName \<Rightarrow> 'w \<Rightarrow> (err + FirewallRuleCR) \<times> 'w"
  do_GetConnection :: "NamespacedName \<Rightarrow> 'w \<Rightarrow> (err + OPNsenseConnection) \<times> 'w"
  do_GetSecret :: "NamespacedName \<Rightarrow> 'w \<Rightarrow> (err + Secret) \<times> 'w"
  do_UpdateAlias :: "AliasCR \<Rightarrow> 'w \<Rightarrow> err option \<times> 'w"
  do_UpdateFirewallRule :: "FirewallRuleCR \<Rightarrow> 'w \<Rightarrow> err option \<times> 'w"
  do_StatusAlias :: "AliasCR \<Rightarrow> 'w \<Rightarrow> err option \<times> 'w"
  do_StatusFirewallRule :: "FirewallRuleCR \<Rightarrow> 'w \<Rightarrow> err option \<times> 'w"
  do_StatusConnection :: "OPNsenseConnection \<Rightarrow> 'w \<Rightarrow> err option \<times> 'w"

type_synonym ('w, 'a) outcome = "event list \<times> 'a \<times> 'w"

definition after_call :: "event \<Rightarrow> ('w, 'a) outcome \<Rightarrow> ('w, 'a) outcome" where
  "after_call ev out = (case out of (tr, x, w) \<Rightarrow> (ev # tr, x, w))"

primrec exec :: "'w env \<Rightarrow> 'a prog \<Rightarrow> 'w \<Rightarrow> ('w, 'a) outcome" where
  "exec E (Return x) w = ([], x, w)"
| "exec E (HTTP c q k) w =
     (case do_HTTP E c q w of (r, w') \<Rightarrow> after_call (EHTTP c q r) (exec E (k r) w'))"
| "exec E (RangeKeys ks k) w =
     (case do_range E ks w of (r, w') \<Rightarrow> after_call (ERange ks r) (exec E (k r) w'))"
| "exec E (GetAliasCR n k) w =
     (case do_GetAlias E n w of (r, w') \<Rightarrow> after_call (EGetAlias n r) (exec E (k r) w'))"
| "exec E (GetFirewallRuleCR n k) w =
     (case do_GetFirewallRule E n w of
        (r, w') \<Rightarrow> after_call (EGetFirewallRule n r) (exec E (k r) w'))"
| "exec E (GetConnection n k) w =
     (case do_GetConnection E n w of (r, w') \<Rightarrow> after_call (EGetConnection n r) (exec E (k r) w'))"
| "exec E (GetSecret n k) w =
     (case do_GetSecret E n w of (r, w') \<Rightarrow> after_call (EGetSecret n r) (exec E (k r) w'))"
| "exec E (UpdateAliasCR x k) w =
     (case do_UpdateAlias E x w of (r, w') \<Rightarrow> after_call (EUpdateAlias x r) (exec E (k r) w'))"
| "exec E (UpdateFirewallRuleCR x k) w =
     (case do_UpdateFirewallRule E x w of
        (r, w') \<Rightarrow> after_call (EUpdateFirewallRule x r) (exec E (k r) w'))"
| "exec E (StatusUpdateAlias x k) w =
     (case do_StatusAlias E x w of (r, w') \<Rightarrow> after_call (EStatusAlias x r) (exec E (k r) w'))"
| "exec E (StatusUpdateFirewallRule x k) w =
     (case do_StatusFirewallRule E x w of
        (r, w') \<Rightarrow> after_call (EStatusFirewallRule x r) (exec E (k r) w'))"
| "exec E (StatusUpdateConnection x k) w =
     (case do_StatusConnection E x w of
        (r, w') \<Rightarrow> after_call (EStatusConnection x r) (exec E (k r) w'))"

lemma exec_bind:
  "exec E (bind p f) w =
     (case exec E p w of (t1, x, w1) \<Rightarrow> case exec E (f x) w1 of (t2, y, w2) \<Rightarrow> (t1 @ t2, y, w2))"
  by (induction p arbitrary: w) (auto simp: after_call_def split: prod.splits)

text \<open>An execution is a run, provided the environment ranges over a map's keys in some order.\<close>

definition ranges_ok :: "'w env \<Rightarrow> bool" where
  "ranges_ok E \<longleftrightarrow> (\<forall>ks w. mset (fst (do_range E ks w)) = mset ks)"

lemma exec_runs:
  "ranges_ok E \<Longrightarrow> exec E p w = (tr, x, w') \<Longrightarrow> runs p tr x"
proof (induction p arbitrary: w tr)
  case (RangeKeys ks k)
  then show ?case
    by (auto simp: after_call_def ranges_ok_def split: prod.splits) (metis fst_conv)+
qed (fastforce simp: after_call_def split: prod.splits)+

section \<open>The library\<close>

record golib =
  is_print :: "nat \<Rightarrow> bool"
  json_error :: "string \<Rightarrow> string \<Rightarrow> string"
  AppendCertsFromPEM :: "string \<Rightarrow> bool"
  time_IsZero :: "int option \<Rightarrow> bool"
  ContainsFinalizer :: "ObjectMeta \<Rightarrow> string \<Rightarrow> bool"
  AddFinalizer :: "ObjectMeta \<Rightarrow> string \<Rightarrow> ObjectMeta"
  RemoveFinalizer :: "ObjectMeta \<Rightarrow> string \<Rightarrow> ObjectMeta"
  FindStatusCondition :: "Condition list \<Rightarrow> string \<Rightarrow> Condition option"
  SetStatusCondition :: "Condition list \<Rightarrow> Condition \<Rightarrow> Condition list"
  IsNotFound :: "err \<Rightarrow> bool"
  IgnoreNotFound :: "err \<Rightarrow> err option"

text \<open>
  Documented behaviour.  \<open>controllerutil\<close>: adding a finalizer makes it present, removing it makes it
  absent, and nothing else of the metadata changes.  \<open>meta\<close>: a condition that was set is found
  again under its type and the others stay.  \<open>apierrors\<close> and \<open>client\<close>: not-found errors are ignored,
  all others are returned.
\<close>

definition finalizer_laws :: "golib \<Rightarrow> bool" where
  "finalizer_laws L \<longleftrightarrow>
     (\<forall>m f. ContainsFinalizer L (AddFinalizer L m f) f) \<and>
     (\<forall>m f. \<not> ContainsFinalizer L (RemoveFinalizer L m f) f) \<and>
     (\<forall>m f. AddFinalizer L m f = m\<lparr>om_Finalizers := om_Finalizers (AddFinalizer L m f)\<rparr>) \<and>
     (\<forall>m f. RemoveFinalizer L m f = m\<lparr>om_Finalizers := om_Finalizers (RemoveFinalizer L m f)\<rparr>)"

definition condition_laws :: "golib \<Rightarrow> bool" where
  "condition_laws L \<longleftrightarrow>
     (\<forall>cs c. FindStatusCondition L (SetStatusCondition L cs c) (cond_Type c) = Some c) \<and>
     (\<forall>cs c t. t \<noteq> cond_Type c \<longrightarrow>
        FindStatusCondition L (SetStatusCondition L cs c) t = FindStatusCondition L cs t)"

definition not_found_laws :: "golib \<Rightarrow> bool" where
  "not_found_laws L \<longleftrightarrow>
     (\<forall>e. IgnoreNotFound L e = (if IsNotFound L e then None else Some e))"

section \<open>Events of a trace\<close>

definition http_requests :: "event list \<Rightarrow> (http_client \<times> request) list" where
  "http_requests tr = List.map_filter
     (\<lambda>ev. case ev of EHTTP c q r \<Rightarrow> Some (c, q) | _ \<Rightarrow> None) tr"

lemma http_requests_simps [simp, trace_simps]:
  "http_requests [] = []"
  "http_requests (EHTTP c q r # tr) = (c, q) # http_requests tr"
  "http_requests (ERange ks ks' # tr) = http_requests tr"
  "http_requests (EGetAlias n ra # tr) = http_requests tr"
  "http_requests (EGetFirewallRule n rf # tr) = http_requests tr"
  "http_requests (EGetConnection n rc # tr) = http_requests tr"
  "http_requests (EGetSecret n rs # tr) = http_requests tr"
  "http_requests (EUpdateAlias a u # tr) = http_requests tr"
  "http_requests (EUpdateFirewallRule f u # tr) = http_requests tr"
  "http_requests (EStatusAlias a u # tr) = http_requests tr"
  "http_requests (EStatusFirewallRule f u # tr) = http_requests tr"
  "http_requests (EStatusConnection c' u # tr) = http_requests tr"
  by (simp_all add: http_requests_def List.map_filter_simps)

lemma http_requests_append [simp]:
  "http_requests (t1 @ t2) = http_requests t1 @ http_requests t2"
  by (simp add: http_requests_def List.map_filter_def)

end
