(* ===== verification/Client.thy ===== *)
theory Client
  imports Effects
begin

text \<open>
  The OPNsense client, internal/opnsense/client.go: its data, the wire format of its requests and
  responses, and one definition per method.  The \<open>ctx\<close> argument is left out: cancellation shows
  as a transport error.
\<close>

section \<open>Data\<close>

record Client =
  cl_baseURL :: string
  cl_apiKey :: string
  cl_apiSecret :: string
  cl_httpClient :: http_client

record Alias =
  a_Enabled :: bool
  a_Name :: string
  a_Type :: string
  a_Content :: string
  a_Description :: string

record FirewallRule =
  r_Enabled :: bool
  r_Action :: string
  r_Interface :: string
  r_Direction :: string
  r_IPProtocol :: string
  r_Protocol :: string
  r_SourceNet :: string
  r_SourceNot :: bool
  r_SourcePort :: string
  r_DestinationNet :: string
  r_DestinationNot :: bool
  r_DestinationPort :: string
  r_Sequence :: string
  r_Log :: bool
  r_Quick :: bool
  r_Description :: string

definition resultFailed :: string where "resultFailed = ''failed''"

definition NewClient :: "string \<Rightarrow> string \<Rightarrow> string \<Rightarrow> http_client option \<Rightarrow> Client" where
  "NewClient baseURL apiKey apiSecret httpClient =
     \<lparr>cl_baseURL = TrimRight baseURL (CHR ''/''),
      cl_apiKey = apiKey,
      cl_apiSecret = apiSecret,
      cl_httpClient = (case httpClient of None \<Rightarrow> DefaultClient | Some h \<Rightarrow> h)\<rparr>"

section \<open>Requests on the wire\<close>

record aliasPayload =
  ap_Enabled :: string
  ap_Name :: string
  ap_Type :: string
  ap_Content :: string
  ap_Description :: string

record firewallRulePayload =
  rp_Enabled :: string
  rp_Action :: string
  rp_Interface :: string
  rp_Direction :: string
  rp_IPProtocol :: string
  rp_Protocol :: string
  rp_SourceNet :: string
  rp_SourceNot :: string
  rp_SourcePort :: string
  rp_DestinationNet :: string
  rp_DestinationNot :: string
  rp_DestinationPort :: string
  rp_Sequence :: string
  rp_Log :: string
  rp_Quick :: string
  rp_Description :: string

definition encodeAlias :: "Alias \<Rightarrow> aliasPayload" where
  "encodeAlias alias =
     (let enabled = (if a_Enabled alias then ''1'' else ''0'') in
      \<lparr>ap_Enabled = enabled, ap_Name = a_Name alias, ap_Type = a_Type alias,
       ap_Content = a_Content alias, ap_Description = a_Description alias\<rparr>)"

definition boolToStr :: "bool \<Rightarrow> string" where
  "boolToStr b = (if b then ''1'' else ''0'')"

definition encodeFirewallRule :: "FirewallRule \<Rightarrow> firewallRulePayload" where
  "encodeFirewallRule rule =
     \<lparr>rp_Enabled = boolToStr (r_Enabled rule), rp_Action = r_Action rule,
      rp_Interface = r_Interface rule, rp_Direction = r_Direction rule,
      rp_IPProtocol = r_IPProtocol rule, rp_Protocol = r_Protocol rule,
      rp_SourceNet = r_SourceNet rule, rp_SourceNot = boolToStr (r_SourceNot rule),
      rp_SourcePort = r_SourcePort rule, rp_DestinationNet = r_DestinationNet rule,
      rp_DestinationNot = boolToStr (r_DestinationNot rule),
      rp_DestinationPort = r_DestinationPort rule, rp_Sequence = r_Sequence rule,
      rp_Log = boolToStr (r_Log rule), rp_Quick = boolToStr (r_Quick rule),
      rp_Description = r_Description rule\<rparr>"

text \<open>The struct tags: field names in order, with \<open>omitempty\<close> on two of them.\<close>

definition aliasPayload_json :: "aliasPayload \<Rightarrow> json" where
  "aliasPayload_json p =
     JObj ([(''enabled'', JStr (ap_Enabled p)), (''name'', JStr (ap_Name p)),
            (''type'', JStr (ap_Type p)), (''content'', JStr (ap_Content p))]
           @ omit_string ''description'' (ap_Description p))"

definition firewallRulePayload_json :: "firewallRulePayload \<Rightarrow> json" where
  "firewallRulePayload_json p =
     JObj ([(''enabled'', JStr (rp_Enabled p)), (''action'', JStr (rp_Action p)),
            (''interface'', JStr (rp_Interface p)), (''direction'', JStr (rp_Direction p)),
            (''ipprotocol'', JStr (rp_IPProtocol p)), (''protocol'', JStr (rp_Protocol p)),
            (''source_net'', JStr (rp_SourceNet p)), (''source_not'', JStr (rp_SourceNot p)),
            (''source_port'', JStr (rp_SourcePort p)),
            (''destination_net'', JStr (rp_DestinationNet p)),
            (''destination_not'', JStr (rp_DestinationNot p)),
            (''destination_port'', JStr (rp_DestinationPort p))]
           @ omit_string ''sequence'' (rp_Sequence p)
           @ [(''log'', JStr (rp_Log p)), (''quick'', JStr (rp_Quick p)),
              (''description'', JStr (rp_Description p))])"

definition aliasRequest_json :: "aliasPayload \<Rightarrow> json" where
  "aliasRequest_json p = JObj [(''alias'', aliasPayload_json p)]"

definition firewallRuleRequest_json :: "firewallRulePayload \<Rightarrow> json" where
  "firewallRuleRequest_json p = JObj [(''rule'', firewallRulePayload_json p)]"

section \<open>\<open>doJSON\<close>\<close>

text \<open>
  A payload is a value that marshals, or one of a type that \<open>json.Marshal\<close> refuses, with the
  error's text.
\<close>

datatype payload = Encodable json | Unsupported string

fun encode_body :: "payload option \<Rightarrow> string + string option" where
  "encode_body None = Inr None"
| "encode_body (Some (Encodable v)) = Inr (Some (marshal v))"
| "encode_body (Some (Unsupported msg)) = Inl msg"

text \<open>From \<open>http.StatusOK\<close> up to, not including, \<open>http.StatusMultipleChoices\<close>.\<close>

definition status_ok :: "int \<Rightarrow> bool" where
  "status_ok code \<longleftrightarrow> \<not> (code < 200 \<or> code \<ge> 300)"

fun classify :: "http_result \<Rightarrow> err + string" where
  "classify (RequestError m) = Inl (Wrapf ''create request: '' (LibError m) [])"
| "classify (TransportError m) = Inl (Wrapf ''send request: '' (LibError m) [])"
| "classify (ReadError m) = Inl (Wrapf ''read response body: '' (LibError m) [])"
| "classify (Response code body) =
     (if status_ok code then Inr body
      else Inl (Errorf (''unexpected status code '' @ show_int code @ '': '' @ TrimSpace body)))"

definition build_request :: "Client \<Rightarrow> http_method \<Rightarrow> string \<Rightarrow> string option \<Rightarrow> request" where
  "build_request c method path body =
     \<lparr>rq_Method = method, rq_URL = cl_baseURL c @ path,
      rq_User = cl_apiKey c, rq_Password = cl_apiSecret c,
      rq_Accept = ''application/json'',
      rq_ContentType = (if body \<noteq> None then Some ''application/json'' else None),
      rq_Body = body\<rparr>"

definition doJSON ::
  "Client \<Rightarrow> http_method \<Rightarrow> string \<Rightarrow> payload option \<Rightarrow> (err + string) prog" where
  "doJSON c method path payload =
     (case encode_body payload of
        Inl msg \<Rightarrow> Return (Inl (Wrapf ''marshal request body: '' (LibError msg) []))
      | Inr body \<Rightarrow>
          HTTP (cl_httpClient c) (build_request c method path body) (\<lambda>res. Return (classify res)))"

definition empty_payload :: "payload option" where
  "empty_payload = Some (Encodable (JObj []))"

section \<open>Result responses\<close>

record resultResponse =
  rr_Result :: string
  rr_Status :: string
  rr_UUID :: string
  rr_Validations :: "string go_map option"

definition zero_resultResponse :: resultResponse where
  "zero_resultResponse = \<lparr>rr_Result = [], rr_Status = [], rr_UUID = [], rr_Validations = None\<rparr>"

definition resultResponse_fields :: "resultResponse fields" where
  "resultResponse_fields =
     [(''result'', at_field rr_Result (\<lambda>x. rr_Result_update (\<lambda>_. x)) dec_string),
      (''status'', at_field rr_Status (\<lambda>x. rr_Status_update (\<lambda>_. x)) dec_string),
      (''uuid'', at_field rr_UUID (\<lambda>x. rr_UUID_update (\<lambda>_. x)) dec_string),
      (''validations'', at_field rr_Validations (\<lambda>x. rr_Validations_update (\<lambda>_. x))
         (dec_map dec_string []))]"

definition decode_failed :: "golib \<Rightarrow> string \<Rightarrow> string \<Rightarrow> err" where
  "decode_failed L what body =
     Wrapf (''decode '' @ what @ '': '') (LibError (json_error L what body)) []"

definition decodeResultResponse :: "golib \<Rightarrow> string \<Rightarrow> err + resultResponse" where
  "decodeResultResponse L body =
     (case unmarshal (dec_struct resultResponse_fields) zero_resultResponse body of
        None \<Rightarrow> Inl (decode_failed L ''result response'' body)
      | Some response \<Rightarrow> Inr response)"

definition unexpected :: "string \<Rightarrow> err" where
  "unexpected text = Wrapf [] ErrUnexpectedResponse ('': '' @ text)"

definition resultError :: "golib \<Rightarrow> resultResponse \<Rightarrow> string \<Rightarrow> err option" where
  "resultError L r expected =
     (if rr_Result r = resultFailed then Some (ValidationError (rr_Validations r))
      else if rr_Result r \<noteq> expected then
        Some (unexpected (''expected result '' @ Quote (is_print L) expected @ '', got ''
                          @ Quote (is_print L) (rr_Result r)))
      else None)"

text \<open>A lone \<open>error\<close> as a result without a value.\<close>

definition err_result :: "err option \<Rightarrow> err + unit" where
  "err_result e = (case e of None \<Rightarrow> Inr () | Some x \<Rightarrow> Inl x)"

section \<open>Aliases\<close>

definition decode_alias_uuid :: "golib \<Rightarrow> string \<Rightarrow> err + string" where
  "decode_alias_uuid L body =
     (let trimmed = TrimSpace body in
      if trimmed = ''[]'' then Inl ErrAliasNotFound
      else
        (case unmarshal (dec_struct [(''uuid'', dec_string)]) [] trimmed of
           None \<Rightarrow> Inl (decode_failed L ''alias uuid response'' trimmed)
         | Some uuid \<Rightarrow>
             if uuid = [] then Inl (unexpected ''alias uuid response did not contain a uuid'')
             else Inr uuid))"

definition GetAliasUUIDByName :: "golib \<Rightarrow> Client \<Rightarrow> string \<Rightarrow> (err + string) prog" where
  "GetAliasUUIDByName L c name =
     attempt (doJSON c GET (''/api/firewall/alias/getAliasUUID/'' @ name) None)
       (\<lambda>body. Return (decode_alias_uuid L body))"

record exportedAlias =
  ex_Enabled :: string
  ex_Name :: string
  ex_Type :: string
  ex_Content :: string
  ex_Description :: string

definition zero_exportedAlias :: exportedAlias where
  "zero_exportedAlias =
     \<lparr>ex_Enabled = [], ex_Name = [], ex_Type = [], ex_Content = [], ex_Description = []\<rparr>"

definition exportedAlias_fields :: "exportedAlias fields" where
  "exportedAlias_fields =
     [(''enabled'', at_field ex_Enabled (\<lambda>x. ex_Enabled_update (\<lambda>_. x)) dec_string),
      (''name'', at_field ex_Name (\<lambda>x. ex_Name_update (\<lambda>_. x)) dec_string),
      (''type'', at_field ex_Type (\<lambda>x. ex_Type_update (\<lambda>_. x)) dec_string),
      (''content'', at_field ex_Content (\<lambda>x. ex_Content_update (\<lambda>_. x)) dec_string),
      (''description'', at_field ex_Description (\<lambda>x. ex_Description_update (\<lambda>_. x)) dec_string)]"

text \<open>
  The body of an export: the raw value under \<open>aliases.alias\<close>, an array when there is no such
  alias, an object by UUID when there is.
\<close>

definition decode_export :: "golib \<Rightarrow> string \<Rightarrow> string \<Rightarrow> err + Alias" where
  "decode_export L uuid body =
     (case unmarshal (dec_struct [(''aliases'', dec_struct [(''alias'', dec_raw)])]) None body of
        None \<Rightarrow> Inl (decode_failed L ''export alias response'' body)
      | Some None \<Rightarrow> Inl (unexpected ''export alias response did not contain alias data'')
      | Some (Some (JArr vs)) \<Rightarrow>
          (case dec_slice dec_any None (JArr vs) [] of
             None \<Rightarrow> Inl (decode_failed L ''exported alias array'' body)
           | Some aliases \<Rightarrow>
               if aliases = [] then Inl ErrAliasNotFound
               else Inl (unexpected ''export alias response returned an unexpected array''))
      | Some (Some (JObj kvs)) \<Rightarrow>
          (case dec_map (dec_struct exportedAlias_fields) zero_exportedAlias (JObj kvs) None of
             None \<Rightarrow> Inl (decode_failed L ''exported alias object'' body)
           | Some aliases \<Rightarrow>
               if map_entries aliases = [] then Inl ErrAliasNotFound
               else
                 (case map_of (map_entries aliases) uuid of
                    None \<Rightarrow>
                      Inl (unexpected (''export alias response did not contain requested uuid ''
                                       @ Quote (is_print L) uuid))
                  | Some ex \<Rightarrow>
                      if ex_Name ex = [] then
                        Inl (unexpected ''exported alias did not contain a name'')
                      else if ex_Type ex = [] then
                        Inl (unexpected ''exported alias did not contain a type'')
                      else
                        Inr \<lparr>a_Enabled = (ex_Enabled ex = ''1''), a_Name = ex_Name ex,
                             a_Type = ex_Type ex, a_Content = ex_Content ex,
                             a_Description = ex_Description ex\<rparr>))
      | Some (Some _) \<Rightarrow> Inl (unexpected ''export alias response had unexpected alias payload''))"

definition GetAlias :: "golib \<Rightarrow> Client \<Rightarrow> string \<Rightarrow> (err + Alias) prog" where
  "GetAlias L c uuid =
     attempt (doJSON c GET (''/api/firewall/alias/export?ids='' @ QueryEscape uuid) None)
       (\<lambda>body. Return (decode_export L uuid body))"

text \<open>The common end of the two create operations: the result must be ``saved'' and bear a UUID.\<close>

definition created_uuid :: "golib \<Rightarrow> string \<Rightarrow> string \<Rightarrow> err + string" where
  "created_uuid L what body =
     bind_result (decodeResultResponse L body) (\<lambda>response.
       case resultError L response ''saved'' of
         Some e \<Rightarrow> Inl e
       | None \<Rightarrow>
           if rr_UUID response = [] then
             Inl (unexpected (''create '' @ what @ '' response did not contain a uuid''))
           else Inr (rr_UUID response))"

definition CreateAlias :: "golib \<Rightarrow> Client \<Rightarrow> Alias \<Rightarrow> (err + string) prog" where
  "CreateAlias L c alias =
     attempt (doJSON c POST ''/api/firewall/alias/addItem''
               (Some (Encodable (aliasRequest_json (encodeAlias alias)))))
       (\<lambda>body. Return (created_uuid L ''alias'' body))"

text \<open>The common end of the two update operations; a failure without validations is ``not found''.\<close>

definition updated :: "golib \<Rightarrow> err \<Rightarrow> string \<Rightarrow> err + unit" where
  "updated L notFound body =
     bind_result (decodeResultResponse L body) (\<lambda>response.
       if rr_Result response = resultFailed \<and> map_entries (rr_Validations response) = []
       then Inl notFound
       else err_result (resultError L response ''saved''))"

definition UpdateAlias :: "golib \<Rightarrow> Client \<Rightarrow> string \<Rightarrow> Alias \<Rightarrow> (err + unit) prog" where
  "UpdateAlias L c uuid alias =
     attempt (doJSON c POST (''/api/firewall/alias/setItem/'' @ uuid)
               (Some (Encodable (aliasRequest_json (encodeAlias alias)))))
       (\<lambda>body. Return (updated L ErrAliasNotFound body))"

definition decode_delete_alias :: "golib \<Rightarrow> string \<Rightarrow> err + unit" where
  "decode_delete_alias L body =
     bind_result (decodeResultResponse L body) (\<lambda>response.
       if rr_Result response = ''not found'' then Inl ErrAliasNotFound
       else err_result (resultError L response ''deleted''))"

definition DeleteAlias :: "golib \<Rightarrow> Client \<Rightarrow> string \<Rightarrow> (err + unit) prog" where
  "DeleteAlias L c uuid =
     attempt (doJSON c POST (''/api/firewall/alias/delItem/'' @ uuid) empty_payload)
       (\<lambda>body. Return (decode_delete_alias L body))"

definition decode_connectivity :: "golib \<Rightarrow> string \<Rightarrow> err + unit" where
  "decode_connectivity L body =
     (case unmarshal (dec_map dec_any None) None body of
        None \<Rightarrow> Inl (unexpected ''connectivity check response is not valid JSON'')
      | Some response \<Rightarrow> Inr ())"

definition CheckConnectivity :: "golib \<Rightarrow> Client \<Rightarrow> (err + unit) prog" where
  "CheckConnectivity L c =
     attempt (doJSON c GET ''/api/core/system/status'' None)
       (\<lambda>body. Return (decode_connectivity L body))"

definition decode_reconfigure :: "golib \<Rightarrow> string \<Rightarrow> err + unit" where
  "decode_reconfigure L body =
     (case unmarshal (dec_struct [(''status'', dec_string)]) [] body of
        None \<Rightarrow> Inl (decode_failed L ''reconfigure response'' body)
      | Some status \<Rightarrow>
          if status \<noteq> ''ok'' then
            Inl (unexpected (''expected reconfigure status ok, got ''
                             @ Quote (is_print L) status))
          else Inr ())"

definition ReconfigureAliases :: "golib \<Rightarrow> Client \<Rightarrow> (err + unit) prog" where
  "ReconfigureAliases L c =
     attempt (doJSON c POST ''/api/firewall/alias/reconfigure'' empty_payload)
       (\<lambda>body. Return (decode_reconfigure L body))"

section \<open>Firewall rules\<close>

record getRuleSelectEntry =
  se_Value :: string
  se_Selected :: "64 word"

definition zero_selectEntry :: getRuleSelectEntry where
  "zero_selectEntry = \<lparr>se_Value = [], se_Selected = 0\<rparr>"

definition selectEntry_fields :: "getRuleSelectEntry fields" where
  "selectEntry_fields =
     [(''value'', at_field se_Value (\<lambda>x. se_Value_update (\<lambda>_. x)) dec_string),
      (''selected'', at_field se_Selected (\<lambda>x. se_Selected_update (\<lambda>_. x)) dec_int)]"

type_synonym select_map = "getRuleSelectEntry go_map option"

record getRuleResponse =
  gr_Enabled :: string
  gr_Sequence :: string
  gr_Action :: select_map
  gr_Interface :: select_map
  gr_Direction :: select_map
  gr_IPProtocol :: select_map
  gr_Protocol :: select_map
  gr_SourceNet :: string
  gr_SourceNot :: string
  gr_SourcePort :: string
  gr_DestinationNet :: string
  gr_DestinationNot :: string
  gr_DestinationPort :: string
  gr_Log :: string
  gr_Quick :: string
  gr_Description :: string

definition zero_getRuleResponse :: getRuleResponse where
  "zero_getRuleResponse =
     \<lparr>gr_Enabled = [], gr_Sequence = [], gr_Action = None, gr_Interface = None,
      gr_Direction = None, gr_IPProtocol = None, gr_Protocol = None, gr_SourceNet = [],
      gr_SourceNot = [], gr_SourcePort = [], gr_DestinationNet = [], gr_DestinationNot = [],
      gr_DestinationPort = [], gr_Log = [], gr_Quick = [], gr_Description = []\<rparr>"

definition dec_select :: "select_map decoder" where
  "dec_select = dec_map (dec_struct selectEntry_fields) zero_selectEntry"

definition getRule_fields :: "getRuleResponse fields" where
  "getRule_fields =
     [(''enabled'', at_field gr_Enabled (\<lambda>x. gr_Enabled_update (\<lambda>_. x)) dec_string),
      (''sequence'', at_field gr_Sequence (\<lambda>x. gr_Sequence_update (\<lambda>_. x)) dec_string),
      (''action'', at_field gr_Action (\<lambda>x. gr_Action_update (\<lambda>_. x)) dec_select),
      (''interface'', at_field gr_Interface (\<lambda>x. gr_Interface_update (\<lambda>_. x)) dec_select),
      (''direction'', at_field gr_Direction (\<lambda>x. gr_Direction_update (\<lambda>_. x)) dec_select),
      (''ipprotocol'', at_field gr_IPProtocol (\<lambda>x. gr_IPProtocol_update (\<lambda>_. x)) dec_select),
      (''protocol'', at_field gr_Protocol (\<lambda>x. gr_Protocol_update (\<lambda>_. x)) dec_select),
      (''source_net'', at_field gr_SourceNet (\<lambda>x. gr_SourceNet_update (\<lambda>_. x)) dec_string),
      (''source_not'', at_field gr_SourceNot (\<lambda>x. gr_SourceNot_update (\<lambda>_. x)) dec_string),
      (''source_port'', at_field gr_SourcePort (\<lambda>x. gr_SourcePort_update (\<lambda>_. x)) dec_string),
      (''destination_net'',
         at_field gr_DestinationNet (\<lambda>x. gr_DestinationNet_update (\<lambda>_. x)) dec_string),
      (''destination_not'',
         at_field gr_DestinationNot (\<lambda>x. gr_DestinationNot_update (\<lambda>_. x)) dec_string),
      (''destination_port'',
         at_field gr_DestinationPort (\<lambda>x. gr_DestinationPort_update (\<lambda>_. x)) dec_string),
      (''log'', at_field gr_Log (\<lambda>x. gr_Log_update (\<lambda>_. x)) dec_string),
      (''quick'', at_field gr_Quick (\<lambda>x. gr_Quick_update (\<lambda>_. x)) dec_string),
      (''description'', at_field gr_Description (\<lambda>x. gr_Description_update (\<lambda>_. x)) dec_string)]"

text \<open>
  The first key, in the iteration order of the map, whose entry is selected.  Go leaves that
  order open, so the keys come back from the environment in some order.
\<close>

definition is_selected :: "select_map \<Rightarrow> string \<Rightarrow> bool" where
  "is_selected m k \<longleftrightarrow>
     (case map_of (map_entries m) k of Some v \<Rightarrow> se_Selected v = 1 | None \<Rightarrow> False)"

definition first_selected :: "select_map \<Rightarrow> string list \<Rightarrow> string" where
  "first_selected m ks = (case find (is_selected m) ks of Some k \<Rightarrow> k | None \<Rightarrow> [])"

definition selectedKey :: "select_map \<Rightarrow> string prog" where
  "selectedKey m = RangeKeys (map fst (map_entries m)) (\<lambda>ks. Return (first_selected m ks))"

definition decode_getRule :: "golib \<Rightarrow> string \<Rightarrow> err + getRuleResponse" where
  "decode_getRule L body =
     (let trimmed = TrimSpace body in
      if trimmed \<noteq> [] \<and> hd trimmed = CHR ''['' then Inl ErrFirewallRuleNotFound
      else
        (case unmarshal (dec_struct [(''rule'', dec_struct getRule_fields)])
                zero_getRuleResponse trimmed of
           None \<Rightarrow> Inl (decode_failed L ''get rule response'' trimmed)
         | Some r \<Rightarrow>
             if gr_Action r = None \<and> gr_Direction r = None then
               Inl (unexpected ''get rule response did not contain rule data'')
             else Inr r))"

definition getRule_result :: "getRuleResponse \<Rightarrow> (err + FirewallRule) prog" where
  "getRule_result r =
     bind (selectedKey (gr_Action r)) (\<lambda>action.
     bind (selectedKey (gr_Interface r)) (\<lambda>interface.
     bind (selectedKey (gr_Direction r)) (\<lambda>direction.
     bind (selectedKey (gr_IPProtocol r)) (\<lambda>ipprotocol.
     bind (selectedKey (gr_Protocol r)) (\<lambda>protocol.
       Return (Inr
         \<lparr>r_Enabled = (gr_Enabled r = ''1''), r_Action = action, r_Interface = interface,
          r_Direction = direction, r_IPProtocol = ipprotocol, r_Protocol = protocol,
          r_SourceNet = gr_SourceNet r, r_SourceNot = (gr_SourceNot r = ''1''),
          r_SourcePort = gr_SourcePort r, r_DestinationNet = gr_DestinationNet r,
          r_DestinationNot = (gr_DestinationNot r = ''1''),
          r_DestinationPort = gr_DestinationPort r, r_Sequence = gr_Sequence r,
          r_Log = (gr_Log r = ''1''), r_Quick = (gr_Quick r = ''1''),
          r_Description = gr_Description r\<rparr>))))))"

definition GetRule :: "golib \<Rightarrow> Client \<Rightarrow> string \<Rightarrow> (err + FirewallRule) prog" where
  "GetRule L c uuid =
     attempt (doJSON c GET (''/api/firewall/filter/getRule/'' @ uuid) None)
       (\<lambda>body. case decode_getRule L body of
                 Inl e \<Rightarrow> Return (Inl e)
               | Inr r \<Rightarrow> getRule_result r)"

definition decode_search :: "golib \<Rightarrow> string \<Rightarrow> err + string list" where
  "decode_search L body =
     (case unmarshal
             (dec_struct
                [(''rows'', dec_slice (dec_struct [(''uuid'', dec_string)]) [])]) [] body of
        None \<Rightarrow> Inl (decode_failed L ''search rule response'' body)
      | Some uuids \<Rightarrow> Inr uuids)"

definition SearchRuleByManagedSuffix ::
  "golib \<Rightarrow> Client \<Rightarrow> string \<Rightarrow> (err + string list) prog" where
  "SearchRuleByManagedSuffix L c managed_suffix =
     attempt (doJSON c GET (''/api/firewall/filter/searchRule?searchPhrase='' @ QueryEscape managed_suffix)
               None)
       (\<lambda>body. Return (decode_search L body))"

definition decode_delete_rule :: "golib \<Rightarrow> string \<Rightarrow> err + unit" where
  "decode_delete_rule L body =
     (case unmarshal (dec_struct [(''result'', dec_string)]) [] body of
        None \<Rightarrow> Inl (decode_failed L ''delete rule response'' body)
      | Some result \<Rightarrow>
          if result = ''deleted'' then Inr ()
          else if result = ''not found'' then Inl ErrFirewallRuleNotFound
          else Inl (unexpected (''delete rule returned unexpected result ''
                                @ Quote (is_print L) result)))"

definition DeleteRule :: "golib \<Rightarrow> Client \<Rightarrow> string \<Rightarrow> (err + unit) prog" where
  "DeleteRule L c uuid =
     attempt (doJSON c POST (''/api/firewall/filter/delRule/'' @ uuid) empty_payload)
       (\<lambda>body. Return (decode_delete_rule L body))"

definition decode_apply :: "golib \<Rightarrow> string \<Rightarrow> err + unit" where
  "decode_apply L body =
     (case unmarshal (dec_struct [(''status'', dec_string)]) [] body of
        None \<Rightarrow> Inl (decode_failed L ''apply firewall rules response'' body)
      | Some status \<Rightarrow>
          if TrimSpace status \<noteq> ''OK'' then
            Inl (unexpected (''expected apply status OK, got '' @ Quote (is_print L) status))
          else Inr ())"

definition ApplyFirewallRules :: "golib \<Rightarrow> Client \<Rightarrow> (err + unit) prog" where
  "ApplyFirewallRules L c =
     attempt (doJSON c POST ''/api/firewall/filter/apply'' empty_payload)
       (\<lambda>body. Return (decode_apply L body))"

definition UpdateRule :: "golib \<Rightarrow> Client \<Rightarrow> string \<Rightarrow> FirewallRule \<Rightarrow> (err + unit) prog" where
  "UpdateRule L c uuid rule =
     attempt (doJSON c POST (''/api/firewall/filter/setRule/'' @ uuid)
               (Some (Encodable (firewallRuleRequest_json (encodeFirewallRule rule)))))
       (\<lambda>body. Return (updated L ErrFirewallRuleNotFound body))"

definition CreateRule :: "golib \<Rightarrow> Client \<Rightarrow> FirewallRule \<Rightarrow> (err + string) prog" where
  "CreateRule L c rule =
     attempt (doJSON c POST ''/api/firewall/filter/addRule''
               (Some (Encodable (firewallRuleRequest_json (encodeFirewallRule rule)))))
       (\<lambda>body. Return (created_uuid L ''rule'' body))"

end
