(* ===== verification/ClientLaws.thy ===== *)
theory ClientLaws
  imports Client
begin

text \<open>
  What the client promises to its callers.

  Every method of the client is one HTTP exchange followed by a reading of the body: the locale
  \<open>endpoint\<close> states that shape as a contract and derives from it, once, that a call sends exactly one
  request, touches nothing of the cluster and turns every failed exchange into its error.
  \<open>pure_endpoint\<close> extends it for the methods whose reading is a function of the body.  Both are
  interpreted for all thirteen methods.

  The rest of the theory is about the readings themselves: the wire round trips of the payloads,
  the classification of responses, and the choice of the selected option.
\<close>

section \<open>Requests as data\<close>

definition body_of :: "payload option \<Rightarrow> string option" where
  "body_of p = (case encode_body p of Inl msg \<Rightarrow> None | Inr b \<Rightarrow> b)"

definition encodable :: "payload option \<Rightarrow> bool" where
  "encodable p \<longleftrightarrow> (\<forall>msg. p \<noteq> Some (Unsupported msg))"

definition api_request :: "Client \<Rightarrow> http_method \<Rightarrow> string \<Rightarrow> payload option \<Rightarrow> request" where
  "api_request c m path p = build_request c m path (body_of p)"

lemma encodable_simps [simp]: "encodable None" "encodable (Some (Encodable v))" "encodable empty_payload"
  by (simp_all add: encodable_def empty_payload_def)

lemma doJSON_encodable:
  "encodable p \<Longrightarrow>
     doJSON c m path p =
       HTTP (cl_httpClient c) (api_request c m path p) (\<lambda>res. Return (classify res))"
  by (cases p rule: encode_body.cases) (auto simp: doJSON_def api_request_def body_of_def encodable_def)

text \<open>Events that concern the cluster, that is, all but HTTP exchanges and map iteration.\<close>

fun cluster_event :: "event \<Rightarrow> bool" where
  "cluster_event (EHTTP c q r) = False"
| "cluster_event (ERange ks ks') = False"
| "cluster_event _ = True"

abbreviation cluster_events :: "event list \<Rightarrow> event list" where
  "cluster_events tr \<equiv> filter cluster_event tr"

text \<open>The writes among them, and the HTTP requests that can change OPNsense.\<close>

fun cluster_write :: "event \<Rightarrow> bool" where
  "cluster_write (EUpdateAlias x u) = True"
| "cluster_write (EUpdateFirewallRule x u) = True"
| "cluster_write (EStatusAlias x u) = True"
| "cluster_write (EStatusFirewallRule x u) = True"
| "cluster_write (EStatusConnection x u) = True"
| "cluster_write _ = False"

abbreviation writes :: "event list \<Rightarrow> event list" where
  "writes tr \<equiv> filter cluster_write tr"

text \<open>A trace whose writes are at most its last event.\<close>

definition last_write :: "event list \<Rightarrow> bool" where
  "last_write tr \<longleftrightarrow> writes (butlast tr) = []"

lemma last_write_simps [simp]:
  "last_write []" "last_write [ev]"
  "\<not> cluster_write ev \<Longrightarrow> last_write (ev # tr) = last_write tr"
  by (auto simp: last_write_def)

lemma writes_butlast: "writes t = [] \<Longrightarrow> writes (butlast t) = []"
  by (metis append_butlast_last_id append_is_Nil_conv butlast.simps(1) filter_append)

lemma last_write_none: "writes t = [] \<Longrightarrow> last_write t"
  by (simp add: last_write_def writes_butlast)

lemma last_write_append [simp]:
  "writes t1 = [] \<Longrightarrow> last_write (t1 @ t2) = last_write t2"
  by (simp add: last_write_def butlast_append writes_butlast)

definition posts :: "event list \<Rightarrow> request list" where
  "posts tr = filter (\<lambda>q. rq_Method q = POST) (map snd (http_requests tr))"

lemma posts_no_http [simp]: "http_requests tr = [] \<Longrightarrow> posts tr = []"
  by (simp add: posts_def)

lemma posts_append [simp]: "posts (t1 @ t2) = posts t1 @ posts t2"
  by (simp add: posts_def)

lemma posts_Cons_write: "cluster_event ev \<Longrightarrow> posts (ev # tr) = posts tr"
  by (cases ev) (simp_all add: posts_def)

lemma unwritten:
  "writes t = [] \<Longrightarrow> EUpdateAlias a u \<notin> set t"
  "writes t = [] \<Longrightarrow> EUpdateFirewallRule f u \<notin> set t"
  "writes t = [] \<Longrightarrow> EStatusAlias a u \<notin> set t"
  "writes t = [] \<Longrightarrow> EStatusFirewallRule f u \<notin> set t"
  "writes t = [] \<Longrightarrow> EStatusConnection c u \<notin> set t"
  by (auto simp: filter_empty_conv)

lemma cluster_write_event: "cluster_write ev \<Longrightarrow> cluster_event ev"
  by (cases ev) simp_all

lemma no_writes: "cluster_events tr = [] \<Longrightarrow> writes tr = []"
  by (auto simp: filter_empty_conv dest: cluster_write_event)

lemma api_request_sel [simp]:
  "rq_Method (api_request c m p b) = m" "rq_URL (api_request c m p b) = cl_baseURL c @ p"
  "rq_User (api_request c m p b) = cl_apiKey c" "rq_Password (api_request c m p b) = cl_apiSecret c"
  by (simp_all add: api_request_def build_request_def)

section \<open>The contract of a method\<close>

locale endpoint =
  fixes op :: "golib \<Rightarrow> Client \<Rightarrow> 'i \<Rightarrow> (err + 'o) prog"
    and meth :: http_method
    and path :: "'i \<Rightarrow> string"
    and payload :: "'i \<Rightarrow> payload option"
    and finish :: "golib \<Rightarrow> 'i \<Rightarrow> string \<Rightarrow> (err + 'o) prog"
  assumes op_eq: "op L c i = attempt (doJSON c meth (path i) (payload i)) (finish L i)"
    and payload_encodable: "encodable (payload i)"
    and finish_silent: "runs (finish L i b) tr r \<Longrightarrow> http_requests tr = [] \<and> cluster_events tr = []"
begin

lemma run_iff:
  "runs (op L c i) tr r \<longleftrightarrow>
     (\<exists>res e. classify res = Inl e \<and> r = Inl e \<and>
        tr = [EHTTP (cl_httpClient c) (api_request c meth (path i) (payload i)) res]) \<or>
     (\<exists>res b t. classify res = Inr b \<and> runs (finish L i b) t r \<and>
        tr = EHTTP (cl_httpClient c) (api_request c meth (path i) (payload i)) res # t)"
proof -
  let ?q = "api_request c meth (path i) (payload i)"
  have "runs (op L c i) tr r \<longleftrightarrow>
     (\<exists>res t. tr = EHTTP (cl_httpClient c) ?q res # t \<and>
        runs (case classify res of Inl e \<Rightarrow> Return (Inl e) | Inr b \<Rightarrow> finish L i b) t r)"
    unfolding op_eq doJSON_encodable [OF payload_encodable] attempt_def by auto
  also have "\<dots> \<longleftrightarrow> (\<exists>res e. classify res = Inl e \<and> r = Inl e \<and> tr = [EHTTP (cl_httpClient c) ?q res]) \<or>
     (\<exists>res b t. classify res = Inr b \<and> runs (finish L i b) t r \<and>
        tr = EHTTP (cl_httpClient c) ?q res # t)"
    (is "?l \<longleftrightarrow> ?r")
  proof
    assume ?l
    then obtain res t where t: "tr = EHTTP (cl_httpClient c) ?q res # t"
      "runs (case classify res of Inl e \<Rightarrow> Return (Inl e) | Inr b \<Rightarrow> finish L i b) t r" by blast
    then show ?r by (cases "classify res") auto
  next
    assume ?r
    then show ?l by fastforce
  qed
  finally show ?thesis .
qed

lemma one_request:
  "runs (op L c i) tr r \<Longrightarrow>
     http_requests tr = [(cl_httpClient c, api_request c meth (path i) (payload i))]"
  by (auto simp: run_iff dest!: finish_silent)

lemma no_cluster_events: "runs (op L c i) tr r \<Longrightarrow> cluster_events tr = []"
  by (auto simp: run_iff dest!: finish_silent)

lemma silent: "runs (op L c i) tr r \<Longrightarrow> writes tr = []"
  by (simp add: no_cluster_events no_writes)

lemma posted:
  "runs (op L c i) tr r \<Longrightarrow>
     posts tr = (if meth = POST then [api_request c meth (path i) (payload i)] else [])"
  by (simp add: posts_def one_request)

text \<open>A failed exchange is reported as it is, and there is no second attempt.\<close>

lemma failed_exchange:
  assumes "runs (op L c i) (EHTTP h q res # t) r" and "classify res = Inl e"
  shows "r = Inl e" and "t = []"
  using assms by (auto simp: run_iff)

text \<open>Success needs a response with a 2xx status.\<close>

lemma success_status:
  assumes "runs (op L c i) tr (Inr x)"
  shows "\<exists>code b t. tr = EHTTP (cl_httpClient c) (api_request c meth (path i) (payload i))
            (Response code b) # t \<and> status_ok code"
proof -
  from assms obtain res b t where
    tr: "tr = EHTTP (cl_httpClient c) (api_request c meth (path i) (payload i)) res # t"
    and "classify res = Inr b"
    by (auto simp: run_iff)
  then have "\<exists>code. res = Response code b \<and> status_ok code"
    by (cases res) (auto split: if_splits)
  with tr show ?thesis by auto
qed

end

locale pure_endpoint =
  fixes op :: "golib \<Rightarrow> Client \<Rightarrow> 'i \<Rightarrow> (err + 'o) prog"
    and meth :: http_method
    and path :: "'i \<Rightarrow> string"
    and payload :: "'i \<Rightarrow> payload option"
    and decode :: "golib \<Rightarrow> 'i \<Rightarrow> string \<Rightarrow> err + 'o"
  assumes op_pure:
      "op L c i = attempt (doJSON c meth (path i) (payload i)) (\<lambda>b. Return (decode L i b))"
    and encodable_payload: "encodable (payload i)"

sublocale pure_endpoint \<subseteq> endpoint op meth path payload "\<lambda>L i b. Return (decode L i b)"
  by unfold_locales (simp_all add: op_pure encodable_payload)

context pure_endpoint begin

text \<open>The trace of such a method is one event.\<close>

lemma single: "runs (op L c i) tr r \<Longrightarrow> \<exists>ev. tr = [ev]"
  by (auto simp: run_iff)

lemma exchange_iff:
  "runs (op L c i) tr r \<longleftrightarrow>
     (\<exists>res. tr = [EHTTP (cl_httpClient c) (api_request c meth (path i) (payload i)) res] \<and>
        r = bind_result (classify res) (decode L i))"
  unfolding run_iff by (auto simp: bind_result_def split: sum.split) (metis sum.exhaust)+

end

section \<open>The methods meet the contract\<close>

text \<open>
  Twelve methods read the body with a function; several arguments become a tuple, none becomes
  \<open>()\<close>.
\<close>

interpretation alias_uuid: pure_endpoint "GetAliasUUIDByName" GET
  "\<lambda>name. ''/api/firewall/alias/getAliasUUID/'' @ name"
  "\<lambda>_. None"
  "\<lambda>L _. decode_alias_uuid L"
  by unfold_locales (auto simp: GetAliasUUIDByName_def)

interpretation alias_export: pure_endpoint "GetAlias" GET
  "\<lambda>uuid. ''/api/firewall/alias/export?ids='' @ QueryEscape uuid"
  "\<lambda>_. None"
  "decode_export"
  by unfold_locales (auto simp: GetAlias_def)

interpretation alias_create: pure_endpoint "CreateAlias" POST
  "\<lambda>_. ''/api/firewall/alias/addItem''"
  "\<lambda>alias. Some (Encodable (aliasRequest_json (encodeAlias alias)))"
  "\<lambda>L _. created_uuid L ''alias''"
  by unfold_locales (auto simp: CreateAlias_def)

interpretation alias_update: pure_endpoint "\<lambda>L c (uuid, alias). UpdateAlias L c uuid alias" POST
  "\<lambda>(uuid, _). ''/api/firewall/alias/setItem/'' @ uuid"
  "\<lambda>(_, alias). Some (Encodable (aliasRequest_json (encodeAlias alias)))"
  "\<lambda>L _. updated L ErrAliasNotFound"
  by unfold_locales (auto simp: UpdateAlias_def)

interpretation alias_delete: pure_endpoint "DeleteAlias" POST
  "\<lambda>uuid. ''/api/firewall/alias/delItem/'' @ uuid"
  "\<lambda>_. empty_payload"
  "\<lambda>L _. decode_delete_alias L"
  by unfold_locales (auto simp: DeleteAlias_def)

interpretation connectivity: pure_endpoint "\<lambda>L c (_ :: unit). CheckConnectivity L c" GET
  "\<lambda>_. ''/api/core/system/status''"
  "\<lambda>_. None"
  "\<lambda>L _. decode_connectivity L"
  by unfold_locales (auto simp: CheckConnectivity_def)

interpretation alias_reconfigure: pure_endpoint "\<lambda>L c (_ :: unit). ReconfigureAliases L c" POST
  "\<lambda>_. ''/api/firewall/alias/reconfigure''"
  "\<lambda>_. empty_payload"
  "\<lambda>L _. decode_reconfigure L"
  by unfold_locales (auto simp: ReconfigureAliases_def)

interpretation rule_search: pure_endpoint "SearchRuleByManagedSuffix" GET
  "\<lambda>s. ''/api/firewall/filter/searchRule?searchPhrase='' @ QueryEscape s"
  "\<lambda>_. None"
  "\<lambda>L _. decode_search L"
  by unfold_locales (auto simp: SearchRuleByManagedSuffix_def)

interpretation rule_delete: pure_endpoint "DeleteRule" POST
  "\<lambda>uuid. ''/api/firewall/filter/delRule/'' @ uuid"
  "\<lambda>_. empty_payload"
  "\<lambda>L _. decode_delete_rule L"
  by unfold_locales (auto simp: DeleteRule_def)

interpretation rule_apply: pure_endpoint "\<lambda>L c (_ :: unit). ApplyFirewallRules L c" POST
  "\<lambda>_. ''/api/firewall/filter/apply''"
  "\<lambda>_. empty_payload"
  "\<lambda>L _. decode_apply L"
  by unfold_locales (auto simp: ApplyFirewallRules_def)

interpretation rule_update: pure_endpoint "\<lambda>L c (uuid, rule). UpdateRule L c uuid rule" POST
  "\<lambda>(uuid, _). ''/api/firewall/filter/setRule/'' @ uuid"
  "\<lambda>(_, rule). Some (Encodable (firewallRuleRequest_json (encodeFirewallRule rule)))"
  "\<lambda>L _. updated L ErrFirewallRuleNotFound"
  by unfold_locales (auto simp: UpdateRule_def)

interpretation rule_create: pure_endpoint "CreateRule" POST
  "\<lambda>_. ''/api/firewall/filter/addRule''"
  "\<lambda>rule. Some (Encodable (firewallRuleRequest_json (encodeFirewallRule rule)))"
  "\<lambda>L _. created_uuid L ''rule''"
  by unfold_locales (auto simp: CreateRule_def)

text \<open>\<open>GetRule\<close> goes on to choose options in map order.\<close>

lemma selectedKey_run [run_simps]:
  "runs (selectedKey m) tr k \<longleftrightarrow>
     (\<exists>ks. mset ks = mset (map fst (map_entries m)) \<and>
        tr = [ERange (map fst (map_entries m)) ks] \<and> k = first_selected m ks)"
  by (auto simp: selectedKey_def)

lemma getRule_result_silent:
  "runs (getRule_result r) tr x \<Longrightarrow> http_requests tr = [] \<and> cluster_events tr = []"
  by (auto simp: getRule_result_def run_simps)

interpretation rule_get: endpoint GetRule GET "\<lambda>uuid. ''/api/firewall/filter/getRule/'' @ uuid"
  "\<lambda>_. None"
  "\<lambda>L _ body. case decode_getRule L body of Inl e \<Rightarrow> Return (Inl e) | Inr r \<Rightarrow> getRule_result r"
  by unfold_locales (auto simp: GetRule_def run_simps dest: getRule_result_silent)

text \<open>One fact per method: a call is one exchange and its reading.\<close>

lemmas GetAliasUUIDByName_run [exchange_simps] = alias_uuid.exchange_iff
lemmas GetAlias_run [exchange_simps] = alias_export.exchange_iff
lemmas CreateAlias_run [exchange_simps] = alias_create.exchange_iff
lemmas UpdateAlias_run [exchange_simps] = alias_update.exchange_iff [where i = "(uuid, x)" for uuid x, unfolded prod.case]
lemmas DeleteAlias_run [exchange_simps] = alias_delete.exchange_iff
lemmas CheckConnectivity_run [exchange_simps] = connectivity.exchange_iff
lemmas ReconfigureAliases_run [exchange_simps] = alias_reconfigure.exchange_iff
lemmas SearchRuleByManagedSuffix_run [exchange_simps] = rule_search.exchange_iff
lemmas DeleteRule_run [exchange_simps] = rule_delete.exchange_iff
lemmas ApplyFirewallRules_run [exchange_simps] = rule_apply.exchange_iff
lemmas UpdateRule_run [exchange_simps] = rule_update.exchange_iff [where i = "(uuid, x)" for uuid x, unfolded prod.case]
lemmas CreateRule_run [exchange_simps] = rule_create.exchange_iff

text \<open>Bundles for the callers: no method writes to the cluster, and what each posts.\<close>

lemmas client_silent =
  alias_uuid.silent
  alias_export.silent
  alias_create.silent
  alias_update.silent [of _ _ "(uuid, x)" for uuid x, unfolded prod.case]
  alias_delete.silent
  connectivity.silent
  alias_reconfigure.silent
  rule_search.silent
  rule_delete.silent
  rule_apply.silent
  rule_update.silent [of _ _ "(uuid, x)" for uuid x, unfolded prod.case]
  rule_create.silent
  rule_get.silent

lemmas client_posted =
  alias_uuid.posted
  alias_export.posted
  alias_create.posted
  alias_update.posted [of _ _ "(uuid, x)" for uuid x, unfolded prod.case]
  alias_delete.posted
  connectivity.posted
  alias_reconfigure.posted
  rule_search.posted
  rule_delete.posted
  rule_apply.posted
  rule_update.posted [of _ _ "(uuid, x)" for uuid x, unfolded prod.case]
  rule_create.posted
  rule_get.posted

lemmas client_requests =
  alias_uuid.one_request
  alias_export.one_request
  alias_create.one_request
  alias_update.one_request [of _ _ "(uuid, x)" for uuid x, unfolded prod.case]
  alias_delete.one_request
  connectivity.one_request
  alias_reconfigure.one_request
  rule_search.one_request
  rule_delete.one_request
  rule_apply.one_request
  rule_update.one_request [of _ _ "(uuid, x)" for uuid x, unfolded prod.case]
  rule_create.one_request
  rule_get.one_request

text \<open>
  A request that is made for a client: through its transport, with its credentials, below a path of
  its base URL; and a trace of at most so many of them.
\<close>

definition made_for :: "Client \<Rightarrow> string \<Rightarrow> http_client \<times> request \<Rightarrow> bool" where
  "made_for c area hq \<longleftrightarrow>
     fst hq = cl_httpClient c \<and> rq_User (snd hq) = cl_apiKey c \<and>
     rq_Password (snd hq) = cl_apiSecret c \<and> prefix (cl_baseURL c @ area) (rq_URL (snd hq))"

definition calls :: "Client \<Rightarrow> string \<Rightarrow> nat \<Rightarrow> event list \<Rightarrow> bool" where
  "calls c area n tr \<longleftrightarrow> length (http_requests tr) \<le> n \<and> list_all (made_for c area) (http_requests tr)"

lemma made_for_api_request [simp]:
  "made_for c area (cl_httpClient c, api_request c m path p) \<longleftrightarrow> prefix area path"
  by (simp add: made_for_def)

lemma calls_none: "http_requests tr = [] \<Longrightarrow> calls c area n tr"
  by (simp add: calls_def)

lemma calls_append:
  "calls c area n t1 \<Longrightarrow> calls c area m t2 \<Longrightarrow> n + m \<le> k \<Longrightarrow> calls c area k (t1 @ t2)"
  by (simp add: calls_def)

lemma calls_mono: "calls c area n tr \<Longrightarrow> n \<le> m \<Longrightarrow> calls c area m tr"
  by (simp add: calls_def)

end
