(* ===== verification/Connecting.thy ===== *)
theory Connecting
  imports ClientLaws
begin

text \<open>
  What the three reconcilers share: \<open>ctrl.Result\<close>, the TLS client of
  internal/controller/http_client.go, the credentials read from a Secret, the client built for a
  connection reference (the same code stands in alias_controller.go and
  firewallrule_controller.go), and the contract of the status writers.
\<close>

section \<open>Results\<close>

record Result =
  res_RequeueAfter :: "64 word"

definition no_requeue :: Result where
  "no_requeue = \<lparr>res_RequeueAfter = 0\<rparr>"

type_synonym outcome = "Result \<times> err option"

definition ConditionTrue :: string where "ConditionTrue = ''True''"
definition ConditionFalse :: string where "ConditionFalse = ''False''"

definition ready_condition ::
  "ObjectMeta \<Rightarrow> string \<Rightarrow> string \<Rightarrow> string \<Rightarrow> Condition" where
  "ready_condition m status reason message =
     \<lparr>cond_Type = ''Ready'', cond_Status = status, cond_Reason = reason, cond_Message = message,
      cond_ObservedGeneration = om_Generation m\<rparr>"

definition is_ready :: "golib \<Rightarrow> Condition list \<Rightarrow> bool" where
  "is_ready L cs \<longleftrightarrow>
     (case FindStatusCondition L cs ''Ready'' of
        None \<Rightarrow> False | Some c \<Rightarrow> cond_Status c = ConditionTrue)"

lemma find_ready_condition:
  assumes "condition_laws L"
  shows "FindStatusCondition L (SetStatusCondition L cs (ready_condition m status reason message)) ''Ready''
           = Some (ready_condition m status reason message)"
proof -
  let ?c = "ready_condition m status reason message"
  have "FindStatusCondition L (SetStatusCondition L cs ?c) (cond_Type ?c) = Some ?c"
    using assms unfolding condition_laws_def by blast
  then show ?thesis
    by (simp add: ready_condition_def)
qed

lemma is_ready_set:
  "condition_laws L \<Longrightarrow>
     is_ready L (SetStatusCondition L cs (ready_condition m status reason message))
       \<longleftrightarrow> status = ConditionTrue"
  by (simp add: is_ready_def find_ready_condition) (simp add: ready_condition_def)

lemma ConditionFalse_True [simp]: "ConditionFalse \<noteq> ConditionTrue"
  by (simp add: ConditionFalse_def ConditionTrue_def)

section \<open>Building a client\<close>

definition secret_value :: "Secret \<Rightarrow> string \<Rightarrow> string" where
  "secret_value s k = (case map_of (map_entries (sec_Data s)) k of Some v \<Rightarrow> v | None \<Rightarrow> [])"

definition secret_key :: "SecretReference \<Rightarrow> NamespacedName" where
  "secret_key r = \<lparr>nn_Namespace = sr_Namespace r, nn_Name = sr_Name r\<rparr>"

definition slashed :: "NamespacedName \<Rightarrow> string" where
  "slashed n = nn_Namespace n @ ''/'' @ nn_Name n"

definition single_quoted :: "string \<Rightarrow> string" where
  "single_quoted s = [CHR 0x27] @ s @ [CHR 0x27]"

definition buildHTTPClient :: "golib \<Rightarrow> TLSSpec option \<Rightarrow> (err + http_client option) prog" where
  "buildHTTPClient L tlsSpec =
     (case tlsSpec of
        None \<Rightarrow> Return (Inr None)
      | Some tls \<Rightarrow>
          (case tls_CASecretRef tls of
             Some ref \<Rightarrow>
               (let caKey = secret_key ref in
                GetSecret caKey (\<lambda>r.
                  case r of
                    Inl err \<Rightarrow>
                      Return (Inl (Wrapf (''fetch CA Secret '' @ slashed caKey @ '': '') err []))
                  | Inr caSecret \<Rightarrow>
                      (let caCert = secret_value caSecret ''ca.crt'' in
                       if caCert = [] then
                         Return (Inl (Errorf (''CA Secret '' @ slashed caKey
                           @ '' must have a non-empty key '' @ single_quoted ''ca.crt'')))
                       else if \<not> AppendCertsFromPEM L caCert then
                         Return (Inl (Errorf (''failed to parse CA certificate from Secret ''
                           @ slashed caKey)))
                       else Return (Inr (Some (RootCAsClient caCert))))))
           | None \<Rightarrow>
               if tls_InsecureSkipVerify tls then Return (Inr (Some InsecureClient))
               else Return (Inr None)))"

definition cluster_key :: "string \<Rightarrow> NamespacedName" where
  "cluster_key name = \<lparr>nn_Namespace = [], nn_Name = name\<rparr>"

text \<open>
  What the two \<open>buildOPNsenseClient\<close> functions of the controllers specify: three reads, each failing
  with a reason for the status condition, and two checks between them.
\<close>

definition or_reason ::
  "string \<Rightarrow> string \<Rightarrow> (err + 'a) prog \<Rightarrow> ('a \<Rightarrow> ((string \<times> err) + 'b) prog) \<Rightarrow>
     ((string \<times> err) + 'b) prog" where
  "or_reason reason pre p k =
     bind p (\<lambda>r. case r of Inl e \<Rightarrow> Return (Inl (reason, Wrapf pre e [])) | Inr x \<Rightarrow> k x)"

definition not_ready_text :: "golib \<Rightarrow> OPNsenseConnection \<Rightarrow> string" where
  "not_ready_text L conn =
     ''OPNsenseConnection '' @ Quote (is_print L) (om_Name (conn_Meta conn)) @ '' is not ready''"

definition credentials_text :: "NamespacedName \<Rightarrow> string" where
  "credentials_text k =
     ''credentials Secret '' @ slashed k @ '' must have non-empty '' @ single_quoted ''apiKey''
       @ '' and '' @ single_quoted ''apiSecret''"

definition credentials_key :: "OPNsenseConnection \<Rightarrow> NamespacedName" where
  "credentials_key conn = secret_key (cred_SecretRef (cs_Credentials (conn_Spec conn)))"

definition clientFor :: "golib \<Rightarrow> string \<Rightarrow> ((string \<times> err) + Client) prog" where
  "clientFor L refName =
     or_reason ''ConnectionNotFound''
       (''fetch OPNsenseConnection '' @ Quote (is_print L) refName @ '': '')
       (GetConnection (cluster_key refName) Return) (\<lambda>conn.
     if \<not> is_ready L (cst_Conditions (conn_Status conn)) then
       Return (Inl (''ConnectionNotReady'', Errorf (not_ready_text L conn)))
     else
     or_reason ''CredentialsNotFound''
       (''fetch credentials Secret '' @ slashed (credentials_key conn) @ '': '')
       (GetSecret (credentials_key conn) Return) (\<lambda>secret.
     if secret_value secret ''apiKey'' = [] \<or> secret_value secret ''apiSecret'' = [] then
       Return (Inl (''CredentialsInvalid'', Errorf (credentials_text (credentials_key conn))))
     else
     or_reason ''TLSConfigFailed'' ''build TLS client: ''
       (buildHTTPClient L (cs_TLS (conn_Spec conn))) (\<lambda>httpClient.
     Return (Inr (NewClient (cs_URL (conn_Spec conn)) (secret_value secret ''apiKey'')
                    (secret_value secret ''apiSecret'') httpClient)))))"

lemmas clientFor_unfold =
  clientFor_def or_reason_def not_ready_text_def credentials_text_def credentials_key_def

section \<open>Status writers\<close>

text \<open>
  Each reconciler has its own \<open>setReadyCondition\<close>, \<open>setReadyFailed\<close>.  The contract is the same:
  one status update that carries the object with the Ready condition set, whose failure is
  wrapped and returned, and for \<open>setReadyFailed\<close> the cause as the error when the update succeeds.
\<close>

definition report :: "string \<Rightarrow> err option \<Rightarrow> err option" where
  "report what r = map_option (\<lambda>e. Wrapf (''update '' @ what @ '' status: '') e []) r"

locale status_writer =
  fixes setCondition :: "golib \<Rightarrow> 'cr \<Rightarrow> string \<Rightarrow> string \<Rightarrow> string \<Rightarrow> err option prog"
    and setFailed :: "golib \<Rightarrow> 'cr \<Rightarrow> string \<Rightarrow> string \<Rightarrow> err \<Rightarrow> outcome prog"
    and written :: "golib \<Rightarrow> 'cr \<Rightarrow> string \<Rightarrow> string \<Rightarrow> string \<Rightarrow> 'cr"
    and status_event :: "'cr \<Rightarrow> err option \<Rightarrow> event"
    and kind :: string
  assumes set_run: "runs (setCondition L x status reason message) tr r \<longleftrightarrow>
      (\<exists>u. tr = [status_event (written L x status reason message) u] \<and> r = report kind u)"
    and failed_eq: "setFailed L x reason message cause =
      bind (setCondition L x ConditionFalse reason message) (\<lambda>r.
        Return (no_requeue, Some (case r of Some e \<Rightarrow> e | None \<Rightarrow> cause)))"
begin

lemma failed_run:
  "runs (setFailed L x reason message cause) tr r \<longleftrightarrow>
     (\<exists>u. tr = [status_event (written L x ConditionFalse reason message) u] \<and>
        r = (no_requeue, Some (case report kind u of Some e \<Rightarrow> e | None \<Rightarrow> cause)))"
  by (auto simp: failed_eq runs_bind set_run)

text \<open>A failure is never reported as success: there is always an error to requeue on.\<close>

lemma failed_is_error: "runs (setFailed L x reason message cause) tr (res, e) \<Longrightarrow> e \<noteq> None"
  by (auto simp: failed_run)

end

text \<open>A run that writes nothing and then reports a failure for one of the given reasons.\<close>

definition failing ::
  "(golib \<Rightarrow> 'cr \<Rightarrow> string \<Rightarrow> string \<Rightarrow> err \<Rightarrow> outcome prog) \<Rightarrow> string set \<Rightarrow>
     golib \<Rightarrow> 'cr \<Rightarrow> event list \<Rightarrow> outcome \<Rightarrow> bool" where
  "failing setFailed reasons L x tr r \<longleftrightarrow>
     (\<exists>t t2 reason e. tr = t @ t2 \<and> writes t = [] \<and> reason \<in> reasons \<and>
        runs (setFailed L x reason (Error e) e) t2 r)"

lemma failingI:
  "runs (setFailed L x reason (Error e) e) tr r \<Longrightarrow> reason \<in> reasons \<Longrightarrow>
     failing setFailed reasons L x tr r"
  unfolding failing_def by (metis append_Nil filter.simps(1))

lemma failing_append:
  "writes t1 = [] \<Longrightarrow> failing setFailed reasons L x t2 r \<Longrightarrow>
     failing setFailed reasons L x (t1 @ t2) r"
  unfolding failing_def by (metis append.assoc append_Nil filter_append)

section \<open>Reconcilers\<close>

text \<open>
  What the manager relies on in each of the three reconcilers: at most one write to the API
  server, as the last step, and no success if that write was refused.
\<close>

fun accepted :: "event \<Rightarrow> bool" where
  "accepted (EUpdateAlias x u) = (u = None)"
| "accepted (EUpdateFirewallRule x u) = (u = None)"
| "accepted (EStatusAlias x u) = (u = None)"
| "accepted (EStatusFirewallRule x u) = (u = None)"
| "accepted (EStatusConnection x u) = (u = None)"
| "accepted _ = True"

locale reconciler =
  fixes reconcile :: "golib \<Rightarrow> NamespacedName \<Rightarrow> outcome prog"
  assumes ends: "runs (reconcile L n) tr r \<Longrightarrow>
    writes tr = [] \<or> (\<exists>t ev. tr = t @ [ev] \<and> writes t = [] \<and> (snd r = None \<longrightarrow> accepted ev))"
begin

lemma write_is_last: "runs (reconcile L n) tr r \<Longrightarrow> last_write tr"
  by (auto dest!: ends simp: last_write_none)

lemma at_most_one_write: "runs (reconcile L n) tr r \<Longrightarrow> length (writes tr) \<le> 1"
  by (auto dest!: ends)

lemma success_accepted: "runs (reconcile L n) tr (res, None) \<Longrightarrow> list_all accepted (writes tr)"
  by (auto dest!: ends)

end

section \<open>Which clients can be built\<close>

definition cluster_reads :: "event list \<Rightarrow> bool" where
  "cluster_reads tr \<longleftrightarrow>
     list_all (\<lambda>ev. case ev of EGetConnection k c \<Rightarrow> True | EGetSecret k s \<Rightarrow> True | _ \<Rightarrow> False) tr"

lemma cluster_reads_simps [simp]:
  "cluster_reads []"
  "cluster_reads (EGetConnection k c # tr) = cluster_reads tr"
  "cluster_reads (EGetSecret k s # tr) = cluster_reads tr"
  "cluster_reads (t1 @ t2) \<longleftrightarrow> cluster_reads t1 \<and> cluster_reads t2"
  by (simp_all add: cluster_reads_def)

lemma cluster_reads_silent: "cluster_reads tr \<Longrightarrow> http_requests tr = [] \<and> writes tr = []"
proof (induction tr)
  case (Cons ev tr)
  then show ?case by (cases ev) (simp_all add: cluster_reads_def)
qed simp

lemma buildHTTPClient_reads: "runs (buildHTTPClient L t) tr r \<Longrightarrow> cluster_reads tr"
  by (auto simp: buildHTTPClient_def Let_def run_simps)

lemma clientFor_reads: "runs (clientFor L n) tr r \<Longrightarrow> cluster_reads tr"
  by (auto simp: clientFor_def or_reason_def run_simps dest: buildHTTPClient_reads)

text \<open>Certificates are not verified only where the spec says so and names no CA.\<close>

definition tls_insecure :: "TLSSpec option \<Rightarrow> bool" where
  "tls_insecure t \<longleftrightarrow>
     (case t of None \<Rightarrow> False
      | Some tls \<Rightarrow> tls_InsecureSkipVerify tls \<and> tls_CASecretRef tls = None)"

lemma buildHTTPClient_insecure:
  "runs (buildHTTPClient L t) tr (Inr (Some InsecureClient)) \<Longrightarrow> tls_insecure t"
  by (auto simp: buildHTTPClient_def tls_insecure_def Let_def run_simps)

text \<open>
  What a client for a connection rests on: the connection was read and Ready, its Secret was read
  and holds both credentials, and the client is made of exactly these.
\<close>

definition connected :: "golib \<Rightarrow> string \<Rightarrow> event list \<Rightarrow> Client \<Rightarrow> bool" where
  "connected L name tr c \<longleftrightarrow>
     (\<exists>conn secret.
        EGetConnection (cluster_key name) (Inr conn) \<in> set tr \<and>
        is_ready L (cst_Conditions (conn_Status conn)) \<and>
        EGetSecret (credentials_key conn) (Inr secret) \<in> set tr \<and>
        cl_apiKey c = secret_value secret ''apiKey'' \<and> cl_apiKey c \<noteq> [] \<and>
        cl_apiSecret c = secret_value secret ''apiSecret'' \<and> cl_apiSecret c \<noteq> [] \<and>
        cl_baseURL c = TrimRight (cs_URL (conn_Spec conn)) (CHR ''/'') \<and>
        (cl_httpClient c = InsecureClient \<longrightarrow> tls_insecure (cs_TLS (conn_Spec conn))))"

lemma clientFor_connected: "runs (clientFor L n) tr (Inr c) \<Longrightarrow> connected L n tr c"
  by (fastforce simp: clientFor_def or_reason_def run_simps connected_def NewClient_def
      split: option.splits dest: buildHTTPClient_insecure)

lemma connected_mono: "connected L n t c \<Longrightarrow> set t \<subseteq> set tr \<Longrightarrow> connected L n tr c"
  unfolding connected_def by blast

definition connection_reasons :: "string set" where
  "connection_reasons =
     {''ConnectionNotFound'', ''ConnectionNotReady'', ''CredentialsNotFound'',
      ''CredentialsInvalid'', ''TLSConfigFailed''}"

lemma clientFor_reason:
  "runs (clientFor L n) tr (Inl (reason, e)) \<Longrightarrow> reason \<in> connection_reasons"
  by (auto simp: clientFor_def or_reason_def run_simps connection_reasons_def)

text \<open>The two reconcilers of firewall objects have a copy each of this function.\<close>

locale client_builder =
  fixes build :: "golib \<Rightarrow> 'cr \<Rightarrow> ((string \<times> err) + Client) prog"
    and ref_name :: "'cr \<Rightarrow> string"
  assumes build_eq: "build L x = clientFor L (ref_name x)"
begin

lemma silent: "runs (build L x) tr r \<Longrightarrow> writes tr = []"
  and no_http: "runs (build L x) tr r \<Longrightarrow> http_requests tr = []"
  by (simp_all add: build_eq clientFor_reads cluster_reads_silent)

lemma no_posts: "runs (build L x) tr r \<Longrightarrow> posts tr = []"
  by (simp add: no_http)

lemma connected: "runs (build L x) tr (Inr c) \<Longrightarrow> connected L (ref_name x) tr c"
  by (simp add: build_eq clientFor_connected)

lemma reason: "runs (build L x) tr (Inl (reason, e)) \<Longrightarrow> reason \<in> connection_reasons"
  by (simp add: build_eq clientFor_reason)

end

end
