(* ===== verification/Drift.thy ===== *)
theory Drift
  imports Client
begin

text \<open>
  Drift between a spec and what OPNsense holds: \<open>specToAlias\<close> and \<open>aliasNeedsUpdate\<close> of
  internal/controller/alias_controller.go, \<open>specToRule\<close> and \<open>ruleNeedsUpdate\<close> of
  internal/controller/firewallrule_controller.go, and the contract of both pairs.
\<close>

section \<open>The contract\<close>

text \<open>
  \<open>view s e\<close> is the external object \<open>e\<close> with the fields that \<open>s\<close> leaves to OPNsense blanked.  Drift
  is a difference between the views of what there is and what is desired.
\<close>

locale drift =
  fixes desired :: "'spec \<Rightarrow> 'ext"
    and needs :: "'spec \<Rightarrow> 'ext \<Rightarrow> bool"
    and view :: "'spec \<Rightarrow> 'ext \<Rightarrow> 'ext"
  assumes needs_iff: "needs s e \<longleftrightarrow> view s e \<noteq> view s (desired s)"
begin

text \<open>Writing the desired object leaves no drift, also when OPNsense fills the blanks its own way.\<close>

lemma written: "view s e = view s (desired s) \<Longrightarrow> \<not> needs s e"
  by (simp add: needs_iff)

lemma desired_settles: "\<not> needs s (desired s)"
  by (simp add: needs_iff)

text \<open>Two external objects without drift differ only in the blanks.\<close>

lemma settled_agree: "\<not> needs s e \<Longrightarrow> \<not> needs s e' \<Longrightarrow> view s e = view s e'"
  by (simp add: needs_iff)

text \<open>Drift is a matter of the view alone.\<close>

lemma needs_cong: "view s e = view s e' \<Longrightarrow> needs s e = needs s e'"
  by (simp add: needs_iff)

end

section \<open>Aliases\<close>

definition newline :: char where
  "newline = CHR 0x0A"

definition aliasNeedsUpdate :: "AliasSpec \<Rightarrow> Alias \<Rightarrow> bool" where
  "aliasNeedsUpdate spec existing \<longleftrightarrow>
     as_Enabled spec \<noteq> a_Enabled existing \<or>
     as_Type spec \<noteq> a_Type existing \<or>
     as_Description spec \<noteq> a_Description existing \<or>
     Join (as_Entries spec) [newline] \<noteq> a_Content existing"

definition specToAlias :: "AliasSpec \<Rightarrow> Alias" where
  "specToAlias spec =
     \<lparr>a_Enabled = as_Enabled spec, a_Name = as_Name spec, a_Type = as_Type spec,
      a_Content = Join (as_Entries spec) [newline], a_Description = as_Description spec\<rparr>"

interpretation alias_drift: drift specToAlias aliasNeedsUpdate "\<lambda>s e. e\<lparr>a_Name := []\<rparr>"
proof unfold_locales
  fix s e
  show "aliasNeedsUpdate s e \<longleftrightarrow> e\<lparr>a_Name := []\<rparr> \<noteq> (specToAlias s)\<lparr>a_Name := []\<rparr>"
    by (cases e) (auto simp: aliasNeedsUpdate_def specToAlias_def)
qed

section \<open>Firewall rules\<close>

definition managed_suffix :: "string \<Rightarrow> string \<Rightarrow> string" where
  "managed_suffix namespace name = ''[opnsense-operator:'' @ namespace @ ''/'' @ name @ '']''"

definition specToRule :: "FirewallRuleSpec \<Rightarrow> string \<Rightarrow> string \<Rightarrow> FirewallRule" where
  "specToRule spec namespace name =
     (let description = TrimSpace (rs_Description spec @ '' '' @ managed_suffix namespace name);
          seq = (case rs_Sequence spec of None \<Rightarrow> [] | Some s \<Rightarrow> show_int (sint s))
      in
      \<lparr>r_Enabled = rs_Enabled spec, r_Action = rs_Action spec, r_Interface = rs_Interface spec,
       r_Direction = rs_Direction spec, r_IPProtocol = rs_IPProtocol spec,
       r_Protocol = rs_Protocol spec, r_SourceNet = ep_Net (rs_Source spec),
       r_SourceNot = ep_Not (rs_Source spec), r_SourcePort = ep_Port (rs_Source spec),
       r_DestinationNet = ep_Net (rs_Destination spec),
       r_DestinationNot = ep_Not (rs_Destination spec),
       r_DestinationPort = ep_Port (rs_Destination spec), r_Sequence = seq, r_Log = rs_Log spec,
       r_Quick = rs_Quick spec, r_Description = description\<rparr>)"

definition ruleNeedsUpdate ::
  "FirewallRuleSpec \<Rightarrow> string \<Rightarrow> string \<Rightarrow> FirewallRule \<Rightarrow> bool" where
  "ruleNeedsUpdate spec namespace name existing =
     (let desired = specToRule spec namespace name in
      if r_Enabled desired \<noteq> r_Enabled existing \<or>
         r_Action desired \<noteq> r_Action existing \<or>
         r_Interface desired \<noteq> r_Interface existing \<or>
         r_Direction desired \<noteq> r_Direction existing \<or>
         r_IPProtocol desired \<noteq> r_IPProtocol existing \<or>
         r_Protocol desired \<noteq> r_Protocol existing \<or>
         r_SourceNet desired \<noteq> r_SourceNet existing \<or>
         r_SourceNot desired \<noteq> r_SourceNot existing \<or>
         r_SourcePort desired \<noteq> r_SourcePort existing \<or>
         r_DestinationNet desired \<noteq> r_DestinationNet existing \<or>
         r_DestinationNot desired \<noteq> r_DestinationNot existing \<or>
         r_DestinationPort desired \<noteq> r_DestinationPort existing \<or>
         r_Log desired \<noteq> r_Log existing \<or>
         r_Quick desired \<noteq> r_Quick existing \<or>
         r_Description desired \<noteq> r_Description existing
      then True
      else if rs_Sequence spec \<noteq> None \<and> r_Sequence desired \<noteq> r_Sequence existing then True
      else False)"

text \<open>OPNsense numbers a rule whose spec has no sequence.\<close>

definition rule_view :: "FirewallRuleSpec \<Rightarrow> FirewallRule \<Rightarrow> FirewallRule" where
  "rule_view spec e = (if rs_Sequence spec = None then e\<lparr>r_Sequence := []\<rparr> else e)"

interpretation rule_drift: drift
  "\<lambda>(spec, namespace, name). specToRule spec namespace name"
  "\<lambda>(spec, namespace, name). ruleNeedsUpdate spec namespace name"
  "\<lambda>(spec, namespace, name). rule_view spec"
proof unfold_locales
  fix s :: "FirewallRuleSpec \<times> string \<times> string" and e
  obtain spec namespace name where s: "s = (spec, namespace, name)" by (cases s)
  obtain d where d: "specToRule spec namespace name = d" by simp
  have "ruleNeedsUpdate spec namespace name e \<longleftrightarrow> rule_view spec e \<noteq> rule_view spec d"
    unfolding ruleNeedsUpdate_def d Let_def rule_view_def by (cases d; cases e) auto
  then show "(case s of (spec, namespace, name) \<Rightarrow> ruleNeedsUpdate spec namespace name) e \<longleftrightarrow>
      (case s of (spec, namespace, name) \<Rightarrow> rule_view spec) e \<noteq>
      (case s of (spec, namespace, name) \<Rightarrow> rule_view spec)
        (case s of (spec, namespace, name) \<Rightarrow> specToRule spec namespace name)"
    by (simp add: s d)
qed

section \<open>The managed suffix\<close>

lemma in_space_runes: "p \<in> set space_runes \<Longrightarrow> CHR ''['' \<notin> set p \<and> CHR '']'' \<notin> set p"
  by (auto simp: space_runes_def)

text \<open>
  A description is the user's, trimmed on the left, and the suffix: trimming cannot reach the
  suffix, since it begins and ends with a bracket.
\<close>

lemma managed_description:
  "r_Description (specToRule spec namespace name) =
     trim_prefixes space_runes (rs_Description spec @ '' '') @ managed_suffix namespace name"
proof -
  let ?s = "rs_Description spec @ '' '' @ managed_suffix namespace name"
  obtain y where y: "managed_suffix namespace name = CHR ''['' # y" and "last (CHR ''['' # y) = CHR '']''"
    unfolding managed_suffix_def by (simp add: last_append)
  then have "TrimSpace ?s = trim_prefixes space_runes ?s"
    using in_space_runes by (intro TrimSpace_right_closed [of "CHR '']''"]) (auto simp: last_append)
  also have "\<dots> = trim_prefixes space_runes (rs_Description spec @ '' '') @ CHR ''['' # y"
    using trim_prefixes_append [of space_runes "CHR ''[''" "rs_Description spec @ '' ''" y]
      in_space_runes by (simp add: y)
  finally show ?thesis
    by (simp add: specToRule_def Let_def y)
qed

lemma managed_suffix_inject:
  assumes "x @ managed_suffix ns name = x' @ managed_suffix ns' name'"
    and "CHR ''['' \<notin> set (ns @ name)" and "CHR ''['' \<notin> set (ns' @ name')"
    and "CHR ''/'' \<notin> set ns" and "CHR ''/'' \<notin> set ns'"
  shows "ns = ns' \<and> name = name'"
proof -
  define tail where "tail = (\<lambda>ns name. ''opnsense-operator:'' @ ns @ ''/'' @ name @ '']'')"
  have eq: "rev (tail ns name) @ CHR ''['' # rev x = rev (tail ns' name') @ CHR ''['' # rev x'"
    using arg_cong [OF assms(1), of rev] by (simp add: managed_suffix_def tail_def)
  have free: "CHR ''['' \<notin> set (rev (tail ns name))" "CHR ''['' \<notin> set (rev (tail ns' name'))"
    using assms(2,3) by (simp_all add: tail_def)
  have "rev (tail ns name) = rev (tail ns' name')"
    using split_at_first [OF free eq] by (rule conjunct1)
  then have "ns @ CHR ''/'' # name @ '']'' = ns' @ CHR ''/'' # name' @ '']''"
    unfolding rev_is_rev_conv by (simp add: tail_def)
  then show ?thesis
    using split_at_first [OF assms(4,5)] by simp
qed

lemma specToRule_sequence:
  "r_Sequence (specToRule s ns n) =
     (case rs_Sequence s of None \<Rightarrow> [] | Some w \<Rightarrow> show_int (sint w))"
  by (simp add: specToRule_def Let_def)

lemma show_int_nonempty: "[] \<noteq> show_int i"
  using show_nat_nonempty [of "nat i"] by (auto simp: show_int_def)

lemma set_sequence_eq: "d\<lparr>r_Sequence := x\<rparr> = d \<longleftrightarrow> x = r_Sequence d" for d :: FirewallRule
  by (cases d) auto

section \<open>Properties\<close>

text \<open>
  An alias is updated exactly when what OPNsense has, given the name of the spec, is not what the
  spec asks for: the name is the one field that is not compared.
\<close>

theorem alias_drift_exact:
  "aliasNeedsUpdate s e \<longleftrightarrow> e\<lparr>a_Name := as_Name s\<rparr> \<noteq> specToAlias s"
  by (cases e) (auto simp: aliasNeedsUpdate_def specToAlias_def)

text \<open>
  C29: although entries are compared as one joined text, an edit of them does not go unnoticed: against an
  alias written for one spec, another spec drifts exactly when it differs in state, type,
  description or entries, for non-empty lists of entries without line breaks.  The name is not compared.
\<close>

theorem alias_drift_detects:
  assumes "as_Entries s \<noteq> []" and "as_Entries s' \<noteq> []"
    and "\<forall>x \<in> set (as_Entries s) \<union> set (as_Entries s'). newline \<notin> set x"
  shows "aliasNeedsUpdate s (specToAlias s') \<longleftrightarrow>
     (as_Enabled s, as_Type s, as_Description s, as_Entries s)
       \<noteq> (as_Enabled s', as_Type s', as_Description s', as_Entries s')"
proof -
  have "Join (as_Entries s) [newline] = Join (as_Entries s') [newline] \<longleftrightarrow> as_Entries s = as_Entries s'"
    using assms Join_inject [of "as_Entries s" newline "as_Entries s'"] by auto
  then show ?thesis
    by (auto simp: aliasNeedsUpdate_def specToAlias_def)
qed

text \<open>
  C28: a rule is updated exactly when what OPNsense has is not what the spec asks for, up to the
  sequence when the spec leaves it to OPNsense.
\<close>

theorem rule_drift_exact:
  "ruleNeedsUpdate spec namespace name e \<longleftrightarrow>
     rule_view spec e \<noteq> rule_view spec (specToRule spec namespace name)"
  using rule_drift.needs_iff [of "(spec, namespace, name)" e] by simp

text \<open>
  Writing the desired rule settles it: when OPNsense keeps what it was sent and assigns a sequence
  to a rule that came without one, there is no drift afterwards, so no update loop.
\<close>

theorem rule_update_settles:
  assumes "rs_Sequence spec \<noteq> None \<Longrightarrow> seq = r_Sequence (specToRule spec namespace name)"
  shows "\<not> ruleNeedsUpdate spec namespace name ((specToRule spec namespace name)\<lparr>r_Sequence := seq\<rparr>)"
  using rule_drift.written [of "(spec, namespace, name)" "(specToRule spec namespace name)\<lparr>r_Sequence := seq\<rparr>"]
    assms by (simp add: rule_view_def)

text \<open>
  Against a rule written for one spec, another spec of the same object with a sequence drifts in
  it exactly when the two 32-bit signed numbers differ, although they are compared as texts.
\<close>

theorem rule_sequence_drift:
  assumes "rs_Sequence s = Some w"
  shows "ruleNeedsUpdate s ns n ((specToRule s ns n)\<lparr>r_Sequence := r_Sequence (specToRule s' ns n)\<rparr>)
     \<longleftrightarrow> rs_Sequence s' \<noteq> Some w"
proof -
  have "r_Sequence (specToRule s' ns n) = show_int (sint w) \<longleftrightarrow> rs_Sequence s' = Some w"
    by (cases "rs_Sequence s'")
      (auto simp: specToRule_sequence show_int_inject show_int_nonempty intro: signed_word_eqI)
  then show ?thesis
    using assms rule_drift.needs_iff [of "(s, ns, n)"]
    by (simp add: rule_view_def set_sequence_eq specToRule_sequence)
qed

text \<open>
  C30: every rule the operator writes carries its owner: the description ends in the managed suffix,
  whatever the user's text, and from equal descriptions the same namespace and name can be read off,
  for names without brackets and namespaces without slashes.
\<close>

theorem managed_description_identifies:
  assumes "CHR ''['' \<notin> set (ns @ n)" and "CHR ''['' \<notin> set (ns' @ n')"
    and "CHR ''/'' \<notin> set ns" and "CHR ''/'' \<notin> set ns'"
  shows "suffix (managed_suffix ns n) (r_Description (specToRule s ns n)) \<and>
     (r_Description (specToRule s ns n) = r_Description (specToRule s' ns' n') \<longrightarrow>
        ns = ns' \<and> n = n')"
  using managed_suffix_inject [OF _ assms] unfolding managed_description
  by (auto simp: suffix_def)

end
