(* ===== verification/AliasController.thy ===== *)
theory AliasController
  imports Connecting Drift
begin

text \<open>
  The reconciler of aliases, internal/controller/alias_controller.go.  A method of
  \<open>AliasReconciler\<close> is a definition with that prefix; the blocks of \<open>Reconcile\<close> after its early
  returns have names of their own.  Log lines are left out.  The theory states the contract of
  \<open>Reconcile\<close> as the relation \<open>alias_outcome\<close> and draws the properties from it.
\<close>

definition aliasFinalizer :: string where
  "aliasFinalizer = ''firewall.opnsense.io/finalizer''"

section \<open>Status\<close>

definition alias_with_ready ::
  "golib \<Rightarrow> AliasCR \<Rightarrow> string \<Rightarrow> string \<Rightarrow> string \<Rightarrow> AliasCR" where
  "alias_with_ready L alias status reason message =
     alias\<lparr>al_Status := (al_Status alias)
       \<lparr>ast_Conditions := SetStatusCondition L (ast_Conditions (al_Status alias))
          (ready_condition (al_Meta alias) status reason message)\<rparr>\<rparr>"

definition AliasReconciler_setReadyCondition ::
  "golib \<Rightarrow> AliasCR \<Rightarrow> string \<Rightarrow> string \<Rightarrow> string \<Rightarrow> err option prog" where
  "AliasReconciler_setReadyCondition L alias status reason message =
     StatusUpdateAlias (alias_with_ready L alias status reason message) (\<lambda>u.
       Return (case u of
                 Some err \<Rightarrow> Some (Wrapf ''update Alias status: '' err [])
               | None \<Rightarrow> None))"

definition AliasReconciler_setReadyFailed ::
  "golib \<Rightarrow> AliasCR \<Rightarrow> string \<Rightarrow> string \<Rightarrow> err \<Rightarrow> outcome prog" where
  "AliasReconciler_setReadyFailed L alias reason message cause =
     bind (AliasReconciler_setReadyCondition L alias ConditionFalse reason message) (\<lambda>r.
       case r of
         Some err \<Rightarrow> Return (no_requeue, Some err)
       | None \<Rightarrow> Return (no_requeue, Some cause))"

definition alias_synced :: "AliasCR \<Rightarrow> string \<Rightarrow> AliasCR" where
  "alias_synced alias uuid =
     alias\<lparr>al_Status := (al_Status alias)
       \<lparr>ast_UUID := uuid, ast_ObservedGeneration := om_Generation (al_Meta alias)\<rparr>\<rparr>"

definition AliasReconciler_setReadySuccess ::
  "golib \<Rightarrow> AliasCR \<Rightarrow> string \<Rightarrow> outcome prog" where
  "AliasReconciler_setReadySuccess L alias uuid =
     bind (AliasReconciler_setReadyCondition L (alias_synced alias uuid) ConditionTrue
             ''AliasReady'' ''Alias is in sync with OPNsense'') (\<lambda>r.
       case r of
         Some err \<Rightarrow> Return (no_requeue, Some err)
       | None \<Rightarrow> Return (no_requeue, None))"

section \<open>The client for an alias\<close>

definition AliasReconciler_buildOPNsenseClient ::
  "golib \<Rightarrow> AliasCR \<Rightarrow> ((string \<times> err) + Client) prog" where
  "AliasReconciler_buildOPNsenseClient L alias =
     (let refName = ref_Name (as_ConnectionRef (al_Spec alias)) in
      GetConnection (cluster_key refName) (\<lambda>r.
        case r of
          Inl err \<Rightarrow>
            Return (Inl (''ConnectionNotFound'',
              Wrapf (''fetch OPNsenseConnection '' @ Quote (is_print L) refName @ '': '') err []))
        | Inr conn \<Rightarrow>
            if \<not> is_ready L (cst_Conditions (conn_Status conn)) then
              Return (Inl (''ConnectionNotReady'',
                Errorf (''OPNsenseConnection '' @ Quote (is_print L) (om_Name (conn_Meta conn))
                        @ '' is not ready'')))
            else
              (let secretKey = secret_key (cred_SecretRef (cs_Credentials (conn_Spec conn))) in
               GetSecret secretKey (\<lambda>r.
                 case r of
                   Inl err \<Rightarrow>
                     Return (Inl (''CredentialsNotFound'',
                       Wrapf (''fetch credentials Secret '' @ slashed secretKey @ '': '') err []))
                 | Inr secret \<Rightarrow>
                     (let apiKey = secret_value secret ''apiKey'';
                          apiSecret = secret_value secret ''apiSecret'' in
                      if apiKey = [] \<or> apiSecret = [] then
                        Return (Inl (''CredentialsInvalid'',
                          Errorf (''credentials Secret '' @ slashed secretKey
                            @ '' must have non-empty '' @ single_quoted ''apiKey''
                            @ '' and '' @ single_quoted ''apiSecret'')))
                      else
                        bind (buildHTTPClient L (cs_TLS (conn_Spec conn))) (\<lambda>h.
                          case h of
                            Inl err \<Rightarrow>
                              Return (Inl (''TLSConfigFailed'', Wrapf ''build TLS client: '' err []))
                          | Inr httpClient \<Rightarrow>
                              Return (Inr (NewClient (cs_URL (conn_Spec conn)) apiKey apiSecret
                                             httpClient))))))))"

interpretation alias_client: client_builder AliasReconciler_buildOPNsenseClient
  "\<lambda>alias. ref_Name (as_ConnectionRef (al_Spec alias))"
  by unfold_locales
    (simp add: AliasReconciler_buildOPNsenseClient_def clientFor_unfold Let_def cong: if_cong)

interpretation alias_status: status_writer AliasReconciler_setReadyCondition
  AliasReconciler_setReadyFailed alias_with_ready EStatusAlias "''Alias''"
  by unfold_locales
    (auto simp: AliasReconciler_setReadyCondition_def AliasReconciler_setReadyFailed_def report_def
       split: option.splits intro!: arg_cong [where f = "bind _"])

section \<open>Looking the alias up\<close>

definition resolve_alias_by_name ::
  "golib \<Rightarrow> Client \<Rightarrow> AliasCR \<Rightarrow> (err + string \<times> Alias option) prog" where
  "resolve_alias_by_name L c alias =
     bind (GetAliasUUIDByName L c (as_Name (al_Spec alias))) (\<lambda>r.
       case r of
         Inl err \<Rightarrow>
           if errors_Is err ErrAliasNotFound then Return (Inr ([], None)) else Return (Inl err)
       | Inr uuid \<Rightarrow>
           bind (GetAlias L c uuid) (\<lambda>r.
             case r of
               Inl err \<Rightarrow> Return (Inl err)
             | Inr existing \<Rightarrow> Return (Inr (uuid, Some existing))))"

definition AliasReconciler_resolveExternalAlias ::
  "golib \<Rightarrow> Client \<Rightarrow> AliasCR \<Rightarrow> (err + string \<times> Alias option) prog" where
  "AliasReconciler_resolveExternalAlias L c alias =
     (let uuid = ast_UUID (al_Status alias) in
      if uuid \<noteq> [] then
        bind (GetAlias L c uuid) (\<lambda>r.
          case r of
            Inr existing \<Rightarrow> Return (Inr (uuid, Some existing))
          | Inl err \<Rightarrow>
              if \<not> errors_Is err ErrAliasNotFound then Return (Inl err)
              else resolve_alias_by_name L c alias)
      else resolve_alias_by_name L c alias)"

section \<open>\<open>Reconcile\<close>\<close>

definition alias_remove_finalizer :: "golib \<Rightarrow> AliasCR \<Rightarrow> outcome prog" where
  "alias_remove_finalizer L alias =
     UpdateAliasCR (alias\<lparr>al_Meta := RemoveFinalizer L (al_Meta alias) aliasFinalizer\<rparr>) (\<lambda>u.
       case u of
         Some err \<Rightarrow> Return (no_requeue, Some (Wrapf ''remove finalizer: '' err []))
       | None \<Rightarrow> Return (no_requeue, None))"

definition AliasReconciler_delete :: "golib \<Rightarrow> AliasCR \<Rightarrow> outcome prog" where
  "AliasReconciler_delete L alias =
     (if \<not> ContainsFinalizer L (al_Meta alias) aliasFinalizer then Return (no_requeue, None)
      else if ast_UUID (al_Status alias) = [] then alias_remove_finalizer L alias
      else
        bind (AliasReconciler_buildOPNsenseClient L alias) (\<lambda>r.
          case r of
            Inl (reason, err) \<Rightarrow> AliasReconciler_setReadyFailed L alias reason (Error err) err
          | Inr c \<Rightarrow>
              bind (DeleteAlias L c (ast_UUID (al_Status alias))) (\<lambda>deleted.
                let proceed =
                  bind (ReconfigureAliases L c) (\<lambda>r.
                    case r of
                      Inl err \<Rightarrow>
                        AliasReconciler_setReadyFailed L alias ''ReconfigureFailed'' (Error err) err
                    | Inr _ \<Rightarrow> alias_remove_finalizer L alias)
                in
                case deleted of
                  Inl err \<Rightarrow>
                    if \<not> errors_Is err ErrAliasNotFound then
                      AliasReconciler_setReadyFailed L alias ''DeleteFailed'' (Error err) err
                    else proceed
                | Inr _ \<Rightarrow> proceed)))"

definition AliasReconciler_create :: "golib \<Rightarrow> Client \<Rightarrow> AliasCR \<Rightarrow> outcome prog" where
  "AliasReconciler_create L c alias =
     bind (CreateAlias L c (specToAlias (al_Spec alias))) (\<lambda>r.
       case r of
         Inl err \<Rightarrow>
           AliasReconciler_setReadyFailed L alias
             (if errors_Is err ErrValidationFailed then ''ValidationFailed'' else ''CreateFailed'')
             (Error err) err
       | Inr newUUID \<Rightarrow>
           bind (ReconfigureAliases L c) (\<lambda>r.
             case r of
               Inl err \<Rightarrow>
                 AliasReconciler_setReadyFailed L alias ''ReconfigureFailed'' (Error err) err
             | Inr _ \<Rightarrow> AliasReconciler_setReadySuccess L alias newUUID))"

definition AliasReconciler_update :: "golib \<Rightarrow> Client \<Rightarrow> AliasCR \<Rightarrow> string \<Rightarrow> outcome prog" where
  "AliasReconciler_update L c alias uuid =
     bind (UpdateAlias L c uuid (specToAlias (al_Spec alias))) (\<lambda>r.
       case r of
         Inl err \<Rightarrow>
           AliasReconciler_setReadyFailed L alias
             (if errors_Is err ErrValidationFailed then ''ValidationFailed'' else ''UpdateFailed'')
             (Error err) err
       | Inr _ \<Rightarrow>
           bind (ReconfigureAliases L c) (\<lambda>r.
             case r of
               Inl err \<Rightarrow>
                 AliasReconciler_setReadyFailed L alias ''ReconfigureFailed'' (Error err) err
             | Inr _ \<Rightarrow> AliasReconciler_setReadySuccess L alias uuid))"

definition alias_settled :: "golib \<Rightarrow> AliasCR \<Rightarrow> string \<Rightarrow> bool" where
  "alias_settled L alias uuid \<longleftrightarrow>
     ast_UUID (al_Status alias) = uuid \<and>
     ast_ObservedGeneration (al_Status alias) = om_Generation (al_Meta alias) \<and>
     is_ready L (ast_Conditions (al_Status alias))"

definition AliasReconciler_sync :: "golib \<Rightarrow> AliasCR \<Rightarrow> outcome prog" where
  "AliasReconciler_sync L alias =
     bind (AliasReconciler_buildOPNsenseClient L alias) (\<lambda>r.
       case r of
         Inl (reason, err) \<Rightarrow> AliasReconciler_setReadyFailed L alias reason (Error err) err
       | Inr c \<Rightarrow>
           bind (AliasReconciler_resolveExternalAlias L c alias) (\<lambda>r.
             case r of
               Inl err \<Rightarrow>
                 AliasReconciler_setReadyFailed L alias ''LookupFailed'' (Error err) err
             | Inr (resolvedUUID, existingAlias) \<Rightarrow>
                 (case existingAlias of
                    None \<Rightarrow> AliasReconciler_create L c alias
                  | Some existing \<Rightarrow>
                      if aliasNeedsUpdate (al_Spec alias) existing then
                        AliasReconciler_update L c alias resolvedUUID
                      else if alias_settled L alias resolvedUUID then Return (no_requeue, None)
                      else AliasReconciler_setReadySuccess L alias resolvedUUID)))"

definition AliasReconciler_Reconcile :: "golib \<Rightarrow> NamespacedName \<Rightarrow> outcome prog" where
  "AliasReconciler_Reconcile L req =
     GetAliasCR req (\<lambda>r.
       case r of
         Inl err \<Rightarrow> Return (no_requeue, IgnoreNotFound L err)
       | Inr alias \<Rightarrow>
           if \<not> time_IsZero L (om_DeletionTimestamp (al_Meta alias)) then
             AliasReconciler_delete L alias
           else if \<not> ContainsFinalizer L (al_Meta alias) aliasFinalizer then
             UpdateAliasCR (alias\<lparr>al_Meta := AddFinalizer L (al_Meta alias) aliasFinalizer\<rparr>) (\<lambda>u.
               case u of
                 Some err \<Rightarrow> Return (no_requeue, Some (Wrapf ''add finalizer: '' err []))
               | None \<Rightarrow> Return (no_requeue, None))
           else AliasReconciler_sync L alias)"

section \<open>The runs of the parts\<close>

definition alias_ready :: "golib \<Rightarrow> AliasCR \<Rightarrow> string \<Rightarrow> AliasCR" where
  "alias_ready L alias uuid =
     alias_with_ready L (alias_synced alias uuid) ConditionTrue
       ''AliasReady'' ''Alias is in sync with OPNsense''"

lemma alias_success_run:
  "runs (AliasReconciler_setReadySuccess L alias uuid) tr r \<longleftrightarrow>
     (\<exists>u. tr = [EStatusAlias (alias_ready L alias uuid) u] \<and> r = (no_requeue, report ''Alias'' u))"
  by (auto simp: AliasReconciler_setReadySuccess_def AliasReconciler_setReadyCondition_def report_def
      alias_ready_def split: option.split)

definition without_alias_finalizer :: "golib \<Rightarrow> AliasCR \<Rightarrow> AliasCR" where
  "without_alias_finalizer L alias =
     alias\<lparr>al_Meta := RemoveFinalizer L (al_Meta alias) aliasFinalizer\<rparr>"

lemma alias_remove_run:
  "runs (alias_remove_finalizer L alias) tr r \<longleftrightarrow>
     (\<exists>u. tr = [EUpdateAlias (without_alias_finalizer L alias) u] \<and>
        r = (no_requeue, map_option (\<lambda>e. Wrapf ''remove finalizer: '' e []) u))"
  by (auto simp: alias_remove_finalizer_def without_alias_finalizer_def run_simps)

lemmas alias_end_runs = alias_status.failed_run alias_success_run alias_remove_run

text \<open>The lookup only reads.\<close>

lemma resolve_alias_silent:
  "runs (AliasReconciler_resolveExternalAlias L c alias) tr r \<Longrightarrow> writes tr = []"
  by (auto simp: AliasReconciler_resolveExternalAlias_def resolve_alias_by_name_def Let_def run_simps
      simp: client_silent)

lemma resolve_alias_posts:
  "runs (AliasReconciler_resolveExternalAlias L c alias) tr r \<Longrightarrow> posts tr = []"
  by (auto simp: AliasReconciler_resolveExternalAlias_def resolve_alias_by_name_def Let_def run_simps
      simp: client_posted)

lemmas alias_silent =
  alias_client.silent resolve_alias_silent client_silent

lemmas alias_posted =
  alias_client.no_posts resolve_alias_posts client_posted

section \<open>Removing the finalizer\<close>

text \<open>
  The alias is gone from OPNsense and the deletion is applied: connected, deleted or found
  missing, reconfigured, in this order.
\<close>

definition alias_gone :: "golib \<Rightarrow> AliasCR \<Rightarrow> event list \<Rightarrow> bool" where
  "alias_gone L alias tr \<longleftrightarrow>
     (\<exists>c b d v a. tr = b @ d @ a \<and>
        runs (AliasReconciler_buildOPNsenseClient L alias) b (Inr c) \<and>
        runs (DeleteAlias L c (ast_UUID (al_Status alias))) d v \<and>
        (v = Inr () \<or> (\<exists>e. v = Inl e \<and> errors_Is e ErrAliasNotFound)) \<and>
        runs (ReconfigureAliases L c) a (Inr ()))"

section \<open>What Ready=True rests on\<close>

text \<open>
  From the outcome of the lookup to the UUID that is reported: created and reconfigured, updated
  and reconfigured, or found with nothing to change.
\<close>

definition alias_applied ::
  "golib \<Rightarrow> Client \<Rightarrow> AliasCR \<Rightarrow> string \<times> Alias option \<Rightarrow> event list \<Rightarrow> string \<Rightarrow> bool" where
  "alias_applied L c alias found tr uuid \<longleftrightarrow>
     (case found of
        (_, None) \<Rightarrow>
          (\<exists>t a. tr = t @ a \<and> runs (CreateAlias L c (specToAlias (al_Spec alias))) t (Inr uuid) \<and>
             runs (ReconfigureAliases L c) a (Inr ()))
      | (u, Some existing) \<Rightarrow>
          uuid = u \<and>
          (if aliasNeedsUpdate (al_Spec alias) existing then
             (\<exists>t a. tr = t @ a \<and> runs (UpdateAlias L c u (specToAlias (al_Spec alias))) t (Inr ()) \<and>
                runs (ReconfigureAliases L c) a (Inr ()))
           else tr = []))"

definition alias_in_sync :: "golib \<Rightarrow> AliasCR \<Rightarrow> event list \<Rightarrow> string \<Rightarrow> bool" where
  "alias_in_sync L alias tr uuid \<longleftrightarrow>
     (\<exists>c b l found t. tr = b @ l @ t \<and>
        runs (AliasReconciler_buildOPNsenseClient L alias) b (Inr c) \<and>
        runs (AliasReconciler_resolveExternalAlias L c alias) l (Inr found) \<and>
        alias_applied L c alias found t uuid)"

lemma alias_with_ready_is_ready:
  "condition_laws L \<Longrightarrow>
     is_ready L (ast_Conditions (al_Status (alias_with_ready L alias status reason message)))
       \<longleftrightarrow> status = ConditionTrue"
  by (simp add: alias_with_ready_def is_ready_set)

lemma alias_ready_sel [simp]:
  "al_Meta (alias_ready L alias uuid) = al_Meta alias"
  "al_Spec (alias_ready L alias uuid) = al_Spec alias"
  "ast_UUID (al_Status (alias_ready L alias uuid)) = uuid"
  "ast_ObservedGeneration (al_Status (alias_ready L alias uuid)) = om_Generation (al_Meta alias)"
  by (simp_all add: alias_ready_def alias_with_ready_def alias_synced_def)

lemma alias_ready_is_ready:
  "condition_laws L \<Longrightarrow> is_ready L (ast_Conditions (al_Status (alias_ready L alias uuid)))"
  by (simp add: alias_ready_def alias_with_ready_is_ready)

section \<open>The outcomes of a reconciliation\<close>

definition alias_reasons :: "string set" where
  "alias_reasons = connection_reasons \<union>
     {''LookupFailed'', ''CreateFailed'', ''UpdateFailed'', ''ValidationFailed'',
      ''ReconfigureFailed'', ''DeleteFailed''}"

definition alias_failed :: "golib \<Rightarrow> AliasCR \<Rightarrow> string \<Rightarrow> err \<Rightarrow> AliasCR" where
  "alias_failed L alias reason e = alias_with_ready L alias ConditionFalse reason (Error e)"

text \<open>
  The contract of \<open>Reconcile\<close> as a relation between the replies of the environment and the
  result, one rule per kind of outcome.
\<close>

inductive alias_outcome :: "golib \<Rightarrow> NamespacedName \<Rightarrow> event list \<Rightarrow> outcome \<Rightarrow> bool"
  for L :: golib and n :: NamespacedName where
  unread: "alias_outcome L n [EGetAlias n (Inl e)] (no_requeue, IgnoreNotFound L e)"
| released:
    "\<not> time_IsZero L (om_DeletionTimestamp (al_Meta alias)) \<Longrightarrow>
     \<not> ContainsFinalizer L (al_Meta alias) aliasFinalizer \<Longrightarrow>
     alias_outcome L n [EGetAlias n (Inr alias)] (no_requeue, None)"
| finalized:
    "\<not> time_IsZero L (om_DeletionTimestamp (al_Meta alias)) \<Longrightarrow>
     ContainsFinalizer L (al_Meta alias) aliasFinalizer \<Longrightarrow>
     ast_UUID (al_Status alias) = [] \<and> t = [] \<or> alias_gone L alias t \<Longrightarrow>
     alias_outcome L n (EGetAlias n (Inr alias) # t @ [EUpdateAlias (without_alias_finalizer L alias) u])
       (no_requeue, map_option (\<lambda>e. Wrapf ''remove finalizer: '' e []) u)"
| adopted:
    "time_IsZero L (om_DeletionTimestamp (al_Meta alias)) \<Longrightarrow>
     \<not> ContainsFinalizer L (al_Meta alias) aliasFinalizer \<Longrightarrow>
     x = alias\<lparr>al_Meta := AddFinalizer L (al_Meta alias) aliasFinalizer\<rparr> \<Longrightarrow>
     alias_outcome L n [EGetAlias n (Inr alias), EUpdateAlias x u]
       (no_requeue, map_option (\<lambda>e. Wrapf ''add finalizer: '' e []) u)"
| settled:
    "time_IsZero L (om_DeletionTimestamp (al_Meta alias)) \<Longrightarrow>
     ContainsFinalizer L (al_Meta alias) aliasFinalizer \<Longrightarrow>
     alias_in_sync L alias t uuid \<Longrightarrow> alias_settled L alias uuid \<Longrightarrow> posts t = [] \<Longrightarrow>
     alias_outcome L n (EGetAlias n (Inr alias) # t) (no_requeue, None)"
| synced:
    "time_IsZero L (om_DeletionTimestamp (al_Meta alias)) \<Longrightarrow>
     ContainsFinalizer L (al_Meta alias) aliasFinalizer \<Longrightarrow>
     alias_in_sync L alias t uuid \<Longrightarrow>
     alias_outcome L n (EGetAlias n (Inr alias) # t @ [EStatusAlias (alias_ready L alias uuid) u])
       (no_requeue, report ''Alias'' u)"
| failed:
    "ContainsFinalizer L (al_Meta alias) aliasFinalizer \<Longrightarrow> writes t = [] \<Longrightarrow>
     reason \<in> alias_reasons \<Longrightarrow>
     alias_outcome L n (EGetAlias n (Inr alias) # t @ [EStatusAlias (alias_failed L alias reason e) u])
       (no_requeue, Some (case report ''Alias'' u of Some e' \<Rightarrow> e' | None \<Rightarrow> e))"

inductive_cases alias_outcomeE: "alias_outcome L n tr r"

lemma alias_reasons_simps [simp]:
  "reason \<in> connection_reasons \<Longrightarrow> reason \<in> alias_reasons" "''LookupFailed'' \<in> alias_reasons"
  "''CreateFailed'' \<in> alias_reasons" "''UpdateFailed'' \<in> alias_reasons"
  "''ValidationFailed'' \<in> alias_reasons" "''ReconfigureFailed'' \<in> alias_reasons"
  "''DeleteFailed'' \<in> alias_reasons"
  by (simp_all add: alias_reasons_def)

abbreviation alias_failing :: "golib \<Rightarrow> AliasCR \<Rightarrow> event list \<Rightarrow> outcome \<Rightarrow> bool" where
  "alias_failing \<equiv> failing AliasReconciler_setReadyFailed alias_reasons"

lemma alias_failing_outcome:
  "alias_failing L alias t r \<Longrightarrow> ContainsFinalizer L (al_Meta alias) aliasFinalizer \<Longrightarrow>
     alias_outcome L n (EGetAlias n (Inr alias) # t) r"
  by (auto simp: failing_def alias_status.failed_run alias_failed_def [symmetric]
      intro: alias_outcome.failed)

lemmas alias_failing_simps = failingI failing_append alias_silent alias_client.reason

lemma alias_delete_cases:
  "runs (AliasReconciler_delete L alias) tr r \<Longrightarrow> ContainsFinalizer L (al_Meta alias) aliasFinalizer \<Longrightarrow>
     alias_failing L alias tr r \<or>
     (\<exists>t t2. (ast_UUID (al_Status alias) = [] \<and> t = [] \<or> alias_gone L alias t) \<and> tr = t @ t2 \<and>
        runs (alias_remove_finalizer L alias) t2 r)"
  by (fastforce simp: AliasReconciler_delete_def Let_def run_simps alias_gone_def alias_failing_simps)

lemma alias_create_cases:
  "runs (AliasReconciler_create L c alias) tr r \<Longrightarrow>
     alias_failing L alias tr r \<or>
     (\<exists>t uuid t2. alias_applied L c alias (u, None) t uuid \<and> tr = t @ t2 \<and>
        runs (AliasReconciler_setReadySuccess L alias uuid) t2 r)"
  by (fastforce simp: AliasReconciler_create_def run_simps alias_applied_def alias_failing_simps)

lemma alias_update_cases:
  "runs (AliasReconciler_update L c alias uuid) tr r \<Longrightarrow> aliasNeedsUpdate (al_Spec alias) existing \<Longrightarrow>
     alias_failing L alias tr r \<or>
     (\<exists>t t2. alias_applied L c alias (uuid, Some existing) t uuid \<and> tr = t @ t2 \<and>
        runs (AliasReconciler_setReadySuccess L alias uuid) t2 r)"
  by (fastforce simp: AliasReconciler_update_def run_simps alias_applied_def alias_failing_simps)

lemma alias_in_syncI:
  "runs (AliasReconciler_buildOPNsenseClient L alias) b (Inr c) \<Longrightarrow>
     runs (AliasReconciler_resolveExternalAlias L c alias) l (Inr found) \<Longrightarrow>
     alias_applied L c alias found t uuid \<Longrightarrow> alias_in_sync L alias (b @ l @ t) uuid"
  unfolding alias_in_sync_def by blast

lemma alias_sync_cases:
  assumes "runs (AliasReconciler_sync L alias) tr r"
  shows "alias_failing L alias tr r \<or>
     (\<exists>t uuid t2. alias_in_sync L alias t uuid \<and> tr = t @ t2 \<and>
        (runs (AliasReconciler_setReadySuccess L alias uuid) t2 r \<or>
         alias_settled L alias uuid \<and> posts t = [] \<and> t2 = [] \<and> r = (no_requeue, None)))"
proof -
  consider
      (early) "alias_failing L alias tr r"
    | (found) b l t c u ex where "tr = b @ l @ t"
        "runs (AliasReconciler_buildOPNsenseClient L alias) b (Inr c)"
        "runs (AliasReconciler_resolveExternalAlias L c alias) l (Inr (u, ex))"
        "runs (case ex of
            None \<Rightarrow> AliasReconciler_create L c alias
          | Some existing \<Rightarrow>
              if aliasNeedsUpdate (al_Spec alias) existing then AliasReconciler_update L c alias u
              else if alias_settled L alias u then Return (no_requeue, None)
              else AliasReconciler_setReadySuccess L alias u) t r"
    using assms unfolding AliasReconciler_sync_def
    by (fastforce simp: runs_bind runs_case_sum runs_case_prod alias_failing_simps)
  then show ?thesis
  proof cases
    case found
    have silent: "writes b = []" "writes l = []" "posts b = []" "posts l = []"
      using found(2,3) by (simp_all add: alias_silent alias_posted)
    note in_sync = alias_in_syncI [OF found(2,3)]
    show ?thesis
    proof (cases ex)
      case None
      with found(4) have "runs (AliasReconciler_create L c alias) t r" by simp
      then show ?thesis
        using alias_create_cases [of L c "alias" t r u] in_sync None found(1) silent
        by (metis failing_append append.assoc)
    next
      case (Some e)
      show ?thesis
      proof (cases "aliasNeedsUpdate (al_Spec alias) e")
        case True
        with found(4) Some have "runs (AliasReconciler_update L c alias u) t r" by simp
        then show ?thesis
          using alias_update_cases [OF _ True] in_sync Some found(1) silent
          by (metis failing_append append.assoc)
      next
        case False
        with Some have "alias_in_sync L alias (b @ l @ []) u"
          by (intro in_sync) (simp add: alias_applied_def)
        moreover have "posts (b @ l @ []) = []"
          using silent by simp
        moreover have "tr = (b @ l @ []) @ t"
          using found(1) by simp
        ultimately show ?thesis
          using False Some found(4) by (metis option.simps(5) runs_if runs_Return)
      qed
    qed
  qed simp
qed

lemma alias_outcome_run:
  assumes "runs (AliasReconciler_Reconcile L n) tr r"
  shows "alias_outcome L n tr r"
proof -
  from assms consider
      (unread) e where "tr = [EGetAlias n (Inl e)]" "r = (no_requeue, IgnoreNotFound L e)"
    | (delete) x t where "tr = EGetAlias n (Inr x) # t"
        "\<not> time_IsZero L (om_DeletionTimestamp (al_Meta x))" "runs (AliasReconciler_delete L x) t r"
    | (adopt) x u where "tr = [EGetAlias n (Inr x),
          EUpdateAlias (x\<lparr>al_Meta := AddFinalizer L (al_Meta x) aliasFinalizer\<rparr>) u]"
        "time_IsZero L (om_DeletionTimestamp (al_Meta x))"
        "\<not> ContainsFinalizer L (al_Meta x) aliasFinalizer"
        "r = (no_requeue, map_option (\<lambda>e. Wrapf ''add finalizer: '' e []) u)"
    | (sync) x t where "tr = EGetAlias n (Inr x) # t"
        "time_IsZero L (om_DeletionTimestamp (al_Meta x))"
        "ContainsFinalizer L (al_Meta x) aliasFinalizer" "runs (AliasReconciler_sync L x) t r"
    by (fastforce simp: AliasReconciler_Reconcile_def run_simps)
  then show ?thesis
  proof cases
    case unread
    then show ?thesis by (simp add: alias_outcome.unread)
  next
    case delete
    show ?thesis
    proof (cases "ContainsFinalizer L (al_Meta x) aliasFinalizer")
      case True
      with delete show ?thesis
        by (auto simp: alias_remove_run dest!: alias_delete_cases
            intro: alias_outcome.intros alias_failing_outcome
              alias_outcome.finalized [where t = "[]", simplified])
    next
      case False
      with delete show ?thesis
        by (simp add: AliasReconciler_delete_def alias_outcome.released)
    qed
  next
    case adopt
    then show ?thesis by (simp add: alias_outcome.adopted)
  next
    case sync
    then show ?thesis
      by (auto simp: alias_success_run dest!: alias_sync_cases
          intro: alias_outcome.intros alias_failing_outcome)
  qed
qed

section \<open>Facts about the outcomes\<close>

lemma alias_gone_writes: "alias_gone L alias t \<Longrightarrow> writes t = []"
  by (auto simp: alias_gone_def alias_silent)

lemma alias_in_sync_writes: "alias_in_sync L alias t uuid \<Longrightarrow> writes t = []"
  by (auto simp: alias_in_sync_def alias_applied_def alias_silent split: prod.splits option.splits if_splits)

lemmas alias_unwritten = alias_gone_writes alias_in_sync_writes unwritten

interpretation alias_reconciler: reconciler AliasReconciler_Reconcile
proof
  fix L n tr r
  assume "runs (AliasReconciler_Reconcile L n) tr r"
  then have "alias_outcome L n tr r" by (rule alias_outcome_run)
  then show "writes tr = [] \<or> (\<exists>t ev. tr = t @ [ev] \<and> writes t = [] \<and> (snd r = None \<longrightarrow> accepted ev))"
    by (cases rule: alias_outcome.cases)
      (auto simp: alias_unwritten report_def intro: exI [of _ "_ # _"])
qed

lemma without_alias_finalizer_sel [simp]:
  "al_Meta (without_alias_finalizer L alias) = RemoveFinalizer L (al_Meta alias) aliasFinalizer"
  "al_Spec (without_alias_finalizer L alias) = al_Spec alias"
  "al_Status (without_alias_finalizer L alias) = al_Status alias"
  by (simp_all add: without_alias_finalizer_def)

lemma alias_failed_not_ready:
  "condition_laws L \<Longrightarrow> \<not> is_ready L (ast_Conditions (al_Status (alias_failed L alias reason e)))"
  by (simp add: alias_failed_def alias_with_ready_is_ready)

lemma alias_failed_condition:
  assumes "condition_laws L"
  shows "FindStatusCondition L (ast_Conditions (al_Status (alias_failed L alias reason e))) ''Ready''
    = Some (ready_condition (al_Meta alias) ConditionFalse reason (Error e))"
  using assms by (simp add: alias_failed_def alias_with_ready_def find_ready_condition)

lemma alias_with_ready_sel [simp]:
  "al_Meta (alias_with_ready L alias status reason m) = al_Meta alias"
  "al_Spec (alias_with_ready L alias status reason m) = al_Spec alias"
  "ast_UUID (al_Status (alias_with_ready L alias status reason m)) = ast_UUID (al_Status alias)"
  "ast_ObservedGeneration (al_Status (alias_with_ready L alias status reason m))
     = ast_ObservedGeneration (al_Status alias)"
  by (simp_all add: alias_with_ready_def)

text \<open>The lookup, when the alias of the status is still there.\<close>

lemma resolve_alias_known:
  assumes "runs (GetAlias L c (ast_UUID (al_Status alias))) g (Inr existing)"
    and "ast_UUID (al_Status alias) \<noteq> []"
  shows "runs (AliasReconciler_resolveExternalAlias L c alias) g
     (Inr (ast_UUID (al_Status alias), Some existing))"
  using assms unfolding AliasReconciler_resolveExternalAlias_def Let_def
  by (simp add: runs_bind_after [OF assms(1), where ?t2.0 = "[]", simplified])

section \<open>The requests that change OPNsense\<close>

definition alias_delete_plan :: "Client \<Rightarrow> AliasCR \<Rightarrow> request list" where
  "alias_delete_plan c alias =
     [api_request c POST (''/api/firewall/alias/delItem/'' @ ast_UUID (al_Status alias)) empty_payload,
      api_request c POST ''/api/firewall/alias/reconfigure'' empty_payload]"

definition alias_body :: "AliasCR \<Rightarrow> payload option" where
  "alias_body alias = Some (Encodable (aliasRequest_json (encodeAlias (specToAlias (al_Spec alias)))))"

definition alias_create_plan :: "Client \<Rightarrow> AliasCR \<Rightarrow> request list" where
  "alias_create_plan c alias =
     [api_request c POST ''/api/firewall/alias/addItem'' (alias_body alias),
      api_request c POST ''/api/firewall/alias/reconfigure'' empty_payload]"

definition alias_update_plan :: "Client \<Rightarrow> AliasCR \<Rightarrow> string \<Rightarrow> request list" where
  "alias_update_plan c alias uuid =
     [api_request c POST (''/api/firewall/alias/setItem/'' @ uuid) (alias_body alias),
      api_request c POST ''/api/firewall/alias/reconfigure'' empty_payload]"

text \<open>
  The plan a reconciliation follows: to delete when the object is being deleted, to create when
  the lookup found nothing, to update when it found something that differs.
\<close>

definition alias_plan :: "golib \<Rightarrow> AliasCR \<Rightarrow> event list \<Rightarrow> request list \<Rightarrow> bool" where
  "alias_plan L alias tr plan \<longleftrightarrow>
     (\<exists>c b t. tr = b @ t \<and> runs (AliasReconciler_buildOPNsenseClient L alias) b (Inr c) \<and>
        (if \<not> time_IsZero L (om_DeletionTimestamp (al_Meta alias)) then plan = alias_delete_plan c alias
         else
           (\<exists>l t' u ex. t = l @ t' \<and>
              runs (AliasReconciler_resolveExternalAlias L c alias) l (Inr (u, ex)) \<and>
              (case ex of
                 None \<Rightarrow> plan = alias_create_plan c alias
               | Some existing \<Rightarrow>
                   aliasNeedsUpdate (al_Spec alias) existing \<and> plan = alias_update_plan c alias u))))"

lemma alias_end_posts:
  "runs (AliasReconciler_setReadyFailed L alias reason m e) tr r \<Longrightarrow> posts tr = []"
  "runs (AliasReconciler_setReadySuccess L alias uuid) tr r \<Longrightarrow> posts tr = []"
  "runs (alias_remove_finalizer L alias) tr r \<Longrightarrow> posts tr = []"
  by (auto simp: alias_end_runs)

lemmas alias_posts_simps = alias_posted alias_end_posts

lemma alias_delete_posts:
  "runs (AliasReconciler_delete L alias) tr r \<Longrightarrow>
     posts tr = [] \<or>
     (\<exists>c b t. tr = b @ t \<and> runs (AliasReconciler_buildOPNsenseClient L alias) b (Inr c) \<and>
        prefix (posts tr) (alias_delete_plan c alias))"
  by (fastforce simp: AliasReconciler_delete_def Let_def run_simps alias_posts_simps alias_delete_plan_def)

lemma alias_create_posts:
  "runs (AliasReconciler_create L c alias) tr r \<Longrightarrow> prefix (posts tr) (alias_create_plan c alias)"
  by (auto simp: AliasReconciler_create_def run_simps alias_posts_simps alias_create_plan_def
      alias_body_def)

lemma alias_update_posts:
  "runs (AliasReconciler_update L c alias u) tr r \<Longrightarrow> prefix (posts tr) (alias_update_plan c alias u)"
  by (auto simp: AliasReconciler_update_def run_simps alias_posts_simps alias_update_plan_def
      alias_body_def)

lemma alias_sync_posts:
  assumes "runs (AliasReconciler_sync L alias) tr r"
    and "time_IsZero L (om_DeletionTimestamp (al_Meta alias))"
  shows "posts tr = [] \<or> (\<exists>plan. alias_plan L alias tr plan \<and> prefix (posts tr) plan)"
  using assms
  by (fastforce simp: AliasReconciler_sync_def run_simps alias_posts_simps alias_plan_def
      dest: alias_create_posts alias_update_posts)

section \<open>All requests\<close>

abbreviation alias_area :: string where
  "alias_area \<equiv> ''/api/firewall/alias/''"

lemma alias_end_no_http:
  "runs (AliasReconciler_setReadyFailed L alias reason m e) tr r \<Longrightarrow> http_requests tr = []"
  "runs (AliasReconciler_setReadySuccess L alias uuid) tr r \<Longrightarrow> http_requests tr = []"
  "runs (alias_remove_finalizer L alias) tr r \<Longrightarrow> http_requests tr = []"
  by (auto simp: alias_end_runs)

lemmas alias_request_simps = client_requests alias_end_no_http alias_client.no_http calls_def

lemma resolve_alias_calls:
  "runs (AliasReconciler_resolveExternalAlias L c alias) tr r \<Longrightarrow> calls c alias_area 3 tr"
  by (auto simp: AliasReconciler_resolveExternalAlias_def resolve_alias_by_name_def Let_def run_simps
      alias_request_simps)

lemma alias_create_calls:
  "runs (AliasReconciler_create L c alias) tr r \<Longrightarrow> calls c alias_area 2 tr"
  by (auto simp: AliasReconciler_create_def run_simps alias_request_simps)

lemma alias_update_calls:
  "runs (AliasReconciler_update L c alias uuid) tr r \<Longrightarrow> calls c alias_area 2 tr"
  by (auto simp: AliasReconciler_update_def run_simps alias_request_simps)

lemma alias_delete_calls:
  "runs (AliasReconciler_delete L alias) tr r \<Longrightarrow>
     http_requests tr = [] \<or>
     (\<exists>b c t. tr = b @ t \<and> runs (AliasReconciler_buildOPNsenseClient L alias) b (Inr c) \<and>
        calls c alias_area 2 tr)"
  by (fastforce simp: AliasReconciler_delete_def Let_def run_simps alias_request_simps)

lemma alias_found_calls:
  assumes "runs (case ex of
      None \<Rightarrow> AliasReconciler_create L c alias
    | Some existing \<Rightarrow>
        if aliasNeedsUpdate (al_Spec alias) existing then AliasReconciler_update L c alias u
        else if alias_settled L alias u then Return (no_requeue, None)
        else AliasReconciler_setReadySuccess L alias u) t r"
  shows "calls c alias_area 2 t"
  using assms
  by (auto split: option.splits if_splits
      dest: alias_create_calls alias_update_calls alias_end_no_http intro: calls_none)

lemma alias_sync_calls:
  assumes "runs (AliasReconciler_sync L alias) tr r"
  shows "http_requests tr = [] \<or>
     (\<exists>b c t. tr = b @ t \<and> runs (AliasReconciler_buildOPNsenseClient L alias) b (Inr c) \<and>
        calls c alias_area 5 tr)"
proof -
  from assms consider "http_requests tr = []"
    | b c l t e where "tr = b @ l @ t" "runs (AliasReconciler_buildOPNsenseClient L alias) b (Inr c)"
        "runs (AliasReconciler_resolveExternalAlias L c alias) l (Inl e)" "http_requests t = []"
    | b c l t u ex where "tr = b @ l @ t" "runs (AliasReconciler_buildOPNsenseClient L alias) b (Inr c)"
        "runs (AliasReconciler_resolveExternalAlias L c alias) l (Inr (u, ex))"
        "calls c alias_area 2 t"
    unfolding AliasReconciler_sync_def
    by (fastforce simp: runs_bind runs_case_sum runs_case_prod alias_end_no_http alias_client.no_http
        dest: alias_found_calls)
  then show ?thesis
  proof cases
    case 2
    with resolve_alias_calls [OF 2(3)] have "calls c alias_area 5 tr"
      by (simp add: calls_def alias_client.no_http [OF 2(2)])
    with 2 show ?thesis by blast
  next
    case 3
    with resolve_alias_calls [OF 3(3)] have "calls c alias_area 5 tr"
      by (simp add: calls_def alias_client.no_http [OF 3(2)])
    with 3 show ?thesis by blast
  qed simp
qed

section \<open>Properties\<close>

text \<open>
  C1: every run of the alias reconciler, whatever the API server and OPNsense answer, is one of the
  outcomes of \<open>alias_outcome\<close>: the object is unreadable, left alone, released after its deletion was
  applied, given a finalizer, found settled, synchronised and reported Ready, or reported failed.
\<close>

theorem alias_reconcile_refines:
  "runs (AliasReconciler_Reconcile L n) tr r \<Longrightarrow> alias_outcome L n tr r"
  by (rule alias_outcome_run)

text \<open>
  C3: the finalizer leaves an alias only while it is being deleted, and only in a run in which the
  connection was Ready, OPNsense deleted the UUID of the status or did not know it, and then
  reconfigured its aliases; or else the status holds no UUID, and the finalizer leaves without any request.
\<close>

theorem alias_finalizer_safety:
  assumes "finalizer_laws L"
    and "runs (AliasReconciler_Reconcile L n) tr r" and "EUpdateAlias x u \<in> set tr"
    and "\<not> ContainsFinalizer L (al_Meta x) aliasFinalizer"
  shows "\<exists>alias t.
     tr = EGetAlias n (Inr alias) # t @ [EUpdateAlias x u] \<and>
     \<not> time_IsZero L (om_DeletionTimestamp (al_Meta alias)) \<and>
     al_Spec x = al_Spec alias \<and> al_Status x = al_Status alias \<and>
     (ast_UUID (al_Status alias) = [] \<and> t = [] \<or> alias_gone L alias t)"
  using assms(1,3,4) alias_outcome_run [OF assms(2)]
  by (auto elim!: alias_outcomeE simp: alias_unwritten finalizer_laws_def)

text \<open>
  C5: a status update with Ready=True is preceded, in the same run, by a successful lookup of the
  alias and by what the lookup calls for, creation or update with a reconfiguration after it, or
  nothing when there is no drift; it carries the UUID this gave and the generation that was read.
\<close>

theorem alias_ready_sound:
  assumes "condition_laws L"
    and "runs (AliasReconciler_Reconcile L n) tr r" and "EStatusAlias x u \<in> set tr"
    and "is_ready L (ast_Conditions (al_Status x))"
  shows "\<exists>alias t.
     tr = EGetAlias n (Inr alias) # t @ [EStatusAlias x u] \<and>
     alias_in_sync L alias t (ast_UUID (al_Status x)) \<and>
     al_Spec x = al_Spec alias \<and>
     ast_ObservedGeneration (al_Status x) = om_Generation (al_Meta alias)"
  using assms(1,3,4) alias_outcome_run [OF assms(2)]
  by (auto elim!: alias_outcomeE simp: alias_unwritten alias_failed_not_ready)

text \<open>
  A reconciliation that returns no error has left nothing undone: its one write, if any, was
  accepted, and it was a change of the finalizers or a status with Ready=True.
\<close>

theorem alias_success_is_final:
  assumes "condition_laws L" and "runs (AliasReconciler_Reconcile L n) tr (res, None)"
  shows "writes tr = [] \<or> (\<exists>x. writes tr = [EUpdateAlias x None]) \<or>
     (\<exists>x. writes tr = [EStatusAlias x None] \<and> is_ready L (ast_Conditions (al_Status x)))"
  using assms(1) alias_outcome_run [OF assms(2)]
  by (auto elim!: alias_outcomeE simp: alias_unwritten alias_ready_is_ready report_def)

text \<open>
  C8: the requests of one reconciliation that can change OPNsense are, in order, a prefix of one of
  three plans: delete this UUID and reconfigure, when the object is being deleted; create and
  reconfigure, when the lookup found nothing; update what was found and reconfigure, when it differs.
\<close>

theorem alias_mutations_planned:
  assumes "runs (AliasReconciler_Reconcile L n) (EGetAlias n (Inr alias) # t) r"
  shows "posts t = [] \<or> (\<exists>plan. alias_plan L alias t plan \<and> prefix (posts t) plan)"
proof -
  from assms consider
      (delete) "\<not> time_IsZero L (om_DeletionTimestamp (al_Meta alias))"
        "runs (AliasReconciler_delete L alias) t r"
    | (adopt) x u where "t = [EUpdateAlias x u]"
    | (sync) "time_IsZero L (om_DeletionTimestamp (al_Meta alias))" "runs (AliasReconciler_sync L alias) t r"
    by (fastforce simp: AliasReconciler_Reconcile_def run_simps)
  then show ?thesis
  proof cases
    case delete
    then show ?thesis
      using alias_delete_posts [OF delete(2)] by (auto simp: alias_plan_def)
  next
    case sync
    then show ?thesis
      using alias_sync_posts by blast
  qed simp
qed

lemma alias_failed_kept [simp]:
  "ast_UUID (al_Status (alias_failed L alias reason e)) = ast_UUID (al_Status alias)"
  "ast_ObservedGeneration (al_Status (alias_failed L alias reason e)) = ast_ObservedGeneration (al_Status alias)"
  by (simp_all add: alias_failed_def)

text \<open>
  C10: a reconciliation that fails is reported on the object.  It ends in a status update that says
  Ready=False with one of the documented reasons and the text of the cause, leaves the UUID and the observed
  generation as they were, and returns the cause, or the failure to write the status.  The exceptions are the
  failures of the API server itself: the object cannot be read, its finalizer cannot be added or removed,
  or Ready=True cannot be written.  A reconciliation that succeeds has written no other status than Ready=True.
\<close>

theorem alias_failure_reported:
  assumes "condition_laws L" and "runs (AliasReconciler_Reconcile L n) tr r"
  shows "case snd r of
     None \<Rightarrow> \<forall>x u. EStatusAlias x u \<in> set tr \<longrightarrow> is_ready L (ast_Conditions (al_Status x)) \<and> u = None
   | Some e \<Rightarrow>
      (\<exists>obj t x u reason cause. tr = EGetAlias n (Inr obj) # t @ [EStatusAlias x u] \<and>
         writes t = [] \<and> reason \<in> alias_reasons \<and>
         FindStatusCondition L (ast_Conditions (al_Status x)) ''Ready''
           = Some (ready_condition (al_Meta obj) ConditionFalse reason (Error cause)) \<and>
         ast_UUID (al_Status x) = ast_UUID (al_Status obj) \<and>
         ast_ObservedGeneration (al_Status x) = ast_ObservedGeneration (al_Status obj) \<and>
         e = (case u of None \<Rightarrow> cause | Some err \<Rightarrow> Wrapf ''update Alias status: '' err [])) \<or>
      (\<exists>err. tr = [EGetAlias n (Inl err)] \<and> IgnoreNotFound L err = Some e) \<or>
      (\<exists>obj t x err step. tr = EGetAlias n (Inr obj) # t @ [EUpdateAlias x (Some err)] \<and>
         writes t = [] \<and> step \<in> {''add finalizer: '', ''remove finalizer: ''} \<and> e = Wrapf step err []) \<or>
      (\<exists>obj t x err. tr = EGetAlias n (Inr obj) # t @ [EStatusAlias x (Some err)] \<and>
         writes t = [] \<and> is_ready L (ast_Conditions (al_Status x)) \<and>
         e = Wrapf ''update Alias status: '' err [])"
  using alias_outcome_run [OF assms(2)]
proof (cases rule: alias_outcome.cases)
  case unread
  then show ?thesis by (auto split: option.split)
next
  case released
  then show ?thesis by simp
next
  case (finalized obj t u)
  then have "writes t = []" by (auto simp: alias_unwritten)
  with finalized show ?thesis by (cases u) (auto simp: unwritten)
next
  case (adopted obj x u)
  then show ?thesis by (cases u) (auto intro: exI [of _ "[]"])
next
  case settled
  then show ?thesis by (auto simp: alias_unwritten)
next
  case (synced obj t uuid u)
  then show ?thesis
    using assms(1) by (cases u) (auto simp: alias_unwritten alias_ready_is_ready report_def)
next
  case (failed obj t reason e u)
  then show ?thesis
    using assms(1) by (cases u) (auto simp: report_def alias_failed_condition)
qed

text \<open>
  Once an alias was reported Ready with a UUID, reconciling it again as it was written, while
  OPNsense still exports under this UUID an alias without drift, reads the connection and the
  export, writes nothing and returns without an error.
\<close>

theorem alias_settled_noop:
  assumes "condition_laws L"
    and "runs (AliasReconciler_Reconcile L n) tr r" and "EStatusAlias x u \<in> set tr"
    and "is_ready L (ast_Conditions (al_Status x))" and "ast_UUID (al_Status x) \<noteq> []"
    and "runs (AliasReconciler_Reconcile L n) (EGetAlias n (Inr x) # b @ g @ t) r'"
    and "runs (AliasReconciler_buildOPNsenseClient L x) b (Inr c)"
    and "runs (GetAlias L c (ast_UUID (al_Status x))) g (Inr existing)"
    and "\<not> aliasNeedsUpdate (al_Spec x) existing"
  shows "t = [] \<and> r' = (no_requeue, None)"
proof -
  from assms(1,3,4) alias_outcome_run [OF assms(2)]
  have "time_IsZero L (om_DeletionTimestamp (al_Meta x))"
    "ContainsFinalizer L (al_Meta x) aliasFinalizer" "alias_settled L x (ast_UUID (al_Status x))"
    by (auto elim!: alias_outcomeE
        simp: alias_unwritten alias_failed_not_ready alias_ready_is_ready alias_settled_def)
  moreover have "runs (AliasReconciler_sync L x) (b @ g @ t) r'"
    using assms(6) calculation(1,2) by (simp add: AliasReconciler_Reconcile_def)
  ultimately show ?thesis
    using assms(9)
    by (simp add: AliasReconciler_sync_def runs_bind_after [OF assms(7)]
        runs_bind_after [OF resolve_alias_known [OF assms(8,5)]])
qed

text \<open>
  The lookup finds an alias either under the UUID of the status or, when there is none or
  OPNsense no longer knows it, under the UUID it gives for the name of the spec; what it returns
  was exported for the UUID it returns.  It finds nothing only when OPNsense says that there is no
  alias of this name.
\<close>

theorem alias_lookup_sound:
  assumes "runs (AliasReconciler_resolveExternalAlias L c alias) tr (Inr (uuid, found))"
  shows "case found of
      Some existing \<Rightarrow>
        (\<exists>t g. tr = t @ g \<and> runs (GetAlias L c uuid) g (Inr existing) \<and>
           (t = [] \<and> uuid = ast_UUID (al_Status alias) \<or>
            (\<exists>s q. t = s @ q \<and> runs (GetAliasUUIDByName L c (as_Name (al_Spec alias))) q (Inr uuid))))
    | None \<Rightarrow>
        uuid = [] \<and>
        (\<exists>s q e. tr = s @ q \<and> runs (GetAliasUUIDByName L c (as_Name (al_Spec alias))) q (Inl e) \<and>
           errors_Is e ErrAliasNotFound)"
  using assms
  unfolding AliasReconciler_resolveExternalAlias_def resolve_alias_by_name_def Let_def
  by (auto simp: run_simps) (metis append.assoc append_Nil)+

text \<open>
  C16: a reconciliation of an alias sends at most five requests, all below /api/firewall/alias/ of the
  connection the alias names, with the credentials of that connection, and only after the connection
  was read and found Ready in the same run.
\<close>

theorem alias_requests_confined:
  assumes "runs (AliasReconciler_Reconcile L n) (EGetAlias n (Inr alias) # t) r"
    and "http_requests t \<noteq> []"
  shows "\<exists>c. connected L (ref_Name (as_ConnectionRef (al_Spec alias))) t c \<and> calls c alias_area 5 t"
proof -
  from assms have "runs (AliasReconciler_delete L alias) t r \<or> runs (AliasReconciler_sync L alias) t r"
    by (auto simp: AliasReconciler_Reconcile_def run_simps split: if_splits)
  then obtain b c s where t: "t = b @ s" "runs (AliasReconciler_buildOPNsenseClient L alias) b (Inr c)"
      "calls c alias_area 5 t"
    using assms(2) alias_delete_calls [of L "alias" t r] alias_sync_calls [of L "alias" t r]
      calls_mono [of _ alias_area 2 t 5] by auto
  then show ?thesis
    using connected_mono [OF alias_client.connected [OF t(2)], of t] by auto
qed

end
