(* ===== verification/FirewallRuleController.thy ===== *)
theory FirewallRuleController
  imports Connecting Drift
begin

text \<open>
  The reconciler of firewall rules, internal/controller/firewallrule_controller.go, in the same
  layout as that of aliases: a method of \<open>FirewallRuleReconciler\<close> is a definition with that
  prefix, the blocks of \<open>Reconcile\<close> have names of their own, log lines are left out, the contract
  of \<open>Reconcile\<close> is the relation \<open>rule_outcome\<close>, and the properties are drawn from it.
\<close>

definition firewallRuleFinalizer :: string where
  "firewallRuleFinalizer = ''firewall.opnsense.io/firewallrule-finalizer''"

definition reasonValidationFailed :: string where
  "reasonValidationFailed = ''ValidationFailed''"

section \<open>Status\<close>

definition rule_with_ready ::
  "golib \<Rightarrow> FirewallRuleCR \<Rightarrow> string \<Rightarrow> string \<Rightarrow> string \<Rightarrow> FirewallRuleCR" where
  "rule_with_ready L rule status reason message =
     rule\<lparr>fr_Status := (fr_Status rule)
       \<lparr>rst_Conditions := SetStatusCondition L (rst_Conditions (fr_Status rule))
          (ready_condition (fr_Meta rule) status reason message)\<rparr>\<rparr>"

definition FirewallRuleReconciler_setReadyCondition ::
  "golib \<Rightarrow> FirewallRuleCR \<Rightarrow> string \<Rightarrow> string \<Rightarrow> string \<Rightarrow> err option prog" where
  "FirewallRuleReconciler_setReadyCondition L rule status reason message =
     StatusUpdateFirewallRule (rule_with_ready L rule status reason message) (\<lambda>u.
       Return (case u of
                 Some err \<Rightarrow> Some (Wrapf ''update FirewallRule status: '' err [])
               | None \<Rightarrow> None))"

definition FirewallRuleReconciler_setReadyFailed ::
  "golib \<Rightarrow> FirewallRuleCR \<Rightarrow> string \<Rightarrow> string \<Rightarrow> err \<Rightarrow> outcome prog" where
  "FirewallRuleReconciler_setReadyFailed L rule reason message cause =
     bind (FirewallRuleReconciler_setReadyCondition L rule ConditionFalse reason message) (\<lambda>r.
       case r of
         Some err \<Rightarrow> Return (no_requeue, Some err)
       | None \<Rightarrow> Return (no_requeue, Some cause))"

definition rule_synced :: "FirewallRuleCR \<Rightarrow> string \<Rightarrow> string \<Rightarrow> FirewallRuleCR" where
  "rule_synced rule uuid seq =
     rule\<lparr>fr_Status := (fr_Status rule)
       \<lparr>rst_UUID := uuid, rst_Sequence := seq,
        rst_ObservedGeneration := om_Generation (fr_Meta rule)\<rparr>\<rparr>"

definition FirewallRuleReconciler_setReadySuccess ::
  "golib \<Rightarrow> FirewallRuleCR \<Rightarrow> string \<Rightarrow> string \<Rightarrow> outcome prog" where
  "FirewallRuleReconciler_setReadySuccess L rule uuid seq =
     bind (FirewallRuleReconciler_setReadyCondition L (rule_synced rule uuid seq) ConditionTrue
             ''FirewallRuleReady'' ''FirewallRule is in sync with OPNsense'') (\<lambda>r.
       case r of
         Some err \<Rightarrow> Return (no_requeue, Some err)
       | None \<Rightarrow> Return (no_requeue, None))"

section \<open>The client for a rule\<close>

definition FirewallRuleReconciler_buildOPNsenseClient ::
  "golib \<Rightarrow> FirewallRuleCR \<Rightarrow> ((string \<times> err) + Client) prog" where
  "FirewallRuleReconciler_buildOPNsenseClient L rule =
     (let refName = ref_Name (rs_ConnectionRef (fr_Spec rule)) in
      GetConnection (cluster_key refName) (\<lambda>r.
        case r of
          Inl err \<Rightarrow>
            Return (Inl (''ConnectionNotFound'',
              Wrapf (''fetch OPNsenseConnection '' @ Quote (is_print L) refName @ '': '') err []))
        | Inr conn \<Rightarrow>
            if \<not> is_ready L (cst_Conditions (conn_Status conn)) then
              Return (Inl (''ConnectionNotReady'',
                Errorf (''OPNsenseConnection '' @ Quote (is_print L) (om_Name (conn_Meta conn))
                        @ '' is not ready'')))
            else
              (let secretKey = secret_key (cred_SecretRef (cs_Credentials (conn_Spec conn))) in
               GetSecret secretKey (\<lambda>r.
                 case r of
                   Inl err \<Rightarrow>
                     Return (Inl (''CredentialsNotFound'',
                       Wrapf (''fetch credentials Secret '' @ slashed secretKey @ '': '') err []))
                 | Inr secret \<Rightarrow>
                     (let apiKey = secret_value secret ''apiKey'';
                          apiSecret = secret_value secret ''apiSecret'' in
                      if apiKey = [] \<or> apiSecret = [] then
                        Return (Inl (''CredentialsInvalid'',
                          Errorf (''credentials Secret '' @ slashed secretKey
                            @ '' must have non-empty '' @ single_quoted ''apiKey''
                            @ '' and '' @ single_quoted ''apiSecret'')))
                      else
                        bind (buildHTTPClient L (cs_TLS (conn_Spec conn))) (\<lambda>h.
                          case h of
                            Inl err \<Rightarrow>
                              Return (Inl (''TLSConfigFailed'', Wrapf ''build TLS client: '' err []))
                          | Inr httpClient \<Rightarrow>
                              Return (Inr (NewClient (cs_URL (conn_Spec conn)) apiKey apiSecret
                                             httpClient))))))))"

interpretation rule_client: client_builder FirewallRuleReconciler_buildOPNsenseClient
  "\<lambda>rule. ref_Name (rs_ConnectionRef (fr_Spec rule))"
  by unfold_locales
    (simp add: FirewallRuleReconciler_buildOPNsenseClient_def clientFor_unfold Let_def cong: if_cong)

interpretation rule_status: status_writer FirewallRuleReconciler_setReadyCondition
  FirewallRuleReconciler_setReadyFailed rule_with_ready EStatusFirewallRule "''FirewallRule''"
  by unfold_locales
    (auto simp: FirewallRuleReconciler_setReadyCondition_def FirewallRuleReconciler_setReadyFailed_def
       report_def split: option.splits intro!: arg_cong [where f = "bind _"])

section \<open>Looking the rule up\<close>

definition resolve_rule_by_suffix ::
  "golib \<Rightarrow> Client \<Rightarrow> FirewallRuleCR \<Rightarrow> (err + string \<times> FirewallRule option) prog" where
  "resolve_rule_by_suffix L c rule =
     (let phrase = om_Namespace (fr_Meta rule) @ ''/'' @ om_Name (fr_Meta rule) in
      bind (SearchRuleByManagedSuffix L c phrase) (\<lambda>r.
        case r of
          Inl err \<Rightarrow> Return (Inl err)
        | Inr uuids \<Rightarrow>
            (case uuids of
               [] \<Rightarrow> Return (Inr ([], None))
             | [uuid] \<Rightarrow>
                 bind (GetRule L c uuid) (\<lambda>r.
                   case r of
                     Inl err \<Rightarrow> Return (Inl err)
                   | Inr existing \<Rightarrow> Return (Inr (uuid, Some existing)))
             | _ \<Rightarrow>
                 Return (Inl (Errorf (''found '' @ show_int (int (length uuids))
                   @ '' rules matching managed suffix '' @ Quote (is_print L) phrase
                   @ '', expected at most 1''))))))"

definition FirewallRuleReconciler_resolveExternalRule ::
  "golib \<Rightarrow> Client \<Rightarrow> FirewallRuleCR \<Rightarrow> (err + string \<times> FirewallRule option) prog" where
  "FirewallRuleReconciler_resolveExternalRule L c rule =
     (let uuid = rst_UUID (fr_Status rule) in
      if uuid \<noteq> [] then
        bind (GetRule L c uuid) (\<lambda>r.
          case r of
            Inr existing \<Rightarrow> Return (Inr (uuid, Some existing))
          | Inl err \<Rightarrow>
              if \<not> errors_Is err ErrFirewallRuleNotFound then Return (Inl err)
              else resolve_rule_by_suffix L c rule)
      else resolve_rule_by_suffix L c rule)"

section \<open>\<open>Reconcile\<close>\<close>

definition rule_remove_finalizer :: "golib \<Rightarrow> FirewallRuleCR \<Rightarrow> outcome prog" where
  "rule_remove_finalizer L rule =
     UpdateFirewallRuleCR (rule\<lparr>fr_Meta := RemoveFinalizer L (fr_Meta rule) firewallRuleFinalizer\<rparr>)
       (\<lambda>u. case u of
         Some err \<Rightarrow> Return (no_requeue, Some (Wrapf ''remove finalizer: '' err []))
       | None \<Rightarrow> Return (no_requeue, None))"

definition FirewallRuleReconciler_reconcileDelete ::
  "golib \<Rightarrow> FirewallRuleCR \<Rightarrow> outcome prog" where
  "FirewallRuleReconciler_reconcileDelete L rule =
     (if \<not> ContainsFinalizer L (fr_Meta rule) firewallRuleFinalizer then Return (no_requeue, None)
      else if rst_UUID (fr_Status rule) = [] then rule_remove_finalizer L rule
      else
        bind (FirewallRuleReconciler_buildOPNsenseClient L rule) (\<lambda>r.
          case r of
            Inl (reason, err) \<Rightarrow> FirewallRuleReconciler_setReadyFailed L rule reason (Error err) err
          | Inr c \<Rightarrow>
              bind (DeleteRule L c (rst_UUID (fr_Status rule))) (\<lambda>deleted.
                let proceed =
                  bind (ApplyFirewallRules L c) (\<lambda>r.
                    case r of
                      Inl err \<Rightarrow>
                        FirewallRuleReconciler_setReadyFailed L rule ''ApplyFailed'' (Error err) err
                    | Inr _ \<Rightarrow> rule_remove_finalizer L rule)
                in
                case deleted of
                  Inl err \<Rightarrow>
                    if \<not> errors_Is err ErrFirewallRuleNotFound then
                      FirewallRuleReconciler_setReadyFailed L rule ''DeleteFailed'' (Error err) err
                    else proceed
                | Inr _ \<Rightarrow> proceed)))"

text \<open>What follows a successful create or update: apply, read the rule back, report.\<close>

definition rule_apply_and_read :: "golib \<Rightarrow> Client \<Rightarrow> FirewallRuleCR \<Rightarrow> string \<Rightarrow> outcome prog" where
  "rule_apply_and_read L c rule uuid =
     bind (ApplyFirewallRules L c) (\<lambda>r.
       case r of
         Inl err \<Rightarrow> FirewallRuleReconciler_setReadyFailed L rule ''ApplyFailed'' (Error err) err
       | Inr _ \<Rightarrow>
           bind (GetRule L c uuid) (\<lambda>r.
             case r of
               Inl err \<Rightarrow> FirewallRuleReconciler_setReadyFailed L rule ''GetFailed'' (Error err) err
             | Inr existing \<Rightarrow>
                 FirewallRuleReconciler_setReadySuccess L rule uuid (r_Sequence existing)))"

definition rule_desired :: "FirewallRuleCR \<Rightarrow> FirewallRule" where
  "rule_desired rule =
     specToRule (fr_Spec rule) (om_Namespace (fr_Meta rule)) (om_Name (fr_Meta rule))"

definition FirewallRuleReconciler_create ::
  "golib \<Rightarrow> Client \<Rightarrow> FirewallRuleCR \<Rightarrow> outcome prog" where
  "FirewallRuleReconciler_create L c rule =
     bind (CreateRule L c (rule_desired rule)) (\<lambda>r.
       case r of
         Inl err \<Rightarrow>
           FirewallRuleReconciler_setReadyFailed L rule
             (if errors_Is err ErrValidationFailed then reasonValidationFailed else ''CreateFailed'')
             (Error err) err
       | Inr newUUID \<Rightarrow> rule_apply_and_read L c rule newUUID)"

definition rule_update_reason :: "err \<Rightarrow> string" where
  "rule_update_reason err =
     (if errors_Is err ErrValidationFailed then reasonValidationFailed
      else if errors_Is err ErrFirewallRuleNotFound then ''NotFound''
      else ''UpdateFailed'')"

definition FirewallRuleReconciler_update ::
  "golib \<Rightarrow> Client \<Rightarrow> FirewallRuleCR \<Rightarrow> string \<Rightarrow> outcome prog" where
  "FirewallRuleReconciler_update L c rule uuid =
     bind (UpdateRule L c uuid (rule_desired rule)) (\<lambda>r.
       case r of
         Inl err \<Rightarrow>
           FirewallRuleReconciler_setReadyFailed L rule (rule_update_reason err) (Error err) err
       | Inr _ \<Rightarrow> rule_apply_and_read L c rule uuid)"

definition rule_settled :: "golib \<Rightarrow> FirewallRuleCR \<Rightarrow> string \<Rightarrow> FirewallRule \<Rightarrow> bool" where
  "rule_settled L rule uuid existing \<longleftrightarrow>
     rst_UUID (fr_Status rule) = uuid \<and>
     rst_Sequence (fr_Status rule) = r_Sequence existing \<and>
     rst_ObservedGeneration (fr_Status rule) = om_Generation (fr_Meta rule) \<and>
     is_ready L (rst_Conditions (fr_Status rule))"

definition rule_needs_update :: "FirewallRuleCR \<Rightarrow> FirewallRule \<Rightarrow> bool" where
  "rule_needs_update rule existing =
     ruleNeedsUpdate (fr_Spec rule) (om_Namespace (fr_Meta rule)) (om_Name (fr_Meta rule)) existing"

definition FirewallRuleReconciler_sync :: "golib \<Rightarrow> FirewallRuleCR \<Rightarrow> outcome prog" where
  "FirewallRuleReconciler_sync L rule =
     bind (FirewallRuleReconciler_buildOPNsenseClient L rule) (\<lambda>r.
       case r of
         Inl (reason, err) \<Rightarrow> FirewallRuleReconciler_setReadyFailed L rule reason (Error err) err
       | Inr c \<Rightarrow>
           bind (FirewallRuleReconciler_resolveExternalRule L c rule) (\<lambda>r.
             case r of
               Inl err \<Rightarrow>
                 FirewallRuleReconciler_setReadyFailed L rule ''LookupFailed'' (Error err) err
             | Inr (uuid, found) \<Rightarrow>
                 (case found of
                    None \<Rightarrow> FirewallRuleReconciler_create L c rule
                  | Some existing \<Rightarrow>
                      if rule_needs_update rule existing then
                        FirewallRuleReconciler_update L c rule uuid
                      else if rule_settled L rule uuid existing then Return (no_requeue, None)
                      else
                        FirewallRuleReconciler_setReadySuccess L rule uuid (r_Sequence existing))))"

definition FirewallRuleReconciler_Reconcile :: "golib \<Rightarrow> NamespacedName \<Rightarrow> outcome prog" where
  "FirewallRuleReconciler_Reconcile L req =
     GetFirewallRuleCR req (\<lambda>r.
       case r of
         Inl err \<Rightarrow> Return (no_requeue, IgnoreNotFound L err)
       | Inr rule \<Rightarrow>
           if \<not> time_IsZero L (om_DeletionTimestamp (fr_Meta rule)) then
             FirewallRuleReconciler_reconcileDelete L rule
           else if \<not> ContainsFinalizer L (fr_Meta rule) firewallRuleFinalizer then
             UpdateFirewallRuleCR
               (rule\<lparr>fr_Meta := AddFinalizer L (fr_Meta rule) firewallRuleFinalizer\<rparr>) (\<lambda>u.
               case u of
                 Some err \<Rightarrow> Return (no_requeue, Some (Wrapf ''add finalizer: '' err []))
               | None \<Rightarrow> Return (no_requeue, None))
           else FirewallRuleReconciler_sync L rule)"

section \<open>The runs of the parts\<close>

definition rule_ready :: "golib \<Rightarrow> FirewallRuleCR \<Rightarrow> string \<Rightarrow> string \<Rightarrow> FirewallRuleCR" where
  "rule_ready L rule uuid seq =
     rule_with_ready L (rule_synced rule uuid seq) ConditionTrue
       ''FirewallRuleReady'' ''FirewallRule is in sync with OPNsense''"

lemma rule_success_run:
  "runs (FirewallRuleReconciler_setReadySuccess L rule uuid seq) tr r \<longleftrightarrow>
     (\<exists>u. tr = [EStatusFirewallRule (rule_ready L rule uuid seq) u] \<and> r = (no_requeue, report ''FirewallRule'' u))"
  by (auto simp: FirewallRuleReconciler_setReadySuccess_def FirewallRuleReconciler_setReadyCondition_def report_def
      rule_ready_def split: option.split)

definition without_rule_finalizer :: "golib \<Rightarrow> FirewallRuleCR \<Rightarrow> FirewallRuleCR" where
  "without_rule_finalizer L rule =
     rule\<lparr>fr_Meta := RemoveFinalizer L (fr_Meta rule) firewallRuleFinalizer\<rparr>"

lemma rule_remove_run:
  "runs (rule_remove_finalizer L rule) tr r \<longleftrightarrow>
     (\<exists>u. tr = [EUpdateFirewallRule (without_rule_finalizer L rule) u] \<and>
        r = (no_requeue, map_option (\<lambda>e. Wrapf ''remove finalizer: '' e []) u))"
  by (auto simp: rule_remove_finalizer_def without_rule_finalizer_def run_simps)

lemmas rule_end_runs = rule_status.failed_run rule_success_run rule_remove_run

text \<open>The lookup only reads.\<close>

lemma resolve_rule_silent:
  "runs (FirewallRuleReconciler_resolveExternalRule L c rule) tr r \<Longrightarrow> writes tr = []"
  by (auto simp: FirewallRuleReconciler_resolveExternalRule_def resolve_rule_by_suffix_def Let_def run_simps
      simp: client_silent)

lemma resolve_rule_posts:
  "runs (FirewallRuleReconciler_resolveExternalRule L c rule) tr r \<Longrightarrow> posts tr = []"
  by (auto simp: FirewallRuleReconciler_resolveExternalRule_def resolve_rule_by_suffix_def Let_def run_simps
      simp: client_posted)

lemmas rule_silent =
  rule_client.silent resolve_rule_silent client_silent

lemmas rule_posted =
  rule_client.no_posts resolve_rule_posts client_posted

section \<open>Removing the finalizer\<close>

text \<open>
  The rule is gone from OPNsense and the deletion is applied: connected, deleted or found
  missing, reconfigured, in this order.
\<close>

definition rule_gone :: "golib \<Rightarrow> FirewallRuleCR \<Rightarrow> event list \<Rightarrow> bool" where
  "rule_gone L rule tr \<longleftrightarrow>
     (\<exists>c b d v a. tr = b @ d @ a \<and>
        runs (FirewallRuleReconciler_buildOPNsenseClient L rule) b (Inr c) \<and>
        runs (DeleteRule L c (rst_UUID (fr_Status rule))) d v \<and>
        (v = Inr () \<or> (\<exists>e. v = Inl e \<and> errors_Is e ErrFirewallRuleNotFound)) \<and>
        runs (ApplyFirewallRules L c) a (Inr ()))"

section \<open>What Ready=True rests on\<close>

text \<open>
  From the outcome of the lookup to the UUID and sequence that are reported: created, applied and
  read back, updated, applied and read back, or found with nothing to change.
\<close>

definition rule_read_back ::
  "golib \<Rightarrow> Client \<Rightarrow> event list \<Rightarrow> string \<Rightarrow> string \<Rightarrow> bool" where
  "rule_read_back L c tr uuid seq \<longleftrightarrow>
     (\<exists>a g existing. tr = a @ g \<and> runs (ApplyFirewallRules L c) a (Inr ()) \<and>
        runs (GetRule L c uuid) g (Inr existing) \<and> seq = r_Sequence existing)"

definition rule_applied ::
  "golib \<Rightarrow> Client \<Rightarrow> FirewallRuleCR \<Rightarrow> string \<times> FirewallRule option \<Rightarrow> event list \<Rightarrow>
     string \<Rightarrow> string \<Rightarrow> bool" where
  "rule_applied L c rule found tr uuid seq \<longleftrightarrow>
     (case found of
        (_, None) \<Rightarrow>
          (\<exists>t a. tr = t @ a \<and> runs (CreateRule L c (rule_desired rule)) t (Inr uuid) \<and>
             rule_read_back L c a uuid seq)
      | (u, Some existing) \<Rightarrow>
          uuid = u \<and>
          (if rule_needs_update rule existing then
             (\<exists>t a. tr = t @ a \<and> runs (UpdateRule L c u (rule_desired rule)) t (Inr ()) \<and>
                rule_read_back L c a uuid seq)
           else tr = [] \<and> seq = r_Sequence existing))"

definition rule_in_sync ::
  "golib \<Rightarrow> FirewallRuleCR \<Rightarrow> event list \<Rightarrow> string \<Rightarrow> string \<Rightarrow> bool" where
  "rule_in_sync L rule tr uuid seq \<longleftrightarrow>
     (\<exists>c b l found t. tr = b @ l @ t \<and>
        runs (FirewallRuleReconciler_buildOPNsenseClient L rule) b (Inr c) \<and>
        runs (FirewallRuleReconciler_resolveExternalRule L c rule) l (Inr found) \<and>
        rule_applied L c rule found t uuid seq)"

lemma rule_with_ready_is_ready:
  "condition_laws L \<Longrightarrow>
     is_ready L (rst_Conditions (fr_Status (rule_with_ready L rule status reason message)))
       \<longleftrightarrow> status = ConditionTrue"
  by (simp add: rule_with_ready_def is_ready_set)

lemma rule_ready_sel [simp]:
  "fr_Meta (rule_ready L rule uuid seq) = fr_Meta rule"
  "fr_Spec (rule_ready L rule uuid seq) = fr_Spec rule"
  "rst_UUID (fr_Status (rule_ready L rule uuid seq)) = uuid"
  "rst_Sequence (fr_Status (rule_ready L rule uuid seq)) = seq"
  "rst_ObservedGeneration (fr_Status (rule_ready L rule uuid seq)) = om_Generation (fr_Meta rule)"
  by (simp_all add: rule_ready_def rule_with_ready_def rule_synced_def)

lemma rule_ready_is_ready:
  "condition_laws L \<Longrightarrow> is_ready L (rst_Conditions (fr_Status (rule_ready L rule uuid seq)))"
  by (simp add: rule_ready_def rule_with_ready_is_ready)

definition rule_settled_at :: "golib \<Rightarrow> FirewallRuleCR \<Rightarrow> string \<Rightarrow> string \<Rightarrow> bool" where
  "rule_settled_at L rule uuid seq \<longleftrightarrow>
     rst_UUID (fr_Status rule) = uuid \<and> rst_Sequence (fr_Status rule) = seq \<and>
     rst_ObservedGeneration (fr_Status rule) = om_Generation (fr_Meta rule) \<and>
     is_ready L (rst_Conditions (fr_Status rule))"

lemma rule_settled_iff: "rule_settled L rule uuid existing = rule_settled_at L rule uuid (r_Sequence existing)"
  by (simp add: rule_settled_def rule_settled_at_def)

section \<open>The outcomes of a reconciliation\<close>

definition rule_reasons :: "string set" where
  "rule_reasons = connection_reasons \<union>
     {''LookupFailed'', ''CreateFailed'', ''UpdateFailed'', ''ValidationFailed'',
      ''ApplyFailed'', ''GetFailed'', ''NotFound'', ''DeleteFailed''}"

definition rule_failed :: "golib \<Rightarrow> FirewallRuleCR \<Rightarrow> string \<Rightarrow> err \<Rightarrow> FirewallRuleCR" where
  "rule_failed L rule reason e = rule_with_ready L rule ConditionFalse reason (Error e)"

text \<open>
  The contract of \<open>Reconcile\<close> as a relation between the replies of the environment and the
  result, one rule per kind of outcome.
\<close>

inductive rule_outcome :: "golib \<Rightarrow> NamespacedName \<Rightarrow> event list \<Rightarrow> outcome \<Rightarrow> bool"
  for L :: golib and n :: NamespacedName where
  unread: "rule_outcome L n [EGetFirewallRule n (Inl e)] (no_requeue, IgnoreNotFound L e)"
| released:
    "\<not> time_IsZero L (om_DeletionTimestamp (fr_Meta rule)) \<Longrightarrow>
     \<not> ContainsFinalizer L (fr_Meta rule) firewallRuleFinalizer \<Longrightarrow>
     rule_outcome L n [EGetFirewallRule n (Inr rule)] (no_requeue, None)"
| finalized:
    "\<not> time_IsZero L (om_DeletionTimestamp (fr_Meta rule)) \<Longrightarrow>
     ContainsFinalizer L (fr_Meta rule) firewallRuleFinalizer \<Longrightarrow>
     rst_UUID (fr_Status rule) = [] \<and> t = [] \<or> rule_gone L rule t \<Longrightarrow>
     rule_outcome L n (EGetFirewallRule n (Inr rule) # t @ [EUpdateFirewallRule (without_rule_finalizer L rule) u])
       (no_requeue, map_option (\<lambda>e. Wrapf ''remove finalizer: '' e []) u)"
| adopted:
    "time_IsZero L (om_DeletionTimestamp (fr_Meta rule)) \<Longrightarrow>
     \<not> ContainsFinalizer L (fr_Meta rule) firewallRuleFinalizer \<Longrightarrow>
     x = rule\<lparr>fr_Meta := AddFinalizer L (fr_Meta rule) firewallRuleFinalizer\<rparr> \<Longrightarrow>
     rule_outcome L n [EGetFirewallRule n (Inr rule), EUpdateFirewallRule x u]
       (no_requeue, map_option (\<lambda>e. Wrapf ''add finalizer: '' e []) u)"
| settled:
    "time_IsZero L (om_DeletionTimestamp (fr_Meta rule)) \<Longrightarrow>
     ContainsFinalizer L (fr_Meta rule) firewallRuleFinalizer \<Longrightarrow>
     rule_in_sync L rule t uuid seq \<Longrightarrow> rule_settled_at L rule uuid seq \<Longrightarrow> posts t = [] \<Longrightarrow>
     rule_outcome L n (EGetFirewallRule n (Inr rule) # t) (no_requeue, None)"
| synced:
    "time_IsZero L (om_DeletionTimestamp (fr_Meta rule)) \<Longrightarrow>
     ContainsFinalizer L (fr_Meta rule) firewallRuleFinalizer \<Longrightarrow>
     rule_in_sync L rule t uuid seq \<Longrightarrow>
     rule_outcome L n (EGetFirewallRule n (Inr rule) # t @ [EStatusFirewallRule (rule_ready L rule uuid seq) u])
       (no_requeue, report ''FirewallRule'' u)"
| failed:
    "ContainsFinalizer L (fr_Meta rule) firewallRuleFinalizer \<Longrightarrow> writes t = [] \<Longrightarrow>
     reason \<in> rule_reasons \<Longrightarrow>
     rule_outcome L n (EGetFirewallRule n (Inr rule) # t @ [EStatusFirewallRule (rule_failed L rule reason e) u])
       (no_requeue, Some (case report ''FirewallRule'' u of Some e' \<Rightarrow> e' | None \<Rightarrow> e))"

inductive_cases rule_outcomeE: "rule_outcome L n tr r"

lemma rule_reasons_simps [simp]:
  "reason \<in> connection_reasons \<Longrightarrow> reason \<in> rule_reasons" "''LookupFailed'' \<in> rule_reasons"
  "''CreateFailed'' \<in> rule_reasons" "''UpdateFailed'' \<in> rule_reasons"
  "reasonValidationFailed \<in> rule_reasons" "''ApplyFailed'' \<in> rule_reasons"
  "''GetFailed'' \<in> rule_reasons" "''DeleteFailed'' \<in> rule_reasons"
  "rule_update_reason e \<in> rule_reasons"
  by (simp_all add: rule_reasons_def reasonValidationFailed_def rule_update_reason_def)

abbreviation rule_failing :: "golib \<Rightarrow> FirewallRuleCR \<Rightarrow> event list \<Rightarrow> outcome \<Rightarrow> bool" where
  "rule_failing \<equiv> failing FirewallRuleReconciler_setReadyFailed rule_reasons"

lemma rule_failing_outcome:
  "rule_failing L rule t r \<Longrightarrow> ContainsFinalizer L (fr_Meta rule) firewallRuleFinalizer \<Longrightarrow>
     rule_outcome L n (EGetFirewallRule n (Inr rule) # t) r"
  by (auto simp: failing_def rule_status.failed_run rule_failed_def [symmetric]
      intro: rule_outcome.failed)

lemmas rule_failing_simps = failingI failing_append rule_silent rule_client.reason

lemma rule_delete_cases:
  "runs (FirewallRuleReconciler_reconcileDelete L rule) tr r \<Longrightarrow> ContainsFinalizer L (fr_Meta rule) firewallRuleFinalizer \<Longrightarrow>
     rule_failing L rule tr r \<or>
     (\<exists>t t2. (rst_UUID (fr_Status rule) = [] \<and> t = [] \<or> rule_gone L rule t) \<and> tr = t @ t2 \<and>
        runs (rule_remove_finalizer L rule) t2 r)"
  by (fastforce simp: FirewallRuleReconciler_reconcileDelete_def Let_def run_simps rule_gone_def rule_failing_simps)

lemma rule_apply_cases:
  "runs (rule_apply_and_read L c rule uuid) tr r \<Longrightarrow>
     rule_failing L rule tr r \<or>
     (\<exists>t seq t2. rule_read_back L c t uuid seq \<and> tr = t @ t2 \<and>
        runs (FirewallRuleReconciler_setReadySuccess L rule uuid seq) t2 r)"
  by (fastforce simp: rule_apply_and_read_def run_simps rule_read_back_def rule_failing_simps)

lemma rule_create_cases:
  assumes "runs (FirewallRuleReconciler_create L c rule) tr r"
  shows "rule_failing L rule tr r \<or>
     (\<exists>t uuid seq t2. rule_applied L c rule (u, None) t uuid seq \<and> tr = t @ t2 \<and>
        runs (FirewallRuleReconciler_setReadySuccess L rule uuid seq) t2 r)"
proof -
  from assms consider "rule_failing L rule tr r"
    | t a uuid where "tr = t @ a" "runs (CreateRule L c (rule_desired rule)) t (Inr uuid)"
        "runs (rule_apply_and_read L c rule uuid) a r"
    by (fastforce simp: FirewallRuleReconciler_create_def run_simps rule_failing_simps)
  then show ?thesis
  proof cases
    case 2
    then have "writes t = []" by (simp add: rule_silent)
    with 2 rule_apply_cases [OF 2(3)] show ?thesis
      by (simp add: rule_applied_def) (metis append.assoc failing_append)
  qed simp
qed

lemma rule_update_cases:
  assumes "runs (FirewallRuleReconciler_update L c rule uuid) tr r" and "rule_needs_update rule existing"
  shows "rule_failing L rule tr r \<or>
     (\<exists>t seq t2. rule_applied L c rule (uuid, Some existing) t uuid seq \<and> tr = t @ t2 \<and>
        runs (FirewallRuleReconciler_setReadySuccess L rule uuid seq) t2 r)"
proof -
  from assms(1) consider "rule_failing L rule tr r"
    | t a where "tr = t @ a" "runs (UpdateRule L c uuid (rule_desired rule)) t (Inr ())"
        "runs (rule_apply_and_read L c rule uuid) a r"
    by (fastforce simp: FirewallRuleReconciler_update_def run_simps rule_failing_simps)
  then show ?thesis
  proof cases
    case 2
    then have "writes t = []" by (simp add: rule_silent)
    with 2 rule_apply_cases [OF 2(3)] assms(2) show ?thesis
      by (simp add: rule_applied_def) (metis append.assoc failing_append)
  qed simp
qed

lemma rule_in_syncI:
  "runs (FirewallRuleReconciler_buildOPNsenseClient L rule) b (Inr c) \<Longrightarrow>
     runs (FirewallRuleReconciler_resolveExternalRule L c rule) l (Inr found) \<Longrightarrow>
     rule_applied L c rule found t uuid seq \<Longrightarrow> rule_in_sync L rule (b @ l @ t) uuid seq"
  unfolding rule_in_sync_def by blast

lemma rule_sync_cases:
  assumes "runs (FirewallRuleReconciler_sync L rule) tr r"
  shows "rule_failing L rule tr r \<or>
     (\<exists>t uuid seq t2. rule_in_sync L rule t uuid seq \<and> tr = t @ t2 \<and>
        (runs (FirewallRuleReconciler_setReadySuccess L rule uuid seq) t2 r \<or>
         rule_settled_at L rule uuid seq \<and> posts t = [] \<and> t2 = [] \<and> r = (no_requeue, None)))"
proof -
  consider
      (early) "rule_failing L rule tr r"
    | (found) b l t c u ex where "tr = b @ l @ t"
        "runs (FirewallRuleReconciler_buildOPNsenseClient L rule) b (Inr c)"
        "runs (FirewallRuleReconciler_resolveExternalRule L c rule) l (Inr (u, ex))"
        "runs (case ex of
            None \<Rightarrow> FirewallRuleReconciler_create L c rule
          | Some existing \<Rightarrow>
              if rule_needs_update rule existing then FirewallRuleReconciler_update L c rule u
              else if rule_settled_at L rule u (r_Sequence existing) then Return (no_requeue, None)
              else FirewallRuleReconciler_setReadySuccess L rule u (r_Sequence existing)) t r"
    using assms unfolding FirewallRuleReconciler_sync_def rule_settled_iff
    by (fastforce simp: runs_bind runs_case_sum runs_case_prod rule_failing_simps)
  then show ?thesis
  proof cases
    case found
    have silent: "writes b = []" "writes l = []" "posts b = []" "posts l = []"
      using found(2,3) by (simp_all add: rule_silent rule_posted)
    note in_sync = rule_in_syncI [OF found(2,3)]
    show ?thesis
    proof (cases ex)
      case None
      with found(4) have "runs (FirewallRuleReconciler_create L c rule) t r" by simp
      then show ?thesis
        using rule_create_cases [of L c rule t r u] in_sync None found(1) silent
        by (metis failing_append append.assoc)
    next
      case (Some e)
      show ?thesis
      proof (cases "rule_needs_update rule e")
        case True
        with found(4) Some have "runs (FirewallRuleReconciler_update L c rule u) t r" by simp
        then show ?thesis
          using rule_update_cases [OF _ True] in_sync Some found(1) silent
          by (metis failing_append append.assoc)
      next
        case False
        with Some have "rule_in_sync L rule (b @ l @ []) u (r_Sequence e)"
          by (intro in_sync) (simp add: rule_applied_def)
        moreover have "posts (b @ l @ []) = []"
          using silent by simp
        moreover have "tr = (b @ l @ []) @ t"
          using found(1) by simp
        moreover have "runs (FirewallRuleReconciler_setReadySuccess L rule u (r_Sequence e)) t r \<or>
            rule_settled_at L rule u (r_Sequence e) \<and> t = [] \<and> r = (no_requeue, None)"
          using False Some found(4) by (auto split: if_splits)
        ultimately show ?thesis by blast
      qed
    qed
  qed simp
qed

lemma rule_outcome_run:
  assumes "runs (FirewallRuleReconciler_Reconcile L n) tr r"
  shows "rule_outcome L n tr r"
proof -
  from assms consider
      (unread) e where "tr = [EGetFirewallRule n (Inl e)]" "r = (no_requeue, IgnoreNotFound L e)"
    | (delete) x t where "tr = EGetFirewallRule n (Inr x) # t"
        "\<not> time_IsZero L (om_DeletionTimestamp (fr_Meta x))" "runs (FirewallRuleReconciler_reconcileDelete L x) t r"
    | (adopt) x u where "tr = [EGetFirewallRule n (Inr x),
          EUpdateFirewallRule (x\<lparr>fr_Meta := AddFinalizer L (fr_Meta x) firewallRuleFinalizer\<rparr>) u]"
        "time_IsZero L (om_DeletionTimestamp (fr_Meta x))"
        "\<not> ContainsFinalizer L (fr_Meta x) firewallRuleFinalizer"
        "r = (no_requeue, map_option (\<lambda>e. Wrapf ''add finalizer: '' e []) u)"
    | (sync) x t where "tr = EGetFirewallRule n (Inr x) # t"
        "time_IsZero L (om_DeletionTimestamp (fr_Meta x))"
        "ContainsFinalizer L (fr_Meta x) firewallRuleFinalizer" "runs (FirewallRuleReconciler_sync L x) t r"
    by (fastforce simp: FirewallRuleReconciler_Reconcile_def run_simps)
  then show ?thesis
  proof cases
    case unread
    then show ?thesis by (simp add: rule_outcome.unread)
  next
    case delete
    show ?thesis
    proof (cases "ContainsFinalizer L (fr_Meta x) firewallRuleFinalizer")
      case True
      with delete show ?thesis
        by (auto simp: rule_remove_run dest!: rule_delete_cases
            intro: rule_outcome.intros rule_failing_outcome
              rule_outcome.finalized [where t = "[]", simplified])
    next
      case False
      with delete show ?thesis
        by (simp add: FirewallRuleReconciler_reconcileDelete_def rule_outcome.released)
    qed
  next
    case adopt
    then show ?thesis by (simp add: rule_outcome.adopted)
  next
    case sync
    then show ?thesis
      by (auto simp: rule_success_run dest!: rule_sync_cases
          intro: rule_outcome.intros rule_failing_outcome)
  qed
qed

section \<open>Facts about the outcomes\<close>

lemma rule_gone_writes: "rule_gone L rule t \<Longrightarrow> writes t = []"
  by (auto simp: rule_gone_def rule_silent)

lemma rule_in_sync_writes: "rule_in_sync L rule t uuid seq \<Longrightarrow> writes t = []"
  by (auto simp: rule_in_sync_def rule_applied_def rule_read_back_def rule_silent split: prod.splits option.splits if_splits)

lemmas rule_unwritten = rule_gone_writes rule_in_sync_writes unwritten

interpretation rule_reconciler: reconciler FirewallRuleReconciler_Reconcile
proof
  fix L n tr r
  assume "runs (FirewallRuleReconciler_Reconcile L n) tr r"
  then have "rule_outcome L n tr r" by (rule rule_outcome_run)
  then show "writes tr = [] \<or> (\<exists>t ev. tr = t @ [ev] \<and> writes t = [] \<and> (snd r = None \<longrightarrow> accepted ev))"
    by (cases rule: rule_outcome.cases)
      (auto simp: rule_unwritten report_def intro: exI [of _ "_ # _"])
qed

lemma without_rule_finalizer_sel [simp]:
  "fr_Meta (without_rule_finalizer L rule) = RemoveFinalizer L (fr_Meta rule) firewallRuleFinalizer"
  "fr_Spec (without_rule_finalizer L rule) = fr_Spec rule"
  "fr_Status (without_rule_finalizer L rule) = fr_Status rule"
  by (simp_all add: without_rule_finalizer_def)

lemma rule_failed_not_ready:
  "condition_laws L \<Longrightarrow> \<not> is_ready L (rst_Conditions (fr_Status (rule_failed L rule reason e)))"
  by (simp add: rule_failed_def rule_with_ready_is_ready)

lemma rule_failed_condition:
  assumes "condition_laws L"
  shows "FindStatusCondition L (rst_Conditions (fr_Status (rule_failed L rule reason e))) ''Ready''
    = Some (ready_condition (fr_Meta rule) ConditionFalse reason (Error e))"
  using assms by (simp add: rule_failed_def rule_with_ready_def find_ready_condition)

lemma rule_with_ready_sel [simp]:
  "fr_Meta (rule_with_ready L rule status reason m) = fr_Meta rule"
  "fr_Spec (rule_with_ready L rule status reason m) = fr_Spec rule"
  "rst_UUID (fr_Status (rule_with_ready L rule status reason m)) = rst_UUID (fr_Status rule)"
  "rst_ObservedGeneration (fr_Status (rule_with_ready L rule status reason m))
     = rst_ObservedGeneration (fr_Status rule)"
  by (simp_all add: rule_with_ready_def)

text \<open>The lookup, when the rule of the status is still there.\<close>

lemma resolve_rule_known:
  assumes "runs (GetRule L c (rst_UUID (fr_Status rule))) g (Inr existing)"
    and "rst_UUID (fr_Status rule) \<noteq> []"
  shows "runs (FirewallRuleReconciler_resolveExternalRule L c rule) g
     (Inr (rst_UUID (fr_Status rule), Some existing))"
  using assms unfolding FirewallRuleReconciler_resolveExternalRule_def Let_def
  by (simp add: runs_bind_after [OF assms(1), where ?t2.0 = "[]", simplified])

section \<open>The requests that change OPNsense\<close>

definition rule_delete_plan :: "Client \<Rightarrow> FirewallRuleCR \<Rightarrow> request list" where
  "rule_delete_plan c rule =
     [api_request c POST (''/api/firewall/filter/delRule/'' @ rst_UUID (fr_Status rule)) empty_payload,
      api_request c POST ''/api/firewall/filter/apply'' empty_payload]"

definition rule_body :: "FirewallRuleCR \<Rightarrow> payload option" where
  "rule_body rule = Some (Encodable (firewallRuleRequest_json (encodeFirewallRule (rule_desired rule))))"

definition rule_create_plan :: "Client \<Rightarrow> FirewallRuleCR \<Rightarrow> request list" where
  "rule_create_plan c rule =
     [api_request c POST ''/api/firewall/filter/addRule'' (rule_body rule),
      api_request c POST ''/api/firewall/filter/apply'' empty_payload]"

definition rule_update_plan :: "Client \<Rightarrow> FirewallRuleCR \<Rightarrow> string \<Rightarrow> request list" where
  "rule_update_plan c rule uuid =
     [api_request c POST (''/api/firewall/filter/setRule/'' @ uuid) (rule_body rule),
      api_request c POST ''/api/firewall/filter/apply'' empty_payload]"

text \<open>
  The plan a reconciliation follows: to delete when the object is being deleted, to create when
  the lookup found nothing, to update when it found something that differs.
\<close>

definition rule_plan :: "golib \<Rightarrow> FirewallRuleCR \<Rightarrow> event list \<Rightarrow> request list \<Rightarrow> bool" where
  "rule_plan L rule tr plan \<longleftrightarrow>
     (\<exists>c b t. tr = b @ t \<and> runs (FirewallRuleReconciler_buildOPNsenseClient L rule) b (Inr c) \<and>
        (if \<not> time_IsZero L (om_DeletionTimestamp (fr_Meta rule)) then plan = rule_delete_plan c rule
         else
           (\<exists>l t' u ex. t = l @ t' \<and>
              runs (FirewallRuleReconciler_resolveExternalRule L c rule) l (Inr (u, ex)) \<and>
              (case ex of
                 None \<Rightarrow> plan = rule_create_plan c rule
               | Some existing \<Rightarrow>
                   rule_needs_update rule existing \<and> plan = rule_update_plan c rule u))))"

lemma rule_end_posts:
  "runs (FirewallRuleReconciler_setReadyFailed L rule reason m e) tr r \<Longrightarrow> posts tr = []"
  "runs (FirewallRuleReconciler_setReadySuccess L rule uuid seq) tr r \<Longrightarrow> posts tr = []"
  "runs (rule_remove_finalizer L rule) tr r \<Longrightarrow> posts tr = []"
  by (auto simp: rule_end_runs)

lemmas rule_posts_simps = rule_posted rule_end_posts

lemma rule_delete_posts:
  "runs (FirewallRuleReconciler_reconcileDelete L rule) tr r \<Longrightarrow>
     posts tr = [] \<or>
     (\<exists>c b t. tr = b @ t \<and> runs (FirewallRuleReconciler_buildOPNsenseClient L rule) b (Inr c) \<and>
        prefix (posts tr) (rule_delete_plan c rule))"
  by (fastforce simp: FirewallRuleReconciler_reconcileDelete_def Let_def run_simps rule_posts_simps rule_delete_plan_def)

lemma rule_apply_posts:
  "runs (rule_apply_and_read L c rule uuid) tr r \<Longrightarrow>
     posts tr = [api_request c POST ''/api/firewall/filter/apply'' empty_payload]"
  by (auto simp: rule_apply_and_read_def run_simps rule_posts_simps)

lemma rule_create_posts:
  "runs (FirewallRuleReconciler_create L c rule) tr r \<Longrightarrow> prefix (posts tr) (rule_create_plan c rule)"
  by (auto simp: FirewallRuleReconciler_create_def run_simps rule_posts_simps rule_apply_posts
      rule_create_plan_def rule_body_def)

lemma rule_update_posts:
  "runs (FirewallRuleReconciler_update L c rule u) tr r \<Longrightarrow> prefix (posts tr) (rule_update_plan c rule u)"
  by (auto simp: FirewallRuleReconciler_update_def run_simps rule_posts_simps rule_apply_posts
      rule_update_plan_def rule_body_def)

lemma rule_sync_posts:
  assumes "runs (FirewallRuleReconciler_sync L rule) tr r"
    and "time_IsZero L (om_DeletionTimestamp (fr_Meta rule))"
  shows "posts tr = [] \<or> (\<exists>plan. rule_plan L rule tr plan \<and> prefix (posts tr) plan)"
  using assms
  by (fastforce simp: FirewallRuleReconciler_sync_def run_simps rule_posts_simps rule_plan_def
      dest: rule_create_posts rule_update_posts)


section \<open>All requests\<close>

abbreviation rule_area :: string where
  "rule_area \<equiv> ''/api/firewall/filter/''"

lemma rule_end_no_http:
  "runs (FirewallRuleReconciler_setReadyFailed L rule reason m e) tr r \<Longrightarrow> http_requests tr = []"
  "runs (FirewallRuleReconciler_setReadySuccess L rule uuid seq) tr r \<Longrightarrow> http_requests tr = []"
  "runs (rule_remove_finalizer L rule) tr r \<Longrightarrow> http_requests tr = []"
  by (auto simp: rule_end_runs)

lemmas rule_request_simps = client_requests rule_end_no_http rule_client.no_http calls_def

lemma resolve_rule_calls:
  "runs (FirewallRuleReconciler_resolveExternalRule L c rule) tr r \<Longrightarrow> calls c rule_area 3 tr"
  by (auto simp: FirewallRuleReconciler_resolveExternalRule_def resolve_rule_by_suffix_def Let_def run_simps
      rule_request_simps)

lemma rule_apply_calls:
  "runs (rule_apply_and_read L c rule uuid) tr r \<Longrightarrow> calls c rule_area 2 tr"
  by (auto simp: rule_apply_and_read_def run_simps rule_request_simps)

lemma rule_create_calls:
  "runs (FirewallRuleReconciler_create L c rule) tr r \<Longrightarrow> calls c rule_area 3 tr"
  by (auto simp: FirewallRuleReconciler_create_def run_simps rule_request_simps
      dest!: rule_apply_calls)

lemma rule_update_calls:
  "runs (FirewallRuleReconciler_update L c rule uuid) tr r \<Longrightarrow> calls c rule_area 3 tr"
  by (auto simp: FirewallRuleReconciler_update_def run_simps rule_request_simps
      dest!: rule_apply_calls)

lemma rule_delete_calls:
  "runs (FirewallRuleReconciler_reconcileDelete L rule) tr r \<Longrightarrow>
     http_requests tr = [] \<or>
     (\<exists>b c t. tr = b @ t \<and> runs (FirewallRuleReconciler_buildOPNsenseClient L rule) b (Inr c) \<and>
        calls c rule_area 2 tr)"
  by (fastforce simp: FirewallRuleReconciler_reconcileDelete_def Let_def run_simps rule_request_simps)

lemma rule_found_calls:
  assumes "runs (case ex of
      None \<Rightarrow> FirewallRuleReconciler_create L c rule
    | Some existing \<Rightarrow>
        if rule_needs_update rule existing then FirewallRuleReconciler_update L c rule u
        else if rule_settled_at L rule u (r_Sequence existing) then Return (no_requeue, None)
        else FirewallRuleReconciler_setReadySuccess L rule u (r_Sequence existing)) t r"
  shows "calls c rule_area 3 t"
  using assms
  by (auto split: option.splits if_splits
      dest: rule_create_calls rule_update_calls rule_end_no_http intro: calls_none)

lemma rule_sync_calls:
  assumes "runs (FirewallRuleReconciler_sync L rule) tr r"
  shows "http_requests tr = [] \<or>
     (\<exists>b c t. tr = b @ t \<and> runs (FirewallRuleReconciler_buildOPNsenseClient L rule) b (Inr c) \<and>
        calls c rule_area 6 tr)"
proof -
  from assms consider "http_requests tr = []"
    | b c l t e where "tr = b @ l @ t" "runs (FirewallRuleReconciler_buildOPNsenseClient L rule) b (Inr c)"
        "runs (FirewallRuleReconciler_resolveExternalRule L c rule) l (Inl e)" "http_requests t = []"
    | b c l t u ex where "tr = b @ l @ t" "runs (FirewallRuleReconciler_buildOPNsenseClient L rule) b (Inr c)"
        "runs (FirewallRuleReconciler_resolveExternalRule L c rule) l (Inr (u, ex))"
        "calls c rule_area 3 t"
    unfolding FirewallRuleReconciler_sync_def rule_settled_iff
    by (fastforce simp: runs_bind runs_case_sum runs_case_prod rule_end_no_http rule_client.no_http
        dest: rule_found_calls)
  then show ?thesis
  proof cases
    case 2
    with resolve_rule_calls [OF 2(3)] have "calls c rule_area 6 tr"
      by (simp add: calls_def rule_client.no_http [OF 2(2)])
    with 2 show ?thesis by blast
  next
    case 3
    with resolve_rule_calls [OF 3(3)] have "calls c rule_area 6 tr"
      by (simp add: calls_def rule_client.no_http [OF 3(2)])
    with 3 show ?thesis by blast
  qed simp
qed

definition rule_phrase :: "FirewallRuleCR \<Rightarrow> string" where
  "rule_phrase rule = om_Namespace (fr_Meta rule) @ ''/'' @ om_Name (fr_Meta rule)"

section \<open>Properties\<close>

text \<open>
  C2: every run of the rule reconciler, whatever the API server and OPNsense answer, is one of the
  outcomes of \<open>rule_outcome\<close>: the object is unreadable, left alone, released after its deletion was
  applied, given a finalizer, found settled, synchronised and reported Ready, or reported failed.
\<close>

theorem rule_reconcile_refines:
  "runs (FirewallRuleReconciler_Reconcile L n) tr r \<Longrightarrow> rule_outcome L n tr r"
  by (rule rule_outcome_run)

text \<open>
  C4: the finalizer leaves a rule only while it is being deleted, and only in a run in which the
  connection was Ready, OPNsense deleted the UUID of the status or did not know it, and then
  applied its rules; or else the status holds no UUID, and the finalizer leaves without any request.
\<close>

theorem rule_finalizer_safety:
  assumes "finalizer_laws L"
    and "runs (FirewallRuleReconciler_Reconcile L n) tr r" and "EUpdateFirewallRule x u \<in> set tr"
    and "\<not> ContainsFinalizer L (fr_Meta x) firewallRuleFinalizer"
  shows "\<exists>rule t.
     tr = EGetFirewallRule n (Inr rule) # t @ [EUpdateFirewallRule x u] \<and>
     \<not> time_IsZero L (om_DeletionTimestamp (fr_Meta rule)) \<and>
     fr_Spec x = fr_Spec rule \<and> fr_Status x = fr_Status rule \<and>
     (rst_UUID (fr_Status rule) = [] \<and> t = [] \<or> rule_gone L rule t)"
  using assms(1,3,4) rule_outcome_run [OF assms(2)]
  by (auto elim!: rule_outcomeE simp: rule_unwritten finalizer_laws_def)

text \<open>
  C6: a status update with Ready=True is preceded, in the same run, by a successful lookup of the
  rule and by what the lookup calls for, creation or update, application and reading back, or
  nothing when there is no drift; it carries the UUID and the sequence this gave and the generation
  that was read.
\<close>

theorem rule_ready_sound:
  assumes "condition_laws L"
    and "runs (FirewallRuleReconciler_Reconcile L n) tr r" and "EStatusFirewallRule x u \<in> set tr"
    and "is_ready L (rst_Conditions (fr_Status x))"
  shows "\<exists>rule t.
     tr = EGetFirewallRule n (Inr rule) # t @ [EStatusFirewallRule x u] \<and>
     rule_in_sync L rule t (rst_UUID (fr_Status x)) (rst_Sequence (fr_Status x)) \<and>
     fr_Spec x = fr_Spec rule \<and>
     rst_ObservedGeneration (fr_Status x) = om_Generation (fr_Meta rule)"
  using assms(1,3,4) rule_outcome_run [OF assms(2)]
  by (auto elim!: rule_outcomeE simp: rule_unwritten rule_failed_not_ready)

text \<open>
  A reconciliation that returns no error has left nothing undone: its one write, if any, was
  accepted, and it was a change of the finalizers or a status with Ready=True.
\<close>

theorem rule_success_is_final:
  assumes "condition_laws L" and "runs (FirewallRuleReconciler_Reconcile L n) tr (res, None)"
  shows "writes tr = [] \<or> (\<exists>x. writes tr = [EUpdateFirewallRule x None]) \<or>
     (\<exists>x. writes tr = [EStatusFirewallRule x None] \<and> is_ready L (rst_Conditions (fr_Status x)))"
  using assms(1) rule_outcome_run [OF assms(2)]
  by (auto elim!: rule_outcomeE simp: rule_unwritten rule_ready_is_ready report_def)

text \<open>
  C9: the requests of one reconciliation that can change OPNsense are, in order, a prefix of one of
  three plans: delete this UUID and apply, when the object is being deleted; create and apply, when
  the lookup found nothing; update what was found and apply, when it differs.
\<close>

theorem rule_mutations_planned:
  assumes "runs (FirewallRuleReconciler_Reconcile L n) (EGetFirewallRule n (Inr rule) # t) r"
  shows "posts t = [] \<or> (\<exists>plan. rule_plan L rule t plan \<and> prefix (posts t) plan)"
proof -
  from assms consider
      (delete) "\<not> time_IsZero L (om_DeletionTimestamp (fr_Meta rule))"
        "runs (FirewallRuleReconciler_reconcileDelete L rule) t r"
    | (adopt) x u where "t = [EUpdateFirewallRule x u]"
    | (sync) "time_IsZero L (om_DeletionTimestamp (fr_Meta rule))" "runs (FirewallRuleReconciler_sync L rule) t r"
    by (fastforce simp: FirewallRuleReconciler_Reconcile_def run_simps)
  then show ?thesis
  proof cases
    case delete
    then show ?thesis
      using rule_delete_posts [OF delete(2)] by (auto simp: rule_plan_def)
  next
    case sync
    then show ?thesis
      using rule_sync_posts by blast
  qed simp
qed

lemma rule_failed_kept [simp]:
  "rst_UUID (fr_Status (rule_failed L rule reason e)) = rst_UUID (fr_Status rule)"
  "rst_ObservedGeneration (fr_Status (rule_failed L rule reason e)) = rst_ObservedGeneration (fr_Status rule)"
  by (simp_all add: rule_failed_def)

text \<open>
  C11: a reconciliation that fails is reported on the object.  It ends in a status update that says
  Ready=False with one of the documented reasons and the text of the cause, leaves the UUID and the observed
  generation as they were, and returns the cause, or the failure to write the status.  The exceptions are the
  failures of the API server itself: the object cannot be read, its finalizer cannot be added or removed,
  or Ready=True cannot be written.  A reconciliation that succeeds has written no other status than Ready=True.
\<close>

theorem rule_failure_reported:
  assumes "condition_laws L" and "runs (FirewallRuleReconciler_Reconcile L n) tr r"
  shows "case snd r of
     None \<Rightarrow> \<forall>x u. EStatusFirewallRule x u \<in> set tr \<longrightarrow> is_ready L (rst_Conditions (fr_Status x)) \<and> u = None
   | Some e \<Rightarrow>
      (\<exists>obj t x u reason cause. tr = EGetFirewallRule n (Inr obj) # t @ [EStatusFirewallRule x u] \<and>
         writes t = [] \<and> reason \<in> rule_reasons \<and>
         FindStatusCondition L (rst_Conditions (fr_Status x)) ''Ready''
           = Some (ready_condition (fr_Meta obj) ConditionFalse reason (Error cause)) \<and>
         rst_UUID (fr_Status x) = rst_UUID (fr_Status obj) \<and>
         rst_ObservedGeneration (fr_Status x) = rst_ObservedGeneration (fr_Status obj) \<and>
         e = (case u of None \<Rightarrow> cause | Some err \<Rightarrow> Wrapf ''update FirewallRule status: '' err [])) \<or>
      (\<exists>err. tr = [EGetFirewallRule n (Inl err)] \<and> IgnoreNotFound L err = Some e) \<or>
      (\<exists>obj t x err step. tr = EGetFirewallRule n (Inr obj) # t @ [EUpdateFirewallRule x (Some err)] \<and>
         writes t = [] \<and> step \<in> {''add finalizer: '', ''remove finalizer: ''} \<and> e = Wrapf step err []) \<or>
      (\<exists>obj t x err. tr = EGetFirewallRule n (Inr obj) # t @ [EStatusFirewallRule x (Some err)] \<and>
         writes t = [] \<and> is_ready L (rst_Conditions (fr_Status x)) \<and>
         e = Wrapf ''update FirewallRule status: '' err [])"
  using rule_outcome_run [OF assms(2)]
proof (cases rule: rule_outcome.cases)
  case unread
  then show ?thesis by (auto split: option.split)
next
  case released
  then show ?thesis by simp
next
  case (finalized obj t u)
  then have "writes t = []" by (auto simp: rule_unwritten)
  with finalized show ?thesis by (cases u) (auto simp: unwritten)
next
  case (adopted obj x u)
  then show ?thesis by (cases u) (auto intro: exI [of _ "[]"])
next
  case settled
  then show ?thesis by (auto simp: rule_unwritten)
next
  case (synced obj t uuid seq u)
  then show ?thesis
    using assms(1) by (cases u) (auto simp: rule_unwritten rule_ready_is_ready report_def)
next
  case (failed obj t reason e u)
  then show ?thesis
    using assms(1) by (cases u) (auto simp: report_def rule_failed_condition)
qed

text \<open>
  Once a rule was reported Ready with a UUID, reconciling it again as it was written, while
  OPNsense still has under this UUID a rule without drift and with the same sequence, reads the
  connection and the rule, writes nothing and returns without an error.
\<close>

theorem rule_settled_noop:
  assumes "condition_laws L"
    and "runs (FirewallRuleReconciler_Reconcile L n) tr r" and "EStatusFirewallRule x u \<in> set tr"
    and "is_ready L (rst_Conditions (fr_Status x))" and "rst_UUID (fr_Status x) \<noteq> []"
    and "runs (FirewallRuleReconciler_Reconcile L n) (EGetFirewallRule n (Inr x) # b @ g @ t) r'"
    and "runs (FirewallRuleReconciler_buildOPNsenseClient L x) b (Inr c)"
    and "runs (GetRule L c (rst_UUID (fr_Status x))) g (Inr existing)"
    and "\<not> rule_needs_update x existing" and "r_Sequence existing = rst_Sequence (fr_Status x)"
  shows "t = [] \<and> r' = (no_requeue, None)"
proof -
  from assms(1,3,4) rule_outcome_run [OF assms(2)]
  have "time_IsZero L (om_DeletionTimestamp (fr_Meta x))"
    "ContainsFinalizer L (fr_Meta x) firewallRuleFinalizer" "rule_settled_at L x (rst_UUID (fr_Status x)) (rst_Sequence (fr_Status x))"
    by (auto elim!: rule_outcomeE
        simp: rule_unwritten rule_failed_not_ready rule_ready_is_ready rule_settled_at_def)
  moreover have "runs (FirewallRuleReconciler_sync L x) (b @ g @ t) r'"
    using assms(6) calculation(1,2) by (simp add: FirewallRuleReconciler_Reconcile_def)
  ultimately show ?thesis
    using assms(9,10)
    by (simp add: FirewallRuleReconciler_sync_def rule_settled_iff runs_bind_after [OF assms(7)]
        runs_bind_after [OF resolve_rule_known [OF assms(8,5)]])
qed

text \<open>
  C20: the lookup finds a rule either under the UUID of the status or, when there is none or
  OPNsense no longer knows it, as the only row of a search for namespace/name; what it returns was
  read under the UUID it returns.  It finds nothing only when that search has no row.
\<close>

theorem rule_lookup_sound:
  assumes "runs (FirewallRuleReconciler_resolveExternalRule L c rule) tr (Inr (uuid, found))"
  shows "case found of
      Some existing \<Rightarrow>
        (\<exists>t g. tr = t @ g \<and> runs (GetRule L c uuid) g (Inr existing) \<and>
           (t = [] \<and> uuid = rst_UUID (fr_Status rule) \<or>
            (\<exists>s q. t = s @ q \<and> runs (SearchRuleByManagedSuffix L c (rule_phrase rule)) q (Inr [uuid]))))
    | None \<Rightarrow>
        uuid = [] \<and>
        (\<exists>s q. tr = s @ q \<and> runs (SearchRuleByManagedSuffix L c (rule_phrase rule)) q (Inr []))"
  using assms
  unfolding FirewallRuleReconciler_resolveExternalRule_def resolve_rule_by_suffix_def Let_def
    rule_phrase_def [symmetric]
  by (auto simp: run_simps) (metis append.assoc append_Nil)+

text \<open>The error of an ambiguous search.\<close>

definition ambiguity :: "golib \<Rightarrow> FirewallRuleCR \<Rightarrow> nat \<Rightarrow> err" where
  "ambiguity L rule rows =
     Errorf (''found '' @ show_int (int rows) @ '' rules matching managed suffix ''
       @ Quote (is_print L) (rule_phrase rule) @ '', expected at most 1'')"

lemma resolve_ambiguous:
  assumes "runs (SearchRuleByManagedSuffix L c (rule_phrase rule)) q (Inr uuids)" and "length uuids > 1"
  shows "runs (resolve_rule_by_suffix L c rule) q (Inl (ambiguity L rule (length uuids)))"
proof -
  obtain u v us where "uuids = u # v # us"
    using assms(2) by (cases uuids; cases "tl uuids") auto
  then show ?thesis
    unfolding resolve_rule_by_suffix_def Let_def rule_phrase_def [symmetric] ambiguity_def
    by (simp add: runs_bind_after [OF assms(1), where ?t2.0 = "[]", simplified])
qed

text \<open>
  C21: a rule that is searched for by namespace/name, because its status has no UUID or one that OPNsense no
  longer knows, and found in more than one row, is refused: the reconciliation changes nothing in OPNsense,
  reports Ready=False with LookupFailed, and returns the error that says how many rows matched (or
  the failure to write that report).
\<close>

theorem rule_ambiguity_refused:
  assumes "runs (FirewallRuleReconciler_Reconcile L n) (EGetFirewallRule n (Inr rule) # b @ g @ q @ t) r"
    and "time_IsZero L (om_DeletionTimestamp (fr_Meta rule))"
    and "ContainsFinalizer L (fr_Meta rule) firewallRuleFinalizer"
    and "runs (FirewallRuleReconciler_buildOPNsenseClient L rule) b (Inr c)"
    and "if rst_UUID (fr_Status rule) = [] then g = []
         else \<exists>e. runs (GetRule L c (rst_UUID (fr_Status rule))) g (Inl e) \<and> errors_Is e ErrFirewallRuleNotFound"
    and "runs (SearchRuleByManagedSuffix L c (rule_phrase rule)) q (Inr uuids)"
    and "length uuids > 1"
  shows "posts (b @ g @ q @ t) = [] \<and>
     (\<exists>u. t = [EStatusFirewallRule
          (rule_failed L rule ''LookupFailed'' (ambiguity L rule (length uuids))) u] \<and>
        snd r = Some (case u of None \<Rightarrow> ambiguity L rule (length uuids)
                              | Some e \<Rightarrow> Wrapf ''update FirewallRule status: '' e []))"
proof -
  have "runs (FirewallRuleReconciler_resolveExternalRule L c rule) (g @ q)
      (Inl (ambiguity L rule (length uuids)))"
    using assms(5) resolve_ambiguous [OF assms(6,7)]
    by (auto simp: FirewallRuleReconciler_resolveExternalRule_def Let_def runs_bind_after split: if_splits)
  note resolved = runs_bind_after [OF this, where ?t2.0 = t, simplified append_assoc]
  let ?e = "ambiguity L rule (length uuids)"
  have "runs (FirewallRuleReconciler_setReadyFailed L rule ''LookupFailed''
      (Error ?e) ?e) t r"
    using assms(1-3)
    by (simp add: FirewallRuleReconciler_Reconcile_def FirewallRuleReconciler_sync_def
        runs_bind_after [OF assms(4)] resolved)
  then obtain u where u: "t = [EStatusFirewallRule (rule_failed L rule ''LookupFailed'' ?e) u]"
      "snd r = Some (case report ''FirewallRule'' u of Some e \<Rightarrow> e | None \<Rightarrow> ?e)"
    by (auto simp: rule_status.failed_run rule_failed_def)
  moreover have "posts b = []" "posts q = []"
    using assms(4,6) by (simp_all add: rule_posted)
  moreover have "posts g = []"
    using assms(5) by (auto simp: rule_posted split: if_splits)
  ultimately show ?thesis
    using u by (cases u) (simp_all add: report_def)
qed

text \<open>
  C17: a reconciliation of a firewall rule sends at most six requests, all below /api/firewall/filter/ of the
  connection the rule names, with the credentials of that connection, and only after the connection
  was read and found Ready in the same run.
\<close>

theorem rule_requests_confined:
  assumes "runs (FirewallRuleReconciler_Reconcile L n) (EGetFirewallRule n (Inr rule) # t) r"
    and "http_requests t \<noteq> []"
  shows "\<exists>c. connected L (ref_Name (rs_ConnectionRef (fr_Spec rule))) t c \<and> calls c rule_area 6 t"
proof -
  from assms have "runs (FirewallRuleReconciler_reconcileDelete L rule) t r \<or> runs (FirewallRuleReconciler_sync L rule) t r"
    by (auto simp: FirewallRuleReconciler_Reconcile_def run_simps split: if_splits)
  then obtain b c s where t: "t = b @ s" "runs (FirewallRuleReconciler_buildOPNsenseClient L rule) b (Inr c)"
      "calls c rule_area 6 t"
    using assms(2) rule_delete_calls [of L rule t r] rule_sync_calls [of L rule t r]
      calls_mono [of _ rule_area 2 t 6] by auto
  then show ?thesis
    using connected_mono [OF rule_client.connected [OF t(2)], of t] by auto
qed

end
