(* ===== verification/ConnectionController.thy ===== *)
theory ConnectionController
  imports Connecting
begin

text \<open>
  The reconciler of connections, internal/controller/opnsenseconnection_controller.go: it reads the
  credentials, tries one authenticated request and reports the result as the Ready condition.
\<close>

section \<open>Status\<close>

definition conn_with_ready ::
  "golib \<Rightarrow> OPNsenseConnection \<Rightarrow> string \<Rightarrow> string \<Rightarrow> string \<Rightarrow> OPNsenseConnection" where
  "conn_with_ready L conn status reason message =
     conn\<lparr>conn_Status := (conn_Status conn)
       \<lparr>cst_Conditions := SetStatusCondition L (cst_Conditions (conn_Status conn))
          (ready_condition (conn_Meta conn) status reason message)\<rparr>\<rparr>"

definition OPNsenseConnectionReconciler_setReadyCondition ::
  "golib \<Rightarrow> OPNsenseConnection \<Rightarrow> string \<Rightarrow> string \<Rightarrow> string \<Rightarrow> err option prog" where
  "OPNsenseConnectionReconciler_setReadyCondition L conn status reason message =
     StatusUpdateConnection (conn_with_ready L conn status reason message) (\<lambda>u.
       Return (case u of
                 Some err \<Rightarrow> Some (Wrapf ''update OPNsenseConnection status: '' err [])
               | None \<Rightarrow> None))"

definition OPNsenseConnectionReconciler_setReadyFailed ::
  "golib \<Rightarrow> OPNsenseConnection \<Rightarrow> string \<Rightarrow> string \<Rightarrow> err \<Rightarrow> outcome prog" where
  "OPNsenseConnectionReconciler_setReadyFailed L conn reason message cause =
     bind (OPNsenseConnectionReconciler_setReadyCondition L conn ConditionFalse reason message) (\<lambda>r.
       case r of
         Some err \<Rightarrow> Return (no_requeue, Some err)
       | None \<Rightarrow> Return (no_requeue, Some cause))"

interpretation conn_status: status_writer OPNsenseConnectionReconciler_setReadyCondition
  OPNsenseConnectionReconciler_setReadyFailed conn_with_ready EStatusConnection
  "''OPNsenseConnection''"
  by unfold_locales
    (auto simp: OPNsenseConnectionReconciler_setReadyCondition_def
       OPNsenseConnectionReconciler_setReadyFailed_def report_def
       split: option.splits intro!: arg_cong [where f = "bind _"])

section \<open>\<open>Reconcile\<close>\<close>

text \<open>\<open>5 * time.Minute\<close>, in nanoseconds.\<close>

definition requeue_interval :: "64 word" where
  "requeue_interval = 5 * 60 * 1000000000"

text \<open>The texts of the conditions and errors.\<close>

definition tls_message :: "OPNsenseConnection \<Rightarrow> err \<Rightarrow> string" where
  "tls_message conn err =
     ''Could not configure TLS for OPNsense at '' @ cs_URL (conn_Spec conn) @ '': '' @ Error err"

definition connect_message :: "OPNsenseConnection \<Rightarrow> err \<Rightarrow> string" where
  "connect_message conn err =
     ''Could not connect to OPNsense at '' @ cs_URL (conn_Spec conn) @ '': '' @ Error err"

definition fetch_error :: "NamespacedName \<Rightarrow> err \<Rightarrow> err" where
  "fetch_error secretKey err = Wrapf (''fetch credentials Secret '' @ slashed secretKey @ '': '') err []"

definition success_message :: "OPNsenseConnection \<Rightarrow> string" where
  "success_message conn = ''Successfully connected to OPNsense at '' @ cs_URL (conn_Spec conn)"

definition OPNsenseConnectionReconciler_verify ::
  "golib \<Rightarrow> OPNsenseConnection \<Rightarrow> string \<Rightarrow> string \<Rightarrow> outcome prog" where
  "OPNsenseConnectionReconciler_verify L conn apiKey apiSecret =
     bind (buildHTTPClient L (cs_TLS (conn_Spec conn))) (\<lambda>h.
       case h of
         Inl err \<Rightarrow>
           OPNsenseConnectionReconciler_setReadyFailed L conn ''ConnectionFailed''
             (tls_message conn err) err
       | Inr httpClient \<Rightarrow>
           bind (CheckConnectivity L (NewClient (cs_URL (conn_Spec conn)) apiKey apiSecret httpClient))
             (\<lambda>r. case r of
               Inl err \<Rightarrow>
                 OPNsenseConnectionReconciler_setReadyFailed L conn ''ConnectionFailed''
                   (connect_message conn err) err
             | Inr _ \<Rightarrow>
                 bind (OPNsenseConnectionReconciler_setReadyCondition L conn ConditionTrue
                         ''ConnectionVerified'' (success_message conn))
                   (\<lambda>e. Return (\<lparr>res_RequeueAfter = requeue_interval\<rparr>, e))))"

definition OPNsenseConnectionReconciler_Reconcile :: "golib \<Rightarrow> NamespacedName \<Rightarrow> outcome prog" where
  "OPNsenseConnectionReconciler_Reconcile L req =
     GetConnection req (\<lambda>r.
       case r of
         Inl err \<Rightarrow> Return (no_requeue, IgnoreNotFound L err)
       | Inr conn \<Rightarrow>
           (let secretKey = secret_key (cred_SecretRef (cs_Credentials (conn_Spec conn))) in
            GetSecret secretKey (\<lambda>r.
              case r of
                Inl err \<Rightarrow>
                  if IsNotFound L err then
                    OPNsenseConnectionReconciler_setReadyFailed L conn ''SecretNotFound''
                      (''Secret '' @ slashed secretKey @ '' not found'') err
                  else
                    Return (no_requeue, Some (fetch_error secretKey err))
              | Inr secret \<Rightarrow>
                  (let apiKey = secret_value secret ''apiKey'';
                       apiSecret = secret_value secret ''apiSecret'' in
                   if apiKey = [] \<or> apiSecret = [] then
                     OPNsenseConnectionReconciler_setReadyFailed L conn ''InvalidCredentials''
                       (''Secret '' @ slashed secretKey @ '' must have non-empty keys ''
                        @ single_quoted ''apiKey'' @ '' and '' @ single_quoted ''apiSecret'')
                       (Errorf (''secret '' @ slashed secretKey
                                @ '' is missing required credential keys''))
                   else OPNsenseConnectionReconciler_verify L conn apiKey apiSecret))))"

section \<open>The outcomes of a reconciliation\<close>

definition conn_ready :: "golib \<Rightarrow> OPNsenseConnection \<Rightarrow> OPNsenseConnection" where
  "conn_ready L conn =
     conn_with_ready L conn ConditionTrue ''ConnectionVerified'' (success_message conn)"

lemma conn_success_run:
  "runs (bind (OPNsenseConnectionReconciler_setReadyCondition L conn ConditionTrue
           ''ConnectionVerified'' (success_message conn))
         (\<lambda>e. Return (\<lparr>res_RequeueAfter = requeue_interval\<rparr>, e))) tr r \<longleftrightarrow>
     (\<exists>u. tr = [EStatusConnection (conn_ready L conn) u] \<and>
        r = (\<lparr>res_RequeueAfter = requeue_interval\<rparr>, report ''OPNsenseConnection'' u))"
  by (auto simp: OPNsenseConnectionReconciler_setReadyCondition_def report_def conn_ready_def
      split: option.splits)

text \<open>
  The credentials were read and are complete, and OPNsense answered an authenticated request made
  with them, over the configured TLS, with a JSON object or null.
\<close>

definition conn_verified :: "golib \<Rightarrow> OPNsenseConnection \<Rightarrow> event list \<Rightarrow> bool" where
  "conn_verified L conn tr \<longleftrightarrow>
     (\<exists>secret b h v. tr = EGetSecret (credentials_key conn) (Inr secret) # b @ v \<and>
        secret_value secret ''apiKey'' \<noteq> [] \<and> secret_value secret ''apiSecret'' \<noteq> [] \<and>
        runs (buildHTTPClient L (cs_TLS (conn_Spec conn))) b (Inr h) \<and>
        runs (CheckConnectivity L (NewClient (cs_URL (conn_Spec conn)) (secret_value secret ''apiKey'')
                (secret_value secret ''apiSecret'') h)) v (Inr ()))"

definition conn_reasons :: "string set" where
  "conn_reasons = {''SecretNotFound'', ''InvalidCredentials'', ''ConnectionFailed''}"

inductive conn_outcome :: "golib \<Rightarrow> NamespacedName \<Rightarrow> event list \<Rightarrow> outcome \<Rightarrow> bool"
  for L :: golib and n :: NamespacedName where
  unread: "conn_outcome L n [EGetConnection n (Inl e)] (no_requeue, IgnoreNotFound L e)"
| no_secret:
    "\<not> IsNotFound L e \<Longrightarrow>
     conn_outcome L n [EGetConnection n (Inr conn), EGetSecret (credentials_key conn) (Inl e)]
       (no_requeue, Some (fetch_error (credentials_key conn) e))"
| failed:
    "writes t = [] \<Longrightarrow> posts t = [] \<Longrightarrow> reason \<in> conn_reasons \<Longrightarrow>
     conn_outcome L n
       (EGetConnection n (Inr conn) #
          t @ [EStatusConnection (conn_with_ready L conn ConditionFalse reason message) u])
       (no_requeue, Some (case report ''OPNsenseConnection'' u of Some e' \<Rightarrow> e' | None \<Rightarrow> e))"
| verified:
    "conn_verified L conn t \<Longrightarrow>
     conn_outcome L n (EGetConnection n (Inr conn) # t @ [EStatusConnection (conn_ready L conn) u])
       (\<lparr>res_RequeueAfter = requeue_interval\<rparr>, report ''OPNsenseConnection'' u)"

inductive_cases conn_outcomeE: "conn_outcome L n tr r"

lemma conn_reasons_simps [simp]:
  "''SecretNotFound'' \<in> conn_reasons" "''InvalidCredentials'' \<in> conn_reasons"
  "''ConnectionFailed'' \<in> conn_reasons"
  by (simp_all add: conn_reasons_def)

lemma conn_failed_outcome:
  "runs (OPNsenseConnectionReconciler_setReadyFailed L conn reason message e) t2 r \<Longrightarrow>
     writes t = [] \<Longrightarrow> posts t = [] \<Longrightarrow> reason \<in> conn_reasons \<Longrightarrow>
     conn_outcome L n (EGetConnection n (Inr conn) # t @ t2) r"
  by (auto simp: conn_status.failed_run intro: conn_outcome.failed)

lemma buildHTTPClient_silent:
  "runs (buildHTTPClient L t) tr r \<Longrightarrow> writes tr = [] \<and> posts tr = []"
  by (simp add: buildHTTPClient_reads cluster_reads_silent)

lemma conn_verify_cases:
  assumes "runs (OPNsenseConnectionReconciler_verify L conn k s) tr r"
  shows "(\<exists>t t2 message e. tr = t @ t2 \<and> writes t = [] \<and> posts t = [] \<and>
       runs (OPNsenseConnectionReconciler_setReadyFailed L conn ''ConnectionFailed'' message e) t2 r) \<or>
     (\<exists>b h v u. tr = b @ v @ [EStatusConnection (conn_ready L conn) u] \<and>
        runs (buildHTTPClient L (cs_TLS (conn_Spec conn))) b (Inr h) \<and>
        runs (CheckConnectivity L (NewClient (cs_URL (conn_Spec conn)) k s h)) v (Inr ()) \<and>
        r = (\<lparr>res_RequeueAfter = requeue_interval\<rparr>, report ''OPNsenseConnection'' u))"
proof -
  from assms consider
      (tls) t t2 err where "tr = t @ t2" "runs (buildHTTPClient L (cs_TLS (conn_Spec conn))) t (Inl err)"
        "runs (OPNsenseConnectionReconciler_setReadyFailed L conn ''ConnectionFailed''
           (tls_message conn err) err) t2 r"
    | (check) b h v t2 err where "tr = (b @ v) @ t2"
        "runs (buildHTTPClient L (cs_TLS (conn_Spec conn))) b (Inr h)"
        "runs (CheckConnectivity L (NewClient (cs_URL (conn_Spec conn)) k s h)) v (Inl err)"
        "runs (OPNsenseConnectionReconciler_setReadyFailed L conn ''ConnectionFailed''
           (connect_message conn err) err) t2 r"
    | (ok) b h v t2 where "tr = b @ v @ t2"
        "runs (buildHTTPClient L (cs_TLS (conn_Spec conn))) b (Inr h)"
        "runs (CheckConnectivity L (NewClient (cs_URL (conn_Spec conn)) k s h)) v (Inr ())"
        "\<exists>u. t2 = [EStatusConnection (conn_ready L conn) u] \<and>
             r = (\<lparr>res_RequeueAfter = requeue_interval\<rparr>, report ''OPNsenseConnection'' u)"
    unfolding OPNsenseConnectionReconciler_verify_def
    by (auto simp: runs_bind [of "buildHTTPClient _ _"] runs_bind [of "CheckConnectivity _ _"]
        runs_case_sum conn_success_run)
  then show ?thesis
  proof cases
    case tls
    with buildHTTPClient_silent show ?thesis by blast
  next
    case check
    then have "writes (b @ v) = []" "posts (b @ v) = []"
      using buildHTTPClient_silent [OF check(2)] by (simp_all add: client_silent client_posted)
    with check(1,4) show ?thesis by blast
  next
    case ok
    then show ?thesis by blast
  qed
qed

lemma conn_outcome_run:
  assumes "runs (OPNsenseConnectionReconciler_Reconcile L n) tr r"
  shows "conn_outcome L n tr r"
proof -
  from assms consider
      (unread) e where "tr = [EGetConnection n (Inl e)]" "r = (no_requeue, IgnoreNotFound L e)"
    | (no_secret) conn e where "\<not> IsNotFound L e"
        "tr = [EGetConnection n (Inr conn), EGetSecret (credentials_key conn) (Inl e)]"
        "r = (no_requeue, Some (fetch_error (credentials_key conn) e))"
    | (failed) conn g t message e reason where
        "tr = EGetConnection n (Inr conn) # [EGetSecret (credentials_key conn) g] @ t"
        "runs (OPNsenseConnectionReconciler_setReadyFailed L conn reason message e) t r"
        "reason \<in> conn_reasons"
    | (verify) conn secret t where
        "tr = EGetConnection n (Inr conn) # EGetSecret (credentials_key conn) (Inr secret) # t"
        "secret_value secret ''apiKey'' \<noteq> []" "secret_value secret ''apiSecret'' \<noteq> []"
        "runs (OPNsenseConnectionReconciler_verify L conn (secret_value secret ''apiKey'')
           (secret_value secret ''apiSecret'')) t r"
    unfolding OPNsenseConnectionReconciler_Reconcile_def Let_def credentials_key_def [symmetric]
    by (auto simp: runs_if runs_case_sum)
  then show ?thesis
  proof cases
    case failed
    show ?thesis
      unfolding failed(1) by (rule conn_failed_outcome [OF failed(2)]) (simp_all add: failed(3) posts_def)
  next
    case verify
    let ?s = "EGetSecret (credentials_key conn) (Inr secret)"
    from conn_verify_cases [OF verify(4)] show ?thesis
    proof (elim disjE exE conjE)
      fix u v message e
      assume "t = u @ v" "writes u = []" "posts u = []"
        and run: "runs (OPNsenseConnectionReconciler_setReadyFailed L conn ''ConnectionFailed'' message e) v r"
      then show ?thesis
        using verify(1) conn_failed_outcome [OF run, of "?s # u"] by (simp add: posts_def)
    next
      fix b h v u
      assume t: "t = b @ v @ [EStatusConnection (conn_ready L conn) u]"
        and "runs (buildHTTPClient L (cs_TLS (conn_Spec conn))) b (Inr h)"
        and "runs (CheckConnectivity L (NewClient (cs_URL (conn_Spec conn))
               (secret_value secret ''apiKey'') (secret_value secret ''apiSecret'') h)) v (Inr ())"
        and r: "r = (\<lparr>res_RequeueAfter = requeue_interval\<rparr>, report ''OPNsenseConnection'' u)"
      then have "conn_verified L conn (?s # b @ v)"
        using verify(2,3) unfolding conn_verified_def by blast
      then show ?thesis
        using verify(1) t r conn_outcome.verified [of L conn "?s # b @ v" n u] by simp
    qed
  qed (simp_all add: conn_outcome.unread conn_outcome.no_secret)
qed

lemma conn_verified_silent: "conn_verified L conn t \<Longrightarrow> writes t = [] \<and> posts t = []"
  by (auto simp: conn_verified_def client_silent client_posted posts_Cons_write
      dest!: buildHTTPClient_silent)

lemmas conn_unwritten = conn_verified_silent unwritten

interpretation conn_reconciler: reconciler OPNsenseConnectionReconciler_Reconcile
proof
  fix L n tr r
  assume "runs (OPNsenseConnectionReconciler_Reconcile L n) tr r"
  then have "conn_outcome L n tr r" by (rule conn_outcome_run)
  then show "writes tr = [] \<or> (\<exists>t ev. tr = t @ [ev] \<and> writes t = [] \<and> (snd r = None \<longrightarrow> accepted ev))"
    by (cases rule: conn_outcome.cases)
      (auto simp: conn_unwritten report_def intro: exI [of _ "_ # _"])
qed

section \<open>Properties\<close>

lemma conn_ready_is_ready:
  "condition_laws L \<Longrightarrow> is_ready L (cst_Conditions (conn_Status (conn_ready L conn)))"
  "condition_laws L \<Longrightarrow>
     \<not> is_ready L (cst_Conditions (conn_Status (conn_with_ready L conn ConditionFalse reason m)))"
  by (simp_all add: conn_ready_def conn_with_ready_def is_ready_set)

lemma requeue_interval_nonzero: "requeue_interval \<noteq> 0"
  by (simp add: requeue_interval_def)

lemma conn_sel [simp]:
  "conn_Spec (conn_ready L conn) = conn_Spec conn"
  "conn_Meta (conn_with_ready L conn status reason m) = conn_Meta conn"
  by (simp_all add: conn_ready_def conn_with_ready_def)

lemma conn_failed_condition:
  "condition_laws L \<Longrightarrow>
     FindStatusCondition L (cst_Conditions (conn_Status
       (conn_with_ready L conn ConditionFalse reason m))) ''Ready''
     = Some (ready_condition (conn_Meta conn) ConditionFalse reason m)"
  by (simp add: conn_with_ready_def find_ready_condition)

lemma connectivity_answer:
  "decode_connectivity L body = Inr () \<Longrightarrow>
     \<exists>v. parse_json body = Some v \<and> (v = JNull \<or> (\<exists>ms. v = JObj ms))"
  by (auto simp: decode_connectivity_def unmarshal_def dec_map_def split: option.splits json.splits)

lemma CheckConnectivity_answer:
  assumes "runs (CheckConnectivity L c) tr (Inr ())"
  shows "\<exists>code body v. tr = [EHTTP (cl_httpClient c)
       (api_request c GET ''/api/core/system/status'' None) (Response code body)] \<and>
     200 \<le> code \<and> code < 300 \<and> parse_json body = Some v \<and> (v = JNull \<or> (\<exists>ms. v = JObj ms))"
proof -
  obtain res where res: "tr = [EHTTP (cl_httpClient c) (api_request c GET ''/api/core/system/status'' None) res]"
      "Inr () = bind_result (classify res) (decode_connectivity L)"
    using assms by (auto simp only: CheckConnectivity_run)
  then show ?thesis
    by (cases res) (auto simp: status_ok_def split: if_splits dest!: sym connectivity_answer)
qed

text \<open>
  C7: a connection is reported Ready only after its Secret was read and found to hold both
  credentials, and OPNsense answered one GET of the system status under the URL of the spec, sent
  with these credentials and through the TLS client of the spec, by a 2xx status and a JSON object or null.
  Certificates go unverified only where the spec says so.
\<close>

theorem connection_ready_sound:
  assumes "condition_laws L"
    and "runs (OPNsenseConnectionReconciler_Reconcile L n) tr r"
    and "EStatusConnection x u \<in> set tr" and "is_ready L (cst_Conditions (conn_Status x))"
  shows "\<exists>conn secret b tls h q code body v.
     tr = EGetConnection n (Inr conn) # EGetSecret (credentials_key conn) (Inr secret) #
       b @ [EHTTP h q (Response code body), EStatusConnection x u] \<and>
     conn_Spec x = conn_Spec conn \<and>
     secret_value secret ''apiKey'' \<noteq> [] \<and> secret_value secret ''apiSecret'' \<noteq> [] \<and>
     runs (buildHTTPClient L (cs_TLS (conn_Spec conn))) b (Inr tls) \<and>
     h = (case tls of None \<Rightarrow> DefaultClient | Some client \<Rightarrow> client) \<and>
     (h = InsecureClient \<longrightarrow> tls_insecure (cs_TLS (conn_Spec conn))) \<and>
     rq_Method q = GET \<and>
     rq_URL q = TrimRight (cs_URL (conn_Spec conn)) (CHR ''/'') @ ''/api/core/system/status'' \<and>
     rq_User q = secret_value secret ''apiKey'' \<and> rq_Password q = secret_value secret ''apiSecret'' \<and>
     200 \<le> code \<and> code < 300 \<and>
     parse_json body = Some v \<and> (v = JNull \<or> (\<exists>ms. v = JObj ms))"
proof -
  obtain conn t where tr: "tr = EGetConnection n (Inr conn) # t @ [EStatusConnection x u]"
    and verified: "conn_verified L conn t" and x: "conn_Spec x = conn_Spec conn"
    using assms(1,3,4) conn_outcome_run [OF assms(2)]
    by (auto elim!: conn_outcomeE simp: conn_unwritten conn_ready_is_ready)
  from verified obtain secret b tls checks where
      t: "t = EGetSecret (credentials_key conn) (Inr secret) # b @ checks"
    and keys: "secret_value secret ''apiKey'' \<noteq> []" "secret_value secret ''apiSecret'' \<noteq> []"
    and built: "runs (buildHTTPClient L (cs_TLS (conn_Spec conn))) b (Inr tls)"
    and "runs (CheckConnectivity L (NewClient (cs_URL (conn_Spec conn))
         (secret_value secret ''apiKey'') (secret_value secret ''apiSecret'') tls)) checks (Inr ())"
    by (auto simp: conn_verified_def)
  let ?c = "NewClient (cs_URL (conn_Spec conn)) (secret_value secret ''apiKey'') (secret_value secret ''apiSecret'') tls"
  let ?q = "api_request ?c GET ''/api/core/system/status'' None"
  obtain code body v where checks: "checks = [EHTTP (cl_httpClient ?c) ?q (Response code body)]"
    and answer: "200 \<le> code" "code < 300" "parse_json body = Some v" "v = JNull \<or> (\<exists>ms. v = JObj ms)"
    using CheckConnectivity_answer [OF \<open>runs (CheckConnectivity L ?c) checks (Inr ())\<close>] by blast
  have "tls_insecure (cs_TLS (conn_Spec conn))"
    if "(case tls of None \<Rightarrow> DefaultClient | Some client \<Rightarrow> client) = InsecureClient"
    using that built buildHTTPClient_insecure by (cases tls) auto
  then show ?thesis
    by (intro exI [of _ conn] exI [of _ secret] exI [of _ b] exI [of _ tls] exI [of _ "cl_httpClient ?c"]
        exI [of _ ?q] exI [of _ code] exI [of _ body] exI [of _ v] conjI)
      (simp_all add: tr t x keys built checks answer NewClient_def api_request_def build_request_def)
qed

text \<open>
  C19: the next check is scheduled, five minutes later, exactly when the connection was reported
  Ready; every other outcome relies on the returned error or waits for the object to change.
\<close>

theorem connection_requeue_iff_ready:
  assumes "condition_laws L"
    and "runs (OPNsenseConnectionReconciler_Reconcile L n) tr (res, e)"
  shows "res_RequeueAfter res =
     (if \<exists>x u. EStatusConnection x u \<in> set tr \<and> is_ready L (cst_Conditions (conn_Status x))
      then requeue_interval else 0)"
  using assms(1) conn_outcome_run [OF assms(2)]
  by (auto elim!: conn_outcomeE simp: conn_unwritten conn_ready_is_ready no_requeue_def)

lemma buildHTTPClient_no_http: "runs (buildHTTPClient L t) tr r \<Longrightarrow> http_requests tr = []"
  by (simp add: buildHTTPClient_reads cluster_reads_silent)

lemma conn_verify_requests:
  "runs (OPNsenseConnectionReconciler_verify L conn k s) tr r \<Longrightarrow>
     http_requests tr = [] \<or>
     (\<exists>h c. http_requests tr = [(h, api_request c GET ''/api/core/system/status'' None)])"
  by (auto simp: OPNsenseConnectionReconciler_verify_def run_simps buildHTTPClient_no_http
      connectivity.one_request conn_status.set_run conn_status.failed_run)

text \<open>
  C18: reconciling a connection changes nothing in OPNsense: the only request it may send is one GET
  of the system status.
\<close>

theorem connection_read_only:
  assumes "runs (OPNsenseConnectionReconciler_Reconcile L n) tr r"
  shows "posts tr = [] \<and>
     (http_requests tr = [] \<or>
      (\<exists>h c. http_requests tr = [(h, api_request c GET ''/api/core/system/status'' None)]))"
proof -
  have "http_requests tr = [] \<or>
      (\<exists>h c. http_requests tr = [(h, api_request c GET ''/api/core/system/status'' None)])"
    using assms unfolding OPNsenseConnectionReconciler_Reconcile_def Let_def
    by (auto simp: runs_if runs_case_sum conn_status.failed_run dest!: conn_verify_requests)
  then show ?thesis by (auto simp: posts_def)
qed

text \<open>
  C12: a connection that is not reported Ready is reported with Ready=False and one of three reasons
  and the reconciliation fails; a Secret that could not be read for another reason than its absence
  leaves the status alone.
\<close>

theorem connection_failure_reported:
  assumes "condition_laws L" and "not_found_laws L"
    and "runs (OPNsenseConnectionReconciler_Reconcile L n) tr (res, e)"
    and "\<not> (\<exists>x u. EStatusConnection x u \<in> set tr \<and> is_ready L (cst_Conditions (conn_Status x)))"
  shows "(\<exists>err. tr = [EGetConnection n (Inl err)] \<and> e = (if IsNotFound L err then None else Some err)) \<or>
     (\<exists>conn err. \<not> IsNotFound L err \<and> e \<noteq> None \<and>
        tr = [EGetConnection n (Inr conn), EGetSecret (credentials_key conn) (Inl err)]) \<or>
     (\<exists>x u reason m. EStatusConnection x u \<in> set tr \<and> e \<noteq> None \<and> reason \<in> conn_reasons \<and>
        FindStatusCondition L (cst_Conditions (conn_Status x)) ''Ready''
          = Some (ready_condition (conn_Meta x) ConditionFalse reason m))"
  using conn_outcome_run [OF assms(3)]
proof (cases rule: conn_outcome.cases)
  case unread
  with assms(2) show ?thesis by (simp add: not_found_laws_def)
next
  case no_secret
  then show ?thesis by simp
next
  case (failed t reason conn message u err)
  let ?x = "conn_with_ready L conn ConditionFalse reason message"
  have "EStatusConnection ?x u \<in> set tr" "e \<noteq> None"
    using failed(1,3) by simp_all
  moreover have "conn_Meta ?x = conn_Meta conn" by simp
  ultimately show ?thesis
    using failed(6) conn_failed_condition [OF assms(1), of conn reason message] by metis
next
  case (verified conn t u)
  then have "EStatusConnection (conn_ready L conn) u \<in> set tr" by simp
  with assms(4) conn_ready_is_ready(1) [OF assms(1)] show ?thesis by blast
qed

end
