(* ===== verification/ClientFacts.thy ===== *)
theory ClientFacts
  imports ClientLaws
begin

text \<open>
  The readings of the client: what each kind of reply of OPNsense becomes, the round trip of what
  is written, and the choice of the selected option in map order.
\<close>

section \<open>Results of changes\<close>

lemma resultError_None_iff:
  "resultError L r expected = None \<longleftrightarrow> rr_Result r = expected \<and> rr_Result r \<noteq> resultFailed"
  by (simp add: resultError_def)

lemma errors_Is_unexpected [simp]:
  "errors_Is (unexpected t) ErrUnexpectedResponse" "\<not> errors_Is (unexpected t) ErrValidationFailed"
  "\<not> errors_Is (unexpected t) ErrAliasNotFound" "\<not> errors_Is (unexpected t) ErrFirewallRuleNotFound"
  by (simp_all add: unexpected_def)

lemma errors_Is_decode_failed [simp]:
  "t \<in> sentinels \<Longrightarrow> \<not> errors_Is (decode_failed L what body) t"
  by (auto simp: decode_failed_def sentinels_def)

lemma sentinels_simps [simp]:
  "ErrAliasNotFound \<in> sentinels" "ErrFirewallRuleNotFound \<in> sentinels"
  "ErrValidationFailed \<in> sentinels" "ErrUnexpectedResponse \<in> sentinels"
  by (simp_all add: sentinels_def)

text \<open>What a decoded result of an update or a creation says, before any error is made of it.\<close>

definition refused :: "resultResponse \<Rightarrow> bool" where
  "refused r \<longleftrightarrow> rr_Result r = ''failed'' \<and> map_entries (rr_Validations r) \<noteq> []"

definition unknown_object :: "resultResponse \<Rightarrow> bool" where
  "unknown_object r \<longleftrightarrow> rr_Result r = ''failed'' \<and> map_entries (rr_Validations r) = []"

lemma updated_iff:
  assumes "nf \<in> {ErrAliasNotFound, ErrFirewallRuleNotFound}"
  shows "updated L nf body = Inr () \<longleftrightarrow>
       (\<exists>r. decodeResultResponse L body = Inr r \<and> rr_Result r = ''saved'')"
    and "(\<exists>e. updated L nf body = Inl e \<and> errors_Is e nf) \<longleftrightarrow>
       (\<exists>r. decodeResultResponse L body = Inr r \<and> unknown_object r)"
    and "(\<exists>e. updated L nf body = Inl e \<and> errors_Is e ErrValidationFailed) \<longleftrightarrow>
       (\<exists>r. decodeResultResponse L body = Inr r \<and> refused r)"
  using assms
  by (auto simp: updated_def bind_result_def err_result_def resultError_def resultFailed_def
      refused_def unknown_object_def decodeResultResponse_def split: sum.splits option.splits)

lemma updated_no_alias:
  "updated L ErrFirewallRuleNotFound body = Inl e \<Longrightarrow> \<not> errors_Is e ErrAliasNotFound"
  by (auto simp: updated_def bind_result_def err_result_def resultError_def resultFailed_def
      decodeResultResponse_def split: sum.splits option.splits if_splits)

text \<open>OPNsense answered with a 2xx status and a result.\<close>

definition answered :: "golib \<Rightarrow> http_result \<Rightarrow> resultResponse \<Rightarrow> bool" where
  "answered L res x \<longleftrightarrow>
     (case res of
        Response code body \<Rightarrow> 200 \<le> code \<and> code < 300 \<and> decodeResultResponse L body = Inr x
      | _ \<Rightarrow> False)"

lemma created_uuid_iff:
  "created_uuid L what body = Inr u \<longleftrightarrow>
     (\<exists>r. decodeResultResponse L body = Inr r \<and> rr_Result r = ''saved'' \<and> rr_UUID r = u \<and> u \<noteq> [])"
  "(\<exists>e. created_uuid L what body = Inl e \<and> errors_Is e ErrValidationFailed) \<longleftrightarrow>
     (\<exists>r. decodeResultResponse L body = Inr r \<and> rr_Result r = ''failed'')"
  by (auto simp: created_uuid_def bind_result_def resultError_def resultFailed_def
      decodeResultResponse_def split: sum.splits option.splits if_splits)

section \<open>Well-formed UTF-8 survives the wire\<close>

fun json_utf8 :: "json \<Rightarrow> bool" where
  "json_utf8 (JStr s) = valid_utf8 s"
| "json_utf8 (JArr vs) = list_all json_utf8 vs"
| "json_utf8 (JObj kvs) = list_all (\<lambda>(k, v). valid_utf8 k \<and> json_utf8 v) kvs"
| "json_utf8 v = True"

lemma json_clean_id: "json_utf8 v \<Longrightarrow> json_clean v = v"
proof (induction v)
  case (JArr vs)
  then show ?case by (simp add: list_all_iff map_idI)
next
  case (JObj kvs)
  then have "map (\<lambda>(k, v). (to_valid_utf8 k, json_clean v)) kvs = kvs"
    by (intro map_idI) (fastforce simp: list_all_iff to_valid_utf8_id)
  then show ?case by simp
qed (simp_all add: to_valid_utf8_id)

lemma unmarshal_marshal_utf8:
  "plain_numbers v \<Longrightarrow> json_utf8 v \<Longrightarrow> json_depth v \<le> max_nesting_depth \<Longrightarrow>
     unmarshal dec zero (marshal v) = dec v zero"
  by (simp add: unmarshal_marshal json_clean_id)

lemma valid_utf8_literal: "list_all (\<lambda>c. byte c < 0x80) s \<Longrightarrow> valid_utf8 s"
  by (simp add: all_ascii_valid list_all_iff)

definition alias_utf8 :: "Alias \<Rightarrow> bool" where
  "alias_utf8 a \<longleftrightarrow>
     valid_utf8 (a_Name a) \<and> valid_utf8 (a_Type a) \<and> valid_utf8 (a_Content a) \<and>
     valid_utf8 (a_Description a)"

text \<open>An export that shows an alias as it was written, under a UUID.\<close>

definition export_json :: "string \<Rightarrow> Alias \<Rightarrow> json" where
  "export_json uuid a =
     JObj [(''aliases'', JObj [(''alias'', JObj [(uuid, aliasPayload_json (encodeAlias a))])])]"

lemma export_json_ok:
  assumes "alias_utf8 a" and "valid_utf8 uuid"
  shows "plain_numbers (export_json uuid a)" "json_utf8 (export_json uuid a)"
    "json_depth (export_json uuid a) \<le> max_nesting_depth"
  using assms
  by (auto simp: export_json_def aliasPayload_json_def omit_string_def encodeAlias_def Let_def
      alias_utf8_def valid_utf8_literal max_nesting_depth_def)

lemma dec_aliasPayload_json:
  "dec_struct exportedAlias_fields (aliasPayload_json (encodeAlias a)) zero_exportedAlias =
     Some \<lparr>ex_Enabled = boolToStr (a_Enabled a), ex_Name = a_Name a, ex_Type = a_Type a,
           ex_Content = a_Content a, ex_Description = a_Description a\<rparr>"
  by (simp add: exportedAlias_fields_def aliasPayload_json_def encodeAlias_def Let_def boolToStr_def
      zero_exportedAlias_def dec_struct_def dec_fields_append dec_omit find_field_def at_field_def)

lemma export_reads_back:
  assumes "alias_utf8 a" and "valid_utf8 uuid" and "a_Name a \<noteq> []" and "a_Type a \<noteq> []"
  shows "decode_export L uuid (marshal (export_json uuid a)) = Inr a"
proof -
  have "unmarshal (dec_struct [(''aliases'', dec_struct [(''alias'', dec_raw)])]) None
      (marshal (export_json uuid a))
    = Some (Some (JObj [(uuid, aliasPayload_json (encodeAlias a))]))"
    by (subst unmarshal_marshal_utf8 [OF export_json_ok [OF assms(1,2)]])
      (simp add: export_json_def dec_struct_def find_field_def dec_raw_def)
  with assms(3,4) show ?thesis
    by (simp add: decode_export_def dec_map_def dec_aliasPayload_json boolToStr_def)
qed

definition rule_utf8 :: "FirewallRule \<Rightarrow> bool" where
  "rule_utf8 r \<longleftrightarrow> list_all valid_utf8
     [r_Action r, r_Interface r, r_Direction r, r_IPProtocol r, r_Protocol r, r_SourceNet r,
      r_SourcePort r, r_DestinationNet r, r_DestinationPort r, r_Sequence r, r_Description r]"

lemma rule_request_ok:
  assumes "rule_utf8 r"
  shows "plain_numbers (firewallRuleRequest_json (encodeFirewallRule r))"
    "json_utf8 (firewallRuleRequest_json (encodeFirewallRule r))"
    "json_depth (firewallRuleRequest_json (encodeFirewallRule r)) \<le> max_nesting_depth"
  using assms
  by (auto simp: firewallRuleRequest_json_def firewallRulePayload_json_def encodeFirewallRule_def
      omit_string_def rule_utf8_def boolToStr_def valid_utf8_literal max_nesting_depth_def)

text \<open>What a body says about a rule: the name and the text of each of its members, and no sequence where none is set.\<close>

definition rule_texts :: "FirewallRule \<Rightarrow> (string \<times> string) set" where
  "rule_texts r =
     {(''enabled'', if r_Enabled r then ''1'' else ''0''), (''action'', r_Action r),
      (''interface'', r_Interface r), (''direction'', r_Direction r), (''ipprotocol'', r_IPProtocol r),
      (''protocol'', r_Protocol r), (''source_net'', r_SourceNet r),
      (''source_not'', if r_SourceNot r then ''1'' else ''0''), (''source_port'', r_SourcePort r),
      (''destination_net'', r_DestinationNet r),
      (''destination_not'', if r_DestinationNot r then ''1'' else ''0''),
      (''destination_port'', r_DestinationPort r)}
     \<union> (if r_Sequence r = [] then {} else {(''sequence'', r_Sequence r)})
     \<union> {(''log'', if r_Log r then ''1'' else ''0''), (''quick'', if r_Quick r then ''1'' else ''0''),
        (''description'', r_Description r)}"

abbreviation json_texts :: "(string \<times> string) set \<Rightarrow> (string \<times> json) set" where
  "json_texts S \<equiv> map_prod id JStr ` S"

lemma rule_payload_members:
  "\<exists>ms. firewallRulePayload_json (encodeFirewallRule r) = JObj ms \<and> distinct (map fst ms) \<and>
     set ms = json_texts (rule_texts r)"
  by (cases "r_Sequence r = []")
    (simp_all add: firewallRulePayload_json_def encodeFirewallRule_def omit_string_def
      boolToStr_def [symmetric] rule_texts_def insert_commute)

lemma rule_request_members:
  assumes "rule_utf8 r"
  shows "\<exists>ms. parse_json (marshal (firewallRuleRequest_json (encodeFirewallRule r)))
      = Some (JObj [(''rule'', JObj ms)]) \<and> distinct (map fst ms) \<and> set ms = json_texts (rule_texts r)"
proof -
  have "parse_json (marshal (firewallRuleRequest_json (encodeFirewallRule r)))
      = Some (firewallRuleRequest_json (encodeFirewallRule r))"
    using parse_marshal [OF rule_request_ok(1,3)] json_clean_id [OF rule_request_ok(2)] assms by metis
  with rule_payload_members [of r] show ?thesis
    by (auto simp: firewallRuleRequest_json_def)
qed

section \<open>The selected option\<close>

text \<open>An option map in which at most one key is selected has one first selected key.\<close>

definition unique_selected :: "select_map \<Rightarrow> bool" where
  "unique_selected m \<longleftrightarrow>
     (\<forall>k k'. is_selected m k \<and> is_selected m k' \<longrightarrow> k = k')"

lemma first_selected_unique:
  assumes "unique_selected m" and "set ks = set ks'"
  shows "first_selected m ks = first_selected m ks'"
proof -
  have "find (is_selected m) ks = find (is_selected m) ks'"
  proof (cases "find (is_selected m) ks")
    case None
    then have "find (is_selected m) ks' = None" using assms(2) by (simp add: find_None_iff)
    with None show ?thesis by simp
  next
    case (Some k)
    then have k: "k \<in> set ks" "is_selected m k" by (auto simp: find_Some_iff)
    then have "find (is_selected m) ks' \<noteq> None" using assms(2) by (auto simp: find_None_iff)
    then obtain k' where k': "find (is_selected m) ks' = Some k'" by auto
    then have "is_selected m k'" by (auto simp: find_Some_iff)
    with assms(1) k Some k' show ?thesis unfolding unique_selected_def by auto
  qed
  then show ?thesis by (simp add: first_selected_def)
qed

lemma selectedKey_unique:
  assumes "unique_selected m" and "runs (selectedKey m) t k" and "runs (selectedKey m) t' k'"
  shows "k = k'"
proof -
  from assms(2,3) obtain ks ks' where
    "mset ks = mset (map fst (map_entries m))" "mset ks' = mset (map fst (map_entries m))"
    "k = first_selected m ks" "k' = first_selected m ks'"
    by (auto simp: selectedKey_run)
  then show ?thesis
    using first_selected_unique [OF assms(1), of ks ks'] by (metis mset_eq_setD)
qed

definition unique_options :: "getRuleResponse \<Rightarrow> bool" where
  "unique_options r \<longleftrightarrow>
     unique_selected (gr_Action r) \<and> unique_selected (gr_Interface r) \<and>
     unique_selected (gr_Direction r) \<and> unique_selected (gr_IPProtocol r) \<and>
     unique_selected (gr_Protocol r)"

lemma getRule_result_unique:
  assumes "unique_options r" and "runs (getRule_result r) t x" and "runs (getRule_result r) t' x'"
  shows "x = x'"
  using assms(2,3) unfolding getRule_result_def runs_bind runs_Return
  by (elim exE conjE) (use assms(1) selectedKey_unique in \<open>unfold unique_options_def, metis\<close>)

section \<open>No such alias\<close>

definition export_raw :: "string \<Rightarrow> json option option" where
  "export_raw body =
     unmarshal (dec_struct [(''aliases'', dec_struct [(''alias'', dec_raw)])]) None body"

lemma dec_entries_grows:
  "dec_entries dec zero kvs m = Some m' \<Longrightarrow> m \<noteq> [] \<or> kvs \<noteq> [] \<Longrightarrow> m' \<noteq> []"
proof (induction kvs arbitrary: m)
  case (Cons kv kvs)
  have "AList.update k x m \<noteq> []" for k x by (cases m) auto
  with Cons show ?case by (cases kv) (auto split: option.splits)
qed simp

lemma dec_map_empty_iff: "(\<exists>m. dec_map dec zero (JObj kvs) None = Some m \<and> map_entries m = []) \<longleftrightarrow> kvs = []"
  by (auto simp: dec_map_def dest: dec_entries_grows [of _ _ _ "[]"])

lemma dec_slice_empty_iff: "dec_slice dec zero (JArr vs) [] = Some [] \<longleftrightarrow> vs = []"
  by (cases vs) (auto simp: dec_slice_def split: option.splits)

lemma decode_export_not_found_iff:
  "(\<exists>e. decode_export L uuid body = Inl e \<and> errors_Is e ErrAliasNotFound) \<longleftrightarrow>
     export_raw body = Some (Some (JArr [])) \<or> export_raw body = Some (Some (JObj []))"
proof (cases "export_raw body")
  case (Some raw)
  show ?thesis
  proof (cases raw)
    case None
    with Some show ?thesis by (simp add: decode_export_def export_raw_def)
  next
    case (Some v)
    note raw = \<open>export_raw body = Some raw\<close> Some
    show ?thesis
    proof (cases v)
      case (JArr vs)
      with raw dec_slice_empty_iff [of dec_any None vs] show ?thesis
        by (auto simp: decode_export_def export_raw_def split: option.splits)
    next
      case (JObj kvs)
      with raw dec_map_empty_iff [of "dec_struct exportedAlias_fields" zero_exportedAlias kvs]
      show ?thesis
        by (auto simp: decode_export_def export_raw_def split: option.splits if_splits)
    qed (use raw in \<open>simp_all add: decode_export_def export_raw_def\<close>)
  qed
qed (simp add: decode_export_def export_raw_def)

section \<open>One exchange\<close>

definition no_sentinel :: "err \<Rightarrow> bool" where
  "no_sentinel e \<longleftrightarrow> list_all (\<lambda>t. \<not> errors_Is e t)
     [ErrAliasNotFound, ErrFirewallRuleNotFound, ErrValidationFailed, ErrUnexpectedResponse]"

lemma classify_spec:
  "r = classify res \<longleftrightarrow>
     (case r of
        Inr b \<Rightarrow> \<exists>code. res = Response code b \<and> 200 \<le> code \<and> code < 300
      | Inl e \<Rightarrow> classify res = Inl e \<and> no_sentinel e)"
  by (cases r; cases res) (auto simp: no_sentinel_def status_ok_def)

lemma build_request_eq:
  "encode_body p = Inr body \<Longrightarrow>
     build_request c m path body =
       \<lparr>rq_Method = m, rq_URL = cl_baseURL c @ path, rq_User = cl_apiKey c,
        rq_Password = cl_apiSecret c, rq_Accept = ''application/json'',
        rq_ContentType = (if p = None then None else Some ''application/json''), rq_Body = body\<rparr>"
  by (cases p rule: encode_body.cases) (auto simp: build_request_def)

section \<open>Properties\<close>

text \<open>
  C22: every exchange with OPNsense is one request to the base URL and path, with basic
  authentication, accepting JSON and declaring a JSON body exactly when it has one; its result is
  the body of the response when the status is in the two hundreds and else an error that no caller
  can take for one of the sentinels.  A payload that cannot be encoded sends nothing.
\<close>

theorem doJSON_exchange:
  "runs (doJSON c m path p) tr r \<longleftrightarrow>
     (\<exists>msg. p = Some (Unsupported msg) \<and> tr = [] \<and>
        r = Inl (Wrapf ''marshal request body: '' (LibError msg) [])) \<or>
     (\<exists>body res. encode_body p = Inr body \<and>
        tr = [EHTTP (cl_httpClient c)
               \<lparr>rq_Method = m, rq_URL = cl_baseURL c @ path, rq_User = cl_apiKey c,
                rq_Password = cl_apiSecret c, rq_Accept = ''application/json'',
                rq_ContentType = (if p = None then None else Some ''application/json''),
                rq_Body = body\<rparr> res] \<and>
        (case r of
           Inr b \<Rightarrow> \<exists>code. res = Response code b \<and> 200 \<le> code \<and> code < 300
         | Inl e \<Rightarrow> classify res = Inl e \<and> no_sentinel e))"
proof (cases "encode_body p")
  case (Inl msg)
  then have "p = Some (Unsupported msg)" by (cases p rule: encode_body.cases) simp_all
  then show ?thesis by (auto simp: doJSON_def)
next
  case (Inr body)
  then have "p \<noteq> Some (Unsupported msg)" for msg by auto
  with Inr show ?thesis
    by (auto simp: doJSON_def classify_spec [symmetric] build_request_eq [OF Inr])
qed

text \<open>
  C23: an update of a rule sends one request; it succeeds exactly when OPNsense answers it, with a 2xx
  status, by ``saved''; it is reported as ``rule not found'' exactly when the answer is ``failed'' without
  naming a field, as a validation failure exactly when it is ``failed'' and names fields, and never as an
  alias that was not found.
\<close>

theorem update_rule_classified:
  assumes "runs (UpdateRule L c uuid rule) tr r"
  shows "\<exists>q res. tr = [EHTTP (cl_httpClient c) q res] \<and>
     (r = Inr () \<longleftrightarrow> (\<exists>x. answered L res x \<and> rr_Result x = ''saved'')) \<and>
     ((\<exists>e. r = Inl e \<and> errors_Is e ErrFirewallRuleNotFound) \<longleftrightarrow>
        (\<exists>x. answered L res x \<and> rr_Result x = ''failed'' \<and> map_entries (rr_Validations x) = [])) \<and>
     ((\<exists>e. r = Inl e \<and> errors_Is e ErrValidationFailed) \<longleftrightarrow>
        (\<exists>x. answered L res x \<and> rr_Result x = ''failed'' \<and> map_entries (rr_Validations x) \<noteq> [])) \<and>
     \<not> (\<exists>e. r = Inl e \<and> errors_Is e ErrAliasNotFound)"
proof -
  obtain q res where tr: "tr = [EHTTP (cl_httpClient c) q res]"
    and r: "r = bind_result (classify res) (updated L ErrFirewallRuleNotFound)"
    using assms rule_update.exchange_iff [of L c "(uuid, rule)"] by auto
  show ?thesis
  proof (cases "classify res")
    case (Inl e)
    then have "no_sentinel e"
      using classify_spec [of "Inl e" res] by simp
    moreover have "\<not> answered L res x" for x
      using Inl by (cases res) (auto simp: answered_def status_ok_def)
    ultimately show ?thesis using tr r Inl by (auto simp: no_sentinel_def)
  next
    case (Inr body)
    then have answer: "answered L res x \<longleftrightarrow> decodeResultResponse L body = Inr x" for x
      using classify_spec [of "Inr body" res] by (auto simp: answered_def)
    show ?thesis
      using updated_iff [of ErrFirewallRuleNotFound L body] updated_no_alias [of L body] tr r Inr
      by (auto simp: answer unknown_object_def refused_def)
  qed
qed

text \<open>
  A creation that succeeds returns a UUID, and it is the one in a ``saved'' answer to the one
  request it sent.
\<close>

theorem create_returns_uuid:
  assumes "runs (CreateRule L c rule) tr (Inr uuid) \<or> runs (CreateAlias L c a) tr (Inr uuid)"
  shows "uuid \<noteq> [] \<and>
     (\<exists>q code body r. tr = [EHTTP (cl_httpClient c) q (Response code body)] \<and> status_ok code \<and>
        decodeResultResponse L body = Inr r \<and> rr_Result r = ''saved'' \<and> rr_UUID r = uuid)"
proof -
  from assms obtain q res what where tr: "tr = [EHTTP (cl_httpClient c) q res]"
    and "Inr uuid = bind_result (classify res) (created_uuid L what)"
    by (auto simp: CreateRule_run CreateAlias_run)
  then obtain body where b: "Inr body = classify res" "created_uuid L what body = Inr uuid"
    by (auto simp: bind_result_def split: sum.splits)
  then show ?thesis
    using tr by (auto simp: classify_spec created_uuid_iff status_ok_def)
qed

text \<open>
  C24: an alias that OPNsense exports as it was written, under its UUID, is read back as it was,
  provided its texts are UTF-8 and its name and type are not empty.
\<close>

theorem alias_export_roundtrip:
  assumes "alias_utf8 a" and "valid_utf8 uuid" and "a_Name a \<noteq> []" and "a_Type a \<noteq> []"
  shows "decode_export L uuid (marshal (export_json uuid a)) = Inr a"
  using assms by (rule export_reads_back)

text \<open>
  C25: what is sent to create or to update a rule says exactly what the rule is: the body is a JSON
  object with one member \<open>rule\<close>, which holds each field of the rule once, under the name OPNsense has for
  it, booleans as 1 and 0, and leaves out an unset sequence.
\<close>

theorem rule_request_roundtrip:
  assumes "rule_utf8 r" and "runs (CreateRule L c r) tr x \<or> runs (UpdateRule L c uuid r) tr y"
  shows "\<exists>q res b ms. tr = [EHTTP (cl_httpClient c) q res] \<and> rq_Body q = Some b \<and>
     parse_json b = Some (JObj [(''rule'', JObj ms)]) \<and> distinct (map fst ms) \<and>
     set ms = json_texts (rule_texts r)"
proof -
  obtain m path res where "tr = [EHTTP (cl_httpClient c)
      (api_request c m path (Some (Encodable (firewallRuleRequest_json (encodeFirewallRule r))))) res]"
    using assms(2) rule_create.exchange_iff [of L c r] rule_update.exchange_iff [of L c "(uuid, r)"] by auto
  then show ?thesis
    using rule_request_members [OF assms(1)] by (auto simp: api_request_def build_request_def body_of_def)
qed

text \<open>
  Reading a rule is a function of the reply, whatever the iteration order of Go maps, when in
  each option map of the reply at most one entry is selected.
\<close>

theorem rule_read_deterministic:
  assumes "runs (GetRule L c uuid) (EHTTP h q res # t) x"
    and "runs (GetRule L c uuid) (EHTTP h q res # t') x'"
    and "\<forall>body r. classify res = Inr body \<and> decode_getRule L body = Inr r \<longrightarrow> unique_options r"
  shows "x = x'"
proof (cases "classify res")
  case (Inl e)
  with assms(1,2) show ?thesis by (auto simp: rule_get.run_iff)
next
  case (Inr body)
  with assms(1,2) have "runs (case decode_getRule L body of Inl e \<Rightarrow> Return (Inl e) | Inr r \<Rightarrow> getRule_result r) t x"
    "runs (case decode_getRule L body of Inl e \<Rightarrow> Return (Inl e) | Inr r \<Rightarrow> getRule_result r) t' x'"
    by (auto simp: rule_get.run_iff)
  then show ?thesis
    using assms(3) Inr getRule_result_unique by (cases "decode_getRule L body") auto
qed

text \<open>
  C27: an alias counts as absent from OPNsense, so that it will be created, only when the export holds
  an empty list or an empty object in its place; every other reply is an error or an alias.
\<close>

theorem alias_absent_iff:
  "(\<exists>e. decode_export L uuid body = Inl e \<and> errors_Is e ErrAliasNotFound) \<longleftrightarrow>
     export_raw body = Some (Some (JArr [])) \<or> export_raw body = Some (Some (JObj []))"
  by (rule decode_export_not_found_iff)

text \<open>
  C31: the search for a rule sends the phrase in a form that decodes to it, and that cannot break out
  of the query parameter.
\<close>

theorem search_phrase_encoded:
  assumes "runs (SearchRuleByManagedSuffix L c phrase) tr r"
  shows "\<exists>q esc. http_requests tr = [(cl_httpClient c, q)] \<and>
     rq_URL q = cl_baseURL c @ ''/api/firewall/filter/searchRule?searchPhrase='' @ esc \<and>
     query_unescape esc = Some phrase \<and>
     list_all (\<lambda>d. unreserved d \<or> d = CHR ''+'' \<or> d = CHR ''%'') esc"
  using rule_search.one_request [OF assms] query_unescape_escape [of phrase] QueryEscape_chars
  by (auto simp: list_all_iff)

text \<open>
  The base URL of a client is the URL of the connection without its trailing slashes, however
  many, so joining it with a path never doubles the slash.
\<close>

theorem base_url_trimmed:
  "\<exists>n. baseURL = cl_baseURL (NewClient baseURL k s h) @ replicate n (CHR ''/'') \<and>
     (cl_baseURL (NewClient baseURL k s h) = [] \<or>
      last (cl_baseURL (NewClient baseURL k s h)) \<noteq> CHR ''/'')"
  using TrimRight_split [of baseURL "CHR ''/''"] by (simp add: NewClient_def)

end
