(* ===== verification/RuleReply.thy ===== *)
theory RuleReply
  imports ClientFacts
begin

text \<open>
  The reply of \<open>getRule\<close>, as the tests of internal/opnsense/firewallrule_test.go record it: the members of
  the rule in some order, perhaps with members the client does not know, and for each choice a map of
  all its options, of which one is selected.  Shown: reading such a reply gives the rule that is shown,
  whatever the order of the members and the order in which Go walks the option maps.
\<close>

section \<open>Members of an object in any order\<close>

definition known :: "'a fields \<Rightarrow> string \<times> json \<Rightarrow> bool" where
  "known fs m \<longleftrightarrow> find_field fs (fst m) \<noteq> None"

lemma dec_fields_known: "dec_fields fs (filter (known fs) ms) x = dec_fields fs ms x"
  by (induction fs ms x rule: dec_fields.induct) (auto simp: known_def split: option.splits)

text \<open>The decoding of the members as a fold, so that the library's fact on commuting steps applies.\<close>

definition member_step :: "'a fields \<Rightarrow> string \<times> json \<Rightarrow> 'a option \<Rightarrow> 'a option" where
  "member_step fs m s =
     (case find_field fs (fst m) of None \<Rightarrow> s | Some d \<Rightarrow> Option.bind s (d (snd m)))"

lemma dec_fields_fold: "dec_fields fs ms x = fold (member_step fs) ms (Some x)"
proof -
  have none: "fold (member_step fs) ms None = None" for ms
    by (induction ms) (auto simp: member_step_def split: option.split)
  show ?thesis
    by (induction ms arbitrary: x) (auto simp: member_step_def none split: option.split)
qed

definition commuting :: "'a decoder \<Rightarrow> 'a decoder \<Rightarrow> bool" where
  "commuting d d' \<longleftrightarrow> (\<forall>v w s. Option.bind (d v s) (d' w) = Option.bind (d' w s) (d v))"

lemma commuting_sym: "commuting d d' \<Longrightarrow> commuting d' d"
  by (simp add: commuting_def)

lemma commuting_at_field:
  assumes "\<And>a s. get2 (put1 a s) = get2 s" and "\<And>b s. get1 (put2 b s) = get1 s"
    and "\<And>a b s. put2 b (put1 a s) = put1 a (put2 b s)"
  shows "commuting (at_field get1 put1 d1) (at_field get2 put2 d2)"
  unfolding commuting_def
proof (intro allI)
  fix v w s
  show "Option.bind (at_field get1 put1 d1 v s) (at_field get2 put2 d2 w)
      = Option.bind (at_field get2 put2 d2 w s) (at_field get1 put1 d1 v)"
    by (cases "d1 v (get1 s)"; cases "d2 w (get2 s)") (simp_all add: at_field_def assms)
qed

definition independent_fields :: "'a fields \<Rightarrow> bool" where
  "independent_fields fs \<longleftrightarrow> sorted_wrt (\<lambda>f g. commuting (snd f) (snd g)) fs \<and> distinct (map fst fs)"

lemma sorted_wrt_pair:
  "sorted_wrt R fs \<Longrightarrow> f \<in> set fs \<Longrightarrow> g \<in> set fs \<Longrightarrow> f \<noteq> g \<Longrightarrow> R f g \<or> R g f"
  by (induction fs) auto

lemma independent_commuting:
  assumes "independent_fields fs" and "map_of fs k = Some d" and "map_of fs k' = Some d'" and "k \<noteq> k'"
  shows "commuting d d'"
proof -
  have "(k, d) \<in> set fs" "(k', d') \<in> set fs" using assms(2,3) by (simp_all add: map_of_SomeD)
  then have "commuting d d' \<or> commuting d' d"
    using sorted_wrt_pair [of _ fs "(k, d)" "(k', d')"] assms(1,4) by (fastforce simp: independent_fields_def)
  then show ?thesis using commuting_sym by blast
qed

lemma dec_fields_any_order:
  assumes "independent_fields fs" and "fst ` set ms \<subseteq> fst ` set fs" and "distinct (map fst ms)"
    and "set (filter (known fs) ms') = set ms" and "distinct (map fst (filter (known fs) ms'))"
  shows "dec_fields fs ms' x = dec_fields fs ms x"
proof -
  have "member_step fs m \<circ> member_step fs m' = member_step fs m' \<circ> member_step fs m"
    if "m \<in> set ms" "m' \<in> set ms" for m m'
  proof (cases "fst m = fst m'")
    case True
    then have "m = m'" using assms(3) that by (auto simp: distinct_map inj_on_def)
    then show ?thesis by simp
  next
    case False
    from that assms(2) have "fst m \<in> fst ` set fs" "fst m' \<in> fst ` set fs" by auto
    then obtain d d' where d: "map_of fs (fst m) = Some d" "map_of fs (fst m') = Some d'"
      by (metis map_of_eq_None_iff option.exhaust)
    note found = d [THEN find_field_exact] and comm = independent_commuting [OF assms(1) d False]
    show ?thesis
    proof
      fix s
      show "(member_step fs m \<circ> member_step fs m') s = (member_step fs m' \<circ> member_step fs m) s"
        using comm by (cases s) (simp_all add: member_step_def found commuting_def)
    qed
  qed
  moreover have "mset ms = mset (filter (known fs) ms')"
    using assms(3-5) by (metis distinct_map set_eq_iff_mset_eq_distinct)
  ultimately have "fold (member_step fs) ms = fold (member_step fs) (filter (known fs) ms')"
    by (intro fold_multiset_equiv) auto
  then show ?thesis
    unfolding dec_fields_known [of fs ms', symmetric] by (simp add: dec_fields_fold)
qed

lemma getRule_fields_independent: "independent_fields getRule_fields"
  unfolding independent_fields_def getRule_fields_def
  by (simp add: commuting_at_field)

section \<open>The reply\<close>

text \<open>
  The options of a choice, key and label, with the chosen one selected.  A menu gives the options of
  each choice of a rule; it is in order when no option is listed twice and every choice is among its
  options, or empty.
\<close>

definition options_json :: "(string \<times> string) list \<Rightarrow> string \<Rightarrow> json" where
  "options_json opts chosen = JObj (map (\<lambda>(key, label).
     (key, JObj [(''value'', JStr label), (''selected'', JNum (if key = chosen then ''1'' else ''0''))])) opts)"

type_synonym menu = "string \<Rightarrow> (string \<times> string) list"

definition offers :: "menu \<Rightarrow> FirewallRule \<Rightarrow> bool" where
  "offers menu r \<longleftrightarrow> list_all
     (\<lambda>(field, chosen). distinct (map fst (menu field)) \<and> (chosen = [] \<or> chosen \<in> fst ` set (menu field)))
     [(''action'', r_Action r), (''interface'', r_Interface r), (''direction'', r_Direction r),
      (''ipprotocol'', r_IPProtocol r), (''protocol'', r_Protocol r)]"

definition rule_members :: "menu \<Rightarrow> FirewallRule \<Rightarrow> (string \<times> json) list" where
  "rule_members menu r =
     [(''enabled'', JStr (boolToStr (r_Enabled r))), (''sequence'', JStr (r_Sequence r)),
      (''action'', options_json (menu ''action'') (r_Action r)),
      (''interface'', options_json (menu ''interface'') (r_Interface r)),
      (''direction'', options_json (menu ''direction'') (r_Direction r)),
      (''ipprotocol'', options_json (menu ''ipprotocol'') (r_IPProtocol r)),
      (''protocol'', options_json (menu ''protocol'') (r_Protocol r)),
      (''source_net'', JStr (r_SourceNet r)), (''source_not'', JStr (boolToStr (r_SourceNot r))),
      (''source_port'', JStr (r_SourcePort r)), (''destination_net'', JStr (r_DestinationNet r)),
      (''destination_not'', JStr (boolToStr (r_DestinationNot r))),
      (''destination_port'', JStr (r_DestinationPort r)), (''log'', JStr (boolToStr (r_Log r))),
      (''quick'', JStr (boolToStr (r_Quick r))), (''description'', JStr (r_Description r))]"

text \<open>
  A body that shows a rule: any JSON text of an object with a member \<open>rule\<close>, which has these members once
  each, in any order, and otherwise only members the client ignores.
\<close>

definition shows_members :: "menu \<Rightarrow> FirewallRule \<Rightarrow> (string \<times> json) list \<Rightarrow> bool" where
  "shows_members menu r ms \<longleftrightarrow>
     set (filter (known getRule_fields) ms) = set (rule_members menu r) \<and>
     distinct (map fst (filter (known getRule_fields) ms))"

definition shows_rule :: "menu \<Rightarrow> FirewallRule \<Rightarrow> string \<Rightarrow> bool" where
  "shows_rule menu r body \<longleftrightarrow> offers menu r \<and>
     (\<exists>ms. parse_json (TrimSpace body) = Some (JObj [(''rule'', JObj ms)]) \<and> shows_members menu r ms)"

lemma TrimSpace_object: "TrimSpace (CHR ''{'' # s @ ''}'') = CHR ''{'' # s @ ''}''"
proof -
  have "TrimSpace (CHR ''{'' # s @ ''}'') = trim_prefixes space_runes (CHR ''{'' # s @ ''}'')"
    by (rule TrimSpace_right_closed [of "CHR ''}''"]) (auto simp: space_runes_def)
  also have "\<dots> = CHR ''{'' # s @ ''}''"
    by (rule trim_prefixes_unchanged) (simp add: space_runes_def)
  finally show ?thesis .
qed

text \<open>One such body is the text of the object.\<close>

lemma shows_rule_marshal:
  assumes "offers menu r" and "shows_members menu r ms" and "v = JObj [(''rule'', JObj ms)]"
    and "plain_numbers v" and "json_utf8 v" and "json_depth v \<le> max_nesting_depth"
  shows "shows_rule menu r (marshal v)"
proof -
  have "TrimSpace (marshal v) = marshal v"
    unfolding assms(3) marshal.simps by (simp only: append_Cons append_Nil TrimSpace_object)
  then have "parse_json (TrimSpace (marshal v)) = Some v"
    using parse_marshal [OF assms(4,6)] json_clean_id [OF assms(5)] by metis
  with assms(1-3) show ?thesis by (auto simp: shows_rule_def)
qed

section \<open>Reading it\<close>

definition shown_options :: "(string \<times> string) list \<Rightarrow> string \<Rightarrow> select_map" where
  "shown_options opts chosen = Some (map (\<lambda>(key, label).
     (key, \<lparr>se_Value = label, se_Selected = (if key = chosen then 1 else 0)\<rparr>)) opts)"

lemma int_literal_digits: "int_literal ''1'' = Some 1" "int_literal ''0'' = Some 0"
  by (simp_all add: int_literal_def is_digit_def in_range_def read_digits_def)

lemma dec_entries_distinct:
  assumes "distinct (map fst kvs @ map fst m)" and "\<And>k v. (k, v) \<in> set kvs \<Longrightarrow> dec v zero = Some (f (k, v))"
  shows "dec_entries dec zero kvs m = Some (m @ map (\<lambda>kv. (fst kv, f kv)) kvs)"
  using assms
proof (induction kvs arbitrary: m)
  case (Cons kv kvs)
  have new: "k \<notin> fst ` set m \<Longrightarrow> AList.update k x m = m @ [(k, x)]" for k x and m :: "(string \<times> 'a) list"
    by (induction m) auto
  obtain k v where kv: "kv = (k, v)" by (cases kv)
  with Cons.prems(1) have "AList.update k (f kv) m = m @ [(k, f kv)]"
    using new [of k m "f kv"] by simp
  moreover have "dec v zero = Some (f kv)" using Cons.prems(2) kv by simp
  moreover have "dec_entries dec zero kvs (m @ [(k, f kv)])
      = Some ((m @ [(k, f kv)]) @ map (\<lambda>kv. (fst kv, f kv)) kvs)"
    by (rule Cons.IH) (use Cons.prems kv in auto)
  ultimately show ?case by (simp add: kv)
qed simp

lemma dec_options:
  assumes "distinct (map fst opts)"
  shows "dec_select (options_json opts chosen) None = Some (shown_options opts chosen)"
proof -
  let ?f = "\<lambda>kv. case kv of (key, v) \<Rightarrow> the (dec_struct selectEntry_fields v zero_selectEntry)"
  have entry: "dec_struct selectEntry_fields
      (JObj [(''value'', JStr label), (''selected'', JNum (if b then ''1'' else ''0''))]) zero_selectEntry
    = Some \<lparr>se_Value = label, se_Selected = (if b then 1 else 0)\<rparr>" for label b
    by (simp add: dec_struct_def find_field_def selectEntry_fields_def at_field_def zero_selectEntry_def
        int_literal_digits)
  have "dec_entries (dec_struct selectEntry_fields) zero_selectEntry
      (map (\<lambda>(key, label). (key, JObj [(''value'', JStr label),
        (''selected'', JNum (if key = chosen then ''1'' else ''0''))])) opts) []
    = Some ([] @ map (\<lambda>kv. (fst kv, ?f kv)) (map (\<lambda>(key, label). (key, JObj [(''value'', JStr label),
        (''selected'', JNum (if key = chosen then ''1'' else ''0''))])) opts))"
    by (rule dec_entries_distinct) (use assms entry in \<open>auto simp: comp_def split_def\<close>)
  then show ?thesis
    by (simp add: dec_select_def dec_map_def options_json_def shown_options_def entry comp_def split_def)
qed

lemma selectedKey_options:
  assumes "chosen = [] \<or> chosen \<in> fst ` set opts" and "distinct (map fst opts)"
    and "runs (selectedKey (shown_options opts chosen)) t x"
  shows "x = chosen"
proof -
  let ?m = "shown_options opts chosen"
  obtain ks where ks: "mset ks = mset (map fst (map_entries ?m))" "x = first_selected ?m ks"
    using assms(3) by (auto simp: selectedKey_run)
  have "map fst (map_entries ?m) = map fst opts"
    by (simp add: shown_options_def comp_def split_def)
  then have keys: "set ks = fst ` set opts"
    using mset_eq_setD [OF ks(1)] by simp
  have selected: "is_selected ?m k \<longleftrightarrow> k = chosen" if "k \<in> set ks" for k
  proof -
    from that keys obtain label where "(k, label) \<in> set opts" by auto
    then have "map_of (map_entries ?m) k = Some \<lparr>se_Value = label, se_Selected = (if k = chosen then 1 else 0)\<rparr>"
      using assms(2) by (force simp: shown_options_def comp_def split_def intro: map_of_is_SomeI)
    then show ?thesis by (simp add: is_selected_def)
  qed
  show ?thesis
  proof (cases "find (is_selected ?m) ks")
    case None
    with selected have "chosen \<notin> set ks" by (auto simp: find_None_iff)
    with None assms(1) ks(2) keys show ?thesis by (simp add: first_selected_def)
  next
    case (Some k)
    then have "k \<in> set ks" "is_selected ?m k" by (auto simp: find_Some_iff)
    with selected Some ks(2) show ?thesis by (simp add: first_selected_def)
  qed
qed

definition shown_rule :: "menu \<Rightarrow> FirewallRule \<Rightarrow> getRuleResponse" where
  "shown_rule menu r =
     \<lparr>gr_Enabled = boolToStr (r_Enabled r), gr_Sequence = r_Sequence r,
      gr_Action = shown_options (menu ''action'') (r_Action r),
      gr_Interface = shown_options (menu ''interface'') (r_Interface r),
      gr_Direction = shown_options (menu ''direction'') (r_Direction r),
      gr_IPProtocol = shown_options (menu ''ipprotocol'') (r_IPProtocol r),
      gr_Protocol = shown_options (menu ''protocol'') (r_Protocol r), gr_SourceNet = r_SourceNet r,
      gr_SourceNot = boolToStr (r_SourceNot r), gr_SourcePort = r_SourcePort r,
      gr_DestinationNet = r_DestinationNet r, gr_DestinationNot = boolToStr (r_DestinationNot r),
      gr_DestinationPort = r_DestinationPort r, gr_Log = boolToStr (r_Log r),
      gr_Quick = boolToStr (r_Quick r), gr_Description = r_Description r\<rparr>"

lemma dec_rule_members:
  assumes "offers menu r"
  shows "dec_fields getRule_fields (rule_members menu r) zero_getRuleResponse = Some (shown_rule menu r)"
  using assms
  by (simp add: offers_def rule_members_def find_field_def getRule_fields_def at_field_def
      dec_options zero_getRuleResponse_def shown_rule_def)

lemma dec_members:
  assumes "offers menu r" and "shows_members menu r ms"
  shows "dec_struct [(''rule'', dec_struct getRule_fields)] (JObj [(''rule'', JObj ms)]) zero_getRuleResponse
    = Some (shown_rule menu r)"
proof -
  have "dec_fields getRule_fields ms zero_getRuleResponse
      = dec_fields getRule_fields (rule_members menu r) zero_getRuleResponse"
    by (rule dec_fields_any_order [OF getRule_fields_independent])
      (use assms(2) in \<open>auto simp: shows_members_def rule_members_def getRule_fields_def\<close>)
  then show ?thesis
    by (simp add: dec_struct_def find_field_def dec_rule_members [OF assms(1)])
qed

lemma parse_json_array: "parse_json s = Some (JObj kvs) \<Longrightarrow> s = [] \<or> hd s \<noteq> CHR ''[''"
  by (cases s) (auto simp: parse_json_def parse_value_Suc_iff skip_space_Cons split: option.splits if_splits)

lemma decode_shown:
  assumes "shows_rule menu r body"
  shows "decode_getRule L body = Inr (shown_rule menu r)"
proof -
  from assms obtain ms where ms: "parse_json (TrimSpace body) = Some (JObj [(''rule'', JObj ms)])"
      "shows_members menu r ms" "offers menu r"
    by (auto simp: shows_rule_def)
  show ?thesis
    using parse_json_array [OF ms(1)]
    by (simp add: decode_getRule_def Let_def unmarshal_def ms(1) dec_members [OF ms(3,2)])
      (simp add: shown_rule_def shown_options_def)
qed

lemma selectedKey_shown:
  assumes "offers menu r"
  shows "runs (selectedKey (gr_Action (shown_rule menu r))) t x \<Longrightarrow> x = r_Action r"
    "runs (selectedKey (gr_Interface (shown_rule menu r))) t x \<Longrightarrow> x = r_Interface r"
    "runs (selectedKey (gr_Direction (shown_rule menu r))) t x \<Longrightarrow> x = r_Direction r"
    "runs (selectedKey (gr_IPProtocol (shown_rule menu r))) t x \<Longrightarrow> x = r_IPProtocol r"
    "runs (selectedKey (gr_Protocol (shown_rule menu r))) t x \<Longrightarrow> x = r_Protocol r"
  using assms by (auto simp: shown_rule_def offers_def dest!: selectedKey_options [rotated 2])

lemma getRule_result_shown:
  assumes "offers menu r" and "runs (getRule_result (shown_rule menu r)) t x"
  shows "x = Inr r"
  using assms(2) unfolding getRule_result_def runs_bind runs_Return
  by (elim exE conjE) ((drule selectedKey_shown [OF assms(1)])+, simp add: shown_rule_def boolToStr_def)

lemma GetRule_reads_shown:
  assumes "shows_rule menu r body" and "status_ok code"
    and "runs (GetRule L c uuid) (EHTTP h q (Response code body) # t) x"
  shows "x = Inr r"
  using assms(1,3) decode_shown [OF assms(1), of L] assms(2)
  by (auto simp: rule_get.run_iff shows_rule_def dest: getRule_result_shown)

lemma GetRule_shown:
  assumes "shows_rule menu r body" and "status_ok code"
  shows "\<exists>q t. runs (GetRule L c uuid) (EHTTP (cl_httpClient c) q (Response code body) # t) (Inr r)"
proof -
  obtain t x where t: "runs (getRule_result (shown_rule menu r)) t x"
    using runs_total [of "getRule_result (shown_rule menu r)"] by blast
  moreover have "x = Inr r"
    using t assms(1) by (auto simp: shows_rule_def dest: getRule_result_shown)
  ultimately have "runs (getRule_result (shown_rule menu r)) t (Inr r)" by simp
  then show ?thesis
    using assms(2) by (auto simp: GetRule_def attempt_def doJSON_def decode_shown [OF assms(1)])
qed

section \<open>Property\<close>

text \<open>
  C26: a rule that OPNsense shows is read back as it is.  The reply may be any JSON text that shows the
  rule: its members in any order, others among them, each choice as the map of all its options with
  the chosen one selected; and the option maps may be walked in any order.
\<close>

theorem rule_read_roundtrip:
  assumes "shows_rule menu r body" and "200 \<le> code" and "code < 300"
    and "runs (GetRule L c uuid) (EHTTP h q (Response code body) # t) x"
  shows "x = Inr r"
  using GetRule_reads_shown [OF assms(1) _ assms(4)] assms(2,3) by (simp add: status_ok_def)

end
