(* ===== verification/Demo.thy ===== *)
theory Demo
  imports AliasController FirewallRuleController ConnectionController ClientFacts RuleReply
    "HOL-Library.Code_Target_Nat"
begin

text \<open>
  A concrete library that has the documented behaviour, and a concrete cluster and firewall, on
  which the operations run by evaluation.  The witnesses of the properties apply them here.
\<close>

section \<open>A library\<close>

fun demo_not_found :: "err \<Rightarrow> bool" where
  "demo_not_found (StatusError reason text) = (reason = ''NotFound'')"
| "demo_not_found (Wrapf pre e post) = demo_not_found e"
| "demo_not_found _ = False"

fun demo_set_condition :: "Condition list \<Rightarrow> Condition \<Rightarrow> Condition list" where
  "demo_set_condition [] c = [c]"
| "demo_set_condition (d # ds) c =
     (if cond_Type d = cond_Type c then c # ds else d # demo_set_condition ds c)"

definition demo_lib :: golib where
  "demo_lib =
     \<lparr>is_print = (\<lambda>r. 0x20 \<le> r \<and> r < 0x7F),
      json_error = (\<lambda>what body. ''invalid JSON''),
      AppendCertsFromPEM = (\<lambda>pem. prefix ''-----BEGIN CERTIFICATE-----'' pem),
      time_IsZero = (\<lambda>t. t = None),
      ContainsFinalizer = (\<lambda>m f. f \<in> set (om_Finalizers m)),
      AddFinalizer = (\<lambda>m f. if f \<in> set (om_Finalizers m) then m
         else m\<lparr>om_Finalizers := om_Finalizers m @ [f]\<rparr>),
      RemoveFinalizer = (\<lambda>m f. m\<lparr>om_Finalizers := filter (\<lambda>g. g \<noteq> f) (om_Finalizers m)\<rparr>),
      FindStatusCondition = (\<lambda>cs t. find (\<lambda>c. cond_Type c = t) cs),
      SetStatusCondition = demo_set_condition,
      IsNotFound = demo_not_found,
      IgnoreNotFound = (\<lambda>e. if demo_not_found e then None else Some e)\<rparr>"

lemma find_set_condition:
  "find (\<lambda>d. cond_Type d = t) (demo_set_condition cs c) =
     (if t = cond_Type c then Some c else find (\<lambda>d. cond_Type d = t) cs)"
  by (induction cs) auto

lemma demo_laws: "finalizer_laws demo_lib" "condition_laws demo_lib" "not_found_laws demo_lib"
  by (auto simp: demo_lib_def finalizer_laws_def condition_laws_def not_found_laws_def
      find_set_condition)

section \<open>A cluster and a firewall\<close>

definition demo_name :: NamespacedName where
  "demo_name = \<lparr>nn_Namespace = ''default'', nn_Name = ''web''\<rparr>"

definition demo_meta :: "int option \<Rightarrow> string list \<Rightarrow> ObjectMeta" where
  "demo_meta deletion finalizers =
     \<lparr>om_Name = ''web'', om_Namespace = ''default'', om_Generation = 3,
      om_DeletionTimestamp = deletion, om_Finalizers = finalizers\<rparr>"

definition demo_ref :: OPNsenseConnectionReference where
  "demo_ref = \<lparr>ref_Name = ''fw''\<rparr>"

definition demo_alias_spec :: AliasSpec where
  "demo_alias_spec =
     \<lparr>as_ConnectionRef = demo_ref, as_Name = ''web'', as_Type = ''host'',
      as_Entries = [''10.0.0.1'', ''10.0.0.2''], as_Description = [], as_Enabled = True\<rparr>"

definition demo_alias :: "int option \<Rightarrow> string \<Rightarrow> AliasCR" where
  "demo_alias deletion uuid =
     \<lparr>al_Meta = demo_meta deletion [aliasFinalizer], al_Spec = demo_alias_spec,
      al_Status = \<lparr>ast_UUID = uuid, ast_ObservedGeneration = 0, ast_Conditions = []\<rparr>\<rparr>"

definition demo_rule_spec :: FirewallRuleSpec where
  "demo_rule_spec =
     \<lparr>rs_ConnectionRef = demo_ref, rs_Enabled = True, rs_Action = ''pass'', rs_Direction = ''in'',
      rs_Interface = ''lan'', rs_IPProtocol = ''inet'', rs_Protocol = ''TCP'',
      rs_Source = \<lparr>ep_Net = ''any'', ep_Not = False, ep_Port = []\<rparr>,
      rs_Destination = \<lparr>ep_Net = ''web'', ep_Not = False, ep_Port = ''443''\<rparr>,
      rs_Sequence = None, rs_Quick = True, rs_Log = False, rs_Description = ''allow web''\<rparr>"

definition demo_rule :: "int option \<Rightarrow> string \<Rightarrow> FirewallRuleCR" where
  "demo_rule deletion uuid =
     \<lparr>fr_Meta = demo_meta deletion [firewallRuleFinalizer], fr_Spec = demo_rule_spec,
      fr_Status = \<lparr>rst_UUID = uuid, rst_Sequence = [], rst_ObservedGeneration = 0,
        rst_Conditions = []\<rparr>\<rparr>"

definition demo_conn :: OPNsenseConnection where
  "demo_conn =
     \<lparr>conn_Meta = \<lparr>om_Name = ''fw'', om_Namespace = [], om_Generation = 1,
        om_DeletionTimestamp = None, om_Finalizers = []\<rparr>,
      conn_Spec = \<lparr>cs_URL = ''https://fw/'',
        cs_Credentials = \<lparr>cred_SecretRef = \<lparr>sr_Name = ''api'', sr_Namespace = ''ops''\<rparr>\<rparr>,
        cs_TLS = None\<rparr>,
      conn_Status = \<lparr>cst_Conditions =
        [ready_condition (demo_meta None []) ConditionTrue ''ConnectionVerified'' []]\<rparr>\<rparr>"

definition demo_secret :: Secret where
  "demo_secret =
     \<lparr>sec_Meta = demo_meta None [], sec_Data = Some [(''apiKey'', ''k''), (''apiSecret'', ''s'')]\<rparr>"

text \<open>
  The API server hands out these objects and accepts every write; the firewall answers a request by
  a table of paths, and a path that is not listed with 404.
\<close>

definition demo_url :: "string \<Rightarrow> string" where
  "demo_url path = ''https://fw'' @ path"

definition demo_respond :: "(string \<times> string) list \<Rightarrow> request \<Rightarrow> http_result" where
  "demo_respond table q =
     (case map_of (map (\<lambda>(p, b). (demo_url p, b)) table) (rq_URL q) of
        Some body \<Rightarrow> Response 200 body
      | None \<Rightarrow> Response 404 ''no route'')"

definition demo_env :: "(string \<times> string) list \<Rightarrow> AliasCR \<Rightarrow> FirewallRuleCR \<Rightarrow> unit env" where
  "demo_env table x f =
     \<lparr>do_HTTP = (\<lambda>c q w. (demo_respond table q, w)),
      do_range = (\<lambda>ks w. (ks, w)),
      do_GetAlias = (\<lambda>n w. (Inr x, w)),
      do_GetFirewallRule = (\<lambda>n w. (Inr f, w)),
      do_GetConnection = (\<lambda>n w. (Inr demo_conn, w)),
      do_GetSecret = (\<lambda>n w. (Inr demo_secret, w)),
      do_UpdateAlias = (\<lambda>y w. (None, w)),
      do_UpdateFirewallRule = (\<lambda>y w. (None, w)),
      do_StatusAlias = (\<lambda>y w. (None, w)),
      do_StatusFirewallRule = (\<lambda>y w. (None, w)),
      do_StatusConnection = (\<lambda>y w. (None, w))\<rparr>"

lemma demo_ranges_ok: "ranges_ok (demo_env table x f)"
  by (simp add: ranges_ok_def demo_env_def)

text \<open>A run of an operation in this world: its trace and its result.\<close>

definition demo_trace :: "(string \<times> string) list \<Rightarrow> AliasCR \<Rightarrow> FirewallRuleCR \<Rightarrow> 'a prog \<Rightarrow> event list" where
  "demo_trace table x f p = fst (exec (demo_env table x f) p ())"

definition demo_result :: "(string \<times> string) list \<Rightarrow> AliasCR \<Rightarrow> FirewallRuleCR \<Rightarrow> 'a prog \<Rightarrow> 'a" where
  "demo_result table x f p = fst (snd (exec (demo_env table x f) p ()))"

lemma demo_runs: "runs p (demo_trace table x f p) (demo_result table x f p)"
  unfolding demo_trace_def demo_result_def
  by (metis demo_ranges_ok exec_runs prod.collapse)

section \<open>Replies\<close>

definition saved_reply :: string where
  "saved_reply = marshal (JObj [(''result'', JStr ''saved''), (''uuid'', JStr ''u1'')])"

definition result_reply :: "string \<Rightarrow> string" where
  "result_reply r = marshal (JObj [(''result'', JStr r)])"

definition status_reply :: "string \<Rightarrow> string" where
  "status_reply r = marshal (JObj [(''status'', JStr r)])"

definition rows_reply :: "string list \<Rightarrow> string" where
  "rows_reply us = marshal (JObj [(''rows'', JArr (map (\<lambda>u. JObj [(''uuid'', JStr u)]) us))])"

definition demo_ext_rule :: FirewallRule where
  "demo_ext_rule = (specToRule demo_rule_spec ''default'' ''web'')\<lparr>r_Sequence := ''100''\<rparr>"

text \<open>
  The reply of \<open>getRule\<close>, in the shape the tests of the client record: all the options of each choice, a
  member the client does not know, and the members in an order of their own.
\<close>

definition demo_menu :: menu where
  "demo_menu field = concat (map snd (filter (\<lambda>(f, _). f = field)
     [(''action'', [(''pass'', ''Pass''), (''block'', ''Block''), (''reject'', ''Reject'')]),
      (''interface'', [(''wan'', ''WAN''), (''lan'', ''LAN'')]),
      (''direction'', [(''in'', ''In''), (''out'', ''Out''), (''any'', ''Both'')]),
      (''ipprotocol'', [(''inet'', ''IPv4''), (''inet6'', ''IPv6''), (''inet46'', ''IPv4+IPv6'')]),
      (''protocol'', [(''any'', ''any''), (''TCP'', ''TCP''), (''UDP'', ''UDP'')])]))"

definition demo_rule_json :: json where
  "demo_rule_json = JObj [(''rule'',
     JObj (rev ((''categories'', JObj []) # rule_members demo_menu demo_ext_rule)))]"

definition demo_rule_reply :: string where
  "demo_rule_reply = marshal demo_rule_json"

text \<open>A short form of a rule, of which only the sequence is of interest.\<close>

definition sequence_reply :: "string \<Rightarrow> string" where
  "sequence_reply s = marshal (JObj [(''rule'', JObj [(''action'', JObj []), (''sequence'', JStr s)])])"

text \<open>The firewall applies what it is told to.\<close>

definition base_table :: "(string \<times> string) list" where
  "base_table =
     [(''/api/firewall/alias/reconfigure'', status_reply ''ok''),
      (''/api/firewall/filter/apply'', status_reply ''OK''),
      (''/api/core/system/status'', ''{}'')]"

section \<open>Scenarios\<close>

text \<open>
  What an evaluation shows of a run: the result, the last event, and how many requests were sent.
  One evaluation gives all of them.
\<close>

definition exhibits ::
  "(string \<times> string) list \<Rightarrow> AliasCR \<Rightarrow> FirewallRuleCR \<Rightarrow> 'a prog \<Rightarrow> 'a \<Rightarrow> event \<Rightarrow> nat \<Rightarrow> nat \<Rightarrow> bool" where
  "exhibits table x f p r ev n m \<longleftrightarrow>
     (case exec (demo_env table x f) p () of (tr, r', w) \<Rightarrow>
        r' = r \<and> tr \<noteq> [] \<and> last tr = ev \<and> length (http_requests tr) = n \<and> length (posts tr) = m)"

lemma exhibits_run:
  assumes "exhibits table x f p r ev n m"
  shows "runs p (demo_trace table x f p) r" "ev \<in> set (demo_trace table x f p)"
    "length (http_requests (demo_trace table x f p)) = n" "length (posts (demo_trace table x f p)) = m"
  using assms demo_runs [of p table x f]
  by (auto simp: exhibits_def demo_trace_def demo_result_def split: prod.splits)

abbreviation alias_run :: "(string \<times> string) list \<Rightarrow> AliasCR \<Rightarrow> event list" where
  "alias_run table x \<equiv>
     demo_trace table x (demo_rule None []) (AliasReconciler_Reconcile demo_lib demo_name)"

abbreviation rule_run :: "(string \<times> string) list \<Rightarrow> FirewallRuleCR \<Rightarrow> event list" where
  "rule_run table f \<equiv>
     demo_trace table (demo_alias None []) f (FirewallRuleReconciler_Reconcile demo_lib demo_name)"

abbreviation conn_run :: "(string \<times> string) list \<Rightarrow> event list" where
  "conn_run table \<equiv> demo_trace table (demo_alias None []) (demo_rule None [])
     (OPNsenseConnectionReconciler_Reconcile demo_lib (cluster_key ''fw''))"

abbreviation alias_exhibits ::
  "(string \<times> string) list \<Rightarrow> AliasCR \<Rightarrow> outcome \<Rightarrow> event \<Rightarrow> nat \<Rightarrow> nat \<Rightarrow> bool" where
  "alias_exhibits table x \<equiv>
     exhibits table x (demo_rule None []) (AliasReconciler_Reconcile demo_lib demo_name)"

abbreviation rule_exhibits ::
  "(string \<times> string) list \<Rightarrow> FirewallRuleCR \<Rightarrow> outcome \<Rightarrow> event \<Rightarrow> nat \<Rightarrow> nat \<Rightarrow> bool" where
  "rule_exhibits table f \<equiv>
     exhibits table (demo_alias None []) f (FirewallRuleReconciler_Reconcile demo_lib demo_name)"

abbreviation conn_exhibits :: "(string \<times> string) list \<Rightarrow> outcome \<Rightarrow> event \<Rightarrow> nat \<Rightarrow> nat \<Rightarrow> bool" where
  "conn_exhibits table \<equiv>
     exhibits table (demo_alias None []) (demo_rule None [])
       (OPNsenseConnectionReconciler_Reconcile demo_lib (cluster_key ''fw''))"

text \<open>A reconciliation begins with the object.\<close>

lemma reconcile_run_starts:
  "alias_run table x = EGetAlias demo_name (Inr x) # tl (alias_run table x)"
  "rule_run table f = EGetFirewallRule demo_name (Inr f) # tl (rule_run table f)"
  by (simp_all add: demo_trace_def AliasReconciler_Reconcile_def FirewallRuleReconciler_Reconcile_def
      demo_env_def after_call_def split_beta)

text \<open>Creation of what is not there, deletion of \<open>u1\<close>, and a firewall that knows no path.\<close>

definition create_table :: "(string \<times> string) list" where
  "create_table = base_table @
     [(''/api/firewall/alias/getAliasUUID/web'', ''[]''),
      (''/api/firewall/alias/addItem'', saved_reply),
      (''/api/firewall/filter/searchRule?searchPhrase=default%2Fweb'', rows_reply []),
      (''/api/firewall/filter/addRule'', saved_reply),
      (''/api/firewall/filter/getRule/u1'', sequence_reply ''100'')]"

definition delete_table :: "(string \<times> string) list" where
  "delete_table = base_table @
     [(''/api/firewall/alias/delItem/u1'', result_reply ''deleted''),
      (''/api/firewall/filter/delRule/u1'', result_reply ''deleted'')]"

text \<open>A firewall that has both objects as the specs want them.\<close>

definition settled_table :: "(string \<times> string) list" where
  "settled_table = base_table @
     [(''/api/firewall/alias/export?ids=u1'', marshal (export_json ''u1'' (specToAlias demo_alias_spec))),
      (''/api/firewall/filter/getRule/u1'', demo_rule_reply)]"

definition settled_alias :: AliasCR where
  "settled_alias = alias_ready demo_lib (demo_alias None []) ''u1''"

definition settled_rule :: FirewallRuleCR where
  "settled_rule = rule_ready demo_lib (demo_rule None []) ''u1'' ''100''"

definition demo_client :: Client where
  "demo_client = NewClient ''https://fw/'' ''k'' ''s'' None"

text \<open>OPNsense has an alias of this name, not yet known to the object, and two matching rules.\<close>

definition found_table :: "(string \<times> string) list" where
  "found_table = settled_table @
     [(''/api/firewall/alias/getAliasUUID/web'', marshal (JObj [(''uuid'', JStr ''u1'')])),
      (''/api/firewall/filter/searchRule?searchPhrase=default%2Fweb'', rows_reply [''u1'', ''u2''])]"

text \<open>The firewall accepts changes of aliases but does not apply them.\<close>

definition unapplied_table :: "(string \<times> string) list" where
  "unapplied_table =
     [(''/api/firewall/alias/getAliasUUID/web'', ''[]''),
      (''/api/firewall/alias/addItem'', saved_reply),
      (''/api/firewall/alias/export?ids=u1'',
         marshal (export_json ''u1'' (specToAlias (demo_alias_spec\<lparr>as_Entries := [''10.0.0.9'']\<rparr>)))),
      (''/api/firewall/alias/setItem/u1'', result_reply ''saved'')]"

text \<open>A disabled alias that no reconciliation has seen yet.\<close>

definition adoptable_alias :: AliasCR where
  "adoptable_alias = (demo_alias None [])
     \<lparr>al_Meta := demo_meta None [], al_Spec := demo_alias_spec\<lparr>as_Enabled := False\<rparr>\<rparr>"

definition adopted_alias :: AliasCR where
  "adopted_alias = adoptable_alias\<lparr>al_Meta := demo_meta None [aliasFinalizer]\<rparr>"

lemma demo_rule_json_ok:
  "plain_numbers demo_rule_json" "json_utf8 demo_rule_json" "json_depth demo_rule_json \<le> max_nesting_depth"
  by code_simp+

lemma demo_rule_shown: "shows_rule demo_menu demo_ext_rule demo_rule_reply"
  unfolding demo_rule_reply_def
  by (rule shows_rule_marshal [OF _ _ demo_rule_json_def demo_rule_json_ok]) code_simp+

lemma demo_rule_read:
  "\<exists>q t. runs (GetRule demo_lib demo_client ''u1'')
     (EHTTP (cl_httpClient demo_client) q (Response 200 demo_rule_reply) # t) (Inr demo_ext_rule)"
  by (rule GetRule_shown [OF demo_rule_shown]) (simp add: status_ok_def)

text \<open>The parts of a run, the state of the world being constant.\<close>

lemma demo_bind:
  "demo_trace table x f (bind p k) =
     demo_trace table x f p @ demo_trace table x f (k (demo_result table x f p))"
  "demo_result table x f (bind p k) = demo_result table x f (k (demo_result table x f p))"
  by (simp_all add: demo_trace_def demo_result_def exec_bind split_beta)

section \<open>The scenarios, evaluated\<close>

definition demo_404 :: err where
  "demo_404 = (case classify (Response 404 ''no route'') of Inl e \<Rightarrow> e | Inr b \<Rightarrow> ErrUnexpectedResponse)"

lemma alias_creation:
  "alias_exhibits create_table (demo_alias None []) (no_requeue, None) (EStatusAlias settled_alias None) 3 2"
  by code_simp

lemma alias_deletion:
  "alias_exhibits delete_table (demo_alias (Some 0) ''u1'') (no_requeue, None)
     (EUpdateAlias (without_alias_finalizer demo_lib (demo_alias (Some 0) ''u1'')) None) 2 2"
  by code_simp

lemma alias_unreachable:
  "alias_exhibits base_table (demo_alias None ''u1'') (no_requeue, Some demo_404)
     (EStatusAlias (alias_failed demo_lib (demo_alias None ''u1'') ''LookupFailed'' demo_404) None) 1 0"
  by code_simp

text \<open>The alias is created, or updated, but the firewall cannot reconfigure.\<close>

lemma alias_creation_unapplied:
  "alias_exhibits unapplied_table (demo_alias None []) (no_requeue, Some demo_404)
     (EStatusAlias (alias_failed demo_lib (demo_alias None []) ''ReconfigureFailed'' demo_404) None) 3 2"
  by code_simp

lemma alias_update_unapplied:
  "alias_exhibits unapplied_table (demo_alias None ''u1'') (no_requeue, Some demo_404)
     (EStatusAlias (alias_failed demo_lib (demo_alias None ''u1'') ''ReconfigureFailed'' demo_404) None) 3 2"
  by code_simp

text \<open>The same object as in \<open>alias_creation_unapplied\<close>, with the status it was given, is then deleted.\<close>

definition lost_alias :: AliasCR where
  "lost_alias = (alias_failed demo_lib (demo_alias None []) ''ReconfigureFailed'' demo_404)
     \<lparr>al_Meta := demo_meta (Some 0) [aliasFinalizer]\<rparr>"

lemma alias_lost:
  "alias_exhibits [] lost_alias (no_requeue, None)
     (EUpdateAlias (without_alias_finalizer demo_lib lost_alias) None) 0 0"
  by code_simp

lemma alias_adoption:
  "alias_exhibits [] adoptable_alias (no_requeue, None) (EUpdateAlias adopted_alias None) 0 0"
  by code_simp

lemma rule_creation:
  "rule_exhibits create_table (demo_rule None []) (no_requeue, None)
     (EStatusFirewallRule settled_rule None) 4 2"
  by code_simp

lemma rule_deletion:
  "rule_exhibits delete_table (demo_rule (Some 0) ''u1'') (no_requeue, None)
     (EUpdateFirewallRule (without_rule_finalizer demo_lib (demo_rule (Some 0) ''u1'')) None) 2 2"
  by code_simp

lemma rule_unreachable:
  "rule_exhibits base_table (demo_rule None ''u1'') (no_requeue, Some demo_404)
     (EStatusFirewallRule (rule_failed demo_lib (demo_rule None ''u1'') ''LookupFailed'' demo_404) None) 1 0"
  by code_simp

lemma conn_verification:
  "conn_exhibits base_table (\<lparr>res_RequeueAfter = requeue_interval\<rparr>, None)
     (EStatusConnection (conn_ready demo_lib demo_conn) None) 1 0"
  by code_simp

lemma conn_unreachable:
  "conn_exhibits [] (no_requeue, Some demo_404)
     (EStatusConnection (conn_with_ready demo_lib demo_conn ConditionFalse ''ConnectionFailed''
        (connect_message demo_conn demo_404)) None) 1 0"
  by code_simp

text \<open>Parts of a reconciliation.\<close>

abbreviation demo_parts :: "(string \<times> string) list \<Rightarrow> 'a prog \<Rightarrow> event list" where
  "demo_parts table p \<equiv> demo_trace table (demo_alias None []) (demo_rule None []) p"

lemma client_built:
  "runs (AliasReconciler_buildOPNsenseClient demo_lib settled_alias)
     (demo_parts [] (AliasReconciler_buildOPNsenseClient demo_lib settled_alias)) (Inr demo_client)"
  "runs (FirewallRuleReconciler_buildOPNsenseClient demo_lib settled_rule)
     (demo_parts [] (FirewallRuleReconciler_buildOPNsenseClient demo_lib settled_rule)) (Inr demo_client)"
  "runs (FirewallRuleReconciler_buildOPNsenseClient demo_lib (demo_rule None []))
     (demo_parts [] (FirewallRuleReconciler_buildOPNsenseClient demo_lib (demo_rule None [])))
     (Inr demo_client)"
  by (rule demo_runs [THEN back_subst [where P = "runs _ _"]], code_simp)+

lemma alias_created:
  "runs (CreateAlias demo_lib demo_client (specToAlias demo_alias_spec))
     (demo_parts create_table (CreateAlias demo_lib demo_client (specToAlias demo_alias_spec)))
     (Inr ''u1'')"
  by (rule demo_runs [THEN back_subst [where P = "runs _ _"]], code_simp)

lemma alias_found:
  "runs (AliasReconciler_resolveExternalAlias demo_lib demo_client (demo_alias None []))
     (demo_parts found_table (AliasReconciler_resolveExternalAlias demo_lib demo_client (demo_alias None [])))
     (Inr (''u1'', Some (specToAlias demo_alias_spec)))"
  by (rule demo_runs [THEN back_subst [where P = "runs _ _"]], code_simp)

lemma rule_not_found:
  "runs (FirewallRuleReconciler_resolveExternalRule demo_lib demo_client (demo_rule None []))
     (demo_parts create_table
        (FirewallRuleReconciler_resolveExternalRule demo_lib demo_client (demo_rule None [])))
     (Inr ([], None))"
  by (rule demo_runs [THEN back_subst [where P = "runs _ _"]], code_simp)

lemma rules_found:
  "runs (SearchRuleByManagedSuffix demo_lib demo_client (rule_phrase (demo_rule None [])))
     (demo_parts found_table (SearchRuleByManagedSuffix demo_lib demo_client (rule_phrase (demo_rule None []))))
     (Inr [''u1'', ''u2''])"
  by (rule demo_runs [THEN back_subst [where P = "runs _ _"]], code_simp)

end
