(* ===== verification/Witnesses.thy ===== *)
theory Witnesses
  imports Demo
begin

text \<open>
  Each property that has hypotheses, applied in the concrete world of theory Demo, where they hold.
\<close>

section \<open>The reconcilers\<close>

abbreviation new_alias :: AliasCR where "new_alias \<equiv> demo_alias None []"
abbreviation new_rule :: FirewallRuleCR where "new_rule \<equiv> demo_rule None []"
abbreviation dying_alias :: AliasCR where "dying_alias \<equiv> demo_alias (Some 0) ''u1''"
abbreviation dying_rule :: FirewallRuleCR where "dying_rule \<equiv> demo_rule (Some 0) ''u1''"

abbreviation released_alias :: AliasCR where
  "released_alias \<equiv> without_alias_finalizer demo_lib dying_alias"

abbreviation released_rule :: FirewallRuleCR where
  "released_rule \<equiv> without_rule_finalizer demo_lib dying_rule"

abbreviation unsynced_alias :: AliasCR where
  "unsynced_alias \<equiv> alias_failed demo_lib (demo_alias None ''u1'') ''LookupFailed'' demo_404"

abbreviation unsynced_rule :: FirewallRuleCR where
  "unsynced_rule \<equiv> rule_failed demo_lib (demo_rule None ''u1'') ''LookupFailed'' demo_404"

lemma demo_status:
  "is_ready demo_lib (ast_Conditions (al_Status settled_alias))"
  "is_ready demo_lib (rst_Conditions (fr_Status settled_rule))"
  "\<not> is_ready demo_lib (ast_Conditions (al_Status unsynced_alias))"
  "\<not> is_ready demo_lib (rst_Conditions (fr_Status unsynced_rule))"
  "\<not> ContainsFinalizer demo_lib (al_Meta released_alias) aliasFinalizer"
  "\<not> ContainsFinalizer demo_lib (fr_Meta released_rule) firewallRuleFinalizer"
  by code_simp+

lemma alias_reconcile_refines_witness:
  "alias_outcome demo_lib demo_name (alias_run create_table new_alias) (no_requeue, None)"
  by (rule alias_reconcile_refines [OF exhibits_run(1) [OF alias_creation]])

lemma rule_reconcile_refines_witness:
  "rule_outcome demo_lib demo_name (rule_run create_table new_rule) (no_requeue, None)"
  by (rule rule_reconcile_refines [OF exhibits_run(1) [OF rule_creation]])

lemma alias_finalizer_safety_witness:
  "\<exists>alias t. alias_run delete_table dying_alias =
       EGetAlias demo_name (Inr alias) # t @ [EUpdateAlias released_alias None] \<and>
     (ast_UUID (al_Status alias) = [] \<and> t = [] \<or> alias_gone demo_lib alias t)"
  using alias_finalizer_safety
    [OF demo_laws(1) exhibits_run(1,2) [OF alias_deletion] demo_status(5)]
  by blast

lemma rule_finalizer_safety_witness:
  "\<exists>rule t. rule_run delete_table dying_rule =
       EGetFirewallRule demo_name (Inr rule) # t @ [EUpdateFirewallRule released_rule None] \<and>
     (rst_UUID (fr_Status rule) = [] \<and> t = [] \<or> rule_gone demo_lib rule t)"
  using rule_finalizer_safety
    [OF demo_laws(1) exhibits_run(1,2) [OF rule_deletion] demo_status(6)]
  by blast

lemma alias_ready_sound_witness:
  "\<exists>alias t. alias_run create_table new_alias =
       EGetAlias demo_name (Inr alias) # t @ [EStatusAlias settled_alias None] \<and>
     alias_in_sync demo_lib alias t (ast_UUID (al_Status settled_alias))"
  using alias_ready_sound
    [OF demo_laws(2) exhibits_run(1,2) [OF alias_creation] demo_status(1)]
  by blast

lemma rule_ready_sound_witness:
  "\<exists>rule t. rule_run create_table new_rule =
       EGetFirewallRule demo_name (Inr rule) # t @ [EStatusFirewallRule settled_rule None] \<and>
     rule_in_sync demo_lib rule t (rst_UUID (fr_Status settled_rule))
       (rst_Sequence (fr_Status settled_rule))"
  using rule_ready_sound
    [OF demo_laws(2) exhibits_run(1,2) [OF rule_creation] demo_status(2)]
  by blast

lemma alias_success_is_final_witness:
  "\<exists>x. writes (alias_run create_table new_alias) = [EUpdateAlias x None] \<or>
     writes (alias_run create_table new_alias) = [EStatusAlias x None] \<and>
       is_ready demo_lib (ast_Conditions (al_Status x))"
proof -
  have "writes (alias_run create_table new_alias) \<noteq> []"
    using exhibits_run(2) [OF alias_creation] unwritten(3) by blast
  then show ?thesis
    using alias_success_is_final [OF demo_laws(2) exhibits_run(1) [OF alias_creation]] by blast
qed

lemma rule_success_is_final_witness:
  "\<exists>x. writes (rule_run create_table new_rule) = [EUpdateFirewallRule x None] \<or>
     writes (rule_run create_table new_rule) = [EStatusFirewallRule x None] \<and>
       is_ready demo_lib (rst_Conditions (fr_Status x))"
proof -
  have "writes (rule_run create_table new_rule) \<noteq> []"
    using exhibits_run(2) [OF rule_creation] unwritten(4) by blast
  then show ?thesis
    using rule_success_is_final [OF demo_laws(2) exhibits_run(1) [OF rule_creation]] by blast
qed

text \<open>What follows the reading of the object.\<close>

lemma after_start:
  "cluster_event ev \<Longrightarrow> tr = ev # t \<Longrightarrow> http_requests t = http_requests tr \<and> posts t = posts tr"
  by (cases ev) (simp_all add: posts_def)

lemma alias_after_start:
  assumes "alias_exhibits table x r ev n m"
  shows "runs (AliasReconciler_Reconcile demo_lib demo_name)
      (EGetAlias demo_name (Inr x) # tl (alias_run table x)) r"
    and "length (http_requests (tl (alias_run table x))) = n"
    and "length (posts (tl (alias_run table x))) = m"
  using exhibits_run(1,3,4) [OF assms] after_start [OF _ reconcile_run_starts(1)]
  by (simp_all add: reconcile_run_starts(1) [symmetric])

lemma rule_after_start:
  assumes "rule_exhibits table x r ev n m"
  shows "runs (FirewallRuleReconciler_Reconcile demo_lib demo_name)
      (EGetFirewallRule demo_name (Inr x) # tl (rule_run table x)) r"
    and "length (http_requests (tl (rule_run table x))) = n"
    and "length (posts (tl (rule_run table x))) = m"
  using exhibits_run(1,3,4) [OF assms] after_start [OF _ reconcile_run_starts(2)]
  by (simp_all add: reconcile_run_starts(2) [symmetric])

lemma alias_mutations_planned_witness:
  "\<exists>plan. alias_plan demo_lib new_alias (tl (alias_run create_table new_alias)) plan \<and>
     prefix (posts (tl (alias_run create_table new_alias))) plan"
  using alias_mutations_planned [OF alias_after_start(1) [OF alias_creation]]
    alias_after_start(3) [OF alias_creation] by auto

lemma rule_mutations_planned_witness:
  "\<exists>plan. rule_plan demo_lib new_rule (tl (rule_run create_table new_rule)) plan \<and>
     prefix (posts (tl (rule_run create_table new_rule))) plan"
  using rule_mutations_planned [OF rule_after_start(1) [OF rule_creation]]
    rule_after_start(3) [OF rule_creation] by auto

lemma alias_failure_reported_witness:
  "\<exists>alias t x reason. alias_run base_table (demo_alias None ''u1'') =
       EGetAlias demo_name (Inr alias) # t @ [EStatusAlias x None] \<and>
     reason \<in> alias_reasons \<and>
     FindStatusCondition demo_lib (ast_Conditions (al_Status x)) ''Ready''
       = Some (ready_condition (al_Meta alias) ConditionFalse reason (Error demo_404)) \<and>
     ast_UUID (al_Status x) = ast_UUID (al_Status alias)"
  using alias_failure_reported [OF demo_laws(2) exhibits_run(1) [OF alias_unreachable]]
    exhibits_run(2) [OF alias_unreachable]
  by (auto simp: unwritten)

lemma rule_failure_reported_witness:
  "\<exists>rule t x reason. rule_run base_table (demo_rule None ''u1'') =
       EGetFirewallRule demo_name (Inr rule) # t @ [EStatusFirewallRule x None] \<and>
     reason \<in> rule_reasons \<and>
     FindStatusCondition demo_lib (rst_Conditions (fr_Status x)) ''Ready''
       = Some (ready_condition (fr_Meta rule) ConditionFalse reason (Error demo_404)) \<and>
     rst_UUID (fr_Status x) = rst_UUID (fr_Status rule)"
  using rule_failure_reported [OF demo_laws(2) exhibits_run(1) [OF rule_unreachable]]
    exhibits_run(2) [OF rule_unreachable]
  by (auto simp: unwritten)

lemma alias_requests_confined_witness:
  "\<exists>c. connected demo_lib ''fw'' (tl (alias_run create_table new_alias)) c \<and>
     calls c ''/api/firewall/alias/'' 5 (tl (alias_run create_table new_alias))"
proof -
  have "ref_Name (as_ConnectionRef (al_Spec new_alias)) = ''fw''" by code_simp
  moreover have "http_requests (tl (alias_run create_table new_alias)) \<noteq> []"
    using alias_after_start(2) [OF alias_creation] by auto
  ultimately show ?thesis
    using alias_requests_confined [OF alias_after_start(1) [OF alias_creation]] by simp
qed

lemma rule_requests_confined_witness:
  "\<exists>c. connected demo_lib ''fw'' (tl (rule_run create_table new_rule)) c \<and>
     calls c ''/api/firewall/filter/'' 6 (tl (rule_run create_table new_rule))"
proof -
  have "ref_Name (rs_ConnectionRef (fr_Spec new_rule)) = ''fw''" by code_simp
  moreover have "http_requests (tl (rule_run create_table new_rule)) \<noteq> []"
    using rule_after_start(2) [OF rule_creation] by auto
  ultimately show ?thesis
    using rule_requests_confined [OF rule_after_start(1) [OF rule_creation]] by simp
qed

text \<open>A second reconciliation, of the objects as they were written.\<close>

lemma demo_rule_utf8: "rule_utf8 demo_ext_rule"
  by code_simp

lemma demo_settled:
  "time_IsZero demo_lib (om_DeletionTimestamp (al_Meta settled_alias))"
  "ContainsFinalizer demo_lib (al_Meta settled_alias) aliasFinalizer"
  "ast_UUID (al_Status settled_alias) = ''u1''"
  "\<not> aliasNeedsUpdate (al_Spec settled_alias) (specToAlias demo_alias_spec)"
  "time_IsZero demo_lib (om_DeletionTimestamp (fr_Meta settled_rule))"
  "ContainsFinalizer demo_lib (fr_Meta settled_rule) firewallRuleFinalizer"
  "rst_UUID (fr_Status settled_rule) = ''u1''"
  "\<not> rule_needs_update settled_rule demo_ext_rule"
  "r_Sequence demo_ext_rule = rst_Sequence (fr_Status settled_rule)"
  by code_simp+

lemma alias_exported:
  "runs (GetAlias demo_lib demo_client ''u1'')
     (demo_parts settled_table (GetAlias demo_lib demo_client ''u1'')) (Inr (specToAlias demo_alias_spec))"
  by (rule demo_runs [THEN back_subst [where P = "runs _ _"]], code_simp)

text \<open>The lookups.\<close>

lemma alias_lookup_sound_witness:
  "\<exists>t g. demo_parts found_table
       (AliasReconciler_resolveExternalAlias demo_lib demo_client new_alias) = t @ g \<and>
     runs (GetAlias demo_lib demo_client ''u1'') g (Inr (specToAlias demo_alias_spec)) \<and>
     (\<exists>s q. t = s @ q \<and>
        runs (GetAliasUUIDByName demo_lib demo_client (as_Name (al_Spec new_alias))) q (Inr ''u1''))"
proof -
  have "ast_UUID (al_Status new_alias) = []" by (simp add: demo_alias_def)
  then show ?thesis
    using alias_lookup_sound [OF alias_found] by auto
qed

lemma rule_lookup_sound_witness:
  "\<exists>s q. demo_parts create_table
       (FirewallRuleReconciler_resolveExternalRule demo_lib demo_client new_rule) = s @ q \<and>
     runs (SearchRuleByManagedSuffix demo_lib demo_client (rule_phrase new_rule)) q (Inr [])"
  using rule_lookup_sound [OF rule_not_found] by auto

lemma rule_ambiguity_refused_witness:
  "\<exists>b q t r u. runs (FirewallRuleReconciler_Reconcile demo_lib demo_name)
       (EGetFirewallRule demo_name (Inr new_rule) # b @ [] @ q @ t) r \<and>
     posts (b @ [] @ q @ t) = [] \<and>
     t = [EStatusFirewallRule (rule_failed demo_lib new_rule ''LookupFailed''
       (ambiguity demo_lib new_rule 2)) u]"
proof -
  let ?b = "demo_parts [] (FirewallRuleReconciler_buildOPNsenseClient demo_lib new_rule)"
  let ?q = "demo_parts found_table (SearchRuleByManagedSuffix demo_lib demo_client (rule_phrase new_rule))"
  have new: "rst_UUID (fr_Status new_rule) = []"
      "time_IsZero demo_lib (om_DeletionTimestamp (fr_Meta new_rule))"
      "ContainsFinalizer demo_lib (fr_Meta new_rule) firewallRuleFinalizer"
    by code_simp+
  have "\<exists>t r. runs (FirewallRuleReconciler_sync demo_lib new_rule) (?b @ ?q @ t) r"
    unfolding FirewallRuleReconciler_sync_def FirewallRuleReconciler_resolveExternalRule_def
      resolve_rule_by_suffix_def Let_def
    by (simp only: runs_bind_after [OF client_built(3)] sum.case new(1) simp_thms if_True if_False
        bind_assoc rule_phrase_def [symmetric] runs_bind_after [OF rules_found] runs_total)
  then obtain t r where run: "runs (FirewallRuleReconciler_Reconcile demo_lib demo_name)
      (EGetFirewallRule demo_name (Inr new_rule) # ?b @ [] @ ?q @ t) r"
    by (auto simp: FirewallRuleReconciler_Reconcile_def new)
  from rule_ambiguity_refused [OF this new(2,3) client_built(3) _ rules_found]
  show ?thesis
    using run by (intro exI [of _ ?b] exI [of _ ?q] exI [of _ t] exI [of _ r]) (auto simp: new(1) numeral_2_eq_2)
qed

text \<open>The connection.\<close>

lemma demo_conn_status:
  "is_ready demo_lib (cst_Conditions (conn_Status (conn_ready demo_lib demo_conn)))"
  by code_simp

lemma connection_ready_sound_witness:
  "\<exists>conn b h q code body v. conn_run base_table = EGetConnection (cluster_key ''fw'') (Inr conn) # b @
       [EHTTP h q (Response code body), EStatusConnection (conn_ready demo_lib demo_conn) None] \<and>
     rq_Method q = GET \<and> 200 \<le> code \<and> code < 300 \<and> parse_json body = Some v"
  using connection_ready_sound
    [OF demo_laws(2) exhibits_run(1,2) [OF conn_verification] demo_conn_status]
  by (elim exE conjE) (metis append_Cons)

lemma connection_requeue_iff_ready_witness:
  "requeue_interval =
     (if \<exists>x u. EStatusConnection x u \<in> set (conn_run base_table) \<and>
         is_ready demo_lib (cst_Conditions (conn_Status x))
      then requeue_interval else 0)"
  using connection_requeue_iff_ready [OF demo_laws(2) exhibits_run(1) [OF conn_verification]]
  by simp

lemma connection_read_only_witness:
  "\<exists>h c. http_requests (conn_run base_table) = [(h, api_request c GET ''/api/core/system/status'' None)]"
proof -
  have "http_requests (conn_run base_table) \<noteq> []"
    using exhibits_run(3) [OF conn_verification] by auto
  then show ?thesis
    using connection_read_only [OF exhibits_run(1) [OF conn_verification]] by blast
qed

lemma demo_conn_unready:
  "list_all (\<lambda>ev. case ev of
       EStatusConnection x u \<Rightarrow> \<not> is_ready demo_lib (cst_Conditions (conn_Status x))
     | _ \<Rightarrow> True) (conn_run [])"
  by code_simp

lemma connection_failure_reported_witness:
  "\<exists>x u reason m. EStatusConnection x u \<in> set (conn_run []) \<and> reason \<in> conn_reasons \<and>
     FindStatusCondition demo_lib (cst_Conditions (conn_Status x)) ''Ready''
       = Some (ready_condition (conn_Meta x) ConditionFalse reason m)"
proof -
  have "\<not> (\<exists>x u. EStatusConnection x u \<in> set (conn_run []) \<and>
      is_ready demo_lib (cst_Conditions (conn_Status x)))"
    using demo_conn_unready by (fastforce simp: list_all_iff)
  from connection_failure_reported
    [OF demo_laws(2,3) exhibits_run(1) [OF conn_unreachable] this]
  show ?thesis
    using exhibits_run(2) [OF conn_unreachable] by auto
qed

section \<open>The client\<close>

lemma create_returns_uuid_witness:
  "\<exists>tr q code body r. runs (CreateAlias demo_lib demo_client (specToAlias demo_alias_spec)) tr (Inr ''u1'') \<and>
     tr = [EHTTP (cl_httpClient demo_client) q (Response code body)] \<and> status_ok code \<and>
     decodeResultResponse demo_lib body = Inr r \<and> rr_Result r = ''saved'' \<and> rr_UUID r = ''u1''"
  using alias_created create_returns_uuid [OF disjI2 [OF alias_created]] by blast

lemma alias_export_roundtrip_witness:
  "decode_export demo_lib ''u1'' (marshal (export_json ''u1'' (specToAlias demo_alias_spec)))
     = Inr (specToAlias demo_alias_spec)"
  by (rule alias_export_roundtrip) code_simp+

lemma rule_created:
  "runs (CreateRule demo_lib demo_client demo_ext_rule)
     (demo_parts create_table (CreateRule demo_lib demo_client demo_ext_rule)) (Inr ''u1'')"
  by (rule demo_runs [THEN back_subst [where P = "runs _ _"]], code_simp)

lemma rule_request_roundtrip_witness:
  "\<exists>q res b ms. demo_parts create_table (CreateRule demo_lib demo_client demo_ext_rule)
       = [EHTTP (cl_httpClient demo_client) q res] \<and> rq_Body q = Some b \<and>
     parse_json b = Some (JObj [(''rule'', JObj ms)]) \<and> distinct (map fst ms) \<and>
     set ms = json_texts (rule_texts demo_ext_rule)"
  using rule_request_roundtrip [OF demo_rule_utf8 disjI1 [OF rule_created]] .

lemma rule_rejected:
  "runs (UpdateRule demo_lib demo_client ''u1'' demo_ext_rule)
     (demo_parts [(''/api/firewall/filter/setRule/u1'', result_reply ''failed'')]
        (UpdateRule demo_lib demo_client ''u1'' demo_ext_rule)) (Inl ErrFirewallRuleNotFound)"
  by (rule demo_runs [THEN back_subst [where P = "runs _ _"]], code_simp)

lemma update_rule_classified_witness:
  "\<exists>q res x. demo_parts [(''/api/firewall/filter/setRule/u1'', result_reply ''failed'')]
       (UpdateRule demo_lib demo_client ''u1'' demo_ext_rule) = [EHTTP (cl_httpClient demo_client) q res] \<and>
     answered demo_lib res x \<and> rr_Result x = ''failed'' \<and> map_entries (rr_Validations x) = []"
  using update_rule_classified [OF rule_rejected] by auto

lemma rule_read_roundtrip_witness:
  "\<exists>q t. runs (GetRule demo_lib demo_client ''u1'')
     (EHTTP (cl_httpClient demo_client) q (Response 200 demo_rule_reply) # t) (Inr demo_ext_rule)"
proof -
  obtain q t x where run: "runs (GetRule demo_lib demo_client ''u1'')
      (EHTTP (cl_httpClient demo_client) q (Response 200 demo_rule_reply) # t) x"
    using demo_rule_read by blast
  with rule_read_roundtrip [OF demo_rule_shown _ _ run] show ?thesis by auto
qed

lemma search_phrase_encoded_witness:
  "\<exists>(q :: request) esc.
     rq_URL q = cl_baseURL demo_client @ ''/api/firewall/filter/searchRule?searchPhrase='' @ esc \<and>
     query_unescape esc = Some (rule_phrase new_rule)"
  using search_phrase_encoded [OF rules_found] by blast

section \<open>Drift\<close>

lemma alias_drift_detects_witness:
  "aliasNeedsUpdate demo_alias_spec (specToAlias (demo_alias_spec\<lparr>as_Entries := [''10.0.0.1'']\<rparr>))"
proof -
  have "as_Entries demo_alias_spec = [''10.0.0.1'', ''10.0.0.2'']"
    by (simp add: demo_alias_spec_def)
  then show ?thesis
    by (subst alias_drift_detects) (simp_all add: newline_def)
qed

lemma rule_update_settles_witness:
  "\<not> ruleNeedsUpdate demo_rule_spec ''default'' ''web''
     ((specToRule demo_rule_spec ''default'' ''web'')\<lparr>r_Sequence := ''100''\<rparr>)"
  by (rule rule_update_settles) (simp add: demo_rule_spec_def)

lemma rule_sequence_drift_witness:
  "ruleNeedsUpdate (demo_rule_spec\<lparr>rs_Sequence := Some 10\<rparr>) ''default'' ''web''
     ((specToRule (demo_rule_spec\<lparr>rs_Sequence := Some 10\<rparr>) ''default'' ''web'')
        \<lparr>r_Sequence := r_Sequence (specToRule (demo_rule_spec\<lparr>rs_Sequence := Some 100\<rparr>) ''default'' ''web'')\<rparr>)"
  by (subst rule_sequence_drift [where w = 10]) simp_all

lemma managed_description_identifies_witness:
  "suffix (managed_suffix ''default'' ''web'') (r_Description (specToRule demo_rule_spec ''default'' ''web'')) \<and>
   r_Description (specToRule demo_rule_spec ''default'' ''web'')
     \<noteq> r_Description (specToRule demo_rule_spec ''default'' ''db'')"
  using managed_description_identifies [of "''default''" "''web''" "''default''" "''db''" demo_rule_spec demo_rule_spec]
  by auto

lemma json_roundtrip_witness:
  "parse_json (marshal demo_rule_json) = Some (json_clean demo_rule_json)"
  by (rule json_roundtrip [OF demo_rule_json_ok(1,3)])

end
