(* ===== verification/Bounded.thy ===== *)
theory Bounded
  imports AliasController FirewallRuleController ConnectionController
begin

text \<open>
  How many calls a reconciliation makes at most.  The reconcilers contain no loop over calls, but they
  call each other's helpers several levels deep; the bound of each is composed from those of the
  helpers.  A range over a Go map counts as one call.
\<close>

section \<open>Programs that end within a number of calls\<close>

definition ends_within :: "'w env \<Rightarrow> 'a prog \<Rightarrow> nat \<Rightarrow> bool" where
  "ends_within E p k \<longleftrightarrow> (\<forall>w. length (fst (exec E p w)) \<le> k)"

lemma length_after_call [simp]: "length (fst (after_call ev o')) = Suc (length (fst o'))"
  by (simp add: after_call_def split: prod.split)

lemma ends_step:
  assumes "0 < k"
  shows "(\<And>r. ends_within E (f1 r) (k - 1)) \<Longrightarrow> ends_within E (HTTP c q f1) k"
    and "(\<And>r. ends_within E (f2 r) (k - 1)) \<Longrightarrow> ends_within E (RangeKeys ks f2) k"
    and "(\<And>r. ends_within E (f3 r) (k - 1)) \<Longrightarrow> ends_within E (GetAliasCR n f3) k"
    and "(\<And>r. ends_within E (f4 r) (k - 1)) \<Longrightarrow> ends_within E (GetFirewallRuleCR n f4) k"
    and "(\<And>r. ends_within E (f5 r) (k - 1)) \<Longrightarrow> ends_within E (GetConnection n f5) k"
    and "(\<And>r. ends_within E (f6 r) (k - 1)) \<Longrightarrow> ends_within E (GetSecret n f6) k"
    and "(\<And>r. ends_within E (f7 r) (k - 1)) \<Longrightarrow> ends_within E (UpdateAliasCR x f7) k"
    and "(\<And>r. ends_within E (f7 r) (k - 1)) \<Longrightarrow> ends_within E (UpdateFirewallRuleCR y f7) k"
    and "(\<And>r. ends_within E (f7 r) (k - 1)) \<Longrightarrow> ends_within E (StatusUpdateAlias x f7) k"
    and "(\<And>r. ends_within E (f7 r) (k - 1)) \<Longrightarrow> ends_within E (StatusUpdateFirewallRule y f7) k"
    and "(\<And>r. ends_within E (f7 r) (k - 1)) \<Longrightarrow> ends_within E (StatusUpdateConnection z f7) k"
  using assms by (cases k; auto simp: ends_within_def split: prod.split)+

lemma ends_Return [simp]: "ends_within E (Return x) k"
  by (simp add: ends_within_def)

lemma ends_mono: "ends_within E p k \<Longrightarrow> k \<le> m \<Longrightarrow> ends_within E p m"
  by (auto simp: ends_within_def intro: order_trans)

lemma ends_bind:
  assumes "ends_within E p a" and "a \<le> k" and "\<And>x. ends_within E (f x) (k - a)"
  shows "ends_within E (bind p f) k"
  unfolding ends_within_def
proof
  fix w
  obtain t x w' where p: "exec E p w = (t, x, w')" by (cases "exec E p w")
  obtain t2 y w2 where f: "exec E (f x) w' = (t2, y, w2)" by (cases "exec E (f x) w'")
  have "length t \<le> a" "length t2 \<le> k - a"
    using assms(1) [unfolded ends_within_def, rule_format, of w] assms(3) [of x] p f
    by (simp_all add: ends_within_def) (metis fst_conv)
  then show "length (fst (exec E (bind p f) w)) \<le> k"
    using assms(2) by (simp add: exec_bind p f)
qed

section \<open>The methods of the client\<close>

lemma ends_doJSON: "ends_within E (doJSON c m path p) 1"
  by (auto simp: doJSON_def intro!: ends_step split: sum.split)

lemma ends_endpoints:
  "ends_within E (GetAliasUUIDByName L c s) 1" "ends_within E (GetAlias L c s) 1"
  "ends_within E (CreateAlias L c a) 1" "ends_within E (UpdateAlias L c s a) 1"
  "ends_within E (DeleteAlias L c s) 1" "ends_within E (ReconfigureAliases L c) 1"
  "ends_within E (CheckConnectivity L c) 1" "ends_within E (SearchRuleByManagedSuffix L c s) 1"
  "ends_within E (CreateRule L c r) 1" "ends_within E (UpdateRule L c s r) 1"
  "ends_within E (DeleteRule L c s) 1" "ends_within E (ApplyFirewallRules L c) 1"
  by (auto simp: GetAliasUUIDByName_def GetAlias_def CreateAlias_def UpdateAlias_def DeleteAlias_def
      ReconfigureAliases_def CheckConnectivity_def SearchRuleByManagedSuffix_def CreateRule_def UpdateRule_def
      DeleteRule_def ApplyFirewallRules_def attempt_def
      intro!: ends_doJSON [THEN ends_bind] split: sum.split)

lemma ends_GetRule: "ends_within E (GetRule L c s) 6"
  unfolding GetRule_def attempt_def getRule_result_def selectedKey_def
  by (auto intro!: ends_doJSON [THEN ends_bind] ends_step split: sum.split)

lemma ends_client: "ends_within E (buildHTTPClient L tls) 1" "ends_within E (clientFor L name) 3"
proof -
  show http: "ends_within E (buildHTTPClient L tls) 1" for tls
    by (auto simp: buildHTTPClient_def Let_def intro!: ends_step split: sum.split option.split)
  show "ends_within E (clientFor L name) 3"
    by (auto simp: clientFor_unfold intro!: ends_step http [THEN ends_bind] split: sum.split)
qed

lemmas ends_calls = ends_endpoints [THEN ends_bind] ends_GetRule [THEN ends_bind] ends_client [THEN ends_bind]

section \<open>The reconcilers\<close>

lemma ends_alias:
  "ends_within E (AliasReconciler_setReadyFailed L x reason msg e) 1"
  "ends_within E (AliasReconciler_setReadySuccess L x uuid) 1"
  "ends_within E (alias_remove_finalizer L x) 1"
  by (auto simp: AliasReconciler_setReadyFailed_def AliasReconciler_setReadySuccess_def
      AliasReconciler_setReadyCondition_def alias_remove_finalizer_def intro!: ends_step split: option.split)

lemma ends_resolve_alias: "ends_within E (AliasReconciler_resolveExternalAlias L c x) 3"
proof -
  have "ends_within E (resolve_alias_by_name L c x) 2"
    by (auto simp: resolve_alias_by_name_def intro!: ends_calls split: sum.split)
  then show ?thesis
    by (auto simp: AliasReconciler_resolveExternalAlias_def Let_def intro!: ends_calls
        intro: ends_mono split: sum.split)
qed

lemma ends_rule:
  "ends_within E (FirewallRuleReconciler_setReadyFailed L x reason msg e) 1"
  "ends_within E (FirewallRuleReconciler_setReadySuccess L x uuid seq) 1"
  "ends_within E (rule_remove_finalizer L x) 1"
  by (auto simp: FirewallRuleReconciler_setReadyFailed_def FirewallRuleReconciler_setReadySuccess_def
      FirewallRuleReconciler_setReadyCondition_def rule_remove_finalizer_def intro!: ends_step
      split: option.split)

lemma ends_resolve_rule: "ends_within E (FirewallRuleReconciler_resolveExternalRule L c x) 13"
proof -
  have "ends_within E (resolve_rule_by_suffix L c x) 7"
    by (auto simp: resolve_rule_by_suffix_def Let_def intro!: ends_calls split: sum.split list.split)
  then show ?thesis
    by (auto simp: FirewallRuleReconciler_resolveExternalRule_def Let_def intro!: ends_calls
        intro: ends_mono split: sum.split)
qed

lemma ends_conn: "ends_within E (OPNsenseConnectionReconciler_setReadyFailed L x reason msg e) 1"
  "ends_within E (OPNsenseConnectionReconciler_setReadyCondition L x status reason msg) 1"
  by (auto simp: OPNsenseConnectionReconciler_setReadyFailed_def
      OPNsenseConnectionReconciler_setReadyCondition_def intro!: ends_step split: option.split)

lemmas ends_reports = ends_alias [THEN ends_mono] ends_rule [THEN ends_mono] ends_conn [THEN ends_mono]

lemma ends_alias_changes:
  "ends_within E (AliasReconciler_create L c x) 3" "ends_within E (AliasReconciler_update L c x uuid) 3"
  "ends_within E (AliasReconciler_delete L x) 6"
  by (auto simp: AliasReconciler_create_def AliasReconciler_update_def AliasReconciler_delete_def
      alias_client.build_eq Let_def intro!: ends_calls ends_reports split: sum.split)

lemma ends_alias_sync: "ends_within E (AliasReconciler_sync L x) 9"
  by (auto simp: AliasReconciler_sync_def alias_client.build_eq
      intro!: ends_calls ends_resolve_alias [THEN ends_bind] ends_reports ends_alias_changes [THEN ends_mono]
      split: sum.split option.split)

lemma ends_rule_changes:
  "ends_within E (FirewallRuleReconciler_create L c x) 9" "ends_within E (FirewallRuleReconciler_update L c x uuid) 9"
  "ends_within E (FirewallRuleReconciler_reconcileDelete L x) 6"
  by (auto simp: FirewallRuleReconciler_create_def FirewallRuleReconciler_update_def rule_apply_and_read_def
      FirewallRuleReconciler_reconcileDelete_def
      rule_client.build_eq Let_def intro!: ends_calls ends_reports split: sum.split)

lemma ends_rule_sync: "ends_within E (FirewallRuleReconciler_sync L x) 25"
  by (auto simp: FirewallRuleReconciler_sync_def rule_client.build_eq
      intro!: ends_calls ends_resolve_rule [THEN ends_bind] ends_reports ends_rule_changes [THEN ends_mono]
      split: sum.split option.split)

lemma ends_reconcilers:
  "ends_within E (AliasReconciler_Reconcile L n) 10"
  "ends_within E (FirewallRuleReconciler_Reconcile L n) 26"
  "ends_within E (OPNsenseConnectionReconciler_Reconcile L n) 5"
proof -
  show "ends_within E (AliasReconciler_Reconcile L n) 10"
    by (auto simp: AliasReconciler_Reconcile_def split: sum.split option.split
        intro!: ends_step ends_alias_sync ends_alias_changes [THEN ends_mono])
  show "ends_within E (FirewallRuleReconciler_Reconcile L n) 26"
    by (auto simp: FirewallRuleReconciler_Reconcile_def split: sum.split option.split
        intro!: ends_step ends_rule_sync ends_rule_changes [THEN ends_mono])
  show "ends_within E (OPNsenseConnectionReconciler_Reconcile L n) 5"
    by (auto simp: OPNsenseConnectionReconciler_Reconcile_def OPNsenseConnectionReconciler_verify_def Let_def
        intro!: ends_step ends_calls ends_reports ends_conn(2) [THEN ends_bind] split: sum.split)
qed

section \<open>Property\<close>

text \<open>
  C15: every reconciliation comes to an end.  Whatever the API server and OPNsense answer, the alias
  reconciler is done after at most 10 calls, the firewall rule reconciler after 26, of which up to 15 are
  ranges over the maps of a rule read back, and the connection reconciler after 5.
\<close>

theorem reconciliations_end:
  "length (fst (exec E (AliasReconciler_Reconcile L n) w)) \<le> 10 \<and>
   length (fst (exec E (FirewallRuleReconciler_Reconcile L n) w)) \<le> 26 \<and>
   length (fst (exec E (OPNsenseConnectionReconciler_Reconcile L n) w)) \<le> 5"
  by (intro conjI; rule ends_reconcilers [unfolded ends_within_def, THEN spec])

end
