(* ===== verification/Manager.thy ===== *)
theory Manager
  imports GoStrings
begin

text \<open>
  The executable, cmd/main.go: its command line, the options it gives to the manager, and the order
  in which the manager is set up and started.  With it, the scheme of api/v1alpha1/groupversion_info.go
  and the registration of the controllers (\<open>SetupWithManager\<close>).

  The \<open>flag\<close> package is modelled as far as \<open>flag.Parse\<close> uses it here.  The flags that
  \<open>zap.Options.BindFlags\<close> adds are a parameter: which there are, whether they are boolean, and which
  values they accept.  The manager itself is a parameter, too: an oracle says which calls succeed.
\<close>

section \<open>Flags\<close>

record options =
  metricsAddr :: string
  metricsCertPath :: string
  metricsCertName :: string
  metricsCertKey :: string
  webhookCertPath :: string
  webhookCertName :: string
  webhookCertKey :: string
  enableLeaderElection :: bool
  probeAddr :: string
  secureMetrics :: bool
  enableHTTP2 :: bool

definition default_options :: options where
  "default_options =
     \<lparr>metricsAddr = ''0'', metricsCertPath = [], metricsCertName = ''tls.crt'',
      metricsCertKey = ''tls.key'', webhookCertPath = [], webhookCertName = ''tls.crt'',
      webhookCertKey = ''tls.key'', enableLeaderElection = False, probeAddr = '':8081'',
      secureMetrics = True, enableHTTP2 = False\<rparr>"

datatype flag = StringVar "string \<Rightarrow> options \<Rightarrow> options" | BoolVar "bool \<Rightarrow> options \<Rightarrow> options"

definition own_flags :: "(string \<times> flag) list" where
  "own_flags =
     [(''metrics-bind-address'', StringVar (\<lambda>v. metricsAddr_update (\<lambda>_. v))),
      (''health-probe-bind-address'', StringVar (\<lambda>v. probeAddr_update (\<lambda>_. v))),
      (''leader-elect'', BoolVar (\<lambda>v. enableLeaderElection_update (\<lambda>_. v))),
      (''metrics-secure'', BoolVar (\<lambda>v. secureMetrics_update (\<lambda>_. v))),
      (''webhook-cert-path'', StringVar (\<lambda>v. webhookCertPath_update (\<lambda>_. v))),
      (''webhook-cert-name'', StringVar (\<lambda>v. webhookCertName_update (\<lambda>_. v))),
      (''webhook-cert-key'', StringVar (\<lambda>v. webhookCertKey_update (\<lambda>_. v))),
      (''metrics-cert-path'', StringVar (\<lambda>v. metricsCertPath_update (\<lambda>_. v))),
      (''metrics-cert-name'', StringVar (\<lambda>v. metricsCertName_update (\<lambda>_. v))),
      (''metrics-cert-key'', StringVar (\<lambda>v. metricsCertKey_update (\<lambda>_. v))),
      (''enable-http2'', BoolVar (\<lambda>v. enableHTTP2_update (\<lambda>_. v)))]"

text \<open>A word of the command line, as \<open>FlagSet.parseOne\<close> reads it.\<close>

datatype arg_word = NotFlag | Terminator | BadSyntax | Flag string "string option"

definition split_value :: "string \<Rightarrow> arg_word" where
  "split_value name =
     (case dropWhile (\<lambda>c. c \<noteq> CHR ''='') name of
        [] \<Rightarrow> Flag name None
      | _ # v \<Rightarrow> Flag (takeWhile (\<lambda>c. c \<noteq> CHR ''='') name) (Some v))"

definition read_word :: "string \<Rightarrow> arg_word" where
  "read_word s =
     (case s of
        CHR ''-'' # c # rest \<Rightarrow>
          if c = CHR ''-'' \<and> rest = [] then Terminator
          else
            (let name = (if c = CHR ''-'' then rest else c # rest) in
             if hd name \<in> {CHR ''-'', CHR ''=''} then BadSyntax else split_value name)
      | _ \<Rightarrow> NotFlag)"

definition ParseBool :: "string \<Rightarrow> bool option" where
  "ParseBool s =
     (if s \<in> {''1'', ''t'', ''T'', ''TRUE'', ''true'', ''True''} then Some True
      else if s \<in> {''0'', ''f'', ''F'', ''FALSE'', ''false'', ''False''} then Some False
      else None)"

record zap_flags =
  zap_IsBool :: "string \<Rightarrow> bool option"
  zap_Set :: "string \<Rightarrow> string \<Rightarrow> bool"

datatype parsed = Parsed options | Help | Refused

text \<open>What to do with a flag: a value, or none, goes to one of the program or to one of zap.\<close>

definition flag_is_bool :: "zap_flags \<Rightarrow> string \<Rightarrow> bool option" where
  "flag_is_bool z name =
     (case map_of own_flags name of
        Some (BoolVar f) \<Rightarrow> Some True
      | Some (StringVar f) \<Rightarrow> Some False
      | None \<Rightarrow> zap_IsBool z name)"

definition set_flag :: "zap_flags \<Rightarrow> string \<Rightarrow> string \<Rightarrow> options \<Rightarrow> options option" where
  "set_flag z name v opts =
     (case map_of own_flags name of
        Some (BoolVar f) \<Rightarrow> map_option (\<lambda>b. f b opts) (ParseBool v)
      | Some (StringVar f) \<Rightarrow> Some (f v opts)
      | None \<Rightarrow> if zap_Set z name v then Some opts else None)"

text \<open>The value of a flag and the words after it: a boolean flag needs none, another takes the next word.\<close>

fun flag_value :: "bool \<Rightarrow> string option \<Rightarrow> string list \<Rightarrow> (string \<times> string list) option" where
  "flag_value boolean (Some v) args = Some (v, args)"
| "flag_value True None args = Some (''true'', args)"
| "flag_value False None [] = None"
| "flag_value False None (v # args) = Some (v, args)"

lemma flag_value_shorter: "flag_value boolean given args = Some (v, rest) \<Longrightarrow> suffix rest args"
  by (cases "(boolean, given, args)" rule: flag_value.cases) (auto simp: suffix_def)

function parse_flags :: "zap_flags \<Rightarrow> string list \<Rightarrow> options \<Rightarrow> parsed" where
  "parse_flags z [] opts = Parsed opts"
| "parse_flags z (s # args) opts =
     (case read_word s of
        NotFlag \<Rightarrow> Parsed opts
      | Terminator \<Rightarrow> Parsed opts
      | BadSyntax \<Rightarrow> Refused
      | Flag name given \<Rightarrow>
          (case flag_is_bool z name of
             None \<Rightarrow> if name \<in> {''help'', ''h''} then Help else Refused
           | Some boolean \<Rightarrow>
               (case flag_value boolean given args of
                  None \<Rightarrow> Refused
                | Some (v, rest) \<Rightarrow>
                    (case set_flag z name v opts of
                       None \<Rightarrow> Refused
                     | Some opts' \<Rightarrow> parse_flags z rest opts'))))"
  by pat_completeness auto

termination
  by (relation "measure (\<lambda>(z, args, opts). length args)")
    (auto dest!: flag_value_shorter dest: suffix_length_le simp: less_Suc_eq_le)

section \<open>Options of the manager\<close>

record tls_Config =
  NextProtos :: "string list"

definition disableHTTP2 :: "tls_Config \<Rightarrow> tls_Config" where
  "disableHTTP2 c = c\<lparr>NextProtos := [''http/1.1'']\<rparr>"

definition tlsOpts :: "options \<Rightarrow> (tls_Config \<Rightarrow> tls_Config) list" where
  "tlsOpts opts = (if \<not> enableHTTP2 opts then [disableHTTP2] else [])"

record certificates =
  CertDir :: string
  CertName :: string
  KeyName :: string

definition given_certificates :: "string \<Rightarrow> string \<Rightarrow> string \<Rightarrow> certificates" where
  "given_certificates path name key =
     (if length path > 0 then \<lparr>CertDir = path, CertName = name, KeyName = key\<rparr>
      else \<lparr>CertDir = [], CertName = [], KeyName = []\<rparr>)"

record webhook_Options =
  wh_TLSOpts :: "(tls_Config \<Rightarrow> tls_Config) list"
  wh_Certificates :: certificates

definition webhookServerOptions :: "options \<Rightarrow> webhook_Options" where
  "webhookServerOptions opts =
     \<lparr>wh_TLSOpts = tlsOpts opts,
      wh_Certificates =
        given_certificates (webhookCertPath opts) (webhookCertName opts) (webhookCertKey opts)\<rparr>"

text \<open>\<open>WithAuthenticationAndAuthorization\<close> is the one filter the program knows; nil is none.\<close>

datatype filter_provider = WithAuthenticationAndAuthorization

record metricsserver_Options =
  ms_BindAddress :: string
  ms_SecureServing :: bool
  ms_TLSOpts :: "(tls_Config \<Rightarrow> tls_Config) list"
  ms_FilterProvider :: "filter_provider option"
  ms_Certificates :: certificates

definition metricsServerOptions :: "options \<Rightarrow> metricsserver_Options" where
  "metricsServerOptions opts =
     \<lparr>ms_BindAddress = metricsAddr opts, ms_SecureServing = secureMetrics opts,
      ms_TLSOpts = tlsOpts opts,
      ms_FilterProvider = (if secureMetrics opts then Some WithAuthenticationAndAuthorization else None),
      ms_Certificates =
        given_certificates (metricsCertPath opts) (metricsCertName opts) (metricsCertKey opts)\<rparr>"

text \<open>The scheme: which kinds of which group and version are known, here those of the repository.\<close>

record GroupVersionKind =
  gvk_Group :: string
  gvk_Version :: string
  gvk_Kind :: string

type_synonym scheme = "GroupVersionKind list"

definition SchemeGroupVersion :: "string \<Rightarrow> GroupVersionKind" where
  "SchemeGroupVersion kind =
     \<lparr>gvk_Group = ''firewall.opnsense.io'', gvk_Version = ''v1alpha1'', gvk_Kind = kind\<rparr>"

definition registered_kinds :: "string list" where
  "registered_kinds =
     [''Alias'', ''AliasList''] @ [''FirewallRule'', ''FirewallRuleList'']
       @ [''OPNsenseConnection'', ''OPNsenseConnectionList'']"

definition AddToScheme :: "scheme \<Rightarrow> scheme" where
  "AddToScheme known = known @ map SchemeGroupVersion registered_kinds"

record ctrl_Options =
  mo_Scheme :: scheme
  mo_Metrics :: metricsserver_Options
  mo_WebhookServer :: webhook_Options
  mo_HealthProbeBindAddress :: string
  mo_LeaderElection :: bool
  mo_LeaderElectionID :: string

definition manager_options :: "scheme \<Rightarrow> options \<Rightarrow> ctrl_Options" where
  "manager_options clientgo opts =
     \<lparr>mo_Scheme = AddToScheme clientgo, mo_Metrics = metricsServerOptions opts,
      mo_WebhookServer = webhookServerOptions opts, mo_HealthProbeBindAddress = probeAddr opts,
      mo_LeaderElection = enableLeaderElection opts, mo_LeaderElectionID = ''03aae5f3.opnsense.io''\<rparr>"

section \<open>Setting up and starting\<close>

record registration =
  reg_For :: GroupVersionKind
  reg_Name :: string

definition AliasReconciler_SetupWithManager :: registration where
  "AliasReconciler_SetupWithManager = \<lparr>reg_For = SchemeGroupVersion ''Alias'', reg_Name = ''alias''\<rparr>"

definition OPNsenseConnectionReconciler_SetupWithManager :: registration where
  "OPNsenseConnectionReconciler_SetupWithManager =
     \<lparr>reg_For = SchemeGroupVersion ''OPNsenseConnection'', reg_Name = ''opnsenseconnection''\<rparr>"

definition FirewallRuleReconciler_SetupWithManager :: registration where
  "FirewallRuleReconciler_SetupWithManager =
     \<lparr>reg_For = SchemeGroupVersion ''FirewallRule'', reg_Name = ''firewallrule''\<rparr>"

datatype call =
    GetConfig
  | NewManager ctrl_Options
  | CreateController registration
  | AddHealthzCheck string
  | AddReadyzCheck string
  | Start

definition main_calls :: "scheme \<Rightarrow> options \<Rightarrow> call list" where
  "main_calls clientgo opts =
     [GetConfig,
      NewManager (manager_options clientgo opts),
      CreateController AliasReconciler_SetupWithManager,
      CreateController OPNsenseConnectionReconciler_SetupWithManager,
      CreateController FirewallRuleReconciler_SetupWithManager,
      AddHealthzCheck ''healthz'',
      AddReadyzCheck ''readyz'',
      Start]"

text \<open>The calls in order, up to the first that fails; then the process exits with status 1.\<close>

fun perform :: "(call \<Rightarrow> bool) \<Rightarrow> call list \<Rightarrow> call list \<times> nat" where
  "perform ok [] = ([], 0)"
| "perform ok (c # cs) =
     (if ok c then (case perform ok cs of (done, status) \<Rightarrow> (c # done, status)) else ([c], 1))"

text \<open>The calls made and the exit status.  \<open>flag.CommandLine\<close> exits on an error of the command line.\<close>

definition main :: "zap_flags \<Rightarrow> scheme \<Rightarrow> (call \<Rightarrow> bool) \<Rightarrow> string list \<Rightarrow> call list \<times> nat" where
  "main z clientgo ok args =
     (case parse_flags z args default_options of
        Help \<Rightarrow> ([], 0)
      | Refused \<Rightarrow> ([], 2)
      | Parsed opts \<Rightarrow> perform ok (main_calls clientgo opts))"

section \<open>What the command line can change\<close>

lemma set_flag_own:
  "set_flag z ''metrics-secure'' v opts = map_option (\<lambda>b. opts\<lparr>secureMetrics := b\<rparr>) (ParseBool v)"
  "set_flag z ''enable-http2'' v opts = map_option (\<lambda>b. opts\<lparr>enableHTTP2 := b\<rparr>) (ParseBool v)"
  "name \<noteq> ''metrics-secure'' \<Longrightarrow> set_flag z name v opts = Some opts' \<Longrightarrow> secureMetrics opts' = secureMetrics opts"
  "name \<noteq> ''enable-http2'' \<Longrightarrow> set_flag z name v opts = Some opts' \<Longrightarrow> enableHTTP2 opts' = enableHTTP2 opts"
  by (auto simp: set_flag_def own_flags_def split: if_splits)

lemma flag_is_bool_own:
  "flag_is_bool z ''metrics-secure'' = Some True" "flag_is_bool z ''enable-http2'' = Some True"
  by (simp_all add: flag_is_bool_def own_flags_def)

text \<open>
  Reading the flags keeps whatever each of them keeps.  The value a flag gets is the one in its word,
  \<open>true\<close> for a boolean flag without one, and anything for another flag.
\<close>

lemma parse_flags_invariant:
  assumes "parse_flags z args opts = Parsed opts'" and "P opts"
    and "\<And>s name given v o1 o2. s \<in> set args \<Longrightarrow> read_word s = Flag name given \<Longrightarrow>
       given = Some v \<or> given = None \<and> (flag_is_bool z name = Some True \<longrightarrow> v = ''true'') \<Longrightarrow>
       set_flag z name v o1 = Some o2 \<Longrightarrow> P o1 \<Longrightarrow> P o2"
  shows "P opts'"
  using assms
proof (induction z args opts rule: parse_flags.induct)
  case (2 z s args opts)
  show ?case
  proof (cases "read_word s")
    case (Flag name given)
    then consider "opts' = opts" | boolean v rest o1 where
        "flag_is_bool z name = Some boolean" "flag_value boolean given args = Some (v, rest)"
        "set_flag z name v opts = Some o1" "parse_flags z rest o1 = Parsed opts'"
      using "2.prems"(1) by (auto split: option.splits if_splits)
    then show ?thesis
    proof cases
      case 2
      have "P o1"
        using "2.prems"(3) [OF _ Flag _ 2(3) "2.prems"(2)] 2(1,2)
        by (cases "(boolean, given, args)" rule: flag_value.cases) auto
      moreover have "set rest \<subseteq> set args"
        using flag_value_shorter [OF 2(2)] by (rule set_mono_suffix)
      ultimately show ?thesis
        using "2.IH" [OF Flag 2(1,2) refl 2(3,4)] "2.prems"(3) by (meson list.set_intros(2) subsetD)
    qed (use "2.prems"(2) in simp)
  qed (use "2.prems" in simp_all)
qed simp

text \<open>A word that sets a boolean flag to a value.\<close>

definition sets :: "string \<Rightarrow> bool \<Rightarrow> string list \<Rightarrow> bool" where
  "sets name b args \<longleftrightarrow>
     (\<exists>s given. s \<in> set args \<and> read_word s = Flag name given \<and>
        ParseBool (case given of Some v \<Rightarrow> v | None \<Rightarrow> ''true'') = Some b)"

lemma secure_kept:
  assumes "parse_flags z args opts = Parsed opts'" and "secureMetrics opts"
    and "\<not> sets ''metrics-secure'' False args"
  shows "secureMetrics opts'"
  using assms(1,2)
proof (rule parse_flags_invariant)
  fix s name given v o1 o2
  assume "s \<in> set args" "read_word s = Flag name given" "set_flag z name v o1 = Some o2" "secureMetrics o1"
    "given = Some v \<or> given = None \<and> (flag_is_bool z name = Some True \<longrightarrow> v = ''true'')"
  with assms(3) show "secureMetrics o2"
    by (cases "name = ''metrics-secure''")
      (auto simp: set_flag_own(1) flag_is_bool_own sets_def dest: set_flag_own(3))
qed

lemma http2_kept:
  assumes "parse_flags z args opts = Parsed opts'" and "\<not> enableHTTP2 opts"
    and "\<not> sets ''enable-http2'' True args"
  shows "\<not> enableHTTP2 opts'"
  using assms(1,2)
proof (rule parse_flags_invariant)
  fix s name given v o1 o2
  assume "s \<in> set args" "read_word s = Flag name given" "set_flag z name v o1 = Some o2" "\<not> enableHTTP2 o1"
    "given = Some v \<or> given = None \<and> (flag_is_bool z name = Some True \<longrightarrow> v = ''true'')"
  with assms(3) show "\<not> enableHTTP2 o2"
    by (cases "name = ''enable-http2''")
      (auto simp: set_flag_own(2) flag_is_bool_own sets_def dest: set_flag_own(4))
qed

section \<open>What was set up when the manager starts\<close>

lemma perform_prefix:
  "perform ok cs = (done, status) \<Longrightarrow>
     prefix done cs \<and> list_all ok (butlast done) \<and>
     (status = 0 \<longleftrightarrow> done = cs \<and> list_all ok cs) \<and> status \<le> 1 \<and>
     (status = 1 \<longrightarrow> done \<noteq> [] \<and> \<not> ok (last done))"
  by (induction cs arbitrary: "done") (auto split: if_splits prod.splits)

lemma perform_subset: "set (fst (perform ok cs)) \<subseteq> set cs"
  using perform_prefix [of ok cs] set_mono_prefix by (metis prod.collapse)

text \<open>A command line that asks for given options.\<close>

definition flag_word :: "string \<Rightarrow> string \<Rightarrow> string" where
  "flag_word name v = ''-'' @ name @ ''='' @ v"

definition bool_text :: "bool \<Rightarrow> string" where
  "bool_text b = (if b then ''true'' else ''false'')"

definition command_line :: "options \<Rightarrow> string list" where
  "command_line opts =
     [flag_word ''metrics-bind-address'' (metricsAddr opts),
      flag_word ''health-probe-bind-address'' (probeAddr opts),
      flag_word ''leader-elect'' (bool_text (enableLeaderElection opts)),
      flag_word ''metrics-secure'' (bool_text (secureMetrics opts)),
      flag_word ''webhook-cert-path'' (webhookCertPath opts),
      flag_word ''webhook-cert-name'' (webhookCertName opts),
      flag_word ''webhook-cert-key'' (webhookCertKey opts),
      flag_word ''metrics-cert-path'' (metricsCertPath opts),
      flag_word ''metrics-cert-name'' (metricsCertName opts),
      flag_word ''metrics-cert-key'' (metricsCertKey opts),
      flag_word ''enable-http2'' (bool_text (enableHTTP2 opts))]"

lemma read_flag_word:
  "name \<noteq> [] \<Longrightarrow> hd name \<noteq> CHR ''-'' \<Longrightarrow> CHR ''='' \<notin> set name \<Longrightarrow>
     read_word (flag_word name v) = Flag name (Some v)"
  by (cases name) (auto simp: read_word_def flag_word_def split_value_def dropWhile_append takeWhile_append
      dropWhile_eq_Nil_conv split: if_splits)

lemma ParseBool_text: "ParseBool (bool_text b) = Some b"
  by (simp add: ParseBool_def bool_text_def)

lemma parse_flag_word:
  assumes "name \<noteq> []" and "hd name \<noteq> CHR ''-''" and "CHR ''='' \<notin> set name"
    and "flag_is_bool z name \<noteq> None" and "set_flag z name v opts = Some opts'"
  shows "parse_flags z (flag_word name v # args) opts = parse_flags z args opts'"
  using assms by (auto simp: read_flag_word)

section \<open>Properties\<close>

text \<open>
  C38: the defaults are the safe ones.  In the options the manager is created with, the metrics
  endpoint is served over TLS with authentication and authorisation unless a word of the command line
  sets metrics-secure to false, and both servers speak HTTP/1.1 only unless a word sets enable-http2.
\<close>

theorem hardened_by_default:
  assumes "NewManager m \<in> set (fst (main z clientgo ok args))"
  shows "(sets ''metrics-secure'' False args \<or>
      ms_SecureServing (mo_Metrics m) \<and>
      ms_FilterProvider (mo_Metrics m) = Some WithAuthenticationAndAuthorization) \<and>
    (sets ''enable-http2'' True args \<or>
      (\<forall>c. NextProtos (fold (\<lambda>f. f) (ms_TLSOpts (mo_Metrics m)) c) = [''http/1.1''] \<and>
           NextProtos (fold (\<lambda>f. f) (wh_TLSOpts (mo_WebhookServer m)) c) = [''http/1.1'']))"
proof -
  from assms obtain opts where opts: "parse_flags z args default_options = Parsed opts"
      and made: "NewManager m \<in> set (fst (perform ok (main_calls clientgo opts)))"
    by (auto simp: main_def split: parsed.splits)
  have m: "m = manager_options clientgo opts"
    using subsetD [OF perform_subset made] by (simp add: main_calls_def)
  have "sets ''metrics-secure'' False args \<or> secureMetrics opts"
    using secure_kept [OF opts] by (auto simp: default_options_def)
  moreover have "sets ''enable-http2'' True args \<or> \<not> enableHTTP2 opts"
    using http2_kept [OF opts] by (auto simp: default_options_def)
  ultimately show ?thesis
    by (auto simp: m manager_options_def metricsServerOptions_def webhookServerOptions_def tlsOpts_def
        disableHTTP2_def)
qed

text \<open>
  C39: the manager is started only when everything is in place: it was created, all three controllers
  and both checks were added, and none of this failed.  The kinds the controllers watch, which differ,
  are known to its scheme, and the exit status says whether the manager ran to its end.
\<close>

theorem started_when_set_up:
  assumes "main z clientgo ok args = (calls, status)" and "Start \<in> set calls"
  shows "\<exists>m. NewManager m \<in> set calls \<and>
     {r. CreateController r \<in> set calls} =
       {AliasReconciler_SetupWithManager, OPNsenseConnectionReconciler_SetupWithManager,
        FirewallRuleReconciler_SetupWithManager} \<and>
     (\<forall>r. CreateController r \<in> set calls \<longrightarrow> reg_For r \<in> set (mo_Scheme m)) \<and>
     inj_on reg_Name {r. CreateController r \<in> set calls} \<and>
     AddHealthzCheck ''healthz'' \<in> set calls \<and> AddReadyzCheck ''readyz'' \<in> set calls \<and>
     last calls = Start \<and> list_all ok (butlast calls) \<and> (status = 0 \<longleftrightarrow> ok Start)"
proof -
  obtain opts where perform: "perform ok (main_calls clientgo opts) = (calls, status)"
    using assms by (auto simp: main_def split: parsed.splits)
  then have calls: "calls = main_calls clientgo opts"
    using assms(2) perform_prefix [OF perform]
    by (auto simp: main_calls_def prefix_Cons)
  have controllers: "{r. CreateController r \<in> set calls} =
      {AliasReconciler_SetupWithManager, OPNsenseConnectionReconciler_SetupWithManager,
       FirewallRuleReconciler_SetupWithManager}"
    by (auto simp: calls main_calls_def)
  have names: "inj_on reg_Name {r. CreateController r \<in> set calls}"
    unfolding controllers
    by (simp add: AliasReconciler_SetupWithManager_def OPNsenseConnectionReconciler_SetupWithManager_def
        FirewallRuleReconciler_SetupWithManager_def)
  have known: "reg_For r \<in> set (mo_Scheme (manager_options clientgo opts))"
    if "CreateController r \<in> set calls" for r
  proof -
    from that have "r \<in> {r. CreateController r \<in> set calls}" by simp
    then show ?thesis
      unfolding controllers
      by (auto simp: manager_options_def AddToScheme_def registered_kinds_def
          AliasReconciler_SetupWithManager_def OPNsenseConnectionReconciler_SetupWithManager_def
          FirewallRuleReconciler_SetupWithManager_def)
  qed
  have made: "NewManager (manager_options clientgo opts) \<in> set calls"
      "AddHealthzCheck ''healthz'' \<in> set calls" "AddReadyzCheck ''readyz'' \<in> set calls"
      "last calls = Start"
    by (simp_all add: calls main_calls_def)
  have success: "list_all ok (butlast calls)" "status = 0 \<longleftrightarrow> ok Start"
    using perform_prefix [OF perform] by (auto simp: calls main_calls_def)
  show ?thesis
  proof (rule exI [of _ "manager_options clientgo opts"], intro conjI allI impI)
    show "reg_For r \<in> set (mo_Scheme (manager_options clientgo opts))"
      if "CreateController r \<in> set calls" for r
      by (rule known [OF that])
  qed (fact made controllers names success)+
qed

text \<open>
  C40: every configuration can be asked for: a command line that names each flag with its value is read
  as these options, whatever the defaults.
\<close>

theorem flags_roundtrip:
  "parse_flags z (command_line opts) defaults = Parsed opts"
  by (cases opts)
    (simp add: command_line_def parse_flag_word flag_is_bool_def set_flag_def own_flags_def ParseBool_text
      del: parse_flags.simps(2))

section \<open>A start\<close>

definition demo_zap :: zap_flags where
  "demo_zap = \<lparr>zap_IsBool = (\<lambda>name. if name = ''zap-devel'' then Some True else None),
     zap_Set = (\<lambda>name v. ParseBool v \<noteq> None)\<rparr>"

definition demo_args :: "string list" where
  "demo_args = [''--leader-elect'', ''-zap-devel=false'', ''--metrics-bind-address'', '':8443'']"

definition demo_options :: options where
  "demo_options = default_options\<lparr>enableLeaderElection := True, metricsAddr := '':8443''\<rparr>"

lemma demo_words:
  "read_word ''--leader-elect'' = Flag ''leader-elect'' None"
  "read_word ''-zap-devel=false'' = Flag ''zap-devel'' (Some ''false'')"
  "read_word ''--metrics-bind-address'' = Flag ''metrics-bind-address'' None"
  "read_word '':8443'' = NotFlag"
  by code_simp+

lemma demo_parsed: "parse_flags demo_zap demo_args default_options = Parsed demo_options"
  by (simp add: demo_args_def demo_words flag_is_bool_def set_flag_def own_flags_def demo_zap_def
      ParseBool_def demo_options_def) (rule exI [of _ False], simp)

lemma demo_start:
  "main demo_zap [] (\<lambda>c. True) demo_args = (main_calls [] demo_options, 0)"
  by (simp add: main_def demo_parsed main_calls_def)

lemma demo_sets:
  "\<not> sets ''metrics-secure'' False demo_args" "\<not> sets ''enable-http2'' True demo_args"
  by (auto simp: sets_def demo_args_def demo_words)

lemma hardened_by_default_witness:
  "ms_SecureServing (mo_Metrics (manager_options [] demo_options)) \<and>
   ms_FilterProvider (mo_Metrics (manager_options [] demo_options)) = Some WithAuthenticationAndAuthorization"
proof -
  have "NewManager (manager_options [] demo_options) \<in> set (fst (main demo_zap [] (\<lambda>c. True) demo_args))"
    by (simp add: demo_start main_calls_def)
  from hardened_by_default [OF this] show ?thesis using demo_sets by blast
qed

lemma started_when_set_up_witness:
  "\<exists>m. NewManager m \<in> set (main_calls [] demo_options) \<and>
     {r. CreateController r \<in> set (main_calls [] demo_options)} =
       {AliasReconciler_SetupWithManager, OPNsenseConnectionReconciler_SetupWithManager,
        FirewallRuleReconciler_SetupWithManager}"
proof -
  have "Start \<in> set (main_calls [] demo_options)" by (simp add: main_calls_def)
  from started_when_set_up [OF demo_start this] show ?thesis by blast
qed

end
