(* ===== verification/Memory.thy ===== *)
theory Memory
  imports ApiTypes
begin

text \<open>
  Memory as the deep copies of api/v1alpha1/zz_generated.deepcopy.go see it.  A slice is nil or an array
  of the heap with an offset and a length, a pointer is nil or an address; the heap is the list of the
  cells allocated so far.  The theory states what a deep copy is, as a contract, and proves it for the
  ways in which the generated code copies: a pointer, the elements of a slice, the fields of a struct.
\<close>

section \<open>Structs as they lie in memory\<close>

type_synonym addr = nat

record slice =
  sl_array :: addr
  sl_offset :: nat
  sl_len :: nat

record AliasSpec_mem =
  asm_ConnectionRef :: OPNsenseConnectionReference
  asm_Name :: string
  asm_Type :: string
  asm_Entries :: "slice option"
  asm_Description :: string
  asm_Enabled :: bool

record AliasStatus_mem =
  astm_UUID :: string
  astm_ObservedGeneration :: "64 word"
  astm_Conditions :: "slice option"

record FirewallRuleSpec_mem =
  rsm_ConnectionRef :: OPNsenseConnectionReference
  rsm_Enabled :: bool
  rsm_Action :: string
  rsm_Direction :: string
  rsm_Interface :: string
  rsm_IPProtocol :: string
  rsm_Protocol :: string
  rsm_Source :: FirewallRuleEndpoint
  rsm_Destination :: FirewallRuleEndpoint
  rsm_Sequence :: "addr option"
  rsm_Quick :: bool
  rsm_Log :: bool
  rsm_Description :: string

record FirewallRuleStatus_mem =
  rstm_UUID :: string
  rstm_Sequence :: string
  rstm_ObservedGeneration :: "64 word"
  rstm_Conditions :: "slice option"

record TLSSpec_mem =
  tm_InsecureSkipVerify :: bool
  tm_CASecretRef :: "addr option"

record OPNsenseConnectionSpec_mem =
  csm_URL :: string
  csm_Credentials :: CredentialsSpec
  csm_TLS :: "addr option"

record OPNsenseConnectionStatus_mem =
  cstm_Conditions :: "slice option"

text \<open>Objects of the API and lists of them, with the metadata of apimachinery that the program uses.\<close>

record TypeMeta =
  tm_Kind :: string
  tm_APIVersion :: string

record ObjectMeta_mem =
  omm_Name :: string
  omm_Namespace :: string
  omm_Generation :: "64 word"
  omm_DeletionTimestamp :: "int option"
  omm_Finalizers :: "slice option"

record ListMeta_mem =
  lmm_ResourceVersion :: string
  lmm_Continue :: string
  lmm_RemainingItemCount :: "addr option"

record ('s, 't) object_mem =
  obj_TypeMeta :: TypeMeta
  obj_ObjectMeta :: ObjectMeta_mem
  obj_Spec :: 's
  obj_Status :: 't

type_synonym Alias_mem = "(AliasSpec_mem, AliasStatus_mem) object_mem"
type_synonym FirewallRule_mem = "(FirewallRuleSpec_mem, FirewallRuleStatus_mem) object_mem"
type_synonym OPNsenseConnection_mem =
  "(OPNsenseConnectionSpec_mem, OPNsenseConnectionStatus_mem) object_mem"

record list_mem =
  lst_TypeMeta :: TypeMeta
  lst_ListMeta :: ListMeta_mem
  lst_Items :: "slice option"

type_synonym AliasList_mem = list_mem
type_synonym FirewallRuleList_mem = list_mem
type_synonym OPNsenseConnectionList_mem = list_mem

text \<open>A cell is what \<open>make\<close> or \<open>new\<close> allocates: an array, or a value behind a pointer.\<close>

datatype cell =
    Strings "string list"
  | Conditions "Condition list"
  | Aliases "Alias_mem list"
  | FirewallRules "FirewallRule_mem list"
  | OPNsenseConnections "OPNsenseConnection_mem list"
  | Int32 "32 word"
  | Int64 "64 word"
  | SecretRef SecretReference
  | TLS TLSSpec_mem

definition strings_of :: "cell \<Rightarrow> string list option" where
  "strings_of c = (case c of Strings xs \<Rightarrow> Some xs | _ \<Rightarrow> None)"

definition conditions_of :: "cell \<Rightarrow> Condition list option" where
  "conditions_of c = (case c of Conditions xs \<Rightarrow> Some xs | _ \<Rightarrow> None)"

definition aliases_of :: "cell \<Rightarrow> Alias_mem list option" where
  "aliases_of c = (case c of Aliases xs \<Rightarrow> Some xs | _ \<Rightarrow> None)"

definition rules_of :: "cell \<Rightarrow> FirewallRule_mem list option" where
  "rules_of c = (case c of FirewallRules xs \<Rightarrow> Some xs | _ \<Rightarrow> None)"

definition connections_of :: "cell \<Rightarrow> OPNsenseConnection_mem list option" where
  "connections_of c = (case c of OPNsenseConnections xs \<Rightarrow> Some xs | _ \<Rightarrow> None)"

definition int32_of :: "cell \<Rightarrow> 32 word option" where
  "int32_of c = (case c of Int32 w \<Rightarrow> Some w | _ \<Rightarrow> None)"

definition int64_of :: "cell \<Rightarrow> 64 word option" where
  "int64_of c = (case c of Int64 w \<Rightarrow> Some w | _ \<Rightarrow> None)"

definition secretRef_of :: "cell \<Rightarrow> SecretReference option" where
  "secretRef_of c = (case c of SecretRef r \<Rightarrow> Some r | _ \<Rightarrow> None)"

definition TLS_of :: "cell \<Rightarrow> TLSSpec_mem option" where
  "TLS_of c = (case c of TLS t \<Rightarrow> Some t | _ \<Rightarrow> None)"

lemma cells_of [simp]:
  "strings_of (Strings ss) = Some ss" "conditions_of (Conditions cs) = Some cs"
  "aliases_of (Aliases as) = Some as" "rules_of (FirewallRules rs) = Some rs"
  "connections_of (OPNsenseConnections os) = Some os" "int32_of (Int32 i) = Some i"
  "int64_of (Int64 j) = Some j" "secretRef_of (SecretRef r) = Some r" "TLS_of (TLS t) = Some t"
  by (simp_all add: strings_of_def conditions_of_def aliases_of_def rules_of_def connections_of_def
      int32_of_def int64_of_def secretRef_of_def TLS_of_def)

type_synonym heap = "cell list"

text \<open>\<open>make\<close> and \<open>new\<close>: a fresh cell at the end.\<close>

definition alloc :: "heap \<Rightarrow> cell \<Rightarrow> addr \<times> heap" where
  "alloc h c = (length h, h @ [c])"

definition load :: "heap \<Rightarrow> addr \<Rightarrow> cell option" where
  "load h a = (if a < length h then Some (h ! a) else None)"

text \<open>Reading a cell as a value of a type; nothing when it is not there or of another type.\<close>

definition read :: "(cell \<Rightarrow> 'a option) \<Rightarrow> heap \<Rightarrow> addr \<Rightarrow> 'a option" where
  "read un h a = (case load h a of None \<Rightarrow> None | Some c \<Rightarrow> un c)"

definition window :: "slice \<Rightarrow> 'a list \<Rightarrow> 'a list option" where
  "window s xs =
     (if sl_offset s + sl_len s \<le> length xs then Some (take (sl_len s) (drop (sl_offset s) xs)) else None)"

definition elements :: "(cell \<Rightarrow> 'a list option) \<Rightarrow> heap \<Rightarrow> slice \<Rightarrow> 'a list option" where
  "elements un h s = (case read un h (sl_array s) of None \<Rightarrow> None | Some xs \<Rightarrow> window s xs)"

lemma load_append [simp]: "a < length h \<Longrightarrow> load (h @ g) a = load h a" "load (h @ [c]) (length h) = Some c"
  by (auto simp: load_def nth_append)

lemma read_append [simp]: "a < length h \<Longrightarrow> read un (h @ g) a = read un h a" "read un (h @ [c]) (length h) = un c"
  by (simp_all add: read_def)

lemma read_update: "a < length h \<Longrightarrow> read un (h[a := c]) b = (if b = a then un c else read un h b)"
  by (simp add: read_def load_def)

lemma read_bound: "read un h a = Some x \<Longrightarrow> a < length h"
  by (simp add: read_def load_def split: if_splits)

lemma elements_bound: "elements un h s = Some xs \<Longrightarrow> sl_array s < length h"
  by (auto simp: elements_def dest: read_bound split: option.splits)

lemma elements_length: "elements un h s = Some xs \<Longrightarrow> length xs = sl_len s"
  by (auto simp: elements_def window_def split: if_splits option.splits)

lemma elements_local: "load h' (sl_array s) = load h (sl_array s) \<Longrightarrow> elements un h' s = elements un h s"
  by (simp add: elements_def read_def)

section \<open>The contract\<close>

text \<open>
  A type of structs in memory has a view, what the struct means with everything it points to, and the
  cells it reaches.  The view depends on these cells only.  A deep copy extends the heap, has the view
  of the original, and reaches fresh cells only.
\<close>

locale viewed =
  fixes view :: "heap \<Rightarrow> 'a \<Rightarrow> 'v option" and reach :: "heap \<Rightarrow> 'a \<Rightarrow> addr set"
  assumes reach_bound: "view h x = Some v \<Longrightarrow> a \<in> reach h x \<Longrightarrow> a < length h"
    and view_local: "view h x = Some v \<Longrightarrow> (\<And>a. a \<in> reach h x \<Longrightarrow> load h' a = load h a) \<Longrightarrow>
      view h' x = Some v \<and> reach h' x = reach h x"
begin

lemma grow:
  assumes "view h x = Some v" and "prefix h h'"
  shows "view h' x = Some v" "reach h' x = reach h x"
proof -
  from assms(2) obtain g where "h' = h @ g" by (auto simp: prefix_def)
  then have "load h' a = load h a" if "a \<in> reach h x" for a
    using reach_bound [OF assms(1) that] by simp
  then show "view h' x = Some v" "reach h' x = reach h x"
    using view_local [OF assms(1)] by blast+
qed

lemma store_elsewhere:
  assumes "view h x = Some v" and "a \<notin> reach h x"
  shows "view (h[a := c]) x = Some v" "reach (h[a := c]) x = reach h x"
proof -
  have "load (h[a := c]) b = load h b" if "b \<in> reach h x" for b
    using assms(2) that by (cases "a = b") (auto simp: load_def)
  then show "view (h[a := c]) x = Some v" "reach (h[a := c]) x = reach h x"
    using view_local [OF assms(1)] by blast+
qed

end

locale deep_copy = viewed view reach
  for view :: "heap \<Rightarrow> 'a \<Rightarrow> 'v option" and reach :: "heap \<Rightarrow> 'a \<Rightarrow> addr set" +
  fixes copy :: "heap \<Rightarrow> 'a \<Rightarrow> 'a \<times> heap"
  assumes copied: "view h x = Some v \<Longrightarrow> copy h x = (y, h') \<Longrightarrow>
      prefix h h' \<and> view h' y = Some v \<and> (\<forall>a \<in> reach h' y. length h \<le> a)"
begin

text \<open>The copy and the original are separate: a store through one does not show in the other.\<close>

lemma separate:
  assumes "view h x = Some v" and "copy h x = (y, h')"
  shows "view h' y = Some v" "view h' x = Some v" "reach h' x \<inter> reach h' y = {}"
    "a \<in> reach h' y \<Longrightarrow> view (h'[a := c]) x = Some v"
    "a \<in> reach h' x \<Longrightarrow> view (h'[a := c]) y = Some v"
proof -
  note c = copied [OF assms]
  note x = grow [OF assms(1) c [THEN conjunct1]]
  show "view h' y = Some v" "view h' x = Some v" using c x by simp_all
  show disjoint: "reach h' x \<inter> reach h' y = {}"
    using reach_bound [OF assms(1)] x(2) c by fastforce
  then show "a \<in> reach h' y \<Longrightarrow> view (h'[a := c]) x = Some v"
    using store_elsewhere(1) [OF x(1)] by blast
  show "a \<in> reach h' x \<Longrightarrow> view (h'[a := c]) y = Some v"
    using store_elsewhere(1) [of h' y v] c disjoint by blast
qed

text \<open>
  The step that all copies through memory share: an original is copied while a cell \<open>a\<close> waits for the
  copy, which is then stored there.  Neither the copy nor anything that does not reach \<open>a\<close> notices.
\<close>

lemma copy_and_store:
  assumes "view g x = Some v" and "copy g x = (y, g')" and "a < length g"
  shows "view (g'[a := c]) y = Some v" "\<forall>b \<in> reach (g'[a := c]) y. length g \<le> b"
    "take a (g'[a := c]) = take a g" "read un (g'[a := c]) a = un c" "length g \<le> length (g'[a := c])"
proof -
  note copy = copied [OF assms(1,2)]
  then have "a \<notin> reach g' y" using assms(3) by fastforce
  note store = store_elsewhere [OF copy [THEN conjunct2, THEN conjunct1] this]
  show "view (g'[a := c]) y = Some v" "\<forall>b \<in> reach (g'[a := c]) y. length g \<le> b"
    using copy store by simp_all
  from copy obtain d where "g' = g @ d" by (auto simp: prefix_def)
  then show "take a (g'[a := c]) = take a g" "read un (g'[a := c]) a = un c"
      "length g \<le> length (g'[a := c])"
    using assms(3) by (simp_all add: read_update)
qed

end

text \<open>A value without pointers is its own view and copied by assignment.\<close>

definition flat_view :: "heap \<Rightarrow> 'a \<Rightarrow> 'a option" where
  "flat_view h x = Some x"

definition flat_reach :: "heap \<Rightarrow> 'a \<Rightarrow> addr set" where
  "flat_reach h x = {}"

definition assign :: "heap \<Rightarrow> 'a \<Rightarrow> 'a \<times> heap" where
  "assign h x = (x, h)"

interpretation flat: deep_copy flat_view flat_reach assign
  by unfold_locales (auto simp: flat_view_def flat_reach_def assign_def)

section \<open>A pointer\<close>

text \<open>
  The block \<open>if in.X != nil\<close> for a pointer: a new value is allocated, and what the old pointer points to
  is copied into it, by assignment or by its own \<open>DeepCopyInto\<close>.
\<close>

definition copy_pointer ::
  "('a \<Rightarrow> cell) \<Rightarrow> (cell \<Rightarrow> 'a option) \<Rightarrow> 'a \<Rightarrow> (heap \<Rightarrow> 'a \<Rightarrow> 'a \<times> heap) \<Rightarrow>
     heap \<Rightarrow> addr option \<Rightarrow> addr option \<times> heap" where
  "copy_pointer mk un zero into h p =
     (case p of
        None \<Rightarrow> (None, h)
      | Some a \<Rightarrow>
          (case alloc h (mk zero) of
             (b, h1) \<Rightarrow>
               (Some b,
                case read un h1 a of
                  None \<Rightarrow> h1
                | Some x \<Rightarrow> (case into h1 x of (y, h2) \<Rightarrow> h2[b := mk y]))))"

fun pointer_view ::
  "(cell \<Rightarrow> 'a option) \<Rightarrow> (heap \<Rightarrow> 'a \<Rightarrow> 'v option) \<Rightarrow> heap \<Rightarrow> addr option \<Rightarrow> 'v option option" where
  "pointer_view un view h None = Some None"
| "pointer_view un view h (Some a) =
     (case read un h a of None \<Rightarrow> None | Some x \<Rightarrow> map_option Some (view h x))"

fun pointer_reach ::
  "(cell \<Rightarrow> 'a option) \<Rightarrow> (heap \<Rightarrow> 'a \<Rightarrow> addr set) \<Rightarrow> heap \<Rightarrow> addr option \<Rightarrow> addr set" where
  "pointer_reach un reach h None = {}"
| "pointer_reach un reach h (Some a) =
     insert a (case read un h a of None \<Rightarrow> {} | Some x \<Rightarrow> reach h x)"

lemma pointer_view_Some:
  "pointer_view un view h (Some a) = Some v \<longleftrightarrow>
     (\<exists>x w. read un h a = Some x \<and> view h x = Some w \<and> v = Some w)"
  by (auto split: option.splits)

lemma viewed_pointer:
  assumes "viewed view reach"
  shows "viewed (pointer_view un view) (pointer_reach un reach)"
proof
  fix h h' :: heap and p v a
  show "a < length h" if "pointer_view un view h p = Some v" "a \<in> pointer_reach un reach h p"
    using that viewed.reach_bound [OF assms]
    by (cases p) (auto dest: read_bound split: option.splits)
  show "pointer_view un view h' p = Some v \<and> pointer_reach un reach h' p = pointer_reach un reach h p"
    if "pointer_view un view h p = Some v" "\<And>a. a \<in> pointer_reach un reach h p \<Longrightarrow> load h' a = load h a"
  proof (cases p)
    case (Some a)
    with that(1) obtain x w where x: "read un h a = Some x" "view h x = Some w" "v = Some w"
      by (auto simp: pointer_view_Some simp del: pointer_view.simps)
    with that(2) Some have "read un h' a = Some x" "view h' x = Some w \<and> reach h' x = reach h x"
      using viewed.view_local [OF assms x(2), of h'] by (auto simp: read_def)
    with x Some show ?thesis by simp
  qed (use that(1) in simp)
qed

lemma deep_copy_pointer:
  assumes "deep_copy view reach into" and "\<And>x. un (mk x) = Some x"
  shows "deep_copy (pointer_view un view) (pointer_reach un reach) (copy_pointer mk un zero into)"
proof -
  from assms(1) have v: "viewed view reach" by (rule deep_copy.axioms)
  show ?thesis
  proof (rule deep_copy.intro [OF viewed_pointer [OF v]], unfold_locales)
    fix h h' :: heap and p q :: "addr option" and u
    assume view: "pointer_view un view h p = Some u" and copy: "copy_pointer mk un zero into h p = (q, h')"
    show "prefix h h' \<and> pointer_view un view h' q = Some u \<and> (\<forall>a \<in> pointer_reach un reach h' q. length h \<le> a)"
    proof (cases p)
      case (Some a)
      with view obtain x w where x: "read un h a = Some x" "view h x = Some w" "u = Some w"
        by (auto simp: pointer_view_Some simp del: pointer_view.simps)
      let ?h1 = "h @ [mk zero]"
      obtain y h2 where y: "into ?h1 x = (y, h2)" by fastforce
      have q: "q = Some (length h)" "h' = h2[length h := mk y]"
        using copy Some x(1) read_bound [OF x(1)] y by (simp_all add: copy_pointer_def alloc_def)
      have "view ?h1 x = Some w" using viewed.grow(1) [OF v x(2)] by simp
      note step = deep_copy.copy_and_store [where a = "length h" and c = "mk y", OF assms(1) this y, folded q(2)]
      have "prefix h h'" using step(3) take_is_prefix [of "length h" h'] by simp
      then show ?thesis
        using step(1,2) step(4) [of un] assms(2) x(3) by (auto simp: q(1) dest: Suc_leD)
    qed (use view copy in \<open>simp add: copy_pointer_def\<close>)
  qed
qed

section \<open>A slice\<close>

text \<open>
  The block \<open>if in.X != nil\<close> for a slice: an array of the same length is made, and the elements are
  copied into it one after the other.
\<close>

definition fresh_slice :: "addr \<Rightarrow> nat \<Rightarrow> slice" where
  "fresh_slice a n = \<lparr>sl_array = a, sl_offset = 0, sl_len = n\<rparr>"

definition get_element :: "(cell \<Rightarrow> 'a list option) \<Rightarrow> 'a \<Rightarrow> heap \<Rightarrow> slice \<Rightarrow> nat \<Rightarrow> 'a" where
  "get_element un zero h s i =
     (case read un h (sl_array s) of None \<Rightarrow> zero | Some xs \<Rightarrow> xs ! (sl_offset s + i))"

definition put_element ::
  "('a list \<Rightarrow> cell) \<Rightarrow> (cell \<Rightarrow> 'a list option) \<Rightarrow> addr \<Rightarrow> nat \<Rightarrow> 'a \<Rightarrow> heap \<Rightarrow> heap" where
  "put_element mk un a i x h = (case read un h a of None \<Rightarrow> h | Some xs \<Rightarrow> h[a := mk (xs[i := x])])"

definition copy_element ::
  "('a list \<Rightarrow> cell) \<Rightarrow> (cell \<Rightarrow> 'a list option) \<Rightarrow> 'a \<Rightarrow> (heap \<Rightarrow> 'a \<Rightarrow> 'a \<times> heap) \<Rightarrow>
     slice \<Rightarrow> addr \<Rightarrow> nat \<Rightarrow> heap \<Rightarrow> heap" where
  "copy_element mk un zero into s a i h =
     (case into h (get_element un zero h s i) of (y, h') \<Rightarrow> put_element mk un a i y h')"

definition copy_items ::
  "('a list \<Rightarrow> cell) \<Rightarrow> (cell \<Rightarrow> 'a list option) \<Rightarrow> 'a \<Rightarrow> (heap \<Rightarrow> 'a \<Rightarrow> 'a \<times> heap) \<Rightarrow>
     heap \<Rightarrow> slice option \<Rightarrow> slice option \<times> heap" where
  "copy_items mk un zero into h p =
     (case p of
        None \<Rightarrow> (None, h)
      | Some s \<Rightarrow>
          (case alloc h (mk (replicate (sl_len s) zero)) of
             (a, h1) \<Rightarrow>
               (Some (fresh_slice a (sl_len s)),
                fold (copy_element mk un zero into s a) [0 ..< sl_len s] h1)))"

fun items_view ::
  "(cell \<Rightarrow> 'a list option) \<Rightarrow> (heap \<Rightarrow> 'a \<Rightarrow> 'v option) \<Rightarrow> heap \<Rightarrow> slice option \<Rightarrow>
     'v list option option" where
  "items_view un view h None = Some None"
| "items_view un view h (Some s) =
     (case elements un h s of None \<Rightarrow> None | Some xs \<Rightarrow> map_option Some (those (map (view h) xs)))"

fun items_reach ::
  "(cell \<Rightarrow> 'a list option) \<Rightarrow> (heap \<Rightarrow> 'a \<Rightarrow> addr set) \<Rightarrow> heap \<Rightarrow> slice option \<Rightarrow> addr set" where
  "items_reach un reach h None = {}"
| "items_reach un reach h (Some s) =
     insert (sl_array s)
       (case elements un h s of None \<Rightarrow> {} | Some xs \<Rightarrow> \<Union> (reach h ` set xs))"

lemma those_map_Some: "those (map f xs) = Some vs \<longleftrightarrow> list_all2 (\<lambda>x v. f x = Some v) xs vs"
  by (induction xs arbitrary: vs) (auto simp: list_all2_Cons1 split: option.splits)

lemma items_view_Some:
  "items_view un view h (Some s) = Some v \<longleftrightarrow>
     (\<exists>xs vs. elements un h s = Some xs \<and> list_all2 (\<lambda>x w. view h x = Some w) xs vs \<and> v = Some vs)"
  by (auto simp: those_map_Some split: option.splits)

lemma list_all2_mem: "list_all2 P xs ys \<Longrightarrow> x \<in> set xs \<Longrightarrow> \<exists>y. P x y"
  by (auto simp: list_all2_conv_all_nth in_set_conv_nth)

lemma viewed_items:
  assumes "viewed view reach"
  shows "viewed (items_view un view) (items_reach un reach)"
proof
  fix h h' :: heap and p v a
  show "a < length h" if "items_view un view h p = Some v" "a \<in> items_reach un reach h p"
  proof (cases p)
    case (Some s)
    with that(1) obtain xs vs where xs: "elements un h s = Some xs"
        "list_all2 (\<lambda>x w. view h x = Some w) xs vs"
      by (auto simp: items_view_Some simp del: items_view.simps)
    then have "a < length h" if "a \<in> reach h x" "x \<in> set xs" for x
      using that viewed.reach_bound [OF assms] list_all2_mem [OF xs(2)] by blast
    with that(2) Some xs(1) elements_bound [OF xs(1)] show ?thesis by auto
  qed (use that in simp)
  show "items_view un view h' p = Some v \<and> items_reach un reach h' p = items_reach un reach h p"
    if view: "items_view un view h p = Some v"
      and local: "\<And>a. a \<in> items_reach un reach h p \<Longrightarrow> load h' a = load h a"
  proof (cases p)
    case (Some s)
    with view obtain xs vs where xs: "elements un h s = Some xs"
        "list_all2 (\<lambda>x w. view h x = Some w) xs vs" "v = Some vs"
      by (auto simp: items_view_Some simp del: items_view.simps)
    with local Some have xs': "elements un h' s = Some xs"
      using elements_local [of h' s h un] by simp
    have same: "view h' x = view h x \<and> reach h' x = reach h x" if "x \<in> set xs" for x
    proof -
      from list_all2_mem [OF xs(2) that] obtain w where "view h x = Some w" ..
      moreover have "load h' a = load h a" if "a \<in> reach h x" for a
        using local xs(1) Some \<open>x \<in> set xs\<close> that by auto
      ultimately show ?thesis
        using viewed.view_local [OF assms, of h x w h'] by simp
    qed
    then have "list_all2 (\<lambda>x w. view h' x = Some w) xs vs"
      using xs(2) by (auto simp: list_all2_conv_all_nth)
    then show ?thesis
      using xs xs' Some same by (auto simp: items_view_Some simp del: items_view.simps)
  qed (use view in simp)
qed

lemma get_element_eq:
  "elements un h s = Some xs \<Longrightarrow> k < length xs \<Longrightarrow> get_element un zero h s k = xs ! k"
  by (auto simp: get_element_def elements_def window_def split: option.splits if_splits)

text \<open>
  The loop after \<open>k\<close> rounds: the old cells are untouched, and the first \<open>k\<close> elements of the new array
  are deep copies, in cells younger than the array.
\<close>

definition copied_upto ::
  "(cell \<Rightarrow> 'a list option) \<Rightarrow> (heap \<Rightarrow> 'a \<Rightarrow> 'v option) \<Rightarrow> (heap \<Rightarrow> 'a \<Rightarrow> addr set) \<Rightarrow>
     heap \<Rightarrow> nat \<Rightarrow> 'v list \<Rightarrow> heap \<Rightarrow> 'a list \<Rightarrow> bool" where
  "copied_upto un view reach h k vs g ys \<longleftrightarrow>
     take (length h) g = h \<and> read un g (length h) = Some ys \<and> length ys = length vs \<and>
     (\<forall>j < k. view g (ys ! j) = Some (vs ! j) \<and> (\<forall>b \<in> reach g (ys ! j). length h < b))"

lemma copy_element_step:
  assumes dc: "deep_copy view reach into" and un: "\<And>xs. un (mk xs) = Some xs"
    and orig: "elements un h s = Some xs" "list_all2 (\<lambda>x v. view h x = Some v) xs vs"
    and k: "k < length vs" and inv: "copied_upto un view reach h k vs g ys"
  shows "\<exists>zs. copied_upto un view reach h (Suc k) vs (copy_element mk un zero into s (length h) k g) zs"
proof -
  note v = deep_copy.axioms(1) [OF dc]
  have ys: "read un g (length h) = Some ys" "length ys = length vs" "take (length h) g = h"
    and old: "\<And>j. j < k \<Longrightarrow> view g (ys ! j) = Some (vs ! j) \<and> (\<forall>b \<in> reach g (ys ! j). length h < b)"
    using inv by (auto simp: copied_upto_def)
  have prefix: "prefix h g" and young: "length h < length g"
    using ys(1,3) take_is_prefix [of "length h" g] by (auto dest: read_bound)
  have "elements un g s = Some xs"
    using orig(1) elements_bound [OF orig(1)] prefix elements_local [of g s h un] by (auto simp: prefix_def)
  then have get: "get_element un zero g s k = xs ! k"
    using get_element_eq k list_all2_lengthD [OF orig(2)] by metis
  have "view g (xs ! k) = Some (vs ! k)"
    using orig(2) k viewed.grow(1) [OF v _ prefix] by (simp add: list_all2_conv_all_nth)
  note x = this
  obtain y g' where y: "into g (xs ! k) = (y, g')" by fastforce
  note copy = deep_copy.copied [OF dc x y]
  then have put: "copy_element mk un zero into s (length h) k g = g'[length h := mk (ys[k := y])]"
    using ys(1) young by (auto simp: copy_element_def get y put_element_def prefix_def)
  note step = deep_copy.copy_and_store [where a = "length h" and c = "mk (ys[k := y])", OF dc x y young]
  have "view (g'[length h := c]) (ys ! j) = Some (vs ! j) \<and>
      (\<forall>b \<in> reach (g'[length h := c]) (ys ! j). length h < b)" if "j < k" for j c
    using old [OF that] viewed.grow [OF v _ copy [THEN conjunct1]] viewed.store_elsewhere [OF v]
    by (metis less_irrefl)
  then have "copied_upto un view reach h (Suc k) vs (copy_element mk un zero into s (length h) k g) (ys[k := y])"
    unfolding put copied_upto_def
    using ys(2,3) k step(1-3,5) step(4) [of un] young by (auto simp: less_Suc_eq un)
  then show ?thesis by blast
qed

lemma copy_items_loop:
  assumes "deep_copy view reach into" and "\<And>xs. un (mk xs) = Some xs"
    and "elements un h s = Some xs" and "list_all2 (\<lambda>x v. view h x = Some v) xs vs" and "k \<le> length vs"
  shows "\<exists>ys. copied_upto un view reach h k vs
    (fold (copy_element mk un zero into s (length h)) [0 ..< k] (h @ [mk (replicate (length vs) zero)])) ys"
  using assms(5)
proof (induction k)
  case 0
  show ?case by (simp add: copied_upto_def assms(2))
next
  case (Suc k)
  then show ?case using copy_element_step [OF assms(1-4), of k] by auto
qed

lemma deep_copy_items:
  assumes "deep_copy view reach into" and "\<And>xs. un (mk xs) = Some xs"
  shows "deep_copy (items_view un view) (items_reach un reach) (copy_items mk un zero into)"
proof (rule deep_copy.intro [OF viewed_items [OF deep_copy.axioms(1) [OF assms(1)]]], unfold_locales)
  fix h h' :: heap and p q :: "slice option" and u
  assume view: "items_view un view h p = Some u" and copy: "copy_items mk un zero into h p = (q, h')"
  show "prefix h h' \<and> items_view un view h' q = Some u \<and> (\<forall>a \<in> items_reach un reach h' q. length h \<le> a)"
  proof (cases p)
    case (Some s)
    with view obtain xs vs where xs: "elements un h s = Some xs"
        "list_all2 (\<lambda>x w. view h x = Some w) xs vs" "u = Some vs"
      by (auto simp: items_view_Some simp del: items_view.simps)
    have len: "length vs = sl_len s"
      using list_all2_lengthD [OF xs(2)] elements_length [OF xs(1)] by simp
    obtain ys where "copied_upto un view reach h (length vs) vs h' ys" and q: "q = Some (fresh_slice (length h) (sl_len s))"
      using copy_items_loop [OF assms xs(1,2) order_refl, of zero] copy Some
      by (auto simp: copy_items_def alloc_def len)
    then have loop: "take (length h) h' = h" "read un h' (length h) = Some ys" "length ys = length vs"
        "\<And>j. j < length vs \<Longrightarrow> view h' (ys ! j) = Some (vs ! j) \<and> (\<forall>b \<in> reach h' (ys ! j). length h < b)"
      by (auto simp: copied_upto_def)
    have "elements un h' (fresh_slice (length h) (sl_len s)) = Some ys"
      using loop(2,3) len by (simp add: elements_def window_def fresh_slice_def)
    moreover have "list_all2 (\<lambda>x w. view h' x = Some w) ys vs"
      using loop(3,4) by (simp add: list_all2_conv_all_nth)
    moreover have "length h \<le> b" if "b \<in> reach h' y" "y \<in> set ys" for b y
      using loop(3,4) that by (force simp: in_set_conv_nth)
    ultimately show ?thesis
      using take_is_prefix [of "length h" h'] loop(1) xs(3)
      by (auto simp: q items_view_Some fresh_slice_def simp del: items_view.simps)
  qed (use view copy in \<open>simp add: copy_items_def\<close>)
qed

section \<open>The fields of a struct\<close>

text \<open>
  Two fields are copied one after the other.  A struct is copied by copying the fields that point
  somewhere; its view keeps the rest as it is.
\<close>

definition pair_view ::
  "(heap \<Rightarrow> 'p \<Rightarrow> 'u option) \<Rightarrow> (heap \<Rightarrow> 'q \<Rightarrow> 'v option) \<Rightarrow> heap \<Rightarrow> 'p \<times> 'q \<Rightarrow> ('u \<times> 'v) option" where
  "pair_view pv qv h x =
     (case pv h (fst x) of None \<Rightarrow> None | Some u \<Rightarrow> map_option (Pair u) (qv h (snd x)))"

definition pair_reach ::
  "(heap \<Rightarrow> 'p \<Rightarrow> addr set) \<Rightarrow> (heap \<Rightarrow> 'q \<Rightarrow> addr set) \<Rightarrow> heap \<Rightarrow> 'p \<times> 'q \<Rightarrow> addr set" where
  "pair_reach pr qr h x = pr h (fst x) \<union> qr h (snd x)"

definition pair_copy ::
  "(heap \<Rightarrow> 'p \<Rightarrow> 'p \<times> heap) \<Rightarrow> (heap \<Rightarrow> 'q \<Rightarrow> 'q \<times> heap) \<Rightarrow> heap \<Rightarrow> 'p \<times> 'q \<Rightarrow> ('p \<times> 'q) \<times> heap" where
  "pair_copy pc qc h x =
     (case pc h (fst x) of (p, h1) \<Rightarrow> case qc h1 (snd x) of (q, h2) \<Rightarrow> ((p, q), h2))"

lemma pair_view_Some:
  "pair_view pv qv h x = Some w \<longleftrightarrow> (\<exists>u v. pv h (fst x) = Some u \<and> qv h (snd x) = Some v \<and> w = (u, v))"
  by (auto simp: pair_view_def split: option.splits)

lemma viewed_pair:
  assumes "viewed pv pr" and "viewed qv qr"
  shows "viewed (pair_view pv qv) (pair_reach pr qr)"
proof
  fix h h' :: heap and x w a
  show "pair_view pv qv h x = Some w \<Longrightarrow> a \<in> pair_reach pr qr h x \<Longrightarrow> a < length h"
    using assms [THEN viewed.reach_bound] by (auto simp: pair_view_Some pair_reach_def)
  show "pair_view pv qv h' x = Some w \<and> pair_reach pr qr h' x = pair_reach pr qr h x"
    if view: "pair_view pv qv h x = Some w"
      and local: "\<And>a. a \<in> pair_reach pr qr h x \<Longrightarrow> load h' a = load h a"
  proof -
    from view obtain u v where parts: "pv h (fst x) = Some u" "qv h (snd x) = Some v" "w = (u, v)"
      by (auto simp: pair_view_Some)
    show ?thesis
      using viewed.view_local [OF assms(1) parts(1), of h'] viewed.view_local [OF assms(2) parts(2), of h']
        local parts(3)
      by (simp add: pair_view_Some pair_reach_def)
  qed
qed

lemma deep_copy_pair:
  assumes "deep_copy pv pr pc" and "deep_copy qv qr qc"
  shows "deep_copy (pair_view pv qv) (pair_reach pr qr) (pair_copy pc qc)"
proof (rule deep_copy.intro [OF viewed_pair [OF assms [THEN deep_copy.axioms(1)]]], unfold_locales)
  note v = assms [THEN deep_copy.axioms(1)]
  fix h h2 :: heap and x y w
  assume view: "pair_view pv qv h x = Some w" and copy: "pair_copy pc qc h x = (y, h2)"
  from view obtain u v where parts: "pv h (fst x) = Some u" "qv h (snd x) = Some v" "w = (u, v)"
    by (auto simp: pair_view_Some)
  from copy obtain p h1 q where steps: "pc h (fst x) = (p, h1)" "qc h1 (snd x) = (q, h2)" "y = (p, q)"
    by (auto simp: pair_copy_def split: prod.splits)
  note c1 = deep_copy.copied [OF assms(1) parts(1) steps(1)]
  have "qv h1 (snd x) = Some v" using viewed.grow(1) [OF v(2) parts(2)] c1 by blast
  note c2 = deep_copy.copied [OF assms(2) this steps(2)]
  have "pv h2 p = Some u" "pr h2 p = pr h1 p"
    using viewed.grow [OF v(1)] c1 c2 by blast+
  moreover have "length h \<le> length h1" using c1 by (simp add: prefix_length_le)
  ultimately show "prefix h h2 \<and> pair_view pv qv h2 y = Some w \<and> (\<forall>a \<in> pair_reach pr qr h2 y. length h \<le> a)"
    using c1 c2 parts(3) steps(3)
    by (auto simp: pair_view_Some pair_reach_def intro: prefix_order.trans)
qed

definition struct_view ::
  "(heap \<Rightarrow> 'p \<Rightarrow> 'v option) \<Rightarrow> ('a \<Rightarrow> 'p) \<Rightarrow> ('a \<Rightarrow> 'e) \<Rightarrow> heap \<Rightarrow> 'a \<Rightarrow> ('e \<times> 'v) option" where
  "struct_view pv sel rest h x = map_option (Pair (rest x)) (pv h (sel x))"

definition struct_reach :: "(heap \<Rightarrow> 'p \<Rightarrow> addr set) \<Rightarrow> ('a \<Rightarrow> 'p) \<Rightarrow> heap \<Rightarrow> 'a \<Rightarrow> addr set" where
  "struct_reach pr sel h x = pr h (sel x)"

definition struct_copy ::
  "(heap \<Rightarrow> 'p \<Rightarrow> 'p \<times> heap) \<Rightarrow> ('a \<Rightarrow> 'p) \<Rightarrow> ('p \<Rightarrow> 'a \<Rightarrow> 'a) \<Rightarrow> heap \<Rightarrow> 'a \<Rightarrow> 'a \<times> heap" where
  "struct_copy pc sel upd h x = (case pc h (sel x) of (p, h') \<Rightarrow> (upd p x, h'))"

lemma deep_copy_struct:
  assumes "deep_copy pv pr pc" and "\<And>p x. sel (upd p x) = p" and "\<And>p x. rest (upd p x) = rest x"
  shows "deep_copy (struct_view pv sel rest) (struct_reach pr sel) (struct_copy pc sel upd)"
proof -
  note v = deep_copy.axioms(1) [OF assms(1)]
  show ?thesis
  proof
    fix h h' :: heap and x y u a
    show "struct_view pv sel rest h x = Some u \<Longrightarrow> a \<in> struct_reach pr sel h x \<Longrightarrow> a < length h"
      using viewed.reach_bound [OF v] by (auto simp: struct_view_def struct_reach_def)
    show "struct_view pv sel rest h' x = Some u \<and> struct_reach pr sel h' x = struct_reach pr sel h x"
      if view: "struct_view pv sel rest h x = Some u"
        and local: "\<And>a. a \<in> struct_reach pr sel h x \<Longrightarrow> load h' a = load h a"
    proof -
      from view obtain w where w: "pv h (sel x) = Some w" "u = (rest x, w)"
        by (auto simp: struct_view_def)
      then show ?thesis
        using viewed.view_local [OF v w(1), of h'] local by (simp add: struct_view_def struct_reach_def)
    qed
    show "prefix h h' \<and> struct_view pv sel rest h' y = Some u \<and> (\<forall>a \<in> struct_reach pr sel h' y. length h \<le> a)"
      if view: "struct_view pv sel rest h x = Some u" and copy: "struct_copy pc sel upd h x = (y, h')"
    proof -
      from view obtain w where w: "pv h (sel x) = Some w" "u = (rest x, w)"
        by (auto simp: struct_view_def)
      from copy obtain q where q: "pc h (sel x) = (q, h')" "y = upd q x"
        by (auto simp: struct_copy_def split: prod.splits)
      show ?thesis
        using deep_copy.copied [OF assms(1) w(1) q(1)] w(2) q(2) assms(2,3)
        by (simp add: struct_view_def struct_reach_def)
    qed
  qed
qed

section \<open>What a user of a copy sees\<close>

text \<open>
  \<open>DeepCopy\<close>: nil stays nil, anything else is copied into a new struct, which the pointer returned
  denotes; nothing else points to it.  \<open>DeepCopyObject\<close> returns the same as an interface, nil for nil.
\<close>

definition new_copy :: "(heap \<Rightarrow> 'a \<Rightarrow> 'a \<times> heap) \<Rightarrow> heap \<Rightarrow> 'a option \<Rightarrow> 'a option \<times> heap" where
  "new_copy into h p =
     (case p of
        None \<Rightarrow> (None, h)
      | Some x \<Rightarrow> (case into h x of (out, h') \<Rightarrow> (Some out, h')))"

definition as_object :: "'a option \<times> heap \<Rightarrow> 'a option \<times> heap" where
  "as_object c = (case c of (Some out, h) \<Rightarrow> (Some out, h) | (None, h) \<Rightarrow> (None, h))"

lemma as_object_id: "as_object c = c"
  by (simp add: as_object_def split: prod.split option.split)

text \<open>
  Original and copy mean the same, share no cell, and whatever is stored through one of them leaves the
  other as it is.
\<close>

definition independent ::
  "(heap \<Rightarrow> 'a \<Rightarrow> 'v option) \<Rightarrow> (heap \<Rightarrow> 'a \<Rightarrow> addr set) \<Rightarrow> heap \<Rightarrow> 'a \<Rightarrow> 'a \<Rightarrow> 'v \<Rightarrow> bool" where
  "independent view reach h x y v \<longleftrightarrow>
     view h x = Some v \<and> view h y = Some v \<and> reach h x \<inter> reach h y = {} \<and>
     (\<forall>a c. a \<in> reach h y \<longrightarrow> view (h[a := c]) x = Some v) \<and>
     (\<forall>a c. a \<in> reach h x \<longrightarrow> view (h[a := c]) y = Some v)"

lemma new_copy_independent:
  assumes "deep_copy view reach into" and "view h x = Some v" and "new_copy into h (Some x) = (p, h')"
  shows "\<exists>y. p = Some y \<and> prefix h h' \<and> independent view reach h' x y v"
proof -
  obtain y where y: "into h x = (y, h')" "p = Some y"
    using assms(3) by (auto simp: new_copy_def split: prod.splits)
  show ?thesis
    using deep_copy.separate [OF assms(1,2) y(1)] deep_copy.copied [OF assms(1,2) y(1)] y(2)
    by (auto simp: independent_def)
qed

end
