(* ===== verification/DeepCopy.thy ===== *)
theory DeepCopy
  imports Memory
begin

text \<open>
  The deep copies of api/v1alpha1/zz_generated.deepcopy.go, which the informer caches rely on: a copy
  equals the original and shares no memory with it.  \<open>DeepCopyInto\<close> takes the struct to copy and returns
  the one it writes.  The deep copies of apimachinery (\<open>ObjectMeta\<close>, \<open>ListMeta\<close>, \<open>Condition\<close>) are
  parameters.
\<close>

section \<open>The types of the API\<close>

subsection \<open>Flat structs\<close>

definition SecretReference_DeepCopyInto :: "heap \<Rightarrow> SecretReference \<Rightarrow> SecretReference \<times> heap" where
  "SecretReference_DeepCopyInto h x = (x, h)"

definition SecretReference_DeepCopy ::
  "heap \<Rightarrow> SecretReference option \<Rightarrow> SecretReference option \<times> heap" where
  "SecretReference_DeepCopy = new_copy SecretReference_DeepCopyInto"

definition CredentialsSpec_DeepCopyInto :: "heap \<Rightarrow> CredentialsSpec \<Rightarrow> CredentialsSpec \<times> heap" where
  "CredentialsSpec_DeepCopyInto h x = (x\<lparr>cred_SecretRef := cred_SecretRef x\<rparr>, h)"

definition CredentialsSpec_DeepCopy ::
  "heap \<Rightarrow> CredentialsSpec option \<Rightarrow> CredentialsSpec option \<times> heap" where
  "CredentialsSpec_DeepCopy = new_copy CredentialsSpec_DeepCopyInto"

definition OPNsenseConnectionReference_DeepCopyInto ::
  "heap \<Rightarrow> OPNsenseConnectionReference \<Rightarrow> OPNsenseConnectionReference \<times> heap" where
  "OPNsenseConnectionReference_DeepCopyInto h x = (x, h)"

definition OPNsenseConnectionReference_DeepCopy ::
  "heap \<Rightarrow> OPNsenseConnectionReference option \<Rightarrow> OPNsenseConnectionReference option \<times> heap" where
  "OPNsenseConnectionReference_DeepCopy = new_copy OPNsenseConnectionReference_DeepCopyInto"

definition FirewallRuleEndpoint_DeepCopyInto ::
  "heap \<Rightarrow> FirewallRuleEndpoint \<Rightarrow> FirewallRuleEndpoint \<times> heap" where
  "FirewallRuleEndpoint_DeepCopyInto h x = (x, h)"

definition FirewallRuleEndpoint_DeepCopy ::
  "heap \<Rightarrow> FirewallRuleEndpoint option \<Rightarrow> FirewallRuleEndpoint option \<times> heap" where
  "FirewallRuleEndpoint_DeepCopy = new_copy FirewallRuleEndpoint_DeepCopyInto"

subsection \<open>Slices and pointers\<close>

text \<open>
  The blocks \<open>if in.X != nil\<close>: the entries of an alias, copied by \<open>copy\<close>; conditions, copied one by one;
  the sequence of a rule and the reference to a Secret, copied by assignment.
\<close>

definition copy_strings :: "heap \<Rightarrow> slice option \<Rightarrow> slice option \<times> heap" where
  "copy_strings h p =
     (case p of
        None \<Rightarrow> (None, h)
      | Some s \<Rightarrow>
          (case alloc h (Strings (replicate (sl_len s) [])) of
             (a, h1) \<Rightarrow>
               (Some (fresh_slice a (sl_len s)),
                case elements strings_of h1 s of None \<Rightarrow> h1 | Some xs \<Rightarrow> h1[a := Strings xs])))"

definition zero_Condition :: Condition where
  "zero_Condition =
     \<lparr>cond_Type = [], cond_Status = [], cond_Reason = [], cond_Message = [], cond_ObservedGeneration = 0\<rparr>"

definition copy_conditions ::
  "(Condition \<Rightarrow> Condition) \<Rightarrow> heap \<Rightarrow> slice option \<Rightarrow> slice option \<times> heap" where
  "copy_conditions cc = copy_items Conditions conditions_of zero_Condition (\<lambda>h c. (cc c, h))"

definition copy_int32 :: "heap \<Rightarrow> addr option \<Rightarrow> addr option \<times> heap" where
  "copy_int32 = copy_pointer Int32 int32_of 0 assign"

definition copy_secretRef :: "heap \<Rightarrow> addr option \<Rightarrow> addr option \<times> heap" where
  "copy_secretRef = copy_pointer SecretRef secretRef_of \<lparr>sr_Name = [], sr_Namespace = []\<rparr> assign"

subsection \<open>Statuses\<close>

definition AliasStatus_DeepCopyInto ::
  "(Condition \<Rightarrow> Condition) \<Rightarrow> heap \<Rightarrow> AliasStatus_mem \<Rightarrow> AliasStatus_mem \<times> heap" where
  "AliasStatus_DeepCopyInto cc h x =
     (case copy_conditions cc h (astm_Conditions x) of (p, h') \<Rightarrow> (x\<lparr>astm_Conditions := p\<rparr>, h'))"

definition AliasStatus_DeepCopy ::
  "(Condition \<Rightarrow> Condition) \<Rightarrow> heap \<Rightarrow> AliasStatus_mem option \<Rightarrow> AliasStatus_mem option \<times> heap" where
  "AliasStatus_DeepCopy cc = new_copy (AliasStatus_DeepCopyInto cc)"

definition FirewallRuleStatus_DeepCopyInto ::
  "(Condition \<Rightarrow> Condition) \<Rightarrow> heap \<Rightarrow> FirewallRuleStatus_mem \<Rightarrow> FirewallRuleStatus_mem \<times> heap" where
  "FirewallRuleStatus_DeepCopyInto cc h x =
     (case copy_conditions cc h (rstm_Conditions x) of (p, h') \<Rightarrow> (x\<lparr>rstm_Conditions := p\<rparr>, h'))"

definition FirewallRuleStatus_DeepCopy ::
  "(Condition \<Rightarrow> Condition) \<Rightarrow> heap \<Rightarrow> FirewallRuleStatus_mem option \<Rightarrow>
     FirewallRuleStatus_mem option \<times> heap" where
  "FirewallRuleStatus_DeepCopy cc = new_copy (FirewallRuleStatus_DeepCopyInto cc)"

definition OPNsenseConnectionStatus_DeepCopyInto ::
  "(Condition \<Rightarrow> Condition) \<Rightarrow> heap \<Rightarrow> OPNsenseConnectionStatus_mem \<Rightarrow>
     OPNsenseConnectionStatus_mem \<times> heap" where
  "OPNsenseConnectionStatus_DeepCopyInto cc h x =
     (case copy_conditions cc h (cstm_Conditions x) of (p, h') \<Rightarrow> (x\<lparr>cstm_Conditions := p\<rparr>, h'))"

definition OPNsenseConnectionStatus_DeepCopy ::
  "(Condition \<Rightarrow> Condition) \<Rightarrow> heap \<Rightarrow> OPNsenseConnectionStatus_mem option \<Rightarrow>
     OPNsenseConnectionStatus_mem option \<times> heap" where
  "OPNsenseConnectionStatus_DeepCopy cc = new_copy (OPNsenseConnectionStatus_DeepCopyInto cc)"

subsection \<open>Specs\<close>

definition AliasSpec_DeepCopyInto :: "heap \<Rightarrow> AliasSpec_mem \<Rightarrow> AliasSpec_mem \<times> heap" where
  "AliasSpec_DeepCopyInto h x =
     (let out = x\<lparr>asm_ConnectionRef := asm_ConnectionRef x\<rparr> in
      case copy_strings h (asm_Entries x) of (p, h') \<Rightarrow> (out\<lparr>asm_Entries := p\<rparr>, h'))"

definition AliasSpec_DeepCopy :: "heap \<Rightarrow> AliasSpec_mem option \<Rightarrow> AliasSpec_mem option \<times> heap" where
  "AliasSpec_DeepCopy = new_copy AliasSpec_DeepCopyInto"

definition FirewallRuleSpec_DeepCopyInto ::
  "heap \<Rightarrow> FirewallRuleSpec_mem \<Rightarrow> FirewallRuleSpec_mem \<times> heap" where
  "FirewallRuleSpec_DeepCopyInto h x =
     (let out = x\<lparr>rsm_ConnectionRef := rsm_ConnectionRef x, rsm_Source := rsm_Source x,
                 rsm_Destination := rsm_Destination x\<rparr> in
      case copy_int32 h (rsm_Sequence x) of (p, h') \<Rightarrow> (out\<lparr>rsm_Sequence := p\<rparr>, h'))"

definition FirewallRuleSpec_DeepCopy ::
  "heap \<Rightarrow> FirewallRuleSpec_mem option \<Rightarrow> FirewallRuleSpec_mem option \<times> heap" where
  "FirewallRuleSpec_DeepCopy = new_copy FirewallRuleSpec_DeepCopyInto"

definition TLSSpec_DeepCopyInto :: "heap \<Rightarrow> TLSSpec_mem \<Rightarrow> TLSSpec_mem \<times> heap" where
  "TLSSpec_DeepCopyInto h x =
     (case copy_secretRef h (tm_CASecretRef x) of (p, h') \<Rightarrow> (x\<lparr>tm_CASecretRef := p\<rparr>, h'))"

definition TLSSpec_DeepCopy :: "heap \<Rightarrow> TLSSpec_mem option \<Rightarrow> TLSSpec_mem option \<times> heap" where
  "TLSSpec_DeepCopy = new_copy TLSSpec_DeepCopyInto"

text \<open>The \<open>TLSSpec\<close> of a connection is behind a pointer, and itself points to a reference.\<close>

definition copy_TLS :: "heap \<Rightarrow> addr option \<Rightarrow> addr option \<times> heap" where
  "copy_TLS =
     copy_pointer TLS TLS_of \<lparr>tm_InsecureSkipVerify = False, tm_CASecretRef = None\<rparr> TLSSpec_DeepCopyInto"

definition OPNsenseConnectionSpec_DeepCopyInto ::
  "heap \<Rightarrow> OPNsenseConnectionSpec_mem \<Rightarrow> OPNsenseConnectionSpec_mem \<times> heap" where
  "OPNsenseConnectionSpec_DeepCopyInto h x =
     (let out = x\<lparr>csm_Credentials := csm_Credentials x\<rparr> in
      case copy_TLS h (csm_TLS x) of (p, h') \<Rightarrow> (out\<lparr>csm_TLS := p\<rparr>, h'))"

definition OPNsenseConnectionSpec_DeepCopy ::
  "heap \<Rightarrow> OPNsenseConnectionSpec_mem option \<Rightarrow> OPNsenseConnectionSpec_mem option \<times> heap" where
  "OPNsenseConnectionSpec_DeepCopy = new_copy OPNsenseConnectionSpec_DeepCopyInto"

subsection \<open>Objects\<close>

type_synonym meta_copy = "heap \<Rightarrow> ObjectMeta_mem \<Rightarrow> ObjectMeta_mem \<times> heap"

definition Alias_DeepCopyInto ::
  "meta_copy \<Rightarrow> (Condition \<Rightarrow> Condition) \<Rightarrow> heap \<Rightarrow> Alias_mem \<Rightarrow> Alias_mem \<times> heap" where
  "Alias_DeepCopyInto mc cc h x =
     (let out = x\<lparr>obj_TypeMeta := obj_TypeMeta x\<rparr> in
      case mc h (obj_ObjectMeta x) of (m, h1) \<Rightarrow>
      case AliasSpec_DeepCopyInto h1 (obj_Spec x) of (s, h2) \<Rightarrow>
      case AliasStatus_DeepCopyInto cc h2 (obj_Status x) of (t, h3) \<Rightarrow>
        (out\<lparr>obj_ObjectMeta := m, obj_Spec := s, obj_Status := t\<rparr>, h3))"

definition Alias_DeepCopy ::
  "meta_copy \<Rightarrow> (Condition \<Rightarrow> Condition) \<Rightarrow> heap \<Rightarrow> Alias_mem option \<Rightarrow> Alias_mem option \<times> heap" where
  "Alias_DeepCopy mc cc = new_copy (Alias_DeepCopyInto mc cc)"

definition Alias_DeepCopyObject ::
  "meta_copy \<Rightarrow> (Condition \<Rightarrow> Condition) \<Rightarrow> heap \<Rightarrow> Alias_mem option \<Rightarrow> Alias_mem option \<times> heap" where
  "Alias_DeepCopyObject mc cc h p = as_object (Alias_DeepCopy mc cc h p)"

definition FirewallRule_DeepCopyInto ::
  "meta_copy \<Rightarrow> (Condition \<Rightarrow> Condition) \<Rightarrow> heap \<Rightarrow> FirewallRule_mem \<Rightarrow> FirewallRule_mem \<times> heap" where
  "FirewallRule_DeepCopyInto mc cc h x =
     (let out = x\<lparr>obj_TypeMeta := obj_TypeMeta x\<rparr> in
      case mc h (obj_ObjectMeta x) of (m, h1) \<Rightarrow>
      case FirewallRuleSpec_DeepCopyInto h1 (obj_Spec x) of (s, h2) \<Rightarrow>
      case FirewallRuleStatus_DeepCopyInto cc h2 (obj_Status x) of (t, h3) \<Rightarrow>
        (out\<lparr>obj_ObjectMeta := m, obj_Spec := s, obj_Status := t\<rparr>, h3))"

definition FirewallRule_DeepCopy ::
  "meta_copy \<Rightarrow> (Condition \<Rightarrow> Condition) \<Rightarrow> heap \<Rightarrow> FirewallRule_mem option \<Rightarrow>
     FirewallRule_mem option \<times> heap" where
  "FirewallRule_DeepCopy mc cc = new_copy (FirewallRule_DeepCopyInto mc cc)"

definition FirewallRule_DeepCopyObject ::
  "meta_copy \<Rightarrow> (Condition \<Rightarrow> Condition) \<Rightarrow> heap \<Rightarrow> FirewallRule_mem option \<Rightarrow>
     FirewallRule_mem option \<times> heap" where
  "FirewallRule_DeepCopyObject mc cc h p = as_object (FirewallRule_DeepCopy mc cc h p)"

definition OPNsenseConnection_DeepCopyInto ::
  "meta_copy \<Rightarrow> (Condition \<Rightarrow> Condition) \<Rightarrow> heap \<Rightarrow> OPNsenseConnection_mem \<Rightarrow>
     OPNsenseConnection_mem \<times> heap" where
  "OPNsenseConnection_DeepCopyInto mc cc h x =
     (let out = x\<lparr>obj_TypeMeta := obj_TypeMeta x\<rparr> in
      case mc h (obj_ObjectMeta x) of (m, h1) \<Rightarrow>
      case OPNsenseConnectionSpec_DeepCopyInto h1 (obj_Spec x) of (s, h2) \<Rightarrow>
      case OPNsenseConnectionStatus_DeepCopyInto cc h2 (obj_Status x) of (t, h3) \<Rightarrow>
        (out\<lparr>obj_ObjectMeta := m, obj_Spec := s, obj_Status := t\<rparr>, h3))"

definition OPNsenseConnection_DeepCopy ::
  "meta_copy \<Rightarrow> (Condition \<Rightarrow> Condition) \<Rightarrow> heap \<Rightarrow> OPNsenseConnection_mem option \<Rightarrow>
     OPNsenseConnection_mem option \<times> heap" where
  "OPNsenseConnection_DeepCopy mc cc = new_copy (OPNsenseConnection_DeepCopyInto mc cc)"

definition OPNsenseConnection_DeepCopyObject ::
  "meta_copy \<Rightarrow> (Condition \<Rightarrow> Condition) \<Rightarrow> heap \<Rightarrow> OPNsenseConnection_mem option \<Rightarrow>
     OPNsenseConnection_mem option \<times> heap" where
  "OPNsenseConnection_DeepCopyObject mc cc h p = as_object (OPNsenseConnection_DeepCopy mc cc h p)"

subsection \<open>Lists\<close>

type_synonym list_meta_copy = "heap \<Rightarrow> ListMeta_mem \<Rightarrow> ListMeta_mem \<times> heap"

definition zero_object :: "'s \<Rightarrow> 't \<Rightarrow> ('s, 't) object_mem" where
  "zero_object s t =
     \<lparr>obj_TypeMeta = \<lparr>tm_Kind = [], tm_APIVersion = []\<rparr>,
      obj_ObjectMeta = \<lparr>omm_Name = [], omm_Namespace = [], omm_Generation = 0,
        omm_DeletionTimestamp = None, omm_Finalizers = None\<rparr>,
      obj_Spec = s, obj_Status = t\<rparr>"

definition zero_Alias :: Alias_mem where
  "zero_Alias = zero_object
     \<lparr>asm_ConnectionRef = \<lparr>ref_Name = []\<rparr>, asm_Name = [], asm_Type = [], asm_Entries = None,
      asm_Description = [], asm_Enabled = False\<rparr>
     \<lparr>astm_UUID = [], astm_ObservedGeneration = 0, astm_Conditions = None\<rparr>"

definition zero_FirewallRule :: FirewallRule_mem where
  "zero_FirewallRule = zero_object
     \<lparr>rsm_ConnectionRef = \<lparr>ref_Name = []\<rparr>, rsm_Enabled = False, rsm_Action = [], rsm_Direction = [],
      rsm_Interface = [], rsm_IPProtocol = [], rsm_Protocol = [],
      rsm_Source = \<lparr>ep_Net = [], ep_Not = False, ep_Port = []\<rparr>,
      rsm_Destination = \<lparr>ep_Net = [], ep_Not = False, ep_Port = []\<rparr>, rsm_Sequence = None,
      rsm_Quick = False, rsm_Log = False, rsm_Description = []\<rparr>
     \<lparr>rstm_UUID = [], rstm_Sequence = [], rstm_ObservedGeneration = 0, rstm_Conditions = None\<rparr>"

definition zero_OPNsenseConnection :: OPNsenseConnection_mem where
  "zero_OPNsenseConnection = zero_object
     \<lparr>csm_URL = [], csm_Credentials = \<lparr>cred_SecretRef = \<lparr>sr_Name = [], sr_Namespace = []\<rparr>\<rparr>,
      csm_TLS = None\<rparr>
     \<lparr>cstm_Conditions = None\<rparr>"

definition AliasList_DeepCopyInto ::
  "meta_copy \<Rightarrow> list_meta_copy \<Rightarrow> (Condition \<Rightarrow> Condition) \<Rightarrow> heap \<Rightarrow> AliasList_mem \<Rightarrow> AliasList_mem \<times> heap" where
  "AliasList_DeepCopyInto mc lmc cc h x =
     (let out = x\<lparr>lst_TypeMeta := lst_TypeMeta x\<rparr> in
      case lmc h (lst_ListMeta x) of (m, h1) \<Rightarrow>
      case copy_items Aliases aliases_of zero_Alias (Alias_DeepCopyInto mc cc) h1 (lst_Items x) of (p, h2) \<Rightarrow>
        (out\<lparr>lst_ListMeta := m, lst_Items := p\<rparr>, h2))"

definition AliasList_DeepCopy ::
  "meta_copy \<Rightarrow> list_meta_copy \<Rightarrow> (Condition \<Rightarrow> Condition) \<Rightarrow> heap \<Rightarrow> list_mem option \<Rightarrow>
     AliasList_mem option \<times> heap" where
  "AliasList_DeepCopy mc lmc cc = new_copy (AliasList_DeepCopyInto mc lmc cc)"

definition AliasList_DeepCopyObject ::
  "meta_copy \<Rightarrow> list_meta_copy \<Rightarrow> (Condition \<Rightarrow> Condition) \<Rightarrow> heap \<Rightarrow> list_mem option \<Rightarrow>
     AliasList_mem option \<times> heap" where
  "AliasList_DeepCopyObject mc lmc cc h p = as_object (AliasList_DeepCopy mc lmc cc h p)"

definition FirewallRuleList_DeepCopyInto ::
  "meta_copy \<Rightarrow> list_meta_copy \<Rightarrow> (Condition \<Rightarrow> Condition) \<Rightarrow> heap \<Rightarrow> FirewallRuleList_mem \<Rightarrow> FirewallRuleList_mem \<times> heap" where
  "FirewallRuleList_DeepCopyInto mc lmc cc h x =
     (let out = x\<lparr>lst_TypeMeta := lst_TypeMeta x\<rparr> in
      case lmc h (lst_ListMeta x) of (m, h1) \<Rightarrow>
      case copy_items FirewallRules rules_of zero_FirewallRule (FirewallRule_DeepCopyInto mc cc) h1 (lst_Items x) of (p, h2) \<Rightarrow>
        (out\<lparr>lst_ListMeta := m, lst_Items := p\<rparr>, h2))"

definition FirewallRuleList_DeepCopy ::
  "meta_copy \<Rightarrow> list_meta_copy \<Rightarrow> (Condition \<Rightarrow> Condition) \<Rightarrow> heap \<Rightarrow> list_mem option \<Rightarrow>
     FirewallRuleList_mem option \<times> heap" where
  "FirewallRuleList_DeepCopy mc lmc cc = new_copy (FirewallRuleList_DeepCopyInto mc lmc cc)"

definition FirewallRuleList_DeepCopyObject ::
  "meta_copy \<Rightarrow> list_meta_copy \<Rightarrow> (Condition \<Rightarrow> Condition) \<Rightarrow> heap \<Rightarrow> list_mem option \<Rightarrow>
     FirewallRuleList_mem option \<times> heap" where
  "FirewallRuleList_DeepCopyObject mc lmc cc h p = as_object (FirewallRuleList_DeepCopy mc lmc cc h p)"

definition OPNsenseConnectionList_DeepCopyInto ::
  "meta_copy \<Rightarrow> list_meta_copy \<Rightarrow> (Condition \<Rightarrow> Condition) \<Rightarrow> heap \<Rightarrow> OPNsenseConnectionList_mem \<Rightarrow> OPNsenseConnectionList_mem \<times> heap" where
  "OPNsenseConnectionList_DeepCopyInto mc lmc cc h x =
     (let out = x\<lparr>lst_TypeMeta := lst_TypeMeta x\<rparr> in
      case lmc h (lst_ListMeta x) of (m, h1) \<Rightarrow>
      case copy_items OPNsenseConnections connections_of zero_OPNsenseConnection (OPNsenseConnection_DeepCopyInto mc cc) h1 (lst_Items x) of (p, h2) \<Rightarrow>
        (out\<lparr>lst_ListMeta := m, lst_Items := p\<rparr>, h2))"

definition OPNsenseConnectionList_DeepCopy ::
  "meta_copy \<Rightarrow> list_meta_copy \<Rightarrow> (Condition \<Rightarrow> Condition) \<Rightarrow> heap \<Rightarrow> list_mem option \<Rightarrow>
     OPNsenseConnectionList_mem option \<times> heap" where
  "OPNsenseConnectionList_DeepCopy mc lmc cc = new_copy (OPNsenseConnectionList_DeepCopyInto mc lmc cc)"

definition OPNsenseConnectionList_DeepCopyObject ::
  "meta_copy \<Rightarrow> list_meta_copy \<Rightarrow> (Condition \<Rightarrow> Condition) \<Rightarrow> heap \<Rightarrow> list_mem option \<Rightarrow>
     OPNsenseConnectionList_mem option \<times> heap" where
  "OPNsenseConnectionList_DeepCopyObject mc lmc cc h p = as_object (OPNsenseConnectionList_DeepCopy mc lmc cc h p)"

section \<open>The copies meet the contract\<close>

abbreviation strings_view :: "heap \<Rightarrow> slice option \<Rightarrow> string list option option" where
  "strings_view \<equiv> items_view strings_of flat_view"

abbreviation strings_reach :: "heap \<Rightarrow> slice option \<Rightarrow> addr set" where
  "strings_reach \<equiv> items_reach strings_of flat_reach"

abbreviation conditions_view :: "heap \<Rightarrow> slice option \<Rightarrow> Condition list option option" where
  "conditions_view \<equiv> items_view conditions_of flat_view"

abbreviation conditions_reach :: "heap \<Rightarrow> slice option \<Rightarrow> addr set" where
  "conditions_reach \<equiv> items_reach conditions_of flat_reach"

lemma flat_items: "list_all2 (\<lambda>x w. flat_view h x = Some w) xs vs \<longleftrightarrow> vs = xs"
  by (auto simp: flat_view_def list_all2_conv_all_nth list_eq_iff_nth_eq)

interpretation strings: deep_copy strings_view strings_reach copy_strings
proof (rule deep_copy.intro [OF viewed_items [OF flat.viewed_axioms]], unfold_locales)
  fix h h' :: heap and p q :: "slice option" and u
  assume view: "strings_view h p = Some u" and copy: "copy_strings h p = (q, h')"
  show "prefix h h' \<and> strings_view h' q = Some u \<and> (\<forall>a \<in> strings_reach h' q. length h \<le> a)"
  proof (cases p)
    case (Some s)
    with view obtain xs where xs: "elements strings_of h s = Some xs" "u = Some xs"
      by (auto simp: items_view_Some flat_items simp del: items_view.simps)
    then have "elements strings_of (h @ [c]) s = Some xs" for c
      using elements_local [of "h @ [c]" s h strings_of] xs(1) elements_bound [OF xs(1)] by simp
    with copy Some have "q = Some (fresh_slice (length h) (sl_len s))" "h' = h @ [Strings xs]"
      by (auto simp: copy_strings_def alloc_def)
    moreover have "elements strings_of (h @ [Strings xs]) (fresh_slice (length h) (sl_len s)) = Some xs"
      using elements_length [OF xs(1)] by (simp add: elements_def window_def fresh_slice_def)
    ultimately show ?thesis
      using xs(2)
      by (auto simp: items_view_Some flat_items fresh_slice_def flat_reach_def simp del: items_view.simps)
  qed (use view copy in \<open>simp add: copy_strings_def\<close>)
qed

interpretation int32: deep_copy "pointer_view int32_of flat_view" "pointer_reach int32_of flat_reach" copy_int32
  unfolding copy_int32_def by (rule deep_copy_pointer [OF flat.deep_copy_axioms]) simp

interpretation secretRef: deep_copy "pointer_view secretRef_of flat_view" "pointer_reach secretRef_of flat_reach"
  copy_secretRef
  unfolding copy_secretRef_def by (rule deep_copy_pointer [OF flat.deep_copy_axioms]) simp

text \<open>A condition holds no pointers, so its deep copy, a parameter, returns it as it is.\<close>

lemma conditions_deep_copy:
  assumes "\<And>c. cc c = c"
  shows "deep_copy conditions_view conditions_reach (copy_conditions cc)"
proof -
  have "(\<lambda>h c. (cc c, h)) = assign" by (simp add: fun_eq_iff assign_def assms)
  then show ?thesis
    unfolding copy_conditions_def by (simp add: deep_copy_items [OF flat.deep_copy_axioms])
qed

subsection \<open>Specs\<close>

definition AliasSpec_view ::
  "heap \<Rightarrow> AliasSpec_mem \<Rightarrow> (AliasSpec_mem \<times> string list option) option" where
  "AliasSpec_view = struct_view strings_view asm_Entries (asm_Entries_update (\<lambda>_. None))"

definition FirewallRuleSpec_view ::
  "heap \<Rightarrow> FirewallRuleSpec_mem \<Rightarrow> (FirewallRuleSpec_mem \<times> 32 word option) option" where
  "FirewallRuleSpec_view =
     struct_view (pointer_view int32_of flat_view) rsm_Sequence (rsm_Sequence_update (\<lambda>_. None))"

definition TLSSpec_view ::
  "heap \<Rightarrow> TLSSpec_mem \<Rightarrow> (TLSSpec_mem \<times> SecretReference option) option" where
  "TLSSpec_view =
     struct_view (pointer_view secretRef_of flat_view) tm_CASecretRef (tm_CASecretRef_update (\<lambda>_. None))"

definition TLSSpec_reach :: "heap \<Rightarrow> TLSSpec_mem \<Rightarrow> addr set" where
  "TLSSpec_reach = struct_reach (pointer_reach secretRef_of flat_reach) tm_CASecretRef"

definition OPNsenseConnectionSpec_view ::
  "heap \<Rightarrow> OPNsenseConnectionSpec_mem \<Rightarrow>
     (OPNsenseConnectionSpec_mem \<times> (TLSSpec_mem \<times> SecretReference option) option) option" where
  "OPNsenseConnectionSpec_view =
     struct_view (pointer_view TLS_of TLSSpec_view) csm_TLS (csm_TLS_update (\<lambda>_. None))"

definition OPNsenseConnectionSpec_reach :: "heap \<Rightarrow> OPNsenseConnectionSpec_mem \<Rightarrow> addr set" where
  "OPNsenseConnectionSpec_reach = struct_reach (pointer_reach TLS_of TLSSpec_reach) csm_TLS"

lemma specs_into:
  "AliasSpec_DeepCopyInto = struct_copy copy_strings asm_Entries (\<lambda>p. asm_Entries_update (\<lambda>_. p))"
  "FirewallRuleSpec_DeepCopyInto = struct_copy copy_int32 rsm_Sequence (\<lambda>p. rsm_Sequence_update (\<lambda>_. p))"
  "TLSSpec_DeepCopyInto = struct_copy copy_secretRef tm_CASecretRef (\<lambda>p. tm_CASecretRef_update (\<lambda>_. p))"
  "OPNsenseConnectionSpec_DeepCopyInto = struct_copy copy_TLS csm_TLS (\<lambda>p. csm_TLS_update (\<lambda>_. p))"
  by (simp_all add: fun_eq_iff struct_copy_def Let_def AliasSpec_DeepCopyInto_def
      FirewallRuleSpec_DeepCopyInto_def TLSSpec_DeepCopyInto_def OPNsenseConnectionSpec_DeepCopyInto_def)

interpretation alias_spec: deep_copy AliasSpec_view "struct_reach strings_reach asm_Entries" AliasSpec_DeepCopyInto
  unfolding AliasSpec_view_def specs_into
  by (rule deep_copy_struct [OF strings.deep_copy_axioms]) simp_all

interpretation rule_spec: deep_copy FirewallRuleSpec_view
  "struct_reach (pointer_reach int32_of flat_reach) rsm_Sequence" FirewallRuleSpec_DeepCopyInto
  unfolding FirewallRuleSpec_view_def specs_into
  by (rule deep_copy_struct [OF int32.deep_copy_axioms]) simp_all

interpretation tls_spec: deep_copy TLSSpec_view TLSSpec_reach TLSSpec_DeepCopyInto
  unfolding TLSSpec_view_def TLSSpec_reach_def specs_into
  by (rule deep_copy_struct [OF secretRef.deep_copy_axioms]) simp_all

interpretation tls: deep_copy "pointer_view TLS_of TLSSpec_view" "pointer_reach TLS_of TLSSpec_reach" copy_TLS
  unfolding copy_TLS_def by (rule deep_copy_pointer [OF tls_spec.deep_copy_axioms]) simp

interpretation connection_spec: deep_copy OPNsenseConnectionSpec_view OPNsenseConnectionSpec_reach
  OPNsenseConnectionSpec_DeepCopyInto
  unfolding OPNsenseConnectionSpec_view_def OPNsenseConnectionSpec_reach_def specs_into
  by (rule deep_copy_struct [OF tls.deep_copy_axioms]) simp_all

subsection \<open>Statuses\<close>

definition AliasStatus_view ::
  "heap \<Rightarrow> AliasStatus_mem \<Rightarrow> (AliasStatus_mem \<times> Condition list option) option" where
  "AliasStatus_view = struct_view conditions_view astm_Conditions (astm_Conditions_update (\<lambda>_. None))"

definition FirewallRuleStatus_view ::
  "heap \<Rightarrow> FirewallRuleStatus_mem \<Rightarrow> (FirewallRuleStatus_mem \<times> Condition list option) option" where
  "FirewallRuleStatus_view = struct_view conditions_view rstm_Conditions (rstm_Conditions_update (\<lambda>_. None))"

definition OPNsenseConnectionStatus_view ::
  "heap \<Rightarrow> OPNsenseConnectionStatus_mem \<Rightarrow>
     (OPNsenseConnectionStatus_mem \<times> Condition list option) option" where
  "OPNsenseConnectionStatus_view =
     struct_view conditions_view cstm_Conditions (cstm_Conditions_update (\<lambda>_. None))"

lemma statuses_into:
  "AliasStatus_DeepCopyInto cc =
     struct_copy (copy_conditions cc) astm_Conditions (\<lambda>p. astm_Conditions_update (\<lambda>_. p))"
  "FirewallRuleStatus_DeepCopyInto cc =
     struct_copy (copy_conditions cc) rstm_Conditions (\<lambda>p. rstm_Conditions_update (\<lambda>_. p))"
  "OPNsenseConnectionStatus_DeepCopyInto cc =
     struct_copy (copy_conditions cc) cstm_Conditions (\<lambda>p. cstm_Conditions_update (\<lambda>_. p))"
  by (simp_all add: fun_eq_iff struct_copy_def AliasStatus_DeepCopyInto_def
      FirewallRuleStatus_DeepCopyInto_def OPNsenseConnectionStatus_DeepCopyInto_def)

lemma statuses_deep_copy:
  assumes "\<And>c. cc c = c"
  shows "deep_copy AliasStatus_view (struct_reach conditions_reach astm_Conditions) (AliasStatus_DeepCopyInto cc)"
    "deep_copy FirewallRuleStatus_view (struct_reach conditions_reach rstm_Conditions)
       (FirewallRuleStatus_DeepCopyInto cc)"
    "deep_copy OPNsenseConnectionStatus_view (struct_reach conditions_reach cstm_Conditions)
       (OPNsenseConnectionStatus_DeepCopyInto cc)"
  unfolding AliasStatus_view_def FirewallRuleStatus_view_def OPNsenseConnectionStatus_view_def statuses_into
  by (rule deep_copy_struct [OF conditions_deep_copy [OF assms]]; simp)+

subsection \<open>Objects and lists\<close>

definition ObjectMeta_view ::
  "heap \<Rightarrow> ObjectMeta_mem \<Rightarrow> (ObjectMeta_mem \<times> string list option) option" where
  "ObjectMeta_view = struct_view strings_view omm_Finalizers (omm_Finalizers_update (\<lambda>_. None))"

definition ObjectMeta_reach :: "heap \<Rightarrow> ObjectMeta_mem \<Rightarrow> addr set" where
  "ObjectMeta_reach = struct_reach strings_reach omm_Finalizers"

definition ListMeta_view ::
  "heap \<Rightarrow> ListMeta_mem \<Rightarrow> (ListMeta_mem \<times> 64 word option) option" where
  "ListMeta_view =
     struct_view (pointer_view int64_of flat_view) lmm_RemainingItemCount
       (lmm_RemainingItemCount_update (\<lambda>_. None))"

definition ListMeta_reach :: "heap \<Rightarrow> ListMeta_mem \<Rightarrow> addr set" where
  "ListMeta_reach = struct_reach (pointer_reach int64_of flat_reach) lmm_RemainingItemCount"

definition object_fields :: "('s, 't) object_mem \<Rightarrow> ObjectMeta_mem \<times> 's \<times> 't" where
  "object_fields x = (obj_ObjectMeta x, obj_Spec x, obj_Status x)"

definition set_object_fields ::
  "ObjectMeta_mem \<times> 's \<times> 't \<Rightarrow> ('s, 't) object_mem \<Rightarrow> ('s, 't) object_mem" where
  "set_object_fields p x = x\<lparr>obj_ObjectMeta := fst p, obj_Spec := fst (snd p), obj_Status := snd (snd p)\<rparr>"

definition object_view ::
  "(heap \<Rightarrow> 's \<Rightarrow> 'u option) \<Rightarrow> (heap \<Rightarrow> 't \<Rightarrow> 'v option) \<Rightarrow> heap \<Rightarrow> ('s, 't) object_mem \<Rightarrow>
     (TypeMeta \<times> (ObjectMeta_mem \<times> string list option) \<times> 'u \<times> 'v) option" where
  "object_view sv tv = struct_view (pair_view ObjectMeta_view (pair_view sv tv)) object_fields obj_TypeMeta"

definition object_reach ::
  "(heap \<Rightarrow> 's \<Rightarrow> addr set) \<Rightarrow> (heap \<Rightarrow> 't \<Rightarrow> addr set) \<Rightarrow> heap \<Rightarrow> ('s, 't) object_mem \<Rightarrow> addr set" where
  "object_reach sr tr = struct_reach (pair_reach ObjectMeta_reach (pair_reach sr tr)) object_fields"

definition list_fields :: "list_mem \<Rightarrow> ListMeta_mem \<times> slice option" where
  "list_fields x = (lst_ListMeta x, lst_Items x)"

definition set_list_fields :: "ListMeta_mem \<times> slice option \<Rightarrow> list_mem \<Rightarrow> list_mem" where
  "set_list_fields p x = x\<lparr>lst_ListMeta := fst p, lst_Items := snd p\<rparr>"

definition list_view ::
  "(cell \<Rightarrow> 'a list option) \<Rightarrow> (heap \<Rightarrow> 'a \<Rightarrow> 'v option) \<Rightarrow> heap \<Rightarrow> list_mem \<Rightarrow>
     (TypeMeta \<times> (ListMeta_mem \<times> 64 word option) \<times> 'v list option) option" where
  "list_view un v = struct_view (pair_view ListMeta_view (items_view un v)) list_fields lst_TypeMeta"

definition list_reach ::
  "(cell \<Rightarrow> 'a list option) \<Rightarrow> (heap \<Rightarrow> 'a \<Rightarrow> addr set) \<Rightarrow> heap \<Rightarrow> list_mem \<Rightarrow> addr set" where
  "list_reach un r = struct_reach (pair_reach ListMeta_reach (items_reach un r)) list_fields"

definition Alias_view where
  "Alias_view = object_view AliasSpec_view AliasStatus_view"

definition Alias_reach where
  "Alias_reach =
     object_reach (struct_reach strings_reach asm_Entries) (struct_reach conditions_reach astm_Conditions)"

definition FirewallRule_view where
  "FirewallRule_view = object_view FirewallRuleSpec_view FirewallRuleStatus_view"

definition FirewallRule_reach where
  "FirewallRule_reach =
     object_reach (struct_reach (pointer_reach int32_of flat_reach) rsm_Sequence)
       (struct_reach conditions_reach rstm_Conditions)"

definition OPNsenseConnection_view where
  "OPNsenseConnection_view = object_view OPNsenseConnectionSpec_view OPNsenseConnectionStatus_view"

definition OPNsenseConnection_reach where
  "OPNsenseConnection_reach =
     object_reach OPNsenseConnectionSpec_reach (struct_reach conditions_reach cstm_Conditions)"

lemma objects_into:
  "Alias_DeepCopyInto mc cc =
     struct_copy (pair_copy mc (pair_copy AliasSpec_DeepCopyInto (AliasStatus_DeepCopyInto cc)))
       object_fields set_object_fields"
  "FirewallRule_DeepCopyInto mc cc =
     struct_copy (pair_copy mc (pair_copy FirewallRuleSpec_DeepCopyInto (FirewallRuleStatus_DeepCopyInto cc)))
       object_fields set_object_fields"
  "OPNsenseConnection_DeepCopyInto mc cc =
     struct_copy (pair_copy mc (pair_copy OPNsenseConnectionSpec_DeepCopyInto
       (OPNsenseConnectionStatus_DeepCopyInto cc))) object_fields set_object_fields"
  by (simp_all add: fun_eq_iff struct_copy_def pair_copy_def object_fields_def set_object_fields_def Let_def
      Alias_DeepCopyInto_def FirewallRule_DeepCopyInto_def OPNsenseConnection_DeepCopyInto_def
      split: prod.split)

lemma lists_into:
  "AliasList_DeepCopyInto mc lmc cc =
     struct_copy (pair_copy lmc (copy_items Aliases aliases_of zero_Alias (Alias_DeepCopyInto mc cc)))
       list_fields set_list_fields"
  "FirewallRuleList_DeepCopyInto mc lmc cc =
     struct_copy (pair_copy lmc (copy_items FirewallRules rules_of zero_FirewallRule
       (FirewallRule_DeepCopyInto mc cc))) list_fields set_list_fields"
  "OPNsenseConnectionList_DeepCopyInto mc lmc cc =
     struct_copy (pair_copy lmc (copy_items OPNsenseConnections connections_of zero_OPNsenseConnection
       (OPNsenseConnection_DeepCopyInto mc cc))) list_fields set_list_fields"
  by (simp_all add: fun_eq_iff struct_copy_def pair_copy_def list_fields_def set_list_fields_def Let_def
      AliasList_DeepCopyInto_def FirewallRuleList_DeepCopyInto_def OPNsenseConnectionList_DeepCopyInto_def
      split: prod.split)

lemma deep_copy_object:
  assumes "deep_copy ObjectMeta_view ObjectMeta_reach mc" and "deep_copy sv sr sc" and "deep_copy tv tr tc"
  shows "deep_copy (object_view sv tv) (object_reach sr tr)
    (struct_copy (pair_copy mc (pair_copy sc tc)) object_fields set_object_fields)"
  unfolding object_view_def object_reach_def
  by (rule deep_copy_struct [OF deep_copy_pair [OF assms(1) deep_copy_pair [OF assms(2,3)]]])
    (simp_all add: object_fields_def set_object_fields_def)

lemma deep_copy_list:
  assumes "deep_copy ListMeta_view ListMeta_reach lmc" and "deep_copy v r c" and "\<And>xs. un (mk xs) = Some xs"
  shows "deep_copy (list_view un v) (list_reach un r)
    (struct_copy (pair_copy lmc (copy_items mk un zero c)) list_fields set_list_fields)"
  unfolding list_view_def list_reach_def
  by (rule deep_copy_struct [OF deep_copy_pair [OF assms(1) deep_copy_items [OF assms(2,3)]]])
    (simp_all add: list_fields_def set_list_fields_def)

lemma objects_deep_copy:
  assumes "deep_copy ObjectMeta_view ObjectMeta_reach mc" and "\<And>c. cc c = c"
  shows "deep_copy Alias_view Alias_reach (Alias_DeepCopyInto mc cc)"
    "deep_copy FirewallRule_view FirewallRule_reach (FirewallRule_DeepCopyInto mc cc)"
    "deep_copy OPNsenseConnection_view OPNsenseConnection_reach (OPNsenseConnection_DeepCopyInto mc cc)"
  unfolding objects_into Alias_view_def Alias_reach_def FirewallRule_view_def FirewallRule_reach_def
    OPNsenseConnection_view_def OPNsenseConnection_reach_def
  by (rule deep_copy_object [OF assms(1)] alias_spec.deep_copy_axioms rule_spec.deep_copy_axioms
      connection_spec.deep_copy_axioms statuses_deep_copy [OF assms(2)])+

lemma lists_deep_copy:
  assumes "deep_copy ObjectMeta_view ObjectMeta_reach mc" and "deep_copy ListMeta_view ListMeta_reach lmc"
    and "\<And>c. cc c = c"
  shows "deep_copy (list_view aliases_of Alias_view) (list_reach aliases_of Alias_reach)
      (AliasList_DeepCopyInto mc lmc cc)"
    "deep_copy (list_view rules_of FirewallRule_view) (list_reach rules_of FirewallRule_reach)
      (FirewallRuleList_DeepCopyInto mc lmc cc)"
    "deep_copy (list_view connections_of OPNsenseConnection_view)
      (list_reach connections_of OPNsenseConnection_reach) (OPNsenseConnectionList_DeepCopyInto mc lmc cc)"
  unfolding lists_into
  by (rule deep_copy_list [OF assms(2)] objects_deep_copy [OF assms(1,3)] cells_of)+

section \<open>Properties\<close>

text \<open>
  C36: the deep copy of an alias, with its finalizers, entries and conditions, is a value of its own:
  equal to the original, nil slices and all, in cells that did not exist before, so that no store
  through the copy or the original shows in the other.
\<close>

theorem alias_deep_copy:
  assumes "deep_copy ObjectMeta_view ObjectMeta_reach mc" and "\<And>c. cc c = c"
    and "Alias_view h x = Some v" and "Alias_DeepCopyObject mc cc h (Some x) = (p, h')"
  shows "\<exists>y. p = Some y \<and> prefix h h' \<and> independent Alias_view Alias_reach h' x y v"
  using new_copy_independent [OF objects_deep_copy(1) [OF assms(1,2)] assms(3)] assms(4)
  by (simp add: Alias_DeepCopyObject_def Alias_DeepCopy_def as_object_id)

text \<open>
  The deep copy of a firewall rule, whose sequence is behind a pointer, is independent of the
  original in the same sense.
\<close>

theorem rule_deep_copy:
  assumes "deep_copy ObjectMeta_view ObjectMeta_reach mc" and "\<And>c. cc c = c"
    and "FirewallRule_view h x = Some v" and "FirewallRule_DeepCopyObject mc cc h (Some x) = (p, h')"
  shows "\<exists>y. p = Some y \<and> prefix h h' \<and> independent FirewallRule_view FirewallRule_reach h' x y v"
  using new_copy_independent [OF objects_deep_copy(2) [OF assms(1,2)] assms(3)] assms(4)
  by (simp add: FirewallRule_DeepCopyObject_def FirewallRule_DeepCopy_def as_object_id)

text \<open>
  The deep copy of a connection, whose TLS settings are behind a pointer and point to a reference
  in turn, is independent of the original in the same sense, at both levels.
\<close>

theorem connection_deep_copy:
  assumes "deep_copy ObjectMeta_view ObjectMeta_reach mc" and "\<And>c. cc c = c"
    and "OPNsenseConnection_view h x = Some v"
    and "OPNsenseConnection_DeepCopyObject mc cc h (Some x) = (p, h')"
  shows "\<exists>y. p = Some y \<and> prefix h h' \<and>
    independent OPNsenseConnection_view OPNsenseConnection_reach h' x y v"
  using new_copy_independent [OF objects_deep_copy(3) [OF assms(1,2)] assms(3)] assms(4)
  by (simp add: OPNsenseConnection_DeepCopyObject_def OPNsenseConnection_DeepCopy_def as_object_id)

text \<open>
  Every alias of a list, with the entries, finalizers and conditions behind it, is copied into an array of its own,
  and list and copy are independent at every depth.
\<close>

theorem alias_list_deep_copy:
  assumes "deep_copy ObjectMeta_view ObjectMeta_reach mc" and "deep_copy ListMeta_view ListMeta_reach lmc"
    and "\<And>c. cc c = c"
    and "list_view aliases_of Alias_view h x = Some v"
    and "AliasList_DeepCopyObject mc lmc cc h (Some x) = (p, h')"
  shows "\<exists>y. p = Some y \<and> prefix h h' \<and>
    independent (list_view aliases_of Alias_view) (list_reach aliases_of Alias_reach) h' x y v"
  using new_copy_independent [OF lists_deep_copy(1) [OF assms(1-3)] assms(4)] assms(5)
  by (simp add: AliasList_DeepCopyObject_def AliasList_DeepCopy_def as_object_id)

text \<open>
  Every rule of a list, with the sequence behind its pointer, is copied into an array of its own,
  and list and copy are independent at every depth.
\<close>

theorem rule_list_deep_copy:
  assumes "deep_copy ObjectMeta_view ObjectMeta_reach mc" and "deep_copy ListMeta_view ListMeta_reach lmc"
    and "\<And>c. cc c = c"
    and "list_view rules_of FirewallRule_view h x = Some v"
    and "FirewallRuleList_DeepCopyObject mc lmc cc h (Some x) = (p, h')"
  shows "\<exists>y. p = Some y \<and> prefix h h' \<and>
    independent (list_view rules_of FirewallRule_view) (list_reach rules_of FirewallRule_reach) h' x y v"
  using new_copy_independent [OF lists_deep_copy(2) [OF assms(1-3)] assms(4)] assms(5)
  by (simp add: FirewallRuleList_DeepCopyObject_def FirewallRuleList_DeepCopy_def as_object_id)

text \<open>
  C37: every connection of a list, down to the reference behind its TLS settings, is copied into an array of its own,
  and list and copy are independent at every depth.
\<close>

theorem connection_list_deep_copy:
  assumes "deep_copy ObjectMeta_view ObjectMeta_reach mc" and "deep_copy ListMeta_view ListMeta_reach lmc"
    and "\<And>c. cc c = c"
    and "list_view connections_of OPNsenseConnection_view h x = Some v"
    and "OPNsenseConnectionList_DeepCopyObject mc lmc cc h (Some x) = (p, h')"
  shows "\<exists>y. p = Some y \<and> prefix h h' \<and>
    independent (list_view connections_of OPNsenseConnection_view) (list_reach connections_of OPNsenseConnection_reach) h' x y v"
  using new_copy_independent [OF lists_deep_copy(3) [OF assms(1-3)] assms(4)] assms(5)
  by (simp add: OPNsenseConnectionList_DeepCopyObject_def OPNsenseConnectionList_DeepCopy_def as_object_id)

section \<open>Copies of concrete objects\<close>

definition demo_meta_copy :: meta_copy where
  "demo_meta_copy = struct_copy copy_strings omm_Finalizers (\<lambda>p. omm_Finalizers_update (\<lambda>_. p))"

definition demo_list_meta_copy :: list_meta_copy where
  "demo_list_meta_copy =
     struct_copy (copy_pointer Int64 int64_of 0 assign) lmm_RemainingItemCount
       (\<lambda>p. lmm_RemainingItemCount_update (\<lambda>_. p))"

lemma demo_meta_copies:
  "deep_copy ObjectMeta_view ObjectMeta_reach demo_meta_copy"
  "deep_copy ListMeta_view ListMeta_reach demo_list_meta_copy"
proof -
  show "deep_copy ObjectMeta_view ObjectMeta_reach demo_meta_copy"
    unfolding ObjectMeta_view_def ObjectMeta_reach_def demo_meta_copy_def
    by (rule deep_copy_struct [OF strings.deep_copy_axioms]) simp_all
  show "deep_copy ListMeta_view ListMeta_reach demo_list_meta_copy"
    unfolding ListMeta_view_def ListMeta_reach_def demo_list_meta_copy_def
    by (rule deep_copy_struct [OF deep_copy_pointer [OF flat.deep_copy_axioms]]) simp_all
qed

text \<open>Entries and finalizers that overlap in one array become two arrays.\<close>

definition demo_object :: "('s, 't) object_mem \<Rightarrow> ('s, 't) object_mem" where
  "demo_object x = x\<lparr>obj_ObjectMeta := (obj_ObjectMeta x)
     \<lparr>omm_Name := ''web'', omm_Finalizers := Some \<lparr>sl_array = 0, sl_offset = 0, sl_len = 1\<rparr>\<rparr>\<rparr>"

definition demo_alias_mem :: Alias_mem where
  "demo_alias_mem = demo_object (zero_Alias
     \<lparr>obj_Spec := (obj_Spec zero_Alias)\<lparr>asm_Entries := Some \<lparr>sl_array = 0, sl_offset = 0, sl_len = 2\<rparr>\<rparr>,
      obj_Status := (obj_Status zero_Alias)
        \<lparr>astm_Conditions := Some \<lparr>sl_array = 1, sl_offset = 0, sl_len = 1\<rparr>\<rparr>\<rparr>)"

definition demo_rule_mem :: FirewallRule_mem where
  "demo_rule_mem = demo_object (zero_FirewallRule
     \<lparr>obj_Spec := (obj_Spec zero_FirewallRule)\<lparr>rsm_Sequence := Some 4\<rparr>\<rparr>)"

definition demo_connection_mem :: OPNsenseConnection_mem where
  "demo_connection_mem = demo_object (zero_OPNsenseConnection
     \<lparr>obj_Spec := (obj_Spec zero_OPNsenseConnection)\<lparr>csm_TLS := Some 2\<rparr>\<rparr>)"

definition demo_list_mem :: "addr \<Rightarrow> nat \<Rightarrow> list_mem" where
  "demo_list_mem a n =
     \<lparr>lst_TypeMeta = \<lparr>tm_Kind = [], tm_APIVersion = []\<rparr>,
      lst_ListMeta = \<lparr>lmm_ResourceVersion = ''7'', lmm_Continue = [], lmm_RemainingItemCount = None\<rparr>,
      lst_Items = Some \<lparr>sl_array = a, sl_offset = 0, sl_len = n\<rparr>\<rparr>"

definition demo_heap :: heap where
  "demo_heap =
     [Strings [''a'', ''b'', ''c''], Conditions [zero_Condition],
      TLS \<lparr>tm_InsecureSkipVerify = False, tm_CASecretRef = Some 3\<rparr>,
      SecretRef \<lparr>sr_Name = ''ca'', sr_Namespace = ''ops''\<rparr>, Int32 10,
      Aliases [demo_alias_mem, demo_alias_mem], FirewallRules [demo_rule_mem],
      OPNsenseConnections [demo_connection_mem, demo_connection_mem]]"

lemma demo_views:
  "Alias_view demo_heap demo_alias_mem \<noteq> None"
  "FirewallRule_view demo_heap demo_rule_mem \<noteq> None"
  "OPNsenseConnection_view demo_heap demo_connection_mem \<noteq> None"
  "list_view aliases_of Alias_view demo_heap (demo_list_mem 5 2) \<noteq> None"
  "list_view rules_of FirewallRule_view demo_heap (demo_list_mem 6 1) \<noteq> None"
  "list_view connections_of OPNsenseConnection_view demo_heap (demo_list_mem 7 2) \<noteq> None"
  by code_simp+

lemma alias_deep_copy_witness:
  "\<exists>y h' v. Alias_DeepCopyObject demo_meta_copy id demo_heap (Some demo_alias_mem) = (Some y, h') \<and>
     independent Alias_view Alias_reach h' demo_alias_mem y v"
proof -
  obtain v where v: "Alias_view demo_heap demo_alias_mem = Some v" using demo_views(1) by blast
  obtain p h' where copy: "Alias_DeepCopyObject demo_meta_copy id demo_heap (Some demo_alias_mem) = (p, h')"
    by fastforce
  from alias_deep_copy [OF demo_meta_copies(1) id_apply v copy] copy show ?thesis by blast
qed

lemma connection_deep_copy_witness:
  "\<exists>y h' v. OPNsenseConnection_DeepCopyObject demo_meta_copy id demo_heap (Some demo_connection_mem) = (Some y, h') \<and>
     independent OPNsenseConnection_view OPNsenseConnection_reach h' demo_connection_mem y v"
proof -
  obtain v where v: "OPNsenseConnection_view demo_heap demo_connection_mem = Some v" using demo_views(3) by blast
  obtain p h' where copy: "OPNsenseConnection_DeepCopyObject demo_meta_copy id demo_heap (Some demo_connection_mem) = (p, h')"
    by fastforce
  from connection_deep_copy [OF demo_meta_copies(1) id_apply v copy] copy show ?thesis by blast
qed

lemma connection_list_deep_copy_witness:
  "\<exists>y h' v. OPNsenseConnectionList_DeepCopyObject demo_meta_copy demo_list_meta_copy id demo_heap
       (Some (demo_list_mem 7 2)) = (Some y, h') \<and>
     independent (list_view connections_of OPNsenseConnection_view) (list_reach connections_of OPNsenseConnection_reach) h' (demo_list_mem 7 2) y v"
proof -
  obtain v where v: "list_view connections_of OPNsenseConnection_view demo_heap (demo_list_mem 7 2) = Some v"
    using demo_views(6) by blast
  obtain p h' where copy: "OPNsenseConnectionList_DeepCopyObject demo_meta_copy demo_list_meta_copy id demo_heap
      (Some (demo_list_mem 7 2)) = (p, h')" by fastforce
  from connection_list_deep_copy [OF demo_meta_copies id_apply v copy] copy show ?thesis by blast
qed

end
