(* ===== verification/Spec2Isabelle.thy ===== *)
theory Spec2Isabelle
  imports Witnesses Bounded Manager DeepCopy
begin

text \<open>
  The OPNsense operator: a Kubernetes controller manager that keeps firewall aliases and firewall rules
  of an OPNsense firewall as custom resources ask for them.

  \<^bold>\<open>The program.\<close>  A user declares an \<open>OPNsenseConnection\<close> (URL, credentials, TLS settings), \<open>Alias\<close>es and
  \<open>FirewallRule\<close>s (api/v1alpha1).  cmd/main.go reads the command line, sets up a manager and registers
  three reconcilers with it (internal/controller).  A reconciler reads one object from the API server,
  reads the connection and the Secrets it names, builds a client for the REST API of OPNsense
  (internal/opnsense/client.go), compares what the firewall has with what the spec asks for, creates,
  updates or deletes, has OPNsense apply the change, and writes the outcome to the status of the object.
  A finalizer keeps a deleted object until OPNsense has dropped its counterpart.

  \<^bold>\<open>How it is modelled.\<close>  Effects are values: a function that calls out is a \<open>prog\<close>, a tree of calls with a
  branch for every reply (theory Effects).  \<open>runs p tr x\<close> is one possible behaviour of \<open>p\<close>, with its trace
  of calls and replies, and a theorem about all runs covers every behaviour of OPNsense, the network and
  the API server; \<open>exec\<close> runs a program in a given environment, for the witnesses.  The state a reconciler
  works on is the object it read (records \<open>AliasCR\<close>, \<open>FirewallRuleCR\<close>, \<open>OPNsenseConnection\<close>); between
  reconciliations state lives in the API server and in OPNsense only, so a property of several
  reconciliations speaks of several runs.  Library code outside the repository is the record \<open>golib\<close>, an
  argument of what uses it (an HTTP request that cannot be built shows as a call answered by \<open>RequestError\<close>); \<open>condition_laws\<close>, \<open>finalizer_laws\<close> and \<open>not_found_laws\<close> say what the code relies on,
  and theory Demo has a concrete library that satisfies them.

  \<^bold>\<open>Theories.\<close>
  Prelude: hint collections, Go maps, generic lemmas.
  GoStrings, GoJSON: what the program uses of Go's \<open>strings\<close>, \<open>fmt\<close>, \<open>net/url\<close>, \<open>unicode/utf8\<close> and
  \<open>encoding/json\<close>, with the round trips (quoting, escaping, decimal numbers, marshal and parse).
  GoErrors: the errors of client.go, wrapping, \<open>errors.Is\<close> and \<open>errors.As\<close>.
  ApiTypes: the types of api/v1alpha1, their JSON by struct tags and the defaults of the schema.
  Client: internal/opnsense/client.go, one definition per method; ClientLaws: the contracts \<open>endpoint\<close> and
  \<open>pure_endpoint\<close> and their interpretation for all thirteen methods; ClientFacts: what
  requests say and what replies become; RuleReply: the replies of \<open>getRule\<close> that show a rule, with all options of
  its choices and members in any order, and that they are read back as the rule.
  Connecting: internal/controller/http_client.go and what the reconcilers share, as the contracts
  \<open>status_writer\<close>, \<open>client_builder\<close> and \<open>reconciler\<close>.
  Drift: \<open>specToAlias\<close>, \<open>aliasNeedsUpdate\<close>, \<open>specToRule\<close>, \<open>ruleNeedsUpdate\<close>, under the contract \<open>drift\<close>.
  AliasController, FirewallRuleController, ConnectionController: the three reconcilers; Bounded: how many
  calls they make.
  Manager: cmd/main.go, the scheme and \<open>SetupWithManager\<close>.
  Memory, DeepCopy: zz_generated.deepcopy.go over an explicit heap, under the contracts \<open>viewed\<close> and
  \<open>deep_copy\<close>.
  Demo, Witnesses: a concrete cluster and firewall, and every property with hypotheses applied there.
  The properties below need several of these parts.

  \<^bold>\<open>What is shown.\<close>  For the two main reconcilers, a relation (\<open>alias_outcome\<close>, \<open>rule_outcome\<close>) specifies what a
  reconciliation may do, and every run refines it.  From it follow: the finalizer goes only after an
  applied deletion or where no UUID is recorded, Ready=True rests on a lookup and the change it calls for, requests that change the
  firewall follow one of three plans, every error that is not one of the API server itself is reported with a
  documented reason and returned, an ambiguous search changes nothing, a
  synchronised object is left alone, requests stay within the area of the object's connection, and every
  reconciliation ends.  For the client: one authenticated request per exchange, the classification of
  replies, and what the body for a rule says member by member, and round trips between what is written and what
  is read back.  For drift: exactness against
  a reference.  For the manager: safe defaults, complete set-up before the start, and a command line for
  every configuration.  For deep copies: equal content in fresh memory.  Four results show flaws of the
  program: \<open>adoption_enables\<close>, \<open>failed_apply_forgotten\<close>, \<open>unapplied_creation_leaks\<close> below, and, as a difference
  between code and test, \<open>connection_requeue_iff_ready\<close>.

  \<^bold>\<open>Bounds and fuel.\<close>  The JSON parser of GoJSON takes the length of its input as fuel, and \<open>json_fuel_enough\<close>
  proves that more changes nothing.  Other recursions are structural or have a measure.  Sequences are
  32-bit and generations 64-bit words; the nesting limit of \<open>encoding/json\<close> is 10000 as in the package.

  \<^bold>\<open>Not modelled.\<close>  Log lines; contexts (a cancelled one shows as a transport error); the internals of
  controller-runtime, apimachinery, zap and the Go HTTP client, which are parameters; the JSON of status
  and metadata, which apimachinery exchanges with the API server; concurrent reconciliations of one
  object, which controller-runtime excludes; the API server, but for the defaults it takes from the schema
  (\<open>AliasSpec_stored\<close>); tests, charts and manifests, which hold no program logic.
\<close>

section \<open>Reconciliation converges\<close>

text \<open>
  C13: an alias comes to rest.  When a reconciliation has reported it Ready and OPNsense exports, under
  the UUID of the status, what the operator sent for its spec, then the next reconciliation ends after
  this export: it writes nothing, changes nothing and returns without an error.
\<close>

theorem alias_converges:
  assumes "condition_laws L"
    and "runs (AliasReconciler_Reconcile L n) tr r" and "EStatusAlias x u \<in> set tr"
    and "is_ready L (ast_Conditions (al_Status x))"
    and "AliasSpec_valid (al_Spec x)" and "alias_utf8 (specToAlias (al_Spec x))"
    and "ast_UUID (al_Status x) \<noteq> []" and "valid_utf8 (ast_UUID (al_Status x))"
    and "ev = EHTTP h q (Response 200
       (marshal (export_json (ast_UUID (al_Status x)) (specToAlias (al_Spec x)))))"
    and "runs (AliasReconciler_buildOPNsenseClient L x) b (Inr c)"
    and "runs (GetAlias L c (ast_UUID (al_Status x))) [ev] existing"
    and "runs (AliasReconciler_Reconcile L n) (EGetAlias n (Inr x) # b @ [ev] @ t) r'"
  shows "t = [] \<and> r' = (no_requeue, None)"
proof -
  have "existing = Inr (specToAlias (al_Spec x))"
    using assms(5,9,11) export_reads_back [OF assms(6,8), of L]
    by (auto simp: alias_export.exchange_iff status_ok_def AliasSpec_valid_def specToAlias_def)
  then have "runs (GetAlias L c (ast_UUID (al_Status x))) [ev] (Inr (specToAlias (al_Spec x)))"
    using assms(11) by simp
  moreover have "\<not> aliasNeedsUpdate (al_Spec x) (specToAlias (al_Spec x))"
    by (simp add: aliasNeedsUpdate_def specToAlias_def)
  ultimately show ?thesis
    using alias_settled_noop [OF assms(1-4,7,12,10)] by blast
qed

lemma alias_converges_witness:
  "\<exists>b ev. runs (AliasReconciler_Reconcile demo_lib demo_name)
     (EGetAlias demo_name (Inr settled_alias) # b @ [ev]) (no_requeue, None)"
proof -
  let ?b = "demo_parts [] (AliasReconciler_buildOPNsenseClient demo_lib settled_alias)"
  let ?g = "demo_parts settled_table (GetAlias demo_lib demo_client ''u1'')"
  let ?ev = "EHTTP (cl_httpClient demo_client)
    (api_request demo_client GET (''/api/firewall/alias/export?ids='' @ QueryEscape ''u1'') None)
    (Response 200 (marshal (export_json ''u1'' (specToAlias demo_alias_spec))))"
  have spec: "al_Spec settled_alias = demo_alias_spec" "AliasSpec_valid demo_alias_spec"
      "alias_utf8 (specToAlias demo_alias_spec)" "valid_utf8 ''u1''" "?g = [?ev]"
    by code_simp+
  have export: "runs (GetAlias demo_lib demo_client ''u1'') [?ev] (Inr (specToAlias demo_alias_spec))"
    using alias_exported unfolding spec(5) .
  have "\<exists>t r. runs (AliasReconciler_sync demo_lib settled_alias) (?b @ [?ev] @ t) r"
    unfolding AliasReconciler_sync_def
    by (simp only: runs_bind_after [OF client_built(1)] sum.case
        runs_bind_after [OF resolve_alias_known [of demo_lib demo_client settled_alias,
          unfolded demo_settled(3), OF export list.distinct(2)]] prod.case option.case runs_total)
  then obtain t r where run: "runs (AliasReconciler_Reconcile demo_lib demo_name)
      (EGetAlias demo_name (Inr settled_alias) # ?b @ [?ev] @ t) r"
    by (auto simp: AliasReconciler_Reconcile_def demo_settled)
  then have "t = [] \<and> r = (no_requeue, None)"
    by (intro alias_converges [OF demo_laws(2) exhibits_run(1,2) [OF alias_creation] demo_status(1)
          _ _ _ _ refl client_built(1), unfolded demo_settled(3) spec(1), OF spec(2,3) _ spec(4) export]) simp_all
  then show ?thesis using run by auto
qed

text \<open>
  C14: a firewall rule comes to rest.  When a reconciliation has reported it Ready and OPNsense shows,
  under the UUID of the status, the desired rule with the sequence of the status, in any reply
  that shows it (members in any order, every choice with all its options), then the next
  reconciliation ends after this reading: it writes nothing, changes nothing and returns without an
  error, also where the spec leaves the sequence to OPNsense.
\<close>

theorem rule_converges:
  assumes "condition_laws L"
    and "runs (FirewallRuleReconciler_Reconcile L n) tr r" and "EStatusFirewallRule x u \<in> set tr"
    and "is_ready L (rst_Conditions (fr_Status x))" and "rst_UUID (fr_Status x) \<noteq> []"
    and "shown = (rule_desired x)\<lparr>r_Sequence := rst_Sequence (fr_Status x)\<rparr>"
    and "rs_Sequence (fr_Spec x) = None \<or> rst_Sequence (fr_Status x) = r_Sequence (rule_desired x)"
    and "shows_rule menu shown body" and "200 \<le> code" and "code < 300"
    and "g = EHTTP h q (Response code body) # ranges"
    and "runs (FirewallRuleReconciler_buildOPNsenseClient L x) b (Inr c)"
    and "runs (GetRule L c (rst_UUID (fr_Status x))) g existing"
    and "runs (FirewallRuleReconciler_Reconcile L n) (EGetFirewallRule n (Inr x) # b @ g @ t) r'"
  shows "t = [] \<and> r' = (no_requeue, None)"
proof -
  have "existing = Inr shown"
    using GetRule_reads_shown [OF assms(8) _ assms(13) [unfolded assms(11)]] assms(9,10)
    by (simp add: status_ok_def)
  then have "runs (GetRule L c (rst_UUID (fr_Status x))) g (Inr shown)"
    using assms(13) by simp
  moreover have "\<not> rule_needs_update x shown" "r_Sequence shown = rst_Sequence (fr_Status x)"
    using assms(6,7) by (auto simp: rule_needs_update_def ruleNeedsUpdate_def rule_desired_def Let_def)
  ultimately show ?thesis
    using rule_settled_noop [OF assms(1-5,14,12)] by blast
qed

lemma rule_converges_witness:
  "\<exists>b g. runs (FirewallRuleReconciler_Reconcile demo_lib demo_name)
     (EGetFirewallRule demo_name (Inr settled_rule) # b @ g) (no_requeue, None)"
proof -
  let ?b = "demo_parts [] (FirewallRuleReconciler_buildOPNsenseClient demo_lib settled_rule)"
  have shown: "demo_ext_rule = (rule_desired settled_rule)\<lparr>r_Sequence := rst_Sequence (fr_Status settled_rule)\<rparr>"
      "rs_Sequence (fr_Spec settled_rule) = None"
    by code_simp+
  obtain q g where g: "runs (GetRule demo_lib demo_client ''u1'')
      (EHTTP (cl_httpClient demo_client) q (Response 200 demo_rule_reply) # g)
      (Inr demo_ext_rule)" (is "runs _ ?g _")
    using demo_rule_read by blast
  have "\<exists>t r. runs (FirewallRuleReconciler_sync demo_lib settled_rule) (?b @ ?g @ t) r"
    unfolding FirewallRuleReconciler_sync_def
    by (simp only: runs_bind_after [OF client_built(2)] sum.case
        runs_bind_after [OF resolve_rule_known [of demo_lib demo_client settled_rule,
          unfolded demo_settled(7), OF g list.distinct(2)]] prod.case option.case runs_total)
  then obtain t r where run: "runs (FirewallRuleReconciler_Reconcile demo_lib demo_name)
      (EGetFirewallRule demo_name (Inr settled_rule) # ?b @ ?g @ t) r"
    by (auto simp: FirewallRuleReconciler_Reconcile_def demo_settled)
  have "t = [] \<and> r = (no_requeue, None)"
    by (rule rule_converges [OF demo_laws(2) exhibits_run(1,2) [OF rule_creation] demo_status(2) _ shown(1)
          disjI1 [OF shown(2)] demo_rule_shown _ _ refl client_built(2), unfolded demo_settled(7), OF _ _ _ g run]) simp_all
  then show ?thesis using run by auto
qed

section \<open>What drift and lookup overlook\<close>

text \<open>The name of an alias is sent but not compared: a renamed alias that is found by UUID stays as it is.\<close>

lemma alias_rename_overlooked:
  "aliasNeedsUpdate (spec\<lparr>as_Name := new\<rparr>) existing = aliasNeedsUpdate spec existing"
  "a_Name (specToAlias (spec\<lparr>as_Name := new\<rparr>)) = new"
  by (simp_all add: aliasNeedsUpdate_def specToAlias_def)

text \<open>
  A rule without UUID adopts the only row of the search, whatever the rule in it is: its description is
  not looked at.  When it differs from the desired one, as that of any other rule does, it is overwritten.
\<close>

lemma single_row_adopted:
  assumes "rst_UUID (fr_Status rule) = []"
    and "runs (SearchRuleByManagedSuffix L c (om_Namespace (fr_Meta rule) @ ''/'' @ om_Name (fr_Meta rule))) s
      (Inr [uuid])"
    and "runs (GetRule L c uuid) g (Inr existing)"
  shows "runs (FirewallRuleReconciler_resolveExternalRule L c rule) (s @ g) (Inr (uuid, Some existing))"
    and "r_Description existing \<noteq> r_Description (specToRule spec namespace name) \<Longrightarrow>
      ruleNeedsUpdate spec namespace name existing"
proof -
  show "runs (FirewallRuleReconciler_resolveExternalRule L c rule) (s @ g) (Inr (uuid, Some existing))"
    using assms(1) unfolding FirewallRuleReconciler_resolveExternalRule_def resolve_rule_by_suffix_def Let_def
    by (simp add: runs_bind_after [OF assms(2) [simplified]]
        runs_bind_after [OF assms(3), where ?t2.0 = "[]", simplified])
  show "r_Description existing \<noteq> r_Description (specToRule spec namespace name) \<Longrightarrow>
      ruleNeedsUpdate spec namespace name existing"
    by (auto simp: ruleNeedsUpdate_def Let_def)
qed

section \<open>One client for two reconcilers\<close>

text \<open>
  C32: the two copies of \<open>buildOPNsenseClient\<close>, in alias_controller.go and firewallrule_controller.go,
  behave alike: for objects that name the same connection they make the same reads, fail for the same
  reasons with the same errors, and return the same client.
\<close>

theorem same_client:
  assumes "ref_Name (as_ConnectionRef (al_Spec alias)) = ref_Name (rs_ConnectionRef (fr_Spec rule))"
  shows "AliasReconciler_buildOPNsenseClient L alias = FirewallRuleReconciler_buildOPNsenseClient L rule"
  by (simp add: alias_client.build_eq rule_client.build_eq assms)

lemma same_client_witness:
  "AliasReconciler_buildOPNsenseClient demo_lib new_alias
     = FirewallRuleReconciler_buildOPNsenseClient demo_lib new_rule"
  by (rule same_client) (simp add: demo_alias_def demo_rule_def demo_alias_spec_def demo_rule_spec_def)

section \<open>Two reconciliations in a row\<close>

lemma alias_ready_condition:
  assumes "condition_laws L"
  shows "FindStatusCondition L (ast_Conditions (al_Status (alias_ready L alias uuid))) ''Ready''
    = Some (ready_condition (al_Meta alias) ConditionTrue ''AliasReady'' ''Alias is in sync with OPNsense'')"
  using assms by (simp add: alias_ready_def alias_with_ready_def find_ready_condition alias_synced_def)

text \<open>
  C33: the write that gives an alias its finalizer carries the whole object, and what is stored has
  \<open>enabled: true\<close> even where the user had set it to false; all other fields of the spec stay.
\<close>

theorem adoption_enables:
  assumes "runs (AliasReconciler_Reconcile L n) [EGetAlias n (Inr x), EUpdateAlias y u] r"
    and "time_IsZero L (om_DeletionTimestamp (al_Meta x))"
  shows "AliasSpec_stored (al_Spec y) = Some ((al_Spec x)\<lparr>as_Enabled := True\<rparr>)"
proof -
  have "al_Spec y = al_Spec x"
    using alias_outcome_run [OF assms(1)] assms(2)
    by (auto elim!: alias_outcomeE dest: alias_in_sync_writes)
  then show ?thesis by (simp add: AliasSpec_stored_eq)
qed


lemma adoption_enables_witness:
  "\<not> as_Enabled (al_Spec adoptable_alias) \<and>
   AliasSpec_stored (al_Spec adopted_alias) = Some ((al_Spec adoptable_alias)\<lparr>as_Enabled := True\<rparr>)"
proof -
  have "alias_run [] adoptable_alias = [EGetAlias demo_name (Inr adoptable_alias), EUpdateAlias adopted_alias None]"
    "time_IsZero demo_lib (om_DeletionTimestamp (al_Meta adoptable_alias))"
    "\<not> as_Enabled (al_Spec adoptable_alias)"
    by code_simp+
  then show ?thesis
    using adoption_enables exhibits_run(1) [OF alias_adoption] by metis
qed

text \<open>
  C34: a reconfiguration that failed is not tried again.  When a reconciliation ended with
  ReconfigureFailed and the next one finds no drift, because the change itself had been saved, that one
  reports Ready=True without any request that changes OPNsense.
\<close>

theorem failed_apply_forgotten:
  assumes "condition_laws L"
    and "runs (AliasReconciler_Reconcile L n) tr r" and "EStatusAlias x v \<in> set tr"
    and "FindStatusCondition L (ast_Conditions (al_Status x)) ''Ready'' = Some cond"
    and "cond_Reason cond = ''ReconfigureFailed''"
    and "time_IsZero L (om_DeletionTimestamp (al_Meta x))"
    and "runs (AliasReconciler_Reconcile L n) (EGetAlias n (Inr x) # b @ g @ t) r'"
    and "runs (AliasReconciler_buildOPNsenseClient L x) b (Inr c)"
    and "runs (GetAlias L c (ast_UUID (al_Status x))) g (Inr existing)"
    and "ast_UUID (al_Status x) \<noteq> []" and "\<not> aliasNeedsUpdate (al_Spec x) existing"
  shows "posts (b @ g @ t) = [] \<and>
     (\<exists>u. t = [EStatusAlias (alias_ready L x (ast_UUID (al_Status x))) u])"
proof -
  have "\<not> is_ready L (ast_Conditions (al_Status x)) \<and> ContainsFinalizer L (al_Meta x) aliasFinalizer"
    using assms(1,3-5) alias_outcome_run [OF assms(2)]
    by (auto elim!: alias_outcomeE simp: alias_unwritten alias_with_ready_is_ready alias_failed_def
        alias_ready_condition ready_condition_def)
  then have "runs (AliasReconciler_sync L x) (b @ g @ t) r'" "\<not> alias_settled L x (ast_UUID (al_Status x))"
    using assms(6,7) by (simp_all add: AliasReconciler_Reconcile_def alias_settled_def)
  then have "runs (AliasReconciler_setReadySuccess L x (ast_UUID (al_Status x))) t r'"
    using assms(11)
    by (simp add: AliasReconciler_sync_def runs_bind_after [OF assms(8)]
        runs_bind_after [OF resolve_alias_known [OF assms(9,10)]])
  then show ?thesis
    using alias_client.no_posts [OF assms(8)] alias_export.posted [OF assms(9)]
    by (auto simp: alias_success_run)
qed

text \<open>
  C35: an alias whose creation was saved but not applied is lost sight of: no run that fails records a
  UUID, so when such an object, still without one, is deleted, the finalizer is removed and nothing is
  sent to OPNsense, where the alias stays.
\<close>

theorem unapplied_creation_leaks:
  assumes "condition_laws L"
    and "runs (AliasReconciler_Reconcile L n) (EGetAlias n (Inr a) # tr) r" and "EStatusAlias x v \<in> set tr"
    and "\<not> is_ready L (ast_Conditions (al_Status x))" and "ast_UUID (al_Status a) = []"
    and "runs (AliasReconciler_Reconcile L n) (EGetAlias n (Inr y) # t) r'" and "al_Status y = al_Status x"
    and "\<not> time_IsZero L (om_DeletionTimestamp (al_Meta y))"
    and "ContainsFinalizer L (al_Meta y) aliasFinalizer"
  shows "\<exists>u. t = [EUpdateAlias (without_alias_finalizer L y) u]"
proof -
  have "ast_UUID (al_Status x) = []"
    using assms(1,3-5) alias_outcome_run [OF assms(2)]
    by (auto elim!: alias_outcomeE simp: alias_unwritten alias_ready_is_ready alias_failed_def)
  then show ?thesis
    using assms(6-9)
    by (auto simp: AliasReconciler_Reconcile_def AliasReconciler_delete_def alias_remove_run)
qed

abbreviation unapplied_alias :: AliasCR where
  "unapplied_alias \<equiv> alias_failed demo_lib (demo_alias None ''u1'') ''ReconfigureFailed'' demo_404"

lemma failed_apply_forgotten_witness:
  "\<exists>b g t r. runs (AliasReconciler_Reconcile demo_lib demo_name)
       (EGetAlias demo_name (Inr unapplied_alias) # b @ g @ t) r \<and>
     posts (b @ g @ t) = [] \<and> (\<exists>u. t = [EStatusAlias (alias_ready demo_lib unapplied_alias ''u1'') u])"
proof -
  let ?b = "demo_parts [] (AliasReconciler_buildOPNsenseClient demo_lib unapplied_alias)"
  let ?g = "demo_parts settled_table (GetAlias demo_lib demo_client ''u1'')"
  have unapplied: "time_IsZero demo_lib (om_DeletionTimestamp (al_Meta unapplied_alias))"
      "ContainsFinalizer demo_lib (al_Meta unapplied_alias) aliasFinalizer"
      "ast_UUID (al_Status unapplied_alias) = ''u1''"
      "\<not> aliasNeedsUpdate (al_Spec unapplied_alias) (specToAlias demo_alias_spec)"
      "\<not> alias_settled demo_lib unapplied_alias ''u1''"
    by code_simp+
  have built: "runs (AliasReconciler_buildOPNsenseClient demo_lib unapplied_alias) ?b (Inr demo_client)"
    by (rule demo_runs [THEN back_subst [where P = "runs _ _"]], code_simp)
  have "\<exists>t r. runs (AliasReconciler_sync demo_lib unapplied_alias) (?b @ ?g @ t) r"
    unfolding AliasReconciler_sync_def
    by (simp only: runs_bind_after [OF built] sum.case
        runs_bind_after [OF resolve_alias_known [of demo_lib demo_client unapplied_alias,
          unfolded unapplied(3), OF alias_exported list.distinct(2)]] prod.case option.case runs_total)
  then obtain t r where run: "runs (AliasReconciler_Reconcile demo_lib demo_name)
      (EGetAlias demo_name (Inr unapplied_alias) # ?b @ ?g @ t) r"
    by (auto simp: AliasReconciler_Reconcile_def unapplied)
  have "FindStatusCondition demo_lib (ast_Conditions (al_Status unapplied_alias)) ''Ready'' =
      Some (ready_condition (al_Meta (demo_alias None ''u1'')) ConditionFalse ''ReconfigureFailed''
        (Error demo_404))"
    by (rule alias_failed_condition [OF demo_laws(2)])
  from failed_apply_forgotten [OF demo_laws(2) exhibits_run(1,2) [OF alias_update_unapplied] this _
      unapplied(1) run built, unfolded unapplied(3), OF _ alias_exported _ unapplied(4)]
  show ?thesis
    by (intro exI [of _ ?b] exI [of _ ?g] exI [of _ t] exI [of _ r])
      (simp add: run ready_condition_def)
qed

lemma unapplied_creation_leaks_witness:
  "\<exists>u. tl (alias_run [] lost_alias) = [EUpdateAlias (without_alias_finalizer demo_lib lost_alias) u]"
proof -
  have lost: "al_Status lost_alias = al_Status (alias_failed demo_lib new_alias ''ReconfigureFailed'' demo_404)"
      "\<not> time_IsZero demo_lib (om_DeletionTimestamp (al_Meta lost_alias))"
      "ContainsFinalizer demo_lib (al_Meta lost_alias) aliasFinalizer"
      "ast_UUID (al_Status new_alias) = []"
      "\<not> is_ready demo_lib (ast_Conditions (al_Status (alias_failed demo_lib new_alias ''ReconfigureFailed'' demo_404)))"
    by code_simp+
  have "EStatusAlias (alias_failed demo_lib new_alias ''ReconfigureFailed'' demo_404) None
      \<in> set (tl (alias_run unapplied_table new_alias))"
    using exhibits_run(2) [OF alias_creation_unapplied] by (subst (asm) reconcile_run_starts(1)) simp
  from unapplied_creation_leaks [OF demo_laws(2) alias_after_start(1) [OF alias_creation_unapplied]
      this lost(5,4) alias_after_start(1) [OF alias_lost] lost(1,2,3)]
  show ?thesis .
qed

end
